(* ===== verification/Prelude.thy ===== *)
theory Prelude
  imports Main "HOL-Library.AList" "HOL-Library.Char_ord" "HOL-Library.List_Lexorder"
begin

text \<open>
  The shared vocabulary of the development: the Go values the operator manipulates, its
  errors and panics, the fragment of Go's standard library it calls on strings, and the
  generic lemmas on association lists and lists that the component theories use.

  \<^item> \<open>json\<close> is a value of Go type \<open>interface{}\<close> as it occurs in an unstructured
    object. \<open>JArr\<close> is \<open>[]interface{}\<close>, \<open>JObj\<close> is \<open>map[string]interface{}\<close>
    (also used for a \<open>map[string]string\<close> boxed in an interface, whose values are all
    \<open>JStr\<close>), \<open>JMaps\<close> is \<open>[]map[string]interface{}\<close>, the slice type that
    \<open>setSlice\<close> stores and that Go keeps apart from \<open>[]interface{}\<close>. A float64 is
    kept as the text that \<open>fmt\<close> prints for it.
  \<^item> A Go map is an association list with distinct keys. The order of the list stands for
    the order in which a \<open>range\<close> loop enumerates the map, which Go leaves open: a
    theorem about all lists is a theorem about all enumeration orders.
  \<^item> \<open>go_error\<close> is a non-nil \<open>error\<close>. The text of a formatted error is kept as its
    format and arguments, not rendered.
  \<^item> \<open>'a go\<close> is the outcome of code that may panic.
\<close>

section \<open>Values, errors and outcomes\<close>

datatype json =
    JNull
  | JBool bool
  | JInt int
  | JFloat string
  | JStr string
  | JArr "json list"
  | JObj "(string \<times> json) list"
  | JMaps "(string \<times> json) list list"

type_synonym fields = "(string \<times> json) list"
type_synonym strmap = "(string \<times> string) list"

datatype go_error =
    Errorf string "json list"
  | Wrapf string "json list" go_error
  | StatusErr string string
  | EmptyApplicationsErr "go_error option"
  | TemplateError

datatype 'a go = Ok 'a | Err go_error | Panic string

definition errNew :: "string \<Rightarrow> go_error" where
  "errNew s = Errorf s []"

definition IsNotFound :: "go_error \<Rightarrow> bool" where
  "IsNotFound e = (case e of StatusErr r m \<Rightarrow> r = ''NotFound'' | _ \<Rightarrow> False)"

section \<open>Standard library: strings and formatting\<close>

definition HasPrefix :: "string \<Rightarrow> string \<Rightarrow> bool" where
  "HasPrefix s p = (take (length p) s = p)"

definition TrimPrefix :: "string \<Rightarrow> string \<Rightarrow> string" where
  "TrimPrefix s p = (if HasPrefix s p then drop (length p) s else s)"

text \<open>\<open>Split c s\<close> is \<open>strings.Split(s, sep)\<close> for a separator of one byte.\<close>

fun Split :: "char \<Rightarrow> string \<Rightarrow> string list" where
  "Split c [] = [[]]"
| "Split c (x # xs) =
     (if x = c then [] # Split c xs
      else (case Split c xs of [] \<Rightarrow> [[x]] | y # ys \<Rightarrow> (x # y) # ys))"

text \<open>\<open>SplitN2 c s\<close> is \<open>strings.SplitN(s, sep, 2)\<close>.\<close>

definition SplitN2 :: "char \<Rightarrow> string \<Rightarrow> string list" where
  "SplitN2 c s =
     (if c \<in> set s
      then [takeWhile (\<lambda>x. x \<noteq> c) s, tl (dropWhile (\<lambda>x. x \<noteq> c) s)]
      else [s])"

fun Join :: "string \<Rightarrow> string list \<Rightarrow> string" where
  "Join sep [] = []"
| "Join sep [x] = x"
| "Join sep (x # y # ys) = x @ sep @ Join sep (y # ys)"

definition Count :: "string \<Rightarrow> char \<Rightarrow> nat" where
  "Count s c = count_list s c"

fun showNat :: "nat \<Rightarrow> string" where
  "showNat n =
     (if n < 10 then [char_of (48 + n)]
      else showNat (n div 10) @ [char_of (48 + n mod 10)])"

declare showNat.simps [simp del]

definition showInt :: "int \<Rightarrow> string" where
  "showInt i = (if i < 0 then ''-'' @ showNat (nat (- i)) else showNat (nat i))"

text \<open>
  \<open>fmt_v j\<close> is \<open>fmt.Sprintf("%v", j)\<close>; maps are printed with their keys in
  increasing order.
\<close>

primrec fmt_v :: "json \<Rightarrow> string" where
  "fmt_v JNull = ''<nil>''"
| "fmt_v (JBool b) = (if b then ''true'' else ''false'')"
| "fmt_v (JInt i) = showInt i"
| "fmt_v (JFloat s) = s"
| "fmt_v (JStr s) = s"
| "fmt_v (JArr xs) = ''['' @ Join '' '' (map fmt_v xs) @ '']''"
| "fmt_v (JObj m) =
     ''map['' @ Join '' '' (map (\<lambda>(k, v). k @ '':'' @ v)
       (sort_key fst (map (map_prod id fmt_v) m))) @ '']''"
| "fmt_v (JMaps ms) =
     ''['' @ Join '' '' (map (\<lambda>m. ''map['' @ Join '' '' (map (\<lambda>(k, v). k @ '':'' @ v)
       (sort_key fst m)) @ '']'') (map (map (map_prod id fmt_v)) ms)) @ '']''"

text \<open>
  \<open>path.Clean\<close> and \<open>path.Join\<close> on two elements: the component list is processed
  from the left, \<open>acc\<close> holding the cleaned components in reverse.
\<close>

fun cleanParts :: "bool \<Rightarrow> string list \<Rightarrow> string list \<Rightarrow> string list" where
  "cleanParts rooted acc [] = rev acc"
| "cleanParts rooted acc (p # ps) =
     (if p = '''' \<or> p = ''.'' then cleanParts rooted acc ps
      else if p = ''..'' then
        (case acc of
           [] \<Rightarrow> cleanParts rooted (if rooted then [] else [''..'']) ps
         | a # as \<Rightarrow> if a = ''..'' then cleanParts rooted (''..'' # a # as) ps
                    else cleanParts rooted as ps)
      else cleanParts rooted (p # acc) ps)"

definition pathClean :: "string \<Rightarrow> string" where
  "pathClean p =
     (if p = '''' then ''.''
      else let rooted = (hd p = CHR ''/'');
               out = Join ''/'' (cleanParts rooted [] (Split (CHR ''/'') p))
           in if rooted then ''/'' @ out else if out = '''' then ''.'' else out)"

definition pathJoin :: "string \<Rightarrow> string \<Rightarrow> string" where
  "pathJoin a b =
     (if a \<noteq> '''' then pathClean (a @ ''/'' @ b)
      else if b \<noteq> '''' then pathClean b else '''')"

section \<open>Lists\<close>

text \<open>\<open>append(s[:i], s[i+1:]...)\<close> at the first element that satisfies a test.\<close>

fun remove_first :: "('a \<Rightarrow> bool) \<Rightarrow> 'a list \<Rightarrow> 'a list" where
  "remove_first P [] = []"
| "remove_first P (x # xs) = (if P x then xs else x # remove_first P xs)"

text \<open>Replace every element that satisfies the test; append when there was none.\<close>

definition upsert :: "('a \<Rightarrow> bool) \<Rightarrow> 'a \<Rightarrow> 'a list \<Rightarrow> 'a list" where
  "upsert P u xs =
     map (\<lambda>x. if P x then u else x) xs @ (if list_ex P xs then [] else [u])"

section \<open>Locations inside a value\<close>

text \<open>
  Go hands out references to nested maps and mutates them in place. A reference to a map
  inside an object is modelled by its location, the keys and indices that lead to it.
\<close>

datatype step = Key string | Idx nat

type_synonym loc = "step list"

fun get_at :: "loc \<Rightarrow> json \<Rightarrow> json option" where
  "get_at [] j = Some j"
| "get_at (Key k # p) (JObj m) =
     (case map_of m k of None \<Rightarrow> None | Some j \<Rightarrow> get_at p j)"
| "get_at (Idx i # p) (JArr xs) = (if i < length xs then get_at p (xs ! i) else None)"
| "get_at (Idx i # p) (JMaps ms) =
     (if i < length ms then get_at p (JObj (ms ! i)) else None)"
| "get_at (_ # _) _ = None"

definition fields_of :: "json \<Rightarrow> fields" where
  "fields_of j = (case j of JObj m \<Rightarrow> m | _ \<Rightarrow> [])"

text \<open>Assign to the map at a location; nothing happens where there is no map.\<close>

fun upd_obj_at :: "loc \<Rightarrow> (fields \<Rightarrow> fields) \<Rightarrow> json \<Rightarrow> json" where
  "upd_obj_at [] f (JObj m) = JObj (f m)"
| "upd_obj_at (Key k # p) f (JObj m) =
     (case map_of m k of
        None \<Rightarrow> JObj m
      | Some j \<Rightarrow> JObj (AList.update k (upd_obj_at p f j) m))"
| "upd_obj_at (Idx i # p) f (JArr xs) =
     (if i < length xs then JArr (xs[i := upd_obj_at p f (xs ! i)]) else JArr xs)"
| "upd_obj_at (Idx i # p) f (JMaps ms) =
     (if i < length ms
      then JMaps (ms[i := fields_of (upd_obj_at p f (JObj (ms ! i)))]) else JMaps ms)"
| "upd_obj_at _ f j = j"

section \<open>Lemma collections\<close>

named_theorems go_map_simps \<open>lookups and keys after updates of Go maps\<close>
named_theorems nested_simps \<open>reads of nested fields after writes\<close>

lemmas [go_map_simps] = update_conv' delete_conv' distinct_update distinct_delete

lemma map_of_eq_None_distinct [go_map_simps]:
  "k \<notin> fst ` set m \<Longrightarrow> map_of m k = None"
  by (simp add: map_of_eq_None_iff)

lemma map_of_map_prod [simp]: "map_of (map (map_prod id f) m) k = map_option f (map_of m k)"
  by (induction m) auto

lemma fst_map_prod [simp]: "map fst (map (map_prod id f) m) = map fst m"
  by (induction m) auto

subsection \<open>Strings\<close>

lemma HasPrefix_append [simp]: "HasPrefix (p @ s) p"
  by (simp add: HasPrefix_def)

lemma HasPrefix_iff: "HasPrefix s p \<longleftrightarrow> (\<exists>r. s = p @ r)"
  by (metis HasPrefix_def append_eq_conv_conj append_take_drop_id)

lemma HasPrefix_Nil [simp]: "HasPrefix s []"
  by (simp add: HasPrefix_def)

lemma TrimPrefix_append [simp]: "TrimPrefix (p @ s) p = s"
  by (simp add: TrimPrefix_def)

lemma Split_nonempty [simp]: "Split c s \<noteq> []"
  by (induction s) (auto split: list.splits)

lemma Split_no_sep [simp]: "c \<notin> set s \<Longrightarrow> Split c s = [s]"
  by (induction s) auto

lemma Split_append_sep: "c \<notin> set a \<Longrightarrow> Split c (a @ c # s) = a # Split c s"
  by (induction a) auto

lemma Split_parts_no_sep: "x \<in> set (Split c s) \<Longrightarrow> c \<notin> set x"
  by (induction s arbitrary: x) (auto split: if_splits list.splits)

lemma Join_Cons: "xs \<noteq> [] \<Longrightarrow> Join sep (x # xs) = x @ sep @ Join sep xs"
  by (cases xs) auto

lemma Join_Split: "Join [c] (Split c s) = s"
proof (induction s)
  case (Cons x xs)
  then show ?case
    by (cases "Split c xs") (auto simp: Join_Cons split: list.splits, cases "tl (Split c xs)", auto)
qed simp

lemma Split_Join:
  assumes "xs \<noteq> []" and "\<forall>x \<in> set xs. c \<notin> set x"
  shows "Split c (Join [c] xs) = xs"
  using assms
proof (induction xs)
  case (Cons x xs)
  then show ?case
    by (cases "xs = []") (auto simp: Join_Cons Split_append_sep)
qed simp

subsection \<open>Lists\<close>

lemma remove_first_none [simp]: "\<not> list_ex P xs \<Longrightarrow> remove_first P xs = xs"
  by (induction xs) auto

lemma remove_first_append:
  "\<not> list_ex P xs \<Longrightarrow> remove_first P (xs @ ys) = xs @ remove_first P ys"
  by (induction xs) auto

lemma set_remove_first_subset: "set (remove_first P xs) \<subseteq> set xs"
  by (induction xs) auto

lemma filter_remove_first [simp]:
  "filter (\<lambda>x. \<not> P x) (remove_first P xs) = filter (\<lambda>x. \<not> P x) xs"
  by (induction xs) auto

lemma length_filter_remove_first:
  "length (filter P (remove_first P xs)) = length (filter P xs) - 1"
  by (induction xs) auto

lemma upsert_found [simp]:
  "list_ex P xs \<Longrightarrow> upsert P u xs = map (\<lambda>x. if P x then u else x) xs"
  by (simp add: upsert_def)

lemma upsert_absent [simp]: "\<not> list_ex P xs \<Longrightarrow> upsert P u xs = xs @ [u]"
  by (induction xs) (auto simp: upsert_def)

lemma filter_upsert:
  "P u \<Longrightarrow> filter (\<lambda>x. \<not> P x) (upsert P u xs) = filter (\<lambda>x. \<not> P x) xs"
  by (induction xs) (auto simp: upsert_def)

lemma upsert_mem: "u \<in> set (upsert P u xs)"
  by (induction xs) (auto simp: upsert_def)

lemma upsert_unique: "y \<in> set (upsert P u xs) \<Longrightarrow> P y \<Longrightarrow> y = u"
  by (auto simp: upsert_def split: if_splits)

lemma upsert_idem: "P u \<Longrightarrow> upsert P u (upsert P u xs) = upsert P u xs"
proof -
  assume u: "P u"
  then have ex: "list_ex P (upsert P u xs)"
    using upsert_mem [of u P xs] by (auto simp: list_ex_iff)
  have "map (\<lambda>x. if P x then u else x) (upsert P u xs) = upsert P u xs"
    by (rule map_idI) (auto dest: upsert_unique [of _ P u xs])
  with ex show ?thesis by simp
qed

subsection \<open>Locations\<close>

lemma fields_of_JObj [simp]: "fields_of (JObj m) = m"
  by (simp add: fields_of_def)

lemma inj_JObj [simp]: "inj JObj"
  by (simp add: inj_def)

lemma get_at_append:
  "get_at (p @ q) j = (case get_at p j of None \<Rightarrow> None | Some j' \<Rightarrow> get_at q j')"
  by (induction p j rule: get_at.induct) (auto split: option.splits)

lemma upd_obj_at_JObj: "\<exists>m'. upd_obj_at p f (JObj m) = JObj m'"
  by (cases p; cases "hd p") (auto split: option.splits)

lemma JObj_fields_of_upd [simp]:
  "JObj (fields_of (upd_obj_at p f (JObj m))) = upd_obj_at p f (JObj m)"
  using upd_obj_at_JObj [of p f m] by (auto simp: fields_of_def)

lemma get_at_upd_same [nested_simps]:
  "get_at p j = Some (JObj m) \<Longrightarrow> get_at p (upd_obj_at p f j) = Some (JObj (f m))"
  by (induction p j rule: get_at.induct)
    (auto simp: update_conv' split: option.splits if_splits)

text \<open>Two locations that fork are independent: a write at one is invisible at the other.\<close>

lemma get_at_upd_other [nested_simps]:
  "a \<noteq> b \<Longrightarrow> get_at (r @ b # q) (upd_obj_at (r @ a # p) f j) = get_at (r @ b # q) j"
proof (induction r arbitrary: j)
  case Nil
  then show ?case
    by (cases a; cases b; cases j) (auto simp: update_conv' split: option.splits)
next
  case (Cons s r)
  show ?case
    by (cases s; cases j)
      (auto simp: update_conv' nth_list_update Cons.IH Cons.prems split: option.splits)
qed

text \<open>A write at a location that holds no map changes nothing.\<close>

lemma upd_obj_at_None: "get_at p j = None \<Longrightarrow> upd_obj_at p f j = j"
  by (induction p j rule: get_at.induct)
    (auto simp: update_triv list_update_same_conv split: option.splits if_splits)

lemma upd_obj_at_no_obj:
  "get_at p j = Some w \<Longrightarrow> \<forall>m. w \<noteq> JObj m \<Longrightarrow> upd_obj_at p f j = j"
proof (induction p j rule: get_at.induct)
  case (1 j)
  then show ?case by (cases j) auto
next
  case (4 i p ms)
  then show ?case
    by (auto simp: list_update_same_conv split: if_splits)
qed (auto simp: update_triv list_update_same_conv split: option.splits if_splits)

end
