(* ===== verification/Memory.thy ===== *)
theory Memory
  imports Prelude "HOL-Library.DAList"
begin

text \<open>
  Memory with pointers, for the code whose point is what is shared and what is not: the deep
  copies of the API types.

  A memory is the list of its cells; an address is an index, and allocation appends a
  cell. What a pointer, a slice or a map refers to is one cell: the value pointed to, the
  elements of the slice, the entries of the map. Nil is \<open>None\<close>.

  A deep copy of the code has the form \<open>into m x\<close>: the memory \<open>m\<close> and the value \<open>x\<close> give
  the copied value and the memory with its new cells. The locale \<open>deep_copy\<close> states what
  such a function promises, in terms of what is seen through a value (\<open>view\<close>) and of the
  addresses it reaches (\<open>addrs\<close>); the lemmas below build the contract of a struct from
  those of its fields.
\<close>

section \<open>Pointers, slices and maps\<close>

type_synonym ptr = "nat option"

text \<open>
  What is seen through a value, as \<open>reflect.DeepEqual\<close> compares it: nil is not an empty
  slice.
\<close>

datatype gotree =
    GNil
  | GText string
  | GNum int
  | GFlag bool
  | GRef gotree
  | GSeq "gotree list"
  | GDict "(string, string) alist"
  | GStruct "gotree list"

text \<open>
  \<open>if in.F != nil { *out = new(T); ... }\<close>: the new cell first holds the shallow copy of
  what is pointed to, and then what the copy of its parts gives. \<open>mk\<close> and \<open>get\<close> put a
  value into a cell and take it out.
\<close>

definition copyPtr ::
  "('a \<Rightarrow> 'c) \<Rightarrow> ('c \<Rightarrow> 'a) \<Rightarrow> ('c list \<Rightarrow> 'a \<Rightarrow> 'a \<times> 'c list) \<Rightarrow> 'c list \<Rightarrow> ptr \<Rightarrow> ptr \<times> 'c list" where
  "copyPtr mk get into m p =
     (case p of
        None \<Rightarrow> (None, m)
      | Some a \<Rightarrow>
          let x = get (m ! a); q = length m; (y, m1) = into (m @ [mk x]) x
          in (Some q, m1[q := mk y]))"

text \<open>\<open>for i := range *in { (*in)[i].DeepCopyInto(&(*out)[i]) }\<close>\<close>

fun copyElems :: "('c list \<Rightarrow> 'a \<Rightarrow> 'a \<times> 'c list) \<Rightarrow> 'c list \<Rightarrow> 'a list \<Rightarrow> 'a list \<times> 'c list" where
  "copyElems into m [] = ([], m)"
| "copyElems into m (x # xs) =
     (let (y, m1) = into m x; (ys, m2) = copyElems into m1 xs in (y # ys, m2))"

text \<open>\<open>*out = *in\<close>\<close>

definition assign :: "'c list \<Rightarrow> 'a \<Rightarrow> 'a \<times> 'c list" where
  "assign m x = (x, m)"

text \<open>\<open>for key, val := range *in { (*out)[key] = val }\<close>\<close>

definition copyEntries :: "'c list \<Rightarrow> (string, string) alist \<Rightarrow> (string, string) alist \<times> 'c list" where
  "copyEntries m es = (fold (\<lambda>(k, v) out. DAList.update k v out) (DAList.impl_of es) DAList.empty, m)"

text \<open>Two fields, one after the other.\<close>

definition copyBoth ::
  "('c list \<Rightarrow> 'a \<Rightarrow> 'a \<times> 'c list) \<Rightarrow> ('c list \<Rightarrow> 'b \<Rightarrow> 'b \<times> 'c list) \<Rightarrow> 'c list \<Rightarrow> 'a \<times> 'b \<Rightarrow> ('a \<times> 'b) \<times> 'c list" where
  "copyBoth into1 into2 m p =
     (let (x, m1) = into1 m (fst p); (y, m2) = into2 m1 (snd p) in ((x, y), m2))"

section \<open>Views and addresses\<close>

definition ptrView :: "('c \<Rightarrow> 'a) \<Rightarrow> ('c list \<Rightarrow> 'a \<Rightarrow> gotree) \<Rightarrow> 'c list \<Rightarrow> ptr \<Rightarrow> gotree" where
  "ptrView get view m p = (case p of None \<Rightarrow> GNil | Some a \<Rightarrow> GRef (view m (get (m ! a))))"

definition ptrAddrs :: "('c \<Rightarrow> 'a) \<Rightarrow> ('c list \<Rightarrow> 'a \<Rightarrow> nat list) \<Rightarrow> 'c list \<Rightarrow> ptr \<Rightarrow> nat list" where
  "ptrAddrs get addrs m p = (case p of None \<Rightarrow> [] | Some a \<Rightarrow> a # addrs m (get (m ! a)))"

definition seqView :: "('c list \<Rightarrow> 'a \<Rightarrow> gotree) \<Rightarrow> 'c list \<Rightarrow> 'a list \<Rightarrow> gotree" where
  "seqView view m xs = GSeq (map (view m) xs)"

definition seqAddrs :: "('c list \<Rightarrow> 'a \<Rightarrow> nat list) \<Rightarrow> 'c list \<Rightarrow> 'a list \<Rightarrow> nat list" where
  "seqAddrs addrs m xs = concat (map (addrs m) xs)"

definition bothView ::
  "('c list \<Rightarrow> 'a \<Rightarrow> gotree) \<Rightarrow> ('c list \<Rightarrow> 'b \<Rightarrow> gotree) \<Rightarrow> 'c list \<Rightarrow> 'a \<times> 'b \<Rightarrow> gotree" where
  "bothView view1 view2 m p = GStruct [view1 m (fst p), view2 m (snd p)]"

definition bothAddrs ::
  "('c list \<Rightarrow> 'a \<Rightarrow> nat list) \<Rightarrow> ('c list \<Rightarrow> 'b \<Rightarrow> nat list) \<Rightarrow> 'c list \<Rightarrow> 'a \<times> 'b \<Rightarrow> nat list" where
  "bothAddrs addrs1 addrs2 m p = addrs1 m (fst p) @ addrs2 m (snd p)"

definition noAddrs :: "'c list \<Rightarrow> 'a \<Rightarrow> nat list" where
  "noAddrs m x = []"

text \<open>All addresses that a value reaches are allocated.\<close>

definition allocated :: "'c list \<Rightarrow> nat list \<Rightarrow> bool" where
  "allocated m as = list_all (\<lambda>a. a < length m) as"

text \<open>Two memories agree on the cells at these addresses.\<close>

definition agree :: "nat list \<Rightarrow> 'c list \<Rightarrow> 'c list \<Rightarrow> bool" where
  "agree as m m' = list_all (\<lambda>a. a < length m' \<and> m' ! a = m ! a) as"

section \<open>The contract of a deep copy\<close>

lemma agree_simps [simp]:
  "agree [] m m'" "agree (a # as) m m' = (a < length m' \<and> m' ! a = m ! a \<and> agree as m m')"
  "agree (as @ bs) m m' = (agree as m m' \<and> agree bs m m')"
  by (auto simp: agree_def)

lemma allocated_simps [simp]:
  "allocated m []" "allocated m (a # as) = (a < length m \<and> allocated m as)"
  "allocated m (as @ bs) = (allocated m as \<and> allocated m bs)"
  by (auto simp: allocated_def)

lemma allocated_mono: "allocated m as \<Longrightarrow> length m \<le> length m' \<Longrightarrow> allocated m' as"
  by (auto simp: allocated_def list_all_iff)

lemma prefix_length: "take (length m) m' = m \<Longrightarrow> length m \<le> length m'"
  by (metis length_take min.absorb_iff2 min.commute)

lemma agree_prefix: "allocated m as \<Longrightarrow> take (length m) m' = m \<Longrightarrow> agree as m m'"
  using prefix_length [of m m'] by (auto simp: agree_def allocated_def list_all_iff) (metis nth_take)

lemma agree_update: "a \<notin> set as \<Longrightarrow> allocated m as \<Longrightarrow> agree as m (m[a := c])"
  by (auto simp: agree_def allocated_def list_all_iff) (metis nth_list_update_neq)

lemma prefix_trans: "take (length m) m1 = m \<Longrightarrow> take (length m1) m2 = m1 \<Longrightarrow> take (length m) m2 = m"
  by (metis min.absorb1 prefix_length take_take)

locale deep_copy =
  fixes into :: "'c list \<Rightarrow> 'a \<Rightarrow> 'a \<times> 'c list"
    and view :: "'c list \<Rightarrow> 'a \<Rightarrow> gotree"
    and addrs :: "'c list \<Rightarrow> 'a \<Rightarrow> nat list"
  assumes extends: "into m x = (y, m') \<Longrightarrow> take (length m) m' = m"
    and fresh: "into m x = (y, m') \<Longrightarrow> a \<in> set (addrs m' y) \<Longrightarrow> length m \<le> a \<and> a < length m'"
    and copied: "into m x = (y, m') \<Longrightarrow> allocated m (addrs m x) \<Longrightarrow> view m' y = view m x"
    and local_view: "agree (addrs m x) m m' \<Longrightarrow> view m' x = view m x"
    and local_addrs: "agree (addrs m x) m m' \<Longrightarrow> addrs m' x = addrs m x"
begin

lemma grown:
  assumes "allocated m (addrs m x)" "take (length m) m' = m"
  shows "view m' x = view m x" "addrs m' x = addrs m x"
  using local_view local_addrs agree_prefix [OF assms] by auto

lemma copy_allocated: "into m x = (y, m') \<Longrightarrow> allocated m' (addrs m' y)"
  by (auto simp: allocated_def list_all_iff dest: fresh)

text \<open>Whatever is written through the copy is not seen through the original.\<close>

lemma original_unchanged:
  assumes "into m x = (y, m')" "allocated m (addrs m x)" "a \<in> set (addrs m' y)"
  shows "view (m'[a := c]) x = view m x"
proof -
  have "a \<notin> set (addrs m' x)"
    using fresh [OF assms(1,3)] assms(2) grown(2) [OF assms(2) extends [OF assms(1)]]
    by (auto simp: allocated_def list_all_iff)
  moreover have "allocated m' (addrs m' x)"
    using assms(2) grown(2) [OF assms(2) extends [OF assms(1)]] prefix_length [OF extends [OF assms(1)]]
    by (simp add: allocated_mono)
  ultimately have "view (m'[a := c]) x = view m' x" by (intro local_view agree_update)
  then show ?thesis using grown(1) [OF assms(2) extends [OF assms(1)]] by simp
qed

text \<open>Nor the other way round.\<close>

lemma copy_unchanged:
  assumes "into m x = (y, m')" "allocated m (addrs m x)" "a \<in> set (addrs m x)"
  shows "view (m'[a := c]) y = view m x"
proof -
  have "a \<notin> set (addrs m' y)"
    using fresh [OF assms(1)] assms(2,3) by (fastforce simp: allocated_def list_all_iff)
  then have "view (m'[a := c]) y = view m' y"
    using copy_allocated [OF assms(1)] by (intro local_view agree_update)
  then show ?thesis using copied [OF assms(1,2)] by simp
qed

end

section \<open>Contracts of the parts\<close>

lemmas copy_simps = copyBoth_def Let_def

lemma deep_copy_assign: "deep_copy assign (\<lambda>m. v) noAddrs"
  by unfold_locales (auto simp: assign_def noAddrs_def)

lemma update_new: "k \<notin> fst ` set es \<Longrightarrow> AList.update k v es = es @ [(k, v)]"
  by (induction es) auto

lemma entries_appended:
  "distinct (map fst kvs) \<Longrightarrow> fst ` set kvs \<inter> fst ` set (DAList.impl_of es) = {} \<Longrightarrow>
     DAList.impl_of (fold (\<lambda>(k, v) out. DAList.update k v out) kvs es) = DAList.impl_of es @ kvs"
proof (induction kvs arbitrary: es)
  case (Cons kv kvs)
  obtain k v where kv: "kv = (k, v)" by fastforce
  with Cons.prems have "DAList.impl_of (DAList.update k v es) = DAList.impl_of es @ [(k, v)]"
    by (simp add: DAList.update.rep_eq update_new)
  with Cons.IH [of "DAList.update k v es"] Cons.prems kv show ?case by force
qed simp

lemma copyEntries_same: "copyEntries m es = (es, m)"
  using entries_appended [of "DAList.impl_of es" DAList.empty]
  by (simp add: copyEntries_def DAList.empty.rep_eq DAList.impl_of_inject [symmetric])

lemma deep_copy_entries: "deep_copy copyEntries (\<lambda>m. GDict) noAddrs"
  by unfold_locales (auto simp: noAddrs_def copyEntries_same)

lemma deep_copy_both:
  assumes "deep_copy i1 v1 a1" "deep_copy i2 v2 a2"
  shows "deep_copy (copyBoth i1 i2) (bothView v1 v2) (bothAddrs a1 a2)"
proof -
  have split: "\<exists>m1. i1 m (fst x) = (fst y, m1) \<and> i2 m1 (snd x) = (snd y, m') \<and> take (length m) m1 = m \<and> take (length m1) m' = m1"
    if "copyBoth i1 i2 m x = (y, m')" for m x y m'
    using that deep_copy.extends [OF assms(1)] deep_copy.extends [OF assms(2)]
    by (auto simp: copyBoth_def Let_def split: prod.splits)
  show ?thesis
  proof
    fix m x y m' assume c: "copyBoth i1 i2 m x = (y, m')"
    then obtain m1 where m1: "i1 m (fst x) = (fst y, m1)" "i2 m1 (snd x) = (snd y, m')"
      "take (length m) m1 = m" "take (length m1) m' = m1" using split by blast
    note grow = deep_copy.grown [OF assms(1) deep_copy.copy_allocated [OF assms(1) m1(1)] m1(4)]
    show "take (length m) m' = m" using m1(3,4) by (rule prefix_trans)
    show "length m \<le> a \<and> a < length m'" if "a \<in> set (bothAddrs a1 a2 m' y)" for a
      using that deep_copy.fresh [OF assms(1) m1(1)] deep_copy.fresh [OF assms(2) m1(2)]
        prefix_length [OF m1(3)] prefix_length [OF m1(4)] grow(2)
      by (fastforce simp: bothAddrs_def)
    show "bothView v1 v2 m' y = bothView v1 v2 m x" if "allocated m (bothAddrs a1 a2 m x)"
    proof -
      have al: "allocated m (a1 m (fst x))" "allocated m (a2 m (snd x))" using that by (simp_all add: bothAddrs_def)
      note grow2 = deep_copy.grown [OF assms(2) al(2) m1(3)]
      have "allocated m1 (a2 m1 (snd x))" using al(2) grow2(2) prefix_length [OF m1(3)] by (simp add: allocated_mono)
      then show ?thesis using deep_copy.copied [OF assms(1) m1(1) al(1)] deep_copy.copied [OF assms(2) m1(2)] grow(1) grow2(1)
        by (simp add: bothView_def)
    qed
  next
    fix m x m' assume "agree (bothAddrs a1 a2 m x) m m'"
    then have "agree (a1 m (fst x)) m m'" "agree (a2 m (snd x)) m m'" by (simp_all add: bothAddrs_def)
    then show "bothView v1 v2 m' x = bothView v1 v2 m x" "bothAddrs a1 a2 m' x = bothAddrs a1 a2 m x"
      using deep_copy.local_view [OF assms(1)] deep_copy.local_view [OF assms(2)]
        deep_copy.local_addrs [OF assms(1)] deep_copy.local_addrs [OF assms(2)]
      by (simp_all add: bothView_def bothAddrs_def)
  qed
qed

text \<open>A struct whose reference fields are \<open>part x\<close> and whose other fields \<open>F x\<close> shows.\<close>

lemma deep_copy_struct:
  assumes "deep_copy i v a" and "\<And>x y. part (put y x) = y" and "\<And>x y t. F (put y x) t = F x t"
  shows "deep_copy (\<lambda>m x. let (y, m') = i m (part x) in (put y x, m')) (\<lambda>m x. F x (v m (part x))) (\<lambda>m x. a m (part x))"
proof
  fix m x y m' assume "(let (y, m') = i m (part x) in (put y x, m')) = (y, m')"
  then obtain z where z: "i m (part x) = (z, m')" "y = put z x" by (auto split: prod.splits)
  show "take (length m) m' = m" using deep_copy.extends [OF assms(1) z(1)] .
  show "length m \<le> b \<and> b < length m'" if "b \<in> set (a m' (part y))" for b
    using that deep_copy.fresh [OF assms(1) z(1)] z(2) assms(2) by simp
  show "F y (v m' (part y)) = F x (v m (part x))" if "allocated m (a m (part x))"
    using that deep_copy.copied [OF assms(1) z(1)] z(2) assms(2,3) by simp
next
  fix m x m' assume "agree (a m (part x)) m m'"
  then show "F x (v m' (part x)) = F x (v m (part x))" "a m' (part x) = a m (part x)"
    using deep_copy.local_view [OF assms(1)] deep_copy.local_addrs [OF assms(1)] by auto
qed

lemma deep_copy_structI:
  assumes "deep_copy i v a" and "\<And>x y. part (put y x) = y" and "\<And>x y t. F (put y x) t = F x t"
    and "\<And>m x. into m x = (let (y, m') = i m (part x) in (put y x, m'))"
    and "\<And>m x. view m x = F x (v m (part x))" and "\<And>m x. addrs m x = a m (part x)"
  shows "deep_copy into view addrs"
proof -
  have "into = (\<lambda>m x. let (y, m') = i m (part x) in (put y x, m'))" "view = (\<lambda>m x. F x (v m (part x)))"
    "addrs = (\<lambda>m x. a m (part x))" using assms(4-6) by (simp_all add: fun_eq_iff)
  then show ?thesis using deep_copy_struct [where part = part and put = put and F = F, OF assms(1-3)] by simp
qed

lemma copyElems_laws:
  assumes "deep_copy i v a" and "copyElems i m xs = (ys, m')"
  shows "take (length m) m' = m" and "\<forall>b \<in> set (seqAddrs a m' ys). length m \<le> b \<and> b < length m'"
    and "allocated m (seqAddrs a m xs) \<Longrightarrow> map (v m') ys = map (v m) xs"
proof -
  have "take (length m) m' = m \<and> (\<forall>b \<in> set (seqAddrs a m' ys). length m \<le> b \<and> b < length m')
    \<and> (allocated m (seqAddrs a m xs) \<longrightarrow> map (v m') ys = map (v m) xs)"
    using assms(2)
  proof (induction xs arbitrary: m ys)
    case (Cons x xs)
    then obtain y m1 ys1 where c: "i m x = (y, m1)" "copyElems i m1 xs = (ys1, m')" "ys = y # ys1"
      by (auto split: prod.splits)
    note IH = Cons.IH [OF c(2)] and m1 = deep_copy.extends [OF assms(1) c(1)]
    note grow = deep_copy.grown [OF assms(1) deep_copy.copy_allocated [OF assms(1) c(1)], of m']
    have "v m' y = v m x \<and> map (v m') ys1 = map (v m) xs" if al: "allocated m (seqAddrs a m (x # xs))"
    proof -
      have "v m1 z = v m z \<and> a m1 z = a m z" if "z \<in> set xs" for z
        using that al deep_copy.grown [OF assms(1) _ m1, of z] by (auto simp: seqAddrs_def allocated_def list_all_iff)
      then have "map (v m1) xs = map (v m) xs" "seqAddrs a m1 xs = seqAddrs a m xs"
        by (auto simp: seqAddrs_def intro: arg_cong [where f = concat] map_cong)
      moreover have "allocated m1 (seqAddrs a m xs)" using al prefix_length [OF m1] by (auto simp: seqAddrs_def allocated_mono)
      ultimately show ?thesis
        using al IH grow(1) deep_copy.copied [OF assms(1) c(1)] by (auto simp: seqAddrs_def)
    qed
    moreover have "length m \<le> b \<and> b < length m'" if "b \<in> set (seqAddrs a m' ys)" for b
      using that IH grow(2) c(3) deep_copy.fresh [OF assms(1) c(1)] prefix_length [OF m1] prefix_length [of m1 m']
      by (fastforce simp: seqAddrs_def)
    ultimately show ?case using IH m1 c(3) by (auto intro: prefix_trans)
  qed (auto simp: seqAddrs_def)
  then show "take (length m) m' = m" "\<forall>b \<in> set (seqAddrs a m' ys). length m \<le> b \<and> b < length m'"
    "allocated m (seqAddrs a m xs) \<Longrightarrow> map (v m') ys = map (v m) xs" by blast+
qed

lemma deep_copy_elems:
  assumes "deep_copy i v a"
  shows "deep_copy (copyElems i) (seqView v) (seqAddrs a)"
proof
  fix m xs m' assume "agree (seqAddrs a m xs) m m'"
  then have "\<forall>x \<in> set xs. agree (a m x) m m'" by (auto simp: seqAddrs_def agree_def list_all_iff)
  then have "\<forall>x \<in> set xs. v m' x = v m x \<and> a m' x = a m x"
    using deep_copy.local_view [OF assms] deep_copy.local_addrs [OF assms] by blast
  then show "seqView v m' xs = seqView v m xs" "seqAddrs a m' xs = seqAddrs a m xs"
    by (auto simp: seqView_def seqAddrs_def intro: arg_cong [where f = concat] map_cong)
qed (use copyElems_laws [OF assms] in \<open>auto simp: seqView_def\<close>)

text \<open>The cell of the copy, with the memory \<open>m1\<close> that the copy of the parts leaves.\<close>

lemma copyPtr_cases:
  assumes "deep_copy i v a" and "copyPtr mk get i m p = (q, m')"
  obtains "p = None" "q = None" "m' = m"
  | b y m1 where "p = Some b" "q = Some (length m)" "i (m @ [mk (get (m ! b))]) (get (m ! b)) = (y, m1)"
      "m' = m1[length m := mk y]" "take (length m) m' = m" "length m < length m'" "v m' y = v m1 y" "a m' y = a m1 y"
proof (cases p)
  case (Some b)
  obtain y m1 where c: "i (m @ [mk (get (m ! b))]) (get (m ! b)) = (y, m1)" by fastforce
  with Some assms(2) have q: "q = Some (length m)" "m' = m1[length m := mk y]"
    by (simp_all add: copyPtr_def Let_def)
  have "take (Suc (length m)) m1 = m @ [mk (get (m ! b))]" "length m < length m1"
    using deep_copy.extends [OF assms(1) c] prefix_length [of "m @ [mk (get (m ! b))]" m1] by simp_all
  then have "take (length m) m1 = m" by (metis append_eq_conv_conj butlast_snoc butlast_take diff_Suc_1 Suc_leI)
  moreover have "agree (a m1 y) m1 m'"
    using deep_copy.fresh [OF assms(1) c] deep_copy.copy_allocated [OF assms(1) c] q(2)
    by (fastforce intro: agree_update)
  ultimately show thesis
    using that(2) [OF Some q(1) c q(2)] \<open>length m < length m1\<close> deep_copy.local_view [OF assms(1)]
      deep_copy.local_addrs [OF assms(1)] q(2) by simp
qed (use assms(2) that(1) in \<open>simp add: copyPtr_def\<close>)

lemma deep_copy_ptr:
  assumes "deep_copy i v a" and "\<And>x. get (mk x) = x"
  shows "deep_copy (copyPtr mk get i) (ptrView get v) (ptrAddrs get a)"
proof
  fix m p q m' assume c: "copyPtr mk get i m p = (q, m')"
  show "take (length m) m' = m" using c by (rule copyPtr_cases [OF assms(1)]) simp_all
  show "length m \<le> d \<and> d < length m'" if "d \<in> set (ptrAddrs get a m' q)" for d
    using c
  proof (rule copyPtr_cases [OF assms(1)])
    fix b y m1 assume y: "q = Some (length m)" "i (m @ [mk (get (m ! b))]) (get (m ! b)) = (y, m1)"
      "m' = m1[length m := mk y]" "length m < length m'" "a m' y = a m1 y"
    then show ?thesis using that deep_copy.fresh [OF assms(1) y(2)] assms(2) by (force simp: ptrAddrs_def)
  qed (use that in \<open>simp add: ptrAddrs_def\<close>)
  show "ptrView get v m' q = ptrView get v m p" if "allocated m (ptrAddrs get a m p)"
    using c
  proof (rule copyPtr_cases [OF assms(1)])
    fix b y m1 assume y: "p = Some b" "q = Some (length m)" "i (m @ [mk (get (m ! b))]) (get (m ! b)) = (y, m1)"
      "m' = m1[length m := mk y]" "length m < length m'" "v m' y = v m1 y"
    let ?m = "m @ [mk (get (m ! b))]" and ?x = "get (m ! b)"
    have al: "allocated m (a m ?x)" using that y(1) by (simp add: ptrAddrs_def)
    note grow = deep_copy.grown [OF assms(1) al, of ?m]
    have "allocated ?m (a ?m ?x)" using al grow(2) by (simp add: allocated_mono)
    then show ?thesis using y deep_copy.copied [OF assms(1) y(3)] grow(1) assms(2) by (simp add: ptrView_def)
  qed (simp add: ptrView_def)
next
  fix m p m' assume "agree (ptrAddrs get a m p) m m'"
  then show "ptrView get v m' p = ptrView get v m p" "ptrAddrs get a m' p = ptrAddrs get a m p"
    using deep_copy.local_view [OF assms(1)] deep_copy.local_addrs [OF assms(1)]
    by (auto simp: ptrView_def ptrAddrs_def split: option.splits)
qed

end
