(* ===== verification/Unstructured.thy ===== *)
theory Unstructured
  imports Prelude
begin

text \<open>
  Access to unstructured Kubernetes objects: the accessors of
  \<open>k8s.io/apimachinery/pkg/apis/meta/v1/unstructured\<close> that the operator calls
  (\<open>NestedFieldNoCopy\<close>, \<open>NestedString\<close>, \<open>NestedStringMap\<close>,
  \<open>SetNestedField\<close>, the metadata getters), the conversion layer of
  \<open>pkg/converter/unstructured.go\<close> (\<open>NestedResources\<close>) and the in-place slice
  assignment \<open>setSlice\<close> of \<open>pkg/reconcile/pipeline/mapping.go\<close>.

  A triple \<open>(value, found, err)\<close> is a value of type \<open>go_error + 'a option\<close>: \<open>Inl\<close>
  the error, \<open>Inr None\<close> for not found. The reflective conversion
  \<open>DefaultUnstructuredConverter.FromUnstructured\<close> is a parameter \<open>conv\<close>, a function
  from the target type and the map to the error it reports, \<open>None\<close> where it succeeds.
\<close>

section \<open>Nested fields\<close>

definition accessorErr :: "string list \<Rightarrow> json \<Rightarrow> string \<Rightarrow> go_error" where
  "accessorErr fs v expected =
     Errorf ''%v accessor error: %v is of the type %T, expected %v''
       [JArr (map JStr fs), v, JStr expected]"

fun nestedWalk :: "string list \<Rightarrow> json \<Rightarrow> string list \<Rightarrow> go_error + json option" where
  "nestedWalk d v [] = Inr (Some v)"
| "nestedWalk d v (f # fs) =
     (case v of
        JNull \<Rightarrow> Inr None
      | JObj m \<Rightarrow>
          (case map_of m f of
             None \<Rightarrow> Inr None
           | Some v' \<Rightarrow> nestedWalk (d @ [f]) v' fs)
      | _ \<Rightarrow> Inl (accessorErr (d @ [f]) v ''map[string]interface{}''))"

definition NestedFieldNoCopy :: "fields \<Rightarrow> string list \<Rightarrow> go_error + json option" where
  "NestedFieldNoCopy obj fs = nestedWalk [] (JObj obj) fs"

definition NestedString :: "fields \<Rightarrow> string list \<Rightarrow> go_error + string option" where
  "NestedString obj fs =
     (case NestedFieldNoCopy obj fs of
        Inl e \<Rightarrow> Inl e
      | Inr None \<Rightarrow> Inr None
      | Inr (Some v) \<Rightarrow>
          (case v of JStr s \<Rightarrow> Inr (Some s) | _ \<Rightarrow> Inl (accessorErr fs v ''string'')))"

definition nestedMapNoCopy :: "fields \<Rightarrow> string list \<Rightarrow> go_error + fields option" where
  "nestedMapNoCopy obj fs =
     (case NestedFieldNoCopy obj fs of
        Inl e \<Rightarrow> Inl e
      | Inr None \<Rightarrow> Inr None
      | Inr (Some v) \<Rightarrow>
          (case v of JObj m \<Rightarrow> Inr (Some m)
           | _ \<Rightarrow> Inl (accessorErr fs v ''map[string]interface{}'')))"

fun strMapOf :: "string list \<Rightarrow> fields \<Rightarrow> go_error + strmap" where
  "strMapOf fs [] = Inr []"
| "strMapOf fs ((k, v) # m) =
     (case v of
        JStr s \<Rightarrow> (case strMapOf fs m of Inl e \<Rightarrow> Inl e | Inr r \<Rightarrow> Inr ((k, s) # r))
      | _ \<Rightarrow> Inl (accessorErr fs v ''string''))"

definition NestedStringMap :: "fields \<Rightarrow> string list \<Rightarrow> go_error + strmap option" where
  "NestedStringMap obj fs =
     (case nestedMapNoCopy obj fs of
        Inl e \<Rightarrow> Inl e
      | Inr None \<Rightarrow> Inr None
      | Inr (Some m) \<Rightarrow>
          (case strMapOf fs m of Inl e \<Rightarrow> Inl e | Inr r \<Rightarrow> Inr (Some r)))"

text \<open>
  Assignment creates the missing levels of the path. A level that exists and is not a map
  is an error; below a level that had to be created nothing can fail, so an assignment that
  fails has changed nothing. The path is never empty in the callers; Go panics on an empty
  one.
\<close>

fun setNestedFieldNoCopy :: "string list \<Rightarrow> fields \<Rightarrow> json \<Rightarrow> string list \<Rightarrow> fields go" where
  "setNestedFieldNoCopy d m v [] = Panic ''slice bounds out of range''"
| "setNestedFieldNoCopy d m v [f] = Ok (AList.update f v m)"
| "setNestedFieldNoCopy d m v (f # g # fs) =
     (case map_of m f of
        None \<Rightarrow>
          (case setNestedFieldNoCopy (d @ [f]) [] v (g # fs) of
             Ok m' \<Rightarrow> Ok (AList.update f (JObj m') m) | Err e \<Rightarrow> Err e | Panic s \<Rightarrow> Panic s)
      | Some (JObj m1) \<Rightarrow>
          (case setNestedFieldNoCopy (d @ [f]) m1 v (g # fs) of
             Ok m' \<Rightarrow> Ok (AList.update f (JObj m') m) | Err e \<Rightarrow> Err e | Panic s \<Rightarrow> Panic s)
      | Some _ \<Rightarrow>
          Err (Errorf ''value cannot be set because %v is not a map[string]interface{}''
            [JArr (map JStr (d @ [f]))]))"

definition SetNestedField :: "fields \<Rightarrow> json \<Rightarrow> string list \<Rightarrow> fields go" where
  "SetNestedField obj v fs = setNestedFieldNoCopy [] obj v fs"

definition getNestedString :: "fields \<Rightarrow> string list \<Rightarrow> string" where
  "getNestedString obj fs =
     (case NestedString obj fs of Inr (Some s) \<Rightarrow> s | _ \<Rightarrow> '''')"

section \<open>Object metadata\<close>

record gvk =
  gvk_group :: string
  gvk_version :: string
  gvk_kind :: string

record gvr =
  gvr_group :: string
  gvr_version :: string
  gvr_resource :: string

definition GetKind :: "fields \<Rightarrow> string" where
  "GetKind u = getNestedString u [''kind'']"

definition GetAPIVersion :: "fields \<Rightarrow> string" where
  "GetAPIVersion u = getNestedString u [''apiVersion'']"

definition GetName :: "fields \<Rightarrow> string" where
  "GetName u = getNestedString u [''metadata'', ''name'']"

definition GetNamespace :: "fields \<Rightarrow> string" where
  "GetNamespace u = getNestedString u [''metadata'', ''namespace'']"

definition GetUID :: "fields \<Rightarrow> string" where
  "GetUID u = getNestedString u [''metadata'', ''uid'']"

text \<open>\<open>GetAnnotations\<close> drops the error and the found flag; \<open>None\<close> is the nil map.\<close>

definition GetAnnotations :: "fields \<Rightarrow> strmap option" where
  "GetAnnotations u =
     (case NestedStringMap u [''metadata'', ''annotations''] of Inr r \<Rightarrow> r | Inl _ \<Rightarrow> None)"

definition SetAnnotations :: "fields \<Rightarrow> strmap \<Rightarrow> fields" where
  "SetAnnotations u anns =
     (case SetNestedField u (JObj (map (map_prod id JStr) anns)) [''metadata'', ''annotations''] of
        Ok u' \<Rightarrow> u' | _ \<Rightarrow> u)"

text \<open>The UIDs of the owner references; any malformed entry makes the list empty.\<close>

fun ownerUIDs :: "json list \<Rightarrow> string list option" where
  "ownerUIDs [] = Some []"
| "ownerUIDs (j # js) =
     (case j of
        JObj o1 \<Rightarrow>
          (case ownerUIDs js of None \<Rightarrow> None
           | Some us \<Rightarrow> Some (getNestedString o1 [''uid''] # us))
      | _ \<Rightarrow> None)"

definition GetOwnerReferences :: "fields \<Rightarrow> string list" where
  "GetOwnerReferences u =
     (case NestedFieldNoCopy u [''metadata'', ''ownerReferences''] of
        Inr (Some (JArr js)) \<Rightarrow> (case ownerUIDs js of None \<Rightarrow> [] | Some us \<Rightarrow> us)
      | _ \<Rightarrow> [])"

text \<open>\<open>schema.ParseGroupVersion\<close> followed by \<open>WithKind\<close>.\<close>

definition ParseGroupVersion :: "string \<Rightarrow> (string \<times> string) option" where
  "ParseGroupVersion gv =
     (if gv = '''' \<or> gv = ''/'' then Some ('''', '''')
      else if Count gv (CHR ''/'') = 0 then Some ('''', gv)
      else if Count gv (CHR ''/'') = 1 then
        Some (takeWhile (\<lambda>c. c \<noteq> CHR ''/'') gv, tl (dropWhile (\<lambda>c. c \<noteq> CHR ''/'') gv))
      else None)"

definition GroupVersionKind :: "fields \<Rightarrow> gvk" where
  "GroupVersionKind u =
     (case ParseGroupVersion (GetAPIVersion u) of
        None \<Rightarrow> \<lparr>gvk_group = '''', gvk_version = '''', gvk_kind = ''''\<rparr>
      | Some (g, v) \<Rightarrow> \<lparr>gvk_group = g, gvk_version = v, gvk_kind = GetKind u\<rparr>)"

definition GroupResource_String :: "gvr \<Rightarrow> string" where
  "GroupResource_String r =
     (if gvr_group r = '''' then gvr_resource r
      else gvr_resource r @ ''.'' @ gvr_group r)"

section \<open>Slices of resources\<close>

datatype rkind = EnvVarK | EnvFromSourceK | VolumeMountK | VolumeK

type_synonym converter = "rkind \<Rightarrow> fields \<Rightarrow> go_error option"

fun convMaps :: "converter \<Rightarrow> rkind \<Rightarrow> fields list \<Rightarrow> go_error + fields list" where
  "convMaps conv k [] = Inr []"
| "convMaps conv k (m # ms) =
     (case conv k m of
        Some e \<Rightarrow> Inl e
      | None \<Rightarrow> (case convMaps conv k ms of Inl e \<Rightarrow> Inl e | Inr r \<Rightarrow> Inr (m # r)))"

fun convSlice :: "converter \<Rightarrow> rkind \<Rightarrow> json list \<Rightarrow> go_error + fields list" where
  "convSlice conv k [] = Inr []"
| "convSlice conv k (j # js) =
     (case j of
        JObj m \<Rightarrow>
          (case conv k m of
             Some e \<Rightarrow> Inl e
           | None \<Rightarrow> (case convSlice conv k js of Inl e \<Rightarrow> Inl e | Inr r \<Rightarrow> Inr (m # r)))
      | _ \<Rightarrow> Inl (errNew ''not a map''))"

definition NestedResources ::
  "converter \<Rightarrow> rkind \<Rightarrow> fields \<Rightarrow> string list \<Rightarrow> go_error + fields list option" where
  "NestedResources conv k resource path =
     (case NestedFieldNoCopy resource path of
        Inl e \<Rightarrow> Inl e
      | Inr None \<Rightarrow> Inr None
      | Inr (Some (JMaps ms)) \<Rightarrow> map_sum id Some (convMaps conv k ms)
      | Inr (Some (JArr js)) \<Rightarrow> map_sum id Some (convSlice conv k js)
      | Inr (Some _) \<Rightarrow> Inl (errNew ''not a slice''))"

text \<open>
  The loop of \<open>setSlice\<close> that follows the path and creates its missing levels; the
  assignment \<open>f\<close> is made in the map it ends in.
\<close>

fun createPath ::
  "string list \<Rightarrow> fields \<Rightarrow> string list \<Rightarrow> (fields \<Rightarrow> fields) \<Rightarrow> go_error + fields" where
  "createPath d current [] f = Inr (f current)"
| "createPath d current (p # ps) f =
     (case map_of current p of
        None \<Rightarrow> map_sum id (\<lambda>m. AList.update p (JObj m) current) (createPath (d @ [p]) [] ps f)
      | Some (JObj m1) \<Rightarrow>
          map_sum id (\<lambda>m. AList.update p (JObj m) current) (createPath (d @ [p]) m1 ps f)
      | Some _ \<Rightarrow> Inl (Errorf ''Value already exists at path %v'' [JArr (map JStr d)]))"

definition setSlice :: "fields \<Rightarrow> fields list \<Rightarrow> string list \<Rightarrow> fields go" where
  "setSlice obj resources path =
     (if path = [] then Panic ''index out of range''
      else
        let pre = butlast path; assign = AList.update (last path) (JMaps resources)
        in if length path > 1 then
             (case NestedFieldNoCopy obj pre of
                Inl e \<Rightarrow> Err e
              | Inr None \<Rightarrow>
                  (case createPath [] obj pre assign of Inl e \<Rightarrow> Err e | Inr m \<Rightarrow> Ok m)
              | Inr (Some (JObj x)) \<Rightarrow>
                  Ok (fields_of (upd_obj_at (map Key pre) assign (JObj obj)))
              | Inr (Some _) \<Rightarrow>
                  Err (Errorf ''Value already exists at path %v'' [JArr (map JStr pre)]))
           else Ok (assign obj))"

text \<open>
  What \<open>setSlice\<close> is for, by recursion on the path: assign at its end, creating the
  levels that are missing. No result where a level exists and is not a map.
\<close>

fun putSlice :: "string list \<Rightarrow> fields list \<Rightarrow> fields \<Rightarrow> fields option" where
  "putSlice [] rs m = None"
| "putSlice [f] rs m = Some (AList.update f (JMaps rs) m)"
| "putSlice (f # g # fs) rs m =
     (case map_of m f of
        None \<Rightarrow> map_option (\<lambda>m'. AList.update f (JObj m') m) (putSlice (g # fs) rs [])
      | Some (JObj m1) \<Rightarrow> map_option (\<lambda>m'. AList.update f (JObj m') m) (putSlice (g # fs) rs m1)
      | Some _ \<Rightarrow> None)"

text \<open>The resources of a slice, and whether the slice can be read and assigned.\<close>

definition slice_of :: "converter \<Rightarrow> rkind \<Rightarrow> string list \<Rightarrow> fields \<Rightarrow> fields list" where
  "slice_of conv k path d =
     (case NestedResources conv k d path of Inr (Some rs) \<Rightarrow> rs | _ \<Rightarrow> [])"

definition editable :: "converter \<Rightarrow> rkind \<Rightarrow> string list \<Rightarrow> fields \<Rightarrow> bool" where
  "editable conv k path d =
     ((case NestedResources conv k d path of Inl _ \<Rightarrow> False | Inr _ \<Rightarrow> True)
      \<and> putSlice path [] d \<noteq> None)"

text \<open>Two paths that fork, and the objects obtained by assignments at one path only.\<close>

fun forks :: "'a list \<Rightarrow> 'a list \<Rightarrow> bool" where
  "forks (a # p) (b # q) = (a \<noteq> b \<or> forks p q)"
| "forks _ _ = False"

inductive touches :: "string list \<Rightarrow> fields \<Rightarrow> fields \<Rightarrow> bool" for path where
  refl [intro, simp]: "touches path d d"
| put: "touches path d d' \<Longrightarrow> putSlice path rs d' = Some d'' \<Longrightarrow> touches path d d''"

section \<open>Reads and writes of nested fields\<close>

lemma nestedWalk_Some_iff:
  "nestedWalk d v fs = Inr (Some w) \<longleftrightarrow> get_at (map Key fs) v = Some w"
  by (induction d v fs rule: nestedWalk.induct) (auto split: json.splits option.splits)

lemma NestedField_Some_iff [nested_simps]:
  "NestedFieldNoCopy obj fs = Inr (Some w) \<longleftrightarrow> get_at (map Key fs) (JObj obj) = Some w"
  by (simp add: NestedFieldNoCopy_def nestedWalk_Some_iff)

lemma NestedString_Some_iff:
  "NestedString obj fs = Inr (Some s) \<longleftrightarrow> get_at (map Key fs) (JObj obj) = Some (JStr s)"
  unfolding NestedString_def NestedField_Some_iff [symmetric]
  by (auto split: sum.splits option.splits json.splits)

lemma NestedString_singleton:
  "NestedString obj [f] =
     (case map_of obj f of None \<Rightarrow> Inr None | Some (JStr s) \<Rightarrow> Inr (Some s)
      | Some v \<Rightarrow> Inl (accessorErr [f] v ''string''))"
  by (simp add: NestedString_def NestedFieldNoCopy_def split: option.splits json.splits)

lemma strMapOf_map [simp]: "strMapOf fs (map (map_prod id JStr) m) = Inr m"
  by (induction m) auto

lemma strMapOf_Inr: "strMapOf fs m = Inr r \<Longrightarrow> m = map (map_prod id JStr) r"
  by (induction fs m arbitrary: r rule: strMapOf.induct) (auto split: json.splits sum.splits)

lemma setNestedFieldNoCopy_get:
  "setNestedFieldNoCopy d m v fs = Ok m' \<Longrightarrow> get_at (map Key fs) (JObj m') = Some v"
  by (induction d m v fs arbitrary: m' rule: setNestedFieldNoCopy.induct)
    (auto simp: update_conv' split: option.splits json.splits go.splits)

lemma get_at_empty [simp]: "p \<noteq> [] \<Longrightarrow> get_at p (JObj []) = None"
  by (cases p; cases "hd p") auto

lemma get_at_Cons_update:
  "Key k \<noteq> b \<Longrightarrow> get_at (b # q) (JObj (AList.update k v m)) = get_at (b # q) (JObj m)"
  by (cases b) (auto simp: update_conv')

lemma setNestedFieldNoCopy_frame:
  assumes "setNestedFieldNoCopy d m v (r @ a # p) = Ok m'" and "Key a \<noteq> b"
  shows "get_at (map Key r @ b # q) (JObj m') = get_at (map Key r @ b # q) (JObj m)"
  using assms
proof (induction r arbitrary: d m m')
  case Nil
  then show ?case
    by (cases p) (auto simp: get_at_Cons_update split: option.splits json.splits go.splits)
next
  case (Cons x r)
  obtain y ys where ys: "r @ a # p = y # ys" by (cases r) auto
  have "\<exists>m1 m2. setNestedFieldNoCopy (d @ [x]) m1 v (r @ a # p) = Ok m2
      \<and> m' = AList.update x (JObj m2) m
      \<and> (map_of m x = Some (JObj m1) \<or> map_of m x = None \<and> m1 = [])"
    using Cons.prems(1) by (auto simp: ys split: option.splits json.splits go.splits)
  then show ?case
    using Cons.IH Cons.prems(2) by (fastforce simp: update_conv')
qed

lemma Get_SetAnnotations:
  assumes "\<And>v. map_of u ''metadata'' = Some v \<Longrightarrow> \<exists>m. v = JObj m"
  shows "GetAnnotations (SetAnnotations u anns) = Some anns"
proof -
  obtain u' where u': "SetNestedField u (JObj (map (map_prod id JStr) anns))
      [''metadata'', ''annotations''] = Ok u'"
    using assms by (cases "map_of u ''metadata''") (auto simp: SetNestedField_def)
  then have "NestedFieldNoCopy u' [''metadata'', ''annotations'']
      = Inr (Some (JObj (map (map_prod id JStr) anns)))"
    by (simp add: NestedField_Some_iff SetNestedField_def setNestedFieldNoCopy_get
        del: get_at.simps list.map)
  with u' show ?thesis
    by (simp add: SetAnnotations_def GetAnnotations_def NestedStringMap_def nestedMapNoCopy_def)
qed

section \<open>Slices of resources as an interface\<close>

subsection \<open>The laws of \<open>NestedResources\<close> and \<open>setSlice\<close>\<close>

lemma convMaps_Inr: "convMaps conv k ms = Inr rs \<longleftrightarrow> rs = ms \<and> (\<forall>m \<in> set ms. conv k m = None)"
  by (induction ms arbitrary: rs) (auto split: option.splits sum.splits)

lemma convSlice_Inr:
  "convSlice conv k js = Inr rs \<longleftrightarrow> js = map JObj rs \<and> (\<forall>m \<in> set rs. conv k m = None)"
proof (induction js arbitrary: rs)
  case (Cons j js)
  then show ?case
    by (cases rs) (auto simp: inj_map_eq_map split: option.splits sum.splits json.splits)
qed auto

lemma NestedResources_accepts:
  "NestedResources conv k d path = Inr (Some rs) \<Longrightarrow> m \<in> set rs \<Longrightarrow> conv k m = None"
  by (auto simp: NestedResources_def convMaps_Inr convSlice_Inr map_sum_def
      split: sum.splits option.splits json.splits)

lemma createPath_get:
  "createPath d m ps f = Inr m' \<Longrightarrow>
     \<exists>x. get_at (map Key ps) (JObj m') = Some (JObj (f x))"
  by (induction d m ps f arbitrary: m' rule: createPath.induct)
    (auto simp: update_conv' map_sum_def split: option.splits json.splits sum.splits)

lemma map_Key_butlast_last: "path \<noteq> [] \<Longrightarrow> map Key path = map Key (butlast path) @ [Key (last path)]"
  by (metis append_butlast_last_id list.simps(8) list.simps(9) map_append)

lemma setSlice_get:
  assumes "setSlice obj rs path = Ok obj'"
  shows "get_at (map Key path) (JObj obj') = Some (JMaps rs)"
proof -
  let ?f = "AList.update (last path) (JMaps rs)"
  have ne: "path \<noteq> []" using assms by (auto simp: setSlice_def)
  have "\<exists>x. get_at (map Key (butlast path)) (JObj obj') = Some (JObj (?f x))"
  proof (cases "length path > 1")
    case True
    from assms ne True consider
      (new) "createPath [] obj (butlast path) ?f = Inr obj'"
    | (old) x where "get_at (map Key (butlast path)) (JObj obj) = Some (JObj x)"
        "obj' = fields_of (upd_obj_at (map Key (butlast path)) ?f (JObj obj))"
      by (auto simp: setSlice_def Let_def NestedField_Some_iff
          split: sum.splits option.splits json.splits)
    then show ?thesis
      by cases (use createPath_get in \<open>auto simp: get_at_upd_same\<close>)
  next
    case False
    with ne have "butlast path = []" by (cases path rule: rev_cases) auto
    with assms ne False show ?thesis by (auto simp: setSlice_def Let_def)
  qed
  then show ?thesis
    using ne by (auto simp: map_Key_butlast_last get_at_append update_conv')
qed

lemma get_at_Key_Some: "get_at (Key k # p) j = Some w \<Longrightarrow> \<exists>m. j = JObj m"
  by (cases j) auto

lemma setSlice_found:
  assumes "NestedFieldNoCopy obj path = Inr (Some w)" and "path \<noteq> []"
  shows "\<exists>obj'. setSlice obj rs path = Ok obj'"
proof -
  from assms obtain x where "get_at (map Key (butlast path)) (JObj obj) = Some (JObj x)"
    by (auto simp: NestedField_Some_iff map_Key_butlast_last get_at_append
        split: option.splits dest: get_at_Key_Some)
  then have "NestedFieldNoCopy obj (butlast path) = Inr (Some (JObj x))"
    by (simp add: NestedField_Some_iff)
  with assms(2) show ?thesis by (auto simp: setSlice_def Let_def)
qed

lemma createPath_frame:
  assumes "createPath d m ps (AList.update l v) = Inr m'" and "ps @ [l] = r @ a # p"
    and "Key a \<noteq> b"
  shows "get_at (map Key r @ b # q) (JObj m') = get_at (map Key r @ b # q) (JObj m)"
  using assms
proof (induction ps arbitrary: d m m' r)
  case Nil
  then show ?case by (cases r) (auto simp: get_at_Cons_update)
next
  case (Cons x ps)
  have "\<exists>m1 m2. createPath (d @ [x]) m1 ps (AList.update l v) = Inr m2
      \<and> m' = AList.update x (JObj m2) m
      \<and> (map_of m x = Some (JObj m1) \<or> map_of m x = None \<and> m1 = [])"
    using Cons.prems(1) by (auto simp: map_sum_def split: option.splits json.splits sum.splits)
  then show ?case
    using Cons.IH Cons.prems(2,3)
    by (cases r) (auto simp: get_at_Cons_update, (fastforce simp: update_conv')+)
qed

text \<open>A slice assignment is invisible at every location that forks off the path.\<close>

lemma setSlice_frame:
  assumes "setSlice obj rs path = Ok obj'" and "path = r @ a # p" and "Key a \<noteq> b"
  shows "get_at (map Key r @ b # q) (JObj obj') = get_at (map Key r @ b # q) (JObj obj)"
proof (cases "length path > 1")
  case True
  let ?f = "AList.update (last path) (JMaps rs)"
  have ne: "path \<noteq> []" using assms by (auto simp: setSlice_def)
  from assms(1) ne True consider
    (new) "createPath [] obj (butlast path) ?f = Inr obj'"
  | (old) "obj' = fields_of (upd_obj_at (map Key (butlast path)) ?f (JObj obj))"
    by (auto simp: setSlice_def Let_def split: sum.splits option.splits json.splits)
  then show ?thesis
  proof cases
    case new
    from ne assms(2) have "butlast path @ [last path] = r @ a # p"
      by (metis append_butlast_last_id)
    from createPath_frame [OF new this assms(3)] show ?thesis .
  next
    case old
    show ?thesis
    proof (cases p rule: rev_cases)
      case Nil
      with assms(2) have pre: "butlast path = r" and l: "last path = a" by auto
      show ?thesis
      proof (cases "get_at (map Key r) (JObj obj)")
        case None
        then show ?thesis
          using old pre by (simp add: get_at_append upd_obj_at_None)
      next
        case (Some j)
        then show ?thesis
          using old pre l assms(3)
          by (cases j) (auto simp: get_at_append get_at_upd_same get_at_Cons_update
              upd_obj_at_no_obj)
      qed
    next
      case (snoc p' z)
      with assms(2) have pre: "butlast path = r @ a # p'" by (simp add: butlast_append)
      show ?thesis
        using old pre assms(3) by (simp add: get_at_upd_other)
    qed
  qed
next
  case False
  with assms show ?thesis
    by (cases r) (auto simp: setSlice_def get_at_Cons_update split: if_splits)
qed

lemma setSlice_top [simp]: "setSlice obj rs [f] = Ok (AList.update f (JMaps rs) obj)"
  by (simp add: setSlice_def)

subsection \<open>\<open>setSlice\<close> against its reference\<close>

lemma createPath_putSlice:
  "createPath d m ps (AList.update l (JMaps rs)) = Inr m' \<longleftrightarrow> putSlice (ps @ [l]) rs m = Some m'"
proof (induction ps arbitrary: d m m')
  case (Cons p ps)
  obtain y ys where ys: "ps @ [l] = y # ys" by (cases ps) auto
  have sum: "map_sum id h s = Inr z \<longleftrightarrow> (\<exists>w. s = Inr w \<and> z = h w)" for h s z
    by (cases s) auto
  show ?case
    using Cons.IH
    by (auto simp: ys sum split: option.splits json.splits)
qed auto

lemma putSlice_existing:
  "get_at (map Key ps) (JObj m) = Some (JObj x) \<Longrightarrow>
     putSlice (ps @ [l]) rs m
       = Some (fields_of (upd_obj_at (map Key ps) (AList.update l (JMaps rs)) (JObj m)))"
proof (induction ps arbitrary: m)
  case (Cons p ps)
  obtain y ys where ys: "ps @ [l] = y # ys" by (cases ps) auto
  from Cons.prems obtain j where j: "map_of m p = Some j" "get_at (map Key ps) j = Some (JObj x)"
    by (auto split: option.splits)
  then obtain m1 where "j = JObj m1"
    by (cases ps) (auto dest: get_at_Key_Some)
  with j Cons.IH [of m1] show ?case by (simp add: ys)
qed simp

lemma putSlice_blocked:
  "nestedWalk d (JObj m) ps = Inl e \<Longrightarrow> putSlice (ps @ [l]) rs m = None"
proof (induction ps arbitrary: d m)
  case (Cons p ps)
  obtain y ys where ys: "ps @ [l] = y # ys" by (cases ps) auto
  show ?case
    using Cons by (cases ps) (auto simp: ys split: option.splits json.splits)
qed simp

lemma putSlice_not_obj:
  "get_at (map Key ps) (JObj m) = Some w \<Longrightarrow> \<forall>x. w \<noteq> JObj x \<Longrightarrow> putSlice (ps @ [l]) rs m = None"
proof (induction ps arbitrary: m)
  case (Cons p ps)
  obtain y ys where ys: "ps @ [l] = y # ys" by (cases ps) auto
  show ?case
    using Cons by (auto simp: ys split: option.splits json.splits)
qed auto

lemma setSlice_iff: "setSlice obj rs path = Ok obj' \<longleftrightarrow> putSlice path rs obj = Some obj'"
proof (cases "length path > 1")
  case True
  then have path: "path = butlast path @ [last path]" by (cases path rule: rev_cases) auto
  note put = createPath_putSlice [where ps = "butlast path" and l = "last path", folded path]
    putSlice_existing [where ps = "butlast path" and l = "last path", folded path]
    putSlice_blocked [where ps = "butlast path" and l = "last path", folded path]
    putSlice_not_obj [where ps = "butlast path" and l = "last path", folded path]
  show ?thesis
  proof (cases "NestedFieldNoCopy obj (butlast path)")
    case (Inl e)
    with True put(3) show ?thesis by (auto simp: setSlice_def Let_def NestedFieldNoCopy_def)
  next
    case (Inr r)
    show ?thesis
    proof (cases r)
      case None
      with True Inr show ?thesis
        by (auto simp: setSlice_def Let_def put(1) [of "[]", symmetric] split: sum.splits)
    next
      case (Some w)
      with Inr have w: "get_at (map Key (butlast path)) (JObj obj) = Some w"
        by (simp add: NestedField_Some_iff)
      show ?thesis
        using True Inr Some w put(2,4) by (cases w) (auto simp: setSlice_def Let_def)
    qed
  qed
next
  case False
  then show ?thesis by (cases path) (auto simp: setSlice_def)
qed

lemma putSlice_any: "putSlice path rs d \<noteq> None \<longleftrightarrow> putSlice path rs' d \<noteq> None"
  by (induction path rs d rule: putSlice.induct) (auto split: option.splits json.splits)

lemma editable_put:
  assumes "editable conv k path d"
  obtains d' where "setSlice d rs path = Ok d'"
  using assms putSlice_any [of path rs d "[]"] by (auto simp: editable_def setSlice_iff)

subsection \<open>Assignments at one path do not show at another\<close>

lemma touches_put [intro]: "putSlice path rs d = Some d' \<Longrightarrow> touches path d d'"
  by (auto intro: touches.put)

lemma touches_trans [trans]: "touches path d d' \<Longrightarrow> touches path d' d'' \<Longrightarrow> touches path d d''"
  by (rotate_tac, induction rule: touches.induct) (auto intro: touches.put)

lemma forks_sym: "forks p q \<longleftrightarrow> forks q p"
  by (induction p q rule: forks.induct) auto

lemma forksE:
  assumes "forks p q"
  obtains r a b p' q' where "p = r @ a # p'" "q = r @ b # q'" "a \<noteq> b"
proof -
  have "\<exists>r a b p' q'. p = r @ a # p' \<and> q = r @ b # q' \<and> a \<noteq> b"
    using assms
  proof (induction p q rule: forks.induct)
    case (1 a p b q)
    show ?case
    proof (cases "a = b")
      case True
      with 1 obtain r x y p' q' where "p = r @ x # p'" "q = r @ y # q'" "x \<noteq> y" by auto
      with True show ?thesis by (metis append_Cons)
    next
      case False
      then show ?thesis by (metis append_Nil)
    qed
  qed auto
  with that show thesis by blast
qed

lemma get_at_upd_fork [nested_simps]: "forks p q \<Longrightarrow> get_at q (upd_obj_at p f j) = get_at q j"
  by (erule forksE) (simp add: get_at_upd_other)

lemma putSlice_empty: "putSlice fs us [] = None \<longleftrightarrow> fs = []"
  by (induction fs us "[] :: fields" rule: putSlice.induct) auto

lemma putSlice_Cons_None:
  "putSlice (g # fs) us m = None \<longleftrightarrow>
     fs \<noteq> [] \<and> (case map_of m g of
        None \<Rightarrow> False | Some (JObj m1) \<Rightarrow> putSlice fs us m1 = None | Some _ \<Rightarrow> True)"
  by (cases fs) (auto simp: putSlice_empty split: option.splits json.splits)

lemma putSlice_fork:
  assumes "putSlice p rs m = Some m'" and "forks p q"
  shows "nestedWalk d (JObj m') q = nestedWalk d (JObj m) q"
    and "putSlice q us m' = None \<longleftrightarrow> putSlice q us m = None"
proof -
  have "nestedWalk d (JObj m') q = nestedWalk d (JObj m) q
      \<and> (putSlice q us m' = None \<longleftrightarrow> putSlice q us m = None)"
    using assms
  proof (induction p rs m arbitrary: q d m' rule: putSlice.induct)
    case (2 f rs m)
    then obtain g q' where "q = g # q'" "g \<noteq> f" by (cases q) auto
    with 2 show ?case by (auto simp: putSlice_Cons_None update_conv')
  next
    case (3 f g fs rs m)
    obtain h q' where q: "q = h # q'" using 3(4) by (cases q) auto
    obtain m1 m2 where m2: "putSlice (g # fs) rs m1 = Some m2" "m' = AList.update f (JObj m2) m"
      and m1: "map_of m f = Some (JObj m1) \<or> map_of m f = None \<and> m1 = []"
      using 3(3) by (auto split: option.splits json.splits)
    show ?case
    proof (cases "h = f")
      case False
      with q m2 show ?thesis by (simp add: putSlice_Cons_None update_conv')
    next
      case True
      with 3(4) q have fork: "forks (g # fs) q'" by simp
      then have q': "q' \<noteq> []" by (cases q') auto
      have IH: "nestedWalk e (JObj m2) q' = nestedWalk e (JObj m1) q'
          \<and> (putSlice q' us m2 = None \<longleftrightarrow> putSlice q' us m1 = None)" for e
        using m1 m2(1) fork 3(1,2) by auto
      have "nestedWalk e (JObj []) q' = Inr None" for e using q' by (cases q') auto
      with IH m1 m2 q q' True show ?thesis
        by (auto simp: putSlice_Cons_None putSlice_empty update_conv')
    qed
  qed auto
  then show "nestedWalk d (JObj m') q = nestedWalk d (JObj m) q"
    and "putSlice q us m' = None \<longleftrightarrow> putSlice q us m = None" by auto
qed

lemma touches_fork:
  assumes "touches p d d'" and "forks p q"
  shows "NestedFieldNoCopy d' q = NestedFieldNoCopy d q"
    and "editable conv k q d' = editable conv k q d"
    and "slice_of conv k q d' = slice_of conv k q d"
proof -
  have "NestedFieldNoCopy d' q = NestedFieldNoCopy d q
      \<and> (putSlice q [] d' = None \<longleftrightarrow> putSlice q [] d = None)"
    using assms
    by (induction rule: touches.induct) (auto simp: NestedFieldNoCopy_def putSlice_fork)
  then show "NestedFieldNoCopy d' q = NestedFieldNoCopy d q"
    and "editable conv k q d' = editable conv k q d"
    and "slice_of conv k q d' = slice_of conv k q d"
    by (auto simp: editable_def slice_of_def NestedResources_def)
qed

subsection \<open>The interface\<close>

text \<open>
  What the editors of containers and pod specifications rely on: a slice of resources can
  be read, and replaced as a whole. \<open>accepts\<close> is the test a resource passes to be read
  back as its type.
\<close>

locale slice_store =
  fixes load :: "'d \<Rightarrow> go_error + 'r list option"
    and store :: "'d \<Rightarrow> 'r list \<Rightarrow> 'd go"
    and accepts :: "'r \<Rightarrow> bool"
  assumes load_store: "store d rs = Ok d' \<Longrightarrow> list_all accepts rs \<Longrightarrow> load d' = Inr (Some rs)"
    and load_accepts: "load d = Inr (Some rs) \<Longrightarrow> list_all accepts rs"
    and store_found: "load d = Inr (Some rs) \<Longrightarrow> \<exists>d'. store d rs' = Ok d'"
begin

lemma store_sublist:
  assumes "load d = Inr (Some rs)" and "set rs' \<subseteq> set rs"
  shows "\<exists>d'. store d rs' = Ok d' \<and> load d' = Inr (Some rs')"
proof -
  have "list_all accepts rs'"
    using load_accepts [OF assms(1)] assms(2) by (auto simp: list_all_iff)
  with store_found [OF assms(1), of rs'] show ?thesis by (auto intro: load_store)
qed

lemma store_remove_first:
  assumes "load d = Inr (Some rs)"
  shows "\<exists>d'. store d (remove_first P rs) = Ok d' \<and> load d' = Inr (Some (remove_first P rs))"
  using assms set_remove_first_subset by (rule store_sublist)

lemma store_append:
  assumes "load d = Inr (Some rs)" and "list_all accepts us"
  shows "\<exists>d'. store d (rs @ us) = Ok d' \<and> load d' = Inr (Some (rs @ us))"
proof -
  have "list_all accepts (rs @ us)"
    using load_accepts [OF assms(1)] assms(2) by simp
  with store_found [OF assms(1), of "rs @ us"] show ?thesis by (blast intro: load_store)
qed

lemma store_upsert:
  assumes "load d = Inr (Some rs)" and "accepts u"
  shows "\<exists>d'. store d (upsert P u rs) = Ok d' \<and> load d' = Inr (Some (upsert P u rs))"
proof -
  have "list_all accepts (upsert P u rs)"
    using load_accepts [OF assms(1)] assms(2) by (auto simp: list_all_iff upsert_def)
  with store_found [OF assms(1), of "upsert P u rs"] show ?thesis by (auto intro: load_store)
qed

end

interpretation nested: slice_store
  "\<lambda>d. NestedResources conv k d path"
  "\<lambda>d rs. setSlice d rs path"
  "\<lambda>m. conv k m = None"
  for conv k path
proof unfold_locales
  fix d rs d'
  assume "setSlice d rs path = Ok d'" and ok: "list_all (\<lambda>m. conv k m = None) rs"
  then have "NestedFieldNoCopy d' path = Inr (Some (JMaps rs))"
    by (simp add: NestedField_Some_iff setSlice_get)
  with ok show "NestedResources conv k d' path = Inr (Some rs)"
    by (simp add: NestedResources_def list_all_iff convMaps_Inr [THEN iffD2])
next
  fix d rs
  assume "NestedResources conv k d path = Inr (Some rs)"
  then show "list_all (\<lambda>m. conv k m = None) rs"
    by (auto simp: list_all_iff NestedResources_accepts)
next
  fix d rs rs'
  assume found: "NestedResources conv k d path = Inr (Some rs)"
  then have "path \<noteq> []"
    by (auto simp: NestedResources_def NestedFieldNoCopy_def)
  with found show "\<exists>d'. setSlice d rs' path = Ok d'"
    by (auto simp: NestedResources_def setSlice_found
        split: sum.splits option.splits json.splits)
qed

end
