(* ===== verification/Workload.thy ===== *)
theory Workload
  imports Unstructured
begin

text \<open>
  Editing of workload resources: \<open>pkg/reconcile/pipeline/mapping.go\<close> (the mapping of a
  workload onto container-like fragments, and the editors of \<open>MetaContainer\<close> and
  \<open>MetaPodSpec\<close>) and \<open>pkg/reconcile/pipeline/context/application.go\<close> (an
  application and its bindable containers).

  A \<open>MetaContainer\<close> holds a reference \<open>Data\<close> to a map inside the application's
  resource. Here \<open>mc_Data\<close> is the location of that map, and an editor is a function on the
  map found there: it returns the new map together with its outcome, because several
  editors change the map before they report an error.

  The JSONPath library is a parameter \<open>jp\<close>: its parser, its evaluation on an object
  (a value found in the object comes with its location) and its printer.
\<close>

section \<open>JSONPath\<close>

datatype jpnode =
    NodeText string
  | NodeArray "(int \<times> bool \<times> bool) list"
  | NodeList "jpnode list"
  | NodeField string
  | NodeIdentifier string
  | NodeFilter jpnode jpnode string
  | NodeInt int
  | NodeFloat string
  | NodeWildcard
  | NodeRecursive
  | NodeUnion "jpnode list"
  | NodeBool bool

text \<open>A result of an evaluation: a reference into the object, or a computed scalar.\<close>

datatype rv = RRef loc json | RVal json

fun rv_Interface :: "rv \<Rightarrow> json" where
  "rv_Interface (RRef l v) = v"
| "rv_Interface (RVal v) = v"

record jsonpath =
  jp_Parse :: "string \<Rightarrow> go_error + jpnode"
  jp_FindResults :: "string \<Rightarrow> fields \<Rightarrow> go_error + rv list list"
  jp_PrintResults :: "rv list \<Rightarrow> go_error + string"

section \<open>Mapping templates\<close>

record mapping_container =
  mpc_Path :: string
  mpc_Name :: string
  mpc_Env :: string
  mpc_VolumeMounts :: string

record mapping_template =
  mpt_Version :: string
  mpt_Annotations :: string
  mpt_Containers :: "mapping_container list"
  mpt_Volumes :: string

definition DefaultTemplate :: mapping_template where
  "DefaultTemplate =
     \<lparr>mpt_Version = ''*'',
      mpt_Annotations = ''.spec.template.spec.annotations'',
      mpt_Containers =
        [\<lparr>mpc_Path = ''.spec.template.spec.containers[*]'', mpc_Name = ''.name'',
          mpc_Env = ''.env'', mpc_VolumeMounts = ''.volumeMounts''\<rparr>,
         \<lparr>mpc_Path = ''.spec.template.spec.initContainers[*]'', mpc_Name = ''.name'',
          mpc_Env = ''.env'', mpc_VolumeMounts = ''.volumeMounts''\<rparr>],
      mpt_Volumes = ''.spec.template.spec.volumes''\<rparr>"

record workload_container =
  wc_Path :: string
  wc_Name :: "string list"
  wc_Env :: "string list"
  wc_EnvFrom :: "string list"
  wc_VolumeMounts :: "string list"

record workload_mapping =
  wm_Containers :: "workload_container list"
  wm_Volume :: "string list"

definition braced :: "string \<Rightarrow> string" where
  "braced p = ''{'' @ p @ ''}''"

fun verifyJsonPath :: "jpnode \<Rightarrow> go_error + string list"
  and verifyJsonPaths :: "jpnode list \<Rightarrow> go_error + string list" where
  "verifyJsonPath (NodeField f) = Inr [f]"
| "verifyJsonPath (NodeList ns) = verifyJsonPaths ns"
| "verifyJsonPath n =
     Inl (errNew ''Node type %q not allowed in restricted JSONPath contexts'')"
| "verifyJsonPaths [] = Inr []"
| "verifyJsonPaths (n # ns) =
     (case verifyJsonPath n of
        Inl e \<Rightarrow> Inl e
      | Inr nested \<Rightarrow>
          (case verifyJsonPaths ns of Inl e \<Rightarrow> Inl e | Inr paths \<Rightarrow> Inr (nested @ paths)))"

definition isValidRestrictedJsonPath :: "jsonpath \<Rightarrow> string \<Rightarrow> go_error + string list" where
  "isValidRestrictedJsonPath jp path =
     (case jp_Parse jp (braced path) of
        Inl e \<Rightarrow> Inl e
      | Inr root \<Rightarrow> verifyJsonPath root)"

definition constructRestrictedPath ::
  "jsonpath \<Rightarrow> string \<Rightarrow> string list \<Rightarrow> go_error + string list" where
  "constructRestrictedPath jp val defaultValue =
     (if val \<noteq> '''' then isValidRestrictedJsonPath jp val else Inr defaultValue)"

definition workloadContainer :: "jsonpath \<Rightarrow> mapping_container \<Rightarrow> go_error + workload_container" where
  "workloadContainer jp c =
     (case constructRestrictedPath jp (mpc_Name c) [''name''] of
        Inl e \<Rightarrow> Inl e
      | Inr name \<Rightarrow>
     (case constructRestrictedPath jp (mpc_Env c) [''env''] of
        Inl e \<Rightarrow> Inl e
      | Inr env \<Rightarrow>
     (case constructRestrictedPath jp (mpc_VolumeMounts c) [''volumeMounts''] of
        Inl e \<Rightarrow> Inl e
      | Inr mounts \<Rightarrow>
     (case jp_Parse jp (braced (mpc_Path c)) of
        Inl e \<Rightarrow> Inl (Wrapf ''Error in parsing JSONPath expression %v: %v''
                   [JStr (braced (mpc_Path c))] e)
      | Inr _ \<Rightarrow>
          Inr \<lparr>wc_Path = braced (mpc_Path c), wc_Name = name, wc_Env = env,
               wc_EnvFrom = [''envFrom''], wc_VolumeMounts = mounts\<rparr>))))"

fun workloadContainers ::
  "jsonpath \<Rightarrow> mapping_container list \<Rightarrow> go_error + workload_container list" where
  "workloadContainers jp [] = Inr []"
| "workloadContainers jp (c # cs) =
     (case workloadContainer jp c of
        Inl e \<Rightarrow> Inl e
      | Inr wc \<Rightarrow>
          (case workloadContainers jp cs of Inl e \<Rightarrow> Inl e | Inr wcs \<Rightarrow> Inr (wc # wcs)))"

definition FromWorkloadResourceMappingTemplate ::
  "jsonpath \<Rightarrow> mapping_template \<Rightarrow> go_error + workload_mapping" where
  "FromWorkloadResourceMappingTemplate jp m =
     (case workloadContainers jp (mpt_Containers m) of
        Inl e \<Rightarrow> Inl e
      | Inr containers \<Rightarrow>
          (case constructRestrictedPath jp (mpt_Volumes m)
                  [''spec'', ''template'', ''spec'', ''volumes''] of
             Inl e \<Rightarrow> Inl e
           | Inr volume \<Rightarrow> Inr \<lparr>wm_Containers = containers, wm_Volume = volume\<rparr>))"

section \<open>Containers and pod specifications\<close>

record meta_container =
  mc_Name :: string
  mc_Env :: "string list"
  mc_EnvFrom :: "string list"
  mc_VolumeMount :: "string list"
  mc_Data :: loc

record meta_pod_spec =
  mp_Containers :: "meta_container list"
  mp_Volume :: "string list"

type_synonym edit = "fields \<times> unit go"

record env_var =
  ev_Name :: string
  ev_Value :: string
  ev_SecretKeyRef :: "(string \<times> string) option"

text \<open>
  \<open>DefaultUnstructuredConverter.ToUnstructured\<close> on the values the operator builds; fields
  marked \<open>omitempty\<close> are dropped when they are empty.
\<close>

definition omitempty :: "string \<Rightarrow> string \<Rightarrow> fields" where
  "omitempty k s = (if s = '''' then [] else [(k, JStr s)])"

definition EnvVar_ToUnstructured :: "env_var \<Rightarrow> fields" where
  "EnvVar_ToUnstructured v =
     [(''name'', JStr (ev_Name v))] @ omitempty ''value'' (ev_Value v) @
     (case ev_SecretKeyRef v of
        None \<Rightarrow> []
      | Some (secret, key) \<Rightarrow>
          [(''valueFrom'', JObj [(''secretKeyRef'',
              JObj (omitempty ''name'' secret @ [(''key'', JStr key)]))])])"

definition EnvFromSource_ToUnstructured :: "string \<Rightarrow> fields" where
  "EnvFromSource_ToUnstructured secret = [(''secretRef'', JObj (omitempty ''name'' secret))]"

definition VolumeMount_ToUnstructured :: "string \<Rightarrow> string \<Rightarrow> fields" where
  "VolumeMount_ToUnstructured name mountPath =
     [(''name'', JStr name), (''mountPath'', JStr mountPath)]"

definition Volume_ToUnstructured :: "string \<Rightarrow> string \<Rightarrow> fields" where
  "Volume_ToUnstructured name secret =
     [(''name'', JStr name), (''secret'', JObj (omitempty ''secretName'' secret))]"

text \<open>The string field of a typed value that was converted without error.\<close>

definition decoded :: "string \<Rightarrow> fields \<Rightarrow> string" where
  "decoded k m = (case map_of m k of Some (JStr s) \<Rightarrow> s | _ \<Rightarrow> '''')"

definition assignSlice :: "fields \<Rightarrow> fields list \<Rightarrow> string list \<Rightarrow> edit" where
  "assignSlice d rs path =
     (case setSlice d rs path of
        Ok d' \<Rightarrow> (d', Ok ()) | Err e \<Rightarrow> (d, Err e) | Panic s \<Rightarrow> (d, Panic s))"

definition bindingRootEnvVar :: string where
  "bindingRootEnvVar = ''SERVICE_BINDING_ROOT''"

definition bindingRoot :: string where
  "bindingRoot = ''/bindings''"

fun findRoot :: "converter \<Rightarrow> fields list \<Rightarrow> string option" where
  "findRoot conv [] = None"
| "findRoot conv (e # es) =
     (if conv EnvVarK e = None \<and> decoded ''name'' e = bindingRootEnvVar
      then Some (decoded ''value'' e) else findRoot conv es)"

definition MountPath ::
  "converter \<Rightarrow> meta_container \<Rightarrow> string \<Rightarrow> fields \<Rightarrow> fields \<times> string go" where
  "MountPath conv c bindingName d =
     (case NestedResources conv EnvVarK d (mc_Env c) of
        Inl e \<Rightarrow> (d, Err e)
      | Inr res \<Rightarrow>
          (case (case res of None \<Rightarrow> None | Some envs \<Rightarrow> findRoot conv envs) of
             Some root \<Rightarrow> (d, Ok (pathJoin root bindingName))
           | None \<Rightarrow>
               let u = EnvVar_ToUnstructured
                         \<lparr>ev_Name = bindingRootEnvVar, ev_Value = bindingRoot,
                          ev_SecretKeyRef = None\<rparr>;
                   envs = (case res of None \<Rightarrow> [u] | Some envs \<Rightarrow> envs @ [u])
               in case assignSlice d envs (mc_Env c) of
                    (d', Ok _) \<Rightarrow> (d', Ok (pathJoin bindingRoot bindingName))
                  | (d', Err e) \<Rightarrow> (d', Err e)
                  | (d', Panic s) \<Rightarrow> (d', Panic s)))"

definition addRaw ::
  "converter \<Rightarrow> fields \<Rightarrow> rkind \<Rightarrow> fields list \<Rightarrow> string list \<Rightarrow> edit" where
  "addRaw conv d k new path =
     (case NestedResources conv k d path of
        Inl e \<Rightarrow> (d, Err e)
      | Inr None \<Rightarrow> assignSlice d new path
      | Inr (Some nested) \<Rightarrow> assignSlice d (nested @ new) path)"

definition named :: "string list \<Rightarrow> string \<Rightarrow> fields \<Rightarrow> bool" where
  "named path name m = (NestedString m path = Inr (Some name))"

definition removeFirst ::
  "converter \<Rightarrow> rkind \<Rightarrow> (fields \<Rightarrow> bool) \<Rightarrow> string list \<Rightarrow> fields \<Rightarrow> edit" where
  "removeFirst conv k P path d =
     (case NestedResources conv k d path of
        Inl e \<Rightarrow> (d, Err e)
      | Inr None \<Rightarrow> (d, Ok ())
      | Inr (Some rs) \<Rightarrow>
          if list_ex P rs then assignSlice d (remove_first P rs) path else (d, Ok ()))"

definition RemoveEnvVars :: "converter \<Rightarrow> meta_container \<Rightarrow> string \<Rightarrow> fields \<Rightarrow> edit" where
  "RemoveEnvVars conv c name d = removeFirst conv EnvVarK (named [''name''] name) (mc_Env c) d"

fun removeEnvs :: "converter \<Rightarrow> meta_container \<Rightarrow> env_var list \<Rightarrow> fields \<Rightarrow> edit" where
  "removeEnvs conv c [] d = (d, Ok ())"
| "removeEnvs conv c (v # vs) d =
     (case RemoveEnvVars conv c (ev_Name v) d of
        (d', Panic s) \<Rightarrow> (d', Panic s)
      | (d', _) \<Rightarrow> removeEnvs conv c vs d')"

definition AddEnvVars :: "converter \<Rightarrow> meta_container \<Rightarrow> env_var list \<Rightarrow> fields \<Rightarrow> edit" where
  "AddEnvVars conv c vars d =
     (case removeEnvs conv c vars d of
        (d', Panic s) \<Rightarrow> (d', Panic s)
      | (d', _) \<Rightarrow> addRaw conv d' EnvVarK (map EnvVar_ToUnstructured vars) (mc_Env c))"

definition RemoveEnvFromVars :: "converter \<Rightarrow> meta_container \<Rightarrow> string \<Rightarrow> fields \<Rightarrow> edit" where
  "RemoveEnvFromVars conv c secretName d =
     removeFirst conv EnvFromSourceK (named [''secretRef'', ''name''] secretName) (mc_EnvFrom c) d"

definition AddEnvFromVar :: "converter \<Rightarrow> meta_container \<Rightarrow> string \<Rightarrow> fields \<Rightarrow> edit" where
  "AddEnvFromVar conv c secretName d =
     (if mc_EnvFrom c \<noteq> [] then
        (case RemoveEnvFromVars conv c secretName d of
           (d', Panic s) \<Rightarrow> (d', Panic s)
         | (d', _) \<Rightarrow>
             addRaw conv d' EnvFromSourceK [EnvFromSource_ToUnstructured secretName] (mc_EnvFrom c))
      else (d, Err (errNew ''No envFrom field'')))"

fun mountLoop ::
  "converter \<Rightarrow> string \<Rightarrow> fields \<Rightarrow> fields list \<Rightarrow> go_error + bool \<times> fields list" where
  "mountLoop conv name u [] = Inr (False, [])"
| "mountLoop conv name u (vol # vols) =
     (case conv VolumeMountK vol of
        Some e \<Rightarrow> Inl e
      | None \<Rightarrow>
          (case mountLoop conv name u vols of
             Inl e \<Rightarrow> Inl e
           | Inr (exist, new) \<Rightarrow>
               if decoded ''name'' vol = name then Inr (True, u # new)
               else Inr (exist, vol # new)))"

definition AddVolumeMount ::
  "converter \<Rightarrow> meta_container \<Rightarrow> string \<Rightarrow> string \<Rightarrow> fields \<Rightarrow> edit" where
  "AddVolumeMount conv c name mountPath d =
     (let u = VolumeMount_ToUnstructured name mountPath in
      case NestedResources conv VolumeMountK d (mc_VolumeMount c) of
        Inl e \<Rightarrow> (d, Err e)
      | Inr None \<Rightarrow> assignSlice d [u] (mc_VolumeMount c)
      | Inr (Some volumes) \<Rightarrow>
          (case mountLoop conv name u volumes of
             Inl e \<Rightarrow> (d, Err e)
           | Inr (exist, new) \<Rightarrow>
               assignSlice d (if exist then new else new @ [u]) (mc_VolumeMount c)))"

definition RemoveVolumeMount :: "converter \<Rightarrow> meta_container \<Rightarrow> string \<Rightarrow> fields \<Rightarrow> edit" where
  "RemoveVolumeMount conv c name d =
     removeFirst conv VolumeMountK
       (\<lambda>vm. conv VolumeMountK vm = None \<and> decoded ''name'' vm = name) (mc_VolumeMount c) d"

definition AddVolume ::
  "converter \<Rightarrow> meta_pod_spec \<Rightarrow> string \<Rightarrow> string \<Rightarrow> fields \<Rightarrow> edit" where
  "AddVolume conv t name secretName d =
     (let u = Volume_ToUnstructured name secretName in
      case NestedResources conv VolumeK d (mp_Volume t) of
        Inl e \<Rightarrow> (d, Err e)
      | Inr None \<Rightarrow> assignSlice d [u] (mp_Volume t)
      | Inr (Some volumes) \<Rightarrow>
          assignSlice d (upsert (\<lambda>vol. map_of vol ''name'' = Some (JStr name)) u volumes)
            (mp_Volume t))"

definition RemoveVolume :: "converter \<Rightarrow> meta_pod_spec \<Rightarrow> string \<Rightarrow> fields \<Rightarrow> edit" where
  "RemoveVolume conv t name d = removeFirst conv VolumeK (named [''name''] name) (mp_Volume t) d"

section \<open>What an edit achieves\<close>

text \<open>
  An edit of the slice at \<open>path\<close> that succeeds, leaves the resources \<open>rs\<close> in it, keeps
  it editable and assigns nowhere else.
\<close>

definition edited ::
  "converter \<Rightarrow> rkind \<Rightarrow> string list \<Rightarrow> fields \<Rightarrow> fields list \<Rightarrow> edit \<Rightarrow> bool" where
  "edited conv k path d rs e =
     (snd e = Ok () \<and> editable conv k path (fst e) \<and> slice_of conv k path (fst e) = rs
      \<and> touches path d (fst e))"

text \<open>
  What the editors rely on of the converter: it reads back the resources it wrote. This is
  the documented round trip of \<open>ToUnstructured\<close> and \<open>FromUnstructured\<close>.
\<close>

definition reads_back :: "converter \<Rightarrow> bool" where
  "reads_back conv =
     ((\<forall>v. conv EnvVarK (EnvVar_ToUnstructured v) = None)
      \<and> (\<forall>s. conv EnvFromSourceK (EnvFromSource_ToUnstructured s) = None)
      \<and> (\<forall>n p. conv VolumeMountK (VolumeMount_ToUnstructured n p) = None)
      \<and> (\<forall>n s. conv VolumeK (Volume_ToUnstructured n s) = None))"

text \<open>A converter that has this law: it checks the type of the field that names a resource.\<close>

definition nameConv :: converter where
  "nameConv k m =
     (case map_of m (if k = EnvFromSourceK then ''secretRef'' else ''name'') of
        None \<Rightarrow> None
      | Some JNull \<Rightarrow> None
      | Some (JStr _) \<Rightarrow> if k = EnvFromSourceK then Some (errNew ''cannot restore struct'') else None
      | Some (JObj _) \<Rightarrow> if k = EnvFromSourceK then None else Some (errNew ''cannot convert'')
      | Some _ \<Rightarrow> Some (errNew ''cannot convert''))"

text \<open>The test of each editor for the resource it replaces or removes.\<close>

abbreviation env_named :: "string \<Rightarrow> fields \<Rightarrow> bool" where
  "env_named n \<equiv> named [''name''] n"

abbreviation from_secret :: "string \<Rightarrow> fields \<Rightarrow> bool" where
  "from_secret n \<equiv> named [''secretRef'', ''name''] n"

abbreviation mount_named :: "string \<Rightarrow> fields \<Rightarrow> bool" where
  "mount_named n \<equiv> \<lambda>m. decoded ''name'' m = n"

abbreviation volume_named :: "string \<Rightarrow> fields \<Rightarrow> bool" where
  "volume_named n \<equiv> \<lambda>m. map_of m ''name'' = Some (JStr n)"

definition drop_envs :: "string list \<Rightarrow> fields list \<Rightarrow> fields list" where
  "drop_envs ns rs = fold (\<lambda>n. remove_first (env_named n)) ns rs"

text \<open>The slices of a container: all can be edited, and no path leads through another.\<close>

definition container_ok :: "converter \<Rightarrow> meta_container \<Rightarrow> fields \<Rightarrow> bool" where
  "container_ok conv c d =
     (editable conv EnvVarK (mc_Env c) d \<and> editable conv EnvFromSourceK (mc_EnvFrom c) d
      \<and> editable conv VolumeMountK (mc_VolumeMount c) d
      \<and> forks (mc_Env c) (mc_EnvFrom c) \<and> forks (mc_Env c) (mc_VolumeMount c)
      \<and> forks (mc_EnvFrom c) (mc_VolumeMount c))"

abbreviation env_slice :: "converter \<Rightarrow> meta_container \<Rightarrow> fields \<Rightarrow> fields list" where
  "env_slice conv c \<equiv> slice_of conv EnvVarK (mc_Env c)"

abbreviation from_slice :: "converter \<Rightarrow> meta_container \<Rightarrow> fields \<Rightarrow> fields list" where
  "from_slice conv c \<equiv> slice_of conv EnvFromSourceK (mc_EnvFrom c)"

abbreviation mount_slice :: "converter \<Rightarrow> meta_container \<Rightarrow> fields \<Rightarrow> fields list" where
  "mount_slice conv c \<equiv> slice_of conv VolumeMountK (mc_VolumeMount c)"

definition rootVar :: fields where
  "rootVar = EnvVar_ToUnstructured
     \<lparr>ev_Name = bindingRootEnvVar, ev_Value = bindingRoot, ev_SecretKeyRef = None\<rparr>"

text \<open>The environment with the root of the bindings in it, and the root it gives.\<close>

definition withRoot :: "converter \<Rightarrow> fields list \<Rightarrow> fields list" where
  "withRoot conv rs = (case findRoot conv rs of None \<Rightarrow> rs @ [rootVar] | Some _ \<Rightarrow> rs)"

definition rootOf :: "converter \<Rightarrow> fields list \<Rightarrow> string" where
  "rootOf conv rs = (case findRoot conv rs of None \<Rightarrow> bindingRoot | Some r \<Rightarrow> r)"

lemma nameConv_reads_back: "reads_back nameConv"
  by (simp add: reads_back_def nameConv_def EnvVar_ToUnstructured_def
      EnvFromSource_ToUnstructured_def VolumeMount_ToUnstructured_def Volume_ToUnstructured_def)

lemma edited_iff:
  "edited conv k path d rs e \<longleftrightarrow>
     (\<exists>d'. e = (d', Ok ()) \<and> editable conv k path d' \<and> slice_of conv k path d' = rs \<and> touches path d d')"
  by (cases e) (auto simp: edited_def)

lemma editedE:
  assumes "edited conv k path d rs e"
  obtains d' where "e = (d', Ok ())" "editable conv k path d'" "slice_of conv k path d' = rs"
    "touches path d d'"
  using assms by (auto simp: edited_iff)

lemma edited_trans:
  "touches path d d1 \<Longrightarrow> edited conv k path d1 rs e \<Longrightarrow> edited conv k path d rs e"
  unfolding edited_def by (blast intro: touches_trans)

lemma slice_accepts: "m \<in> set (slice_of conv k path d) \<Longrightarrow> conv k m = None"
  by (auto simp: slice_of_def split: sum.splits option.splits dest: NestedResources_accepts [OF sym])

lemma editable_NestedResources:
  assumes "editable conv k path d"
  obtains (absent) "NestedResources conv k d path = Inr None" "slice_of conv k path d = []"
  | (present) "NestedResources conv k d path = Inr (Some (slice_of conv k path d))"
proof (cases "NestedResources conv k d path")
  case (Inr r)
  then show thesis using that by (cases r) (auto simp: slice_of_def)
qed (use assms in \<open>simp add: editable_def\<close>)

lemma assignSlice_edited:
  assumes "editable conv k path d" and "\<And>m. m \<in> set rs \<Longrightarrow> conv k m = None"
  shows "edited conv k path d rs (assignSlice d rs path)"
proof -
  obtain d' where d': "setSlice d rs path = Ok d'" by (rule editable_put [OF assms(1)])
  then have put: "putSlice path rs d = Some d'" by (simp add: setSlice_iff)
  have res: "NestedResources conv k d' path = Inr (Some rs)"
    using nested.load_store [OF d'] assms(2) by (simp add: list_all_iff)
  moreover obtain d'' where "setSlice d' [] path = Ok d''"
    using nested.store_found [OF res] by blast
  ultimately have "editable conv k path d'" and "slice_of conv k path d' = rs"
    by (auto simp: editable_def slice_of_def setSlice_iff)
  moreover have "assignSlice d rs path = (d', Ok ())" by (simp add: assignSlice_def d')
  ultimately show ?thesis using put by (auto simp: edited_def)
qed

lemma assignSlice_touches: "touches path d (fst (assignSlice d rs path))"
  by (auto simp: assignSlice_def setSlice_iff split: go.splits)

lemma unchanged_edited:
  "editable conv k path d \<Longrightarrow> slice_of conv k path d = rs \<Longrightarrow> edited conv k path d rs (d, Ok ())"
  by (simp add: edited_def)

lemma removeFirst_edited:
  assumes "editable conv k path d"
  shows "edited conv k path d (remove_first P (slice_of conv k path d)) (removeFirst conv k P path d)"
  using assms
proof (cases rule: editable_NestedResources)
  case absent
  with assms show ?thesis by (simp add: removeFirst_def unchanged_edited)
next
  case present
  have "edited conv k path d (remove_first P (slice_of conv k path d))
      (assignSlice d (remove_first P (slice_of conv k path d)) path)"
    by (rule assignSlice_edited [OF assms])
      (meson set_remove_first_subset slice_accepts subsetD)
  with assms present show ?thesis by (auto simp: removeFirst_def unchanged_edited)
qed

lemma addRaw_edited:
  assumes "editable conv k path d" and "\<And>m. m \<in> set new \<Longrightarrow> conv k m = None"
  shows "edited conv k path d (slice_of conv k path d @ new) (addRaw conv d k new path)"
proof -
  have "edited conv k path d (slice_of conv k path d @ new)
      (assignSlice d (slice_of conv k path d @ new) path)"
    by (rule assignSlice_edited [OF assms(1)]) (auto simp: assms(2) intro: slice_accepts)
  with assms(1) show ?thesis
    by (cases rule: editable_NestedResources) (auto simp: addRaw_def)
qed

section \<open>The editors of containers\<close>

lemma RemoveEnvVars_edited:
  "editable conv EnvVarK (mc_Env c) d \<Longrightarrow>
     edited conv EnvVarK (mc_Env c) d (remove_first (env_named n) (slice_of conv EnvVarK (mc_Env c) d))
       (RemoveEnvVars conv c n d)"
  by (simp add: RemoveEnvVars_def removeFirst_edited)

lemma removeEnvs_edited:
  "editable conv EnvVarK (mc_Env c) d \<Longrightarrow>
     edited conv EnvVarK (mc_Env c) d (drop_envs (map ev_Name vs) (slice_of conv EnvVarK (mc_Env c) d))
       (removeEnvs conv c vs d)"
proof (induction vs arbitrary: d)
  case Nil
  then show ?case by (simp add: drop_envs_def unchanged_edited)
next
  case (Cons v vs)
  obtain d' where "RemoveEnvVars conv c (ev_Name v) d = (d', Ok ())"
    "editable conv EnvVarK (mc_Env c) d'" "touches (mc_Env c) d d'"
    "slice_of conv EnvVarK (mc_Env c) d'
       = remove_first (env_named (ev_Name v)) (slice_of conv EnvVarK (mc_Env c) d)"
    using RemoveEnvVars_edited [OF Cons.prems] by (rule editedE)
  with Cons.IH [of d'] show ?case by (auto simp: drop_envs_def intro: edited_trans)
qed

lemma AddEnvVars_edited:
  assumes "reads_back conv" and "editable conv EnvVarK (mc_Env c) d"
  shows "edited conv EnvVarK (mc_Env c) d
    (drop_envs (map ev_Name vs) (slice_of conv EnvVarK (mc_Env c) d) @ map EnvVar_ToUnstructured vs)
    (AddEnvVars conv c vs d)"
proof -
  obtain d' where d': "removeEnvs conv c vs d = (d', Ok ())"
    "editable conv EnvVarK (mc_Env c) d'" "touches (mc_Env c) d d'"
    and sl: "slice_of conv EnvVarK (mc_Env c) d'
       = drop_envs (map ev_Name vs) (slice_of conv EnvVarK (mc_Env c) d)"
    using removeEnvs_edited [OF assms(2)] by (rule editedE)
  have "edited conv EnvVarK (mc_Env c) d' (slice_of conv EnvVarK (mc_Env c) d' @ map EnvVar_ToUnstructured vs)
      (addRaw conv d' EnvVarK (map EnvVar_ToUnstructured vs) (mc_Env c))"
    using assms(1) d'(2) by (intro addRaw_edited) (auto simp: reads_back_def)
  with d' sl show ?thesis by (auto simp: AddEnvVars_def intro: edited_trans)
qed

lemma RemoveEnvFromVars_edited:
  "editable conv EnvFromSourceK (mc_EnvFrom c) d \<Longrightarrow>
     edited conv EnvFromSourceK (mc_EnvFrom c) d
       (remove_first (from_secret s) (slice_of conv EnvFromSourceK (mc_EnvFrom c) d))
       (RemoveEnvFromVars conv c s d)"
  by (simp add: RemoveEnvFromVars_def removeFirst_edited)

lemma AddEnvFromVar_edited:
  assumes "reads_back conv" and "editable conv EnvFromSourceK (mc_EnvFrom c) d"
  shows "edited conv EnvFromSourceK (mc_EnvFrom c) d
    (remove_first (from_secret s) (slice_of conv EnvFromSourceK (mc_EnvFrom c) d)
       @ [EnvFromSource_ToUnstructured s])
    (AddEnvFromVar conv c s d)"
proof -
  let ?S = "slice_of conv EnvFromSourceK (mc_EnvFrom c)"
  have ne: "mc_EnvFrom c \<noteq> []" using assms(2) by (auto simp: editable_def)
  obtain d' where d': "RemoveEnvFromVars conv c s d = (d', Ok ())"
    "editable conv EnvFromSourceK (mc_EnvFrom c) d'" "touches (mc_EnvFrom c) d d'"
    and sl: "?S d' = remove_first (from_secret s) (?S d)"
    using RemoveEnvFromVars_edited [OF assms(2)] by (rule editedE)
  have "edited conv EnvFromSourceK (mc_EnvFrom c) d' (?S d' @ [EnvFromSource_ToUnstructured s])
      (addRaw conv d' EnvFromSourceK [EnvFromSource_ToUnstructured s] (mc_EnvFrom c))"
    using assms(1) d'(2) by (intro addRaw_edited) (auto simp: reads_back_def)
  with d' sl ne show ?thesis by (auto simp: AddEnvFromVar_def intro: edited_trans)
qed

lemma mountLoop_upsert:
  "(\<And>m. m \<in> set rs \<Longrightarrow> conv VolumeMountK m = None) \<Longrightarrow>
     mountLoop conv name u rs
       = Inr (list_ex (mount_named name) rs, map (\<lambda>m. if mount_named name m then u else m) rs)"
  by (induction rs) auto

lemma AddVolumeMount_edited:
  assumes "reads_back conv" and "editable conv VolumeMountK (mc_VolumeMount c) d"
  shows "edited conv VolumeMountK (mc_VolumeMount c) d
    (upsert (mount_named name) (VolumeMount_ToUnstructured name mp)
       (slice_of conv VolumeMountK (mc_VolumeMount c) d))
    (AddVolumeMount conv c name mp d)"
proof -
  let ?rs = "slice_of conv VolumeMountK (mc_VolumeMount c) d" and ?u = "VolumeMount_ToUnstructured name mp"
  have acc: "\<And>m. m \<in> set (upsert (mount_named name) ?u ?rs) \<Longrightarrow> conv VolumeMountK m = None"
    using assms(1) slice_accepts by (auto simp: reads_back_def upsert_def split: if_splits)
  have loop: "mountLoop conv name ?u ?rs
      = Inr (list_ex (mount_named name) ?rs, map (\<lambda>m. if mount_named name m then ?u else m) ?rs)"
    using slice_accepts by (rule mountLoop_upsert)
  have map_id: "\<not> list_ex (mount_named name) ?rs \<Longrightarrow> map (\<lambda>m. if mount_named name m then ?u else m) ?rs = ?rs"
    by (auto simp: list_ex_iff intro: map_idI)
  have ed: "edited conv VolumeMountK (mc_VolumeMount c) d (upsert (mount_named name) ?u ?rs)
      (assignSlice d (upsert (mount_named name) ?u ?rs) (mc_VolumeMount c))"
    using assms(2) acc by (rule assignSlice_edited)
  from assms(2) show ?thesis
  proof (cases rule: editable_NestedResources)
    case absent
    with ed show ?thesis by (simp add: AddVolumeMount_def Let_def)
  next
    case present
    with ed loop map_id show ?thesis
      by (cases "list_ex (mount_named name) ?rs") (simp_all add: AddVolumeMount_def Let_def)
  qed
qed

lemma RemoveVolumeMount_edited:
  assumes "editable conv VolumeMountK (mc_VolumeMount c) d"
  shows "edited conv VolumeMountK (mc_VolumeMount c) d
    (remove_first (mount_named name) (slice_of conv VolumeMountK (mc_VolumeMount c) d))
    (RemoveVolumeMount conv c name d)"
proof -
  have "remove_first (\<lambda>m. conv VolumeMountK m = None \<and> mount_named name m) rs
      = remove_first (mount_named name) rs"
    if "\<forall>m \<in> set rs. conv VolumeMountK m = None" for rs
    using that by (induction rs) auto
  then have "remove_first (\<lambda>m. conv VolumeMountK m = None \<and> mount_named name m)
        (slice_of conv VolumeMountK (mc_VolumeMount c) d)
      = remove_first (mount_named name) (slice_of conv VolumeMountK (mc_VolumeMount c) d)"
    using slice_accepts by blast
  then show ?thesis
    using removeFirst_edited [OF assms, of "\<lambda>m. conv VolumeMountK m = None \<and> mount_named name m"]
    by (simp only: RemoveVolumeMount_def)
qed

lemma AddVolume_edited:
  assumes "reads_back conv" and "editable conv VolumeK (mp_Volume t) d"
  shows "edited conv VolumeK (mp_Volume t) d
    (upsert (volume_named name) (Volume_ToUnstructured name secret)
       (slice_of conv VolumeK (mp_Volume t) d))
    (AddVolume conv t name secret d)"
proof -
  let ?new = "upsert (volume_named name) (Volume_ToUnstructured name secret)
      (slice_of conv VolumeK (mp_Volume t) d)"
  have "\<And>m. m \<in> set ?new \<Longrightarrow> conv VolumeK m = None"
    using assms(1) slice_accepts by (auto simp: reads_back_def upsert_def split: if_splits)
  with assms(2) have ed: "edited conv VolumeK (mp_Volume t) d ?new
      (assignSlice d ?new (mp_Volume t))"
    by (rule assignSlice_edited)
  from assms(2) show ?thesis
    by (cases rule: editable_NestedResources) (use ed in \<open>simp_all add: AddVolume_def Let_def\<close>)
qed

lemma named_volume: "env_named n = volume_named n"
  by (auto simp: fun_eq_iff named_def NestedString_singleton split: option.splits json.splits)

lemma RemoveVolume_edited:
  "editable conv VolumeK (mp_Volume t) d \<Longrightarrow>
     edited conv VolumeK (mp_Volume t) d
       (remove_first (volume_named name) (slice_of conv VolumeK (mp_Volume t) d))
       (RemoveVolume conv t name d)"
  by (simp add: RemoveVolume_def named_volume removeFirst_edited)

section \<open>The mount path\<close>

lemma findRoot_append:
  "findRoot conv (rs @ us) = (case findRoot conv rs of None \<Rightarrow> findRoot conv us | Some r \<Rightarrow> Some r)"
  by (induction rs) auto

lemma findRoot_rootVar: "reads_back conv \<Longrightarrow> findRoot conv [rootVar] = Some bindingRoot"
  by (auto simp: reads_back_def rootVar_def)
    (simp_all add: EnvVar_ToUnstructured_def decoded_def omitempty_def bindingRoot_def bindingRootEnvVar_def)

lemma withRoot_idem: "reads_back conv \<Longrightarrow> withRoot conv (withRoot conv rs) = withRoot conv rs"
  by (simp add: withRoot_def findRoot_append findRoot_rootVar del: findRoot.simps split: option.splits)

lemma rootOf_withRoot: "reads_back conv \<Longrightarrow> rootOf conv (withRoot conv rs) = rootOf conv rs"
  by (simp add: withRoot_def rootOf_def findRoot_append findRoot_rootVar del: findRoot.simps split: option.splits)

lemma MountPath_edited:
  assumes "reads_back conv" and "editable conv EnvVarK (mc_Env c) d"
  obtains d' where "MountPath conv c n d = (d', Ok (pathJoin (rootOf conv (env_slice conv c d)) n))"
    "editable conv EnvVarK (mc_Env c) d'" "env_slice conv c d' = withRoot conv (env_slice conv c d)"
    "touches (mc_Env c) d d'"
proof (cases "findRoot conv (env_slice conv c d)")
  case (Some r)
  from assms(2) have "MountPath conv c n d = (d, Ok (pathJoin r n))"
    by (cases rule: editable_NestedResources) (use Some in \<open>simp_all add: MountPath_def\<close>)
  with that [of d] assms(2) Some show thesis by (simp add: rootOf_def withRoot_def)
next
  case None
  have "edited conv EnvVarK (mc_Env c) d (env_slice conv c d @ [rootVar])
      (assignSlice d (env_slice conv c d @ [rootVar]) (mc_Env c))"
    using assms(1)
    by (intro assignSlice_edited [OF assms(2)]) (auto simp: reads_back_def rootVar_def intro: slice_accepts)
  then obtain d' where d': "assignSlice d (env_slice conv c d @ [rootVar]) (mc_Env c) = (d', Ok ())"
    "editable conv EnvVarK (mc_Env c) d'" "env_slice conv c d' = env_slice conv c d @ [rootVar]"
    "touches (mc_Env c) d d'"
    by (rule editedE)
  from assms(2) have "MountPath conv c n d = (d', Ok (pathJoin bindingRoot n))"
    by (cases rule: editable_NestedResources)
      (use None d'(1) in \<open>simp_all add: MountPath_def Let_def rootVar_def\<close>)
  with that [of d'] d' None show thesis by (simp add: rootOf_def withRoot_def)
qed

section \<open>Edits of one slice and the others\<close>

lemma touches_container_ok:
  assumes "container_ok conv c d" and "touches p d d'"
    and "p = mc_Env c \<and> editable conv EnvVarK (mc_Env c) d'
      \<or> p = mc_EnvFrom c \<and> editable conv EnvFromSourceK (mc_EnvFrom c) d'
      \<or> p = mc_VolumeMount c \<and> editable conv VolumeMountK (mc_VolumeMount c) d'"
  shows "container_ok conv c d'"
  using assms(1,3) touches_fork(2) [OF assms(2)]
  by (auto simp: container_ok_def forks_sym)

lemma touches_env:
  assumes "container_ok conv c d" and "touches (mc_Env c) d d'"
  shows "from_slice conv c d' = from_slice conv c d" and "mount_slice conv c d' = mount_slice conv c d"
  using assms touches_fork(3) [OF assms(2)] by (auto simp: container_ok_def)

lemma touches_envFrom:
  assumes "container_ok conv c d" and "touches (mc_EnvFrom c) d d'"
  shows "env_slice conv c d' = env_slice conv c d" and "mount_slice conv c d' = mount_slice conv c d"
  using assms touches_fork(3) [OF assms(2)] by (auto simp: container_ok_def forks_sym)

lemma touches_mount:
  assumes "container_ok conv c d" and "touches (mc_VolumeMount c) d d'"
  shows "env_slice conv c d' = env_slice conv c d" and "from_slice conv c d' = from_slice conv c d"
  using assms touches_fork(3) [OF assms(2)] by (auto simp: container_ok_def forks_sym)

end
