(* ===== verification/Annotations.thy ===== *)
theory Annotations
  imports Unstructured
begin

text \<open>
  Where binding annotations come from: \<open>pkg/util/util.go\<close> (\<open>MergeMaps\<close>),
  \<open>pkg/binding/registry/registry.go\<close> (annotations known for services that carry none),
  \<open>pkg/reconcile/pipeline/crddescription.go\<close> (annotations derived from the descriptors of
  an operator's manifest) and \<open>IsServiceBindingAnnotation\<close> of
  \<open>pkg/binding/annotationmapper.go\<close>.

  A \<open>map[string]string\<close> that may be nil is a \<open>strmap option\<close>.
\<close>

section \<open>Merging\<close>

definition MergeMaps :: "strmap option \<Rightarrow> strmap option \<Rightarrow> strmap option" where
  "MergeMaps dest src =
     (case dest of
        None \<Rightarrow> src
      | Some d \<Rightarrow>
          (case src of
             None \<Rightarrow> dest
           | Some s \<Rightarrow> Some (fold (\<lambda>(k, v) m. AList.update k v m) s d)))"

section \<open>The registry of service annotations\<close>

type_synonym registry = "(gvk \<times> strmap) list"

definition perconaXtraDB :: strmap where
  "perconaXtraDB =
     [(''service.binding/type'', ''mysql''),
      (''service.binding/provider'', ''percona''),
      (''service.binding/database'', ''mysql''),
      (''service.binding'', ''path={.spec.secretsName},objectType=Secret''),
      (''service.binding/host'', ''path={.status.host}''),
      (''service.binding/port'', ''3306''),
      (''service.binding/username'', ''root''),
      (''service.binding/password'', ''path={.spec.secretsName},objectType=Secret,sourceKey=root'')]"

definition perconaMongoDB :: strmap where
  "perconaMongoDB =
     [(''service.binding/type'', ''mongodb''),
      (''service.binding/provider'', ''percona''),
      (''service.binding'', ''path={.spec.secrets.users},objectType=Secret''),
      (''service.binding/username'',
         ''path={.spec.secrets.users},objectType=Secret,sourceKey=MONGODB_USER_ADMIN_USER''),
      (''service.binding/password'',
         ''path={.spec.secrets.users},objectType=Secret,sourceKey=MONGODB_USER_ADMIN_PASSWORD''),
      (''service.binding/host'', ''path={.status.host}'')]"

definition mkgvk :: "string \<Rightarrow> string \<Rightarrow> string \<Rightarrow> gvk" where
  "mkgvk g v k = \<lparr>gvk_group = g, gvk_version = v, gvk_kind = k\<rparr>"

definition registryNew :: registry where
  "registryNew =
     [(mkgvk ''redis.redis.opstreelabs.in'' ''v1beta1'' ''Redis'',
       [(''service.binding/type'', ''redis''),
        (''service.binding/host'', ''path={.metadata.name}''),
        (''service.binding/password'',
           ''path={.spec.kubernetesConfig.redisSecret.name},objectType=Secret,sourceKey=password,optional=true'')]),
      (mkgvk ''postgres-operator.crunchydata.com'' ''v1beta1'' ''PostgresCluster'',
       [(''service.binding/type'', ''postgresql''),
        (''service.binding/provider'', ''crunchydata''),
        (''service.binding'', ''path={.metadata.name}-pguser-{.metadata.name},objectType=Secret''),
        (''service.binding/database'',
           ''path={.metadata.name}-pguser-{.metadata.name},objectType=Secret,sourceKey=dbname''),
        (''service.binding/username'',
           ''path={.metadata.name}-pguser-{.metadata.name},objectType=Secret,sourceKey=user''),
        (''service.binding/cert'', ''path={.metadata.name}-cluster-cert,objectType=Secret'')]),
      (mkgvk ''pxc.percona.com'' ''v1-8-0'' ''PerconaXtraDBCluster'', perconaXtraDB),
      (mkgvk ''pxc.percona.com'' ''v1-9-0'' ''PerconaXtraDBCluster'', perconaXtraDB),
      (mkgvk ''pxc.percona.com'' ''v1-10-0'' ''PerconaXtraDBCluster'', perconaXtraDB),
      (mkgvk ''psmdb.percona.com'' ''v1-9-0'' ''PerconaServerMongoDB'', perconaMongoDB),
      (mkgvk ''psmdb.percona.com'' ''v1-10-0'' ''PerconaServerMongoDB'', perconaMongoDB),
      (mkgvk ''psmdb.percona.com'' ''v1'' ''PerconaServerMongoDB'', perconaMongoDB),
      (mkgvk ''postgresql.k8s.enterprisedb.io'' ''v1'' ''Cluster'',
       [(''service.binding/type'', ''postgresql''),
        (''service.binding/host'', ''path={.status.writeService}''),
        (''service.binding/provider'', ''enterprisedb''),
        (''service.binding'', ''path={.metadata.name}-{.spec.bootstrap.initdb.owner},objectType=Secret''),
        (''service.binding/database'', ''path={.spec.bootstrap.initdb.database}'')]),
      (mkgvk ''rabbitmq.com'' ''v1beta1'' ''RabbitmqCluster'',
       [(''servicebinding.io/provisioned-service'', ''true'')])]"

definition registryGetAnnotations :: "registry \<Rightarrow> gvk \<Rightarrow> strmap option" where
  "registryGetAnnotations r serviceGVK = map_of r serviceGVK"

definition registryRegister :: "registry \<Rightarrow> gvk \<Rightarrow> strmap \<Rightarrow> registry" where
  "registryRegister r serviceGVK annotations = AList.update serviceGVK annotations r"

section \<open>Binding annotations\<close>

definition AnnotationPrefix :: string where
  "AnnotationPrefix = ''service.binding''"

definition ProvisionedServiceAnnotationKey :: string where
  "ProvisionedServiceAnnotationKey = ''servicebinding.io/provisioned-service''"

definition TypeKey :: string where
  "TypeKey = AnnotationPrefix @ ''/type''"

definition IsServiceBindingAnnotation :: "string \<Rightarrow> go_error + bool" where
  "IsServiceBindingAnnotation key =
     (if key = ProvisionedServiceAnnotationKey then Inr False
      else if key = AnnotationPrefix then Inr True
      else if HasPrefix key AnnotationPrefix then
        (if HasPrefix key (AnnotationPrefix @ ''/'') then Inr True
         else Inl (Errorf ''can't process annotation with name %q'' [JStr key]))
      else Inr False)"

section \<open>Descriptors of an operator's manifest\<close>

record descriptor =
  sd_Path :: string
  sd_XDescriptors :: "string list"

record crd_description =
  cd_Name :: string
  cd_Version :: string
  cd_Kind :: string
  cd_StatusDescriptors :: "descriptor list"
  cd_SpecDescriptors :: "descriptor list"

definition typeAnno :: string where
  "typeAnno = ''urn:alm:descriptor:io.kubernetes:''"

fun getObjectType :: "string list \<Rightarrow> string" where
  "getObjectType [] = ''''"
| "getObjectType (desc # descs) =
     (if HasPrefix desc typeAnno then TrimPrefix desc typeAnno else getObjectType descs)"

definition loadDescriptor ::
  "strmap \<Rightarrow> string \<Rightarrow> string \<Rightarrow> string \<Rightarrow> string \<Rightarrow> strmap" where
  "loadDescriptor anns path descriptor root objectType =
     (if \<not> HasPrefix descriptor AnnotationPrefix then anns
      else
        let keys = Split (CHR '':'') descriptor;
            key = AnnotationPrefix @ ''/'' @ (if length keys > 1 then keys ! 1 else path);
            p = [''path={.'' @ root @ ''.'' @ path @ ''}'']
                @ (if length keys > 1 then drop 2 keys else [])
                @ (if objectType \<noteq> '''' then [''objectType='' @ objectType] else [])
        in AList.update key (Join '','' p) anns)"

definition loadDescriptors :: "string \<Rightarrow> descriptor \<Rightarrow> strmap \<Rightarrow> strmap" where
  "loadDescriptors root sd anns =
     foldl (\<lambda>a xd. loadDescriptor a (sd_Path sd) xd root (getObjectType (sd_XDescriptors sd)))
       anns (sd_XDescriptors sd)"

definition BindingAnnotations :: "crd_description \<Rightarrow> strmap" where
  "BindingAnnotations crd =
     fold (loadDescriptors ''spec'') (cd_SpecDescriptors crd)
       (fold (loadDescriptors ''status'') (cd_StatusDescriptors crd) [])"

section \<open>Merging is override\<close>

lemma map_of_fold_update:
  "distinct (map fst s) \<Longrightarrow>
     map_of (fold (\<lambda>(k, v) m. AList.update k v m) s d) k
       = (case map_of s k of None \<Rightarrow> map_of d k | Some v \<Rightarrow> Some v)"
proof (induction s arbitrary: d)
  case (Cons p s)
  then show ?case
    by (cases p) (auto simp: update_conv' map_of_eq_None_distinct split: option.splits)
qed simp

lemma distinct_fold_update:
  "distinct (map fst d) \<Longrightarrow> distinct (map fst (fold (\<lambda>(k, v) m. AList.update k v m) s d))"
  by (induction s arbitrary: d) (auto simp: distinct_update)

lemma MergeMaps_lookup:
  assumes "distinct (map fst s)"
  shows "\<exists>m. MergeMaps (Some d) (Some s) = Some m \<and>
    map_of m k = (case map_of s k of None \<Rightarrow> map_of d k | Some v \<Rightarrow> Some v)"
  using assms by (simp add: MergeMaps_def map_of_fold_update)

section \<open>Binding annotation names\<close>

lemma IsServiceBindingAnnotation_iff:
  "IsServiceBindingAnnotation k = Inr True \<longleftrightarrow>
     k = AnnotationPrefix \<or> HasPrefix k (AnnotationPrefix @ ''/'')"
  by (auto simp: IsServiceBindingAnnotation_def HasPrefix_iff AnnotationPrefix_def
      ProvisionedServiceAnnotationKey_def)

lemma loadDescriptor_keys:
  assumes "list_all (\<lambda>(k, v). IsServiceBindingAnnotation k = Inr True) anns"
  shows "list_all (\<lambda>(k, v). IsServiceBindingAnnotation k = Inr True)
    (loadDescriptor anns path xd root ot)"
proof -
  have upd: "list_all P (AList.update k v m)" if "list_all P m" "P (k, v)" for P and m :: strmap and k v
    using that by (induction m) auto
  have "IsServiceBindingAnnotation (AnnotationPrefix @ ''/'' @ x) = Inr True" for x
    using HasPrefix_append [of "AnnotationPrefix @ ''/''" x]
    by (simp add: IsServiceBindingAnnotation_iff)
  with assms show ?thesis
    by (auto simp: loadDescriptor_def Let_def intro!: upd)
qed

lemma loadDescriptors_keys:
  "list_all (\<lambda>(k, v). IsServiceBindingAnnotation k = Inr True) anns \<Longrightarrow>
     list_all (\<lambda>(k, v). IsServiceBindingAnnotation k = Inr True) (loadDescriptors root sd anns)"
proof -
  have "list_all (\<lambda>(k, v). IsServiceBindingAnnotation k = Inr True) a \<Longrightarrow>
     list_all (\<lambda>(k, v). IsServiceBindingAnnotation k = Inr True)
       (foldl (\<lambda>a xd. loadDescriptor a p xd root ot) a xs)" for a p ot xs
    by (induction xs arbitrary: a) (auto simp: loadDescriptor_keys)
  then show "list_all (\<lambda>(k, v). IsServiceBindingAnnotation k = Inr True) anns \<Longrightarrow> ?thesis"
    by (simp add: loadDescriptors_def)
qed

end
