(* ===== verification/Base64.thy ===== *)
theory Base64
  imports Prelude
begin

text \<open>
  The decoder \<open>base64.StdEncoding.DecodeString\<close> of Go's standard library, which the
  operator applies to the data of secrets, and the encoding the API server gives such data.
  Line breaks are skipped, padding is required, and the unused bits of the last character
  are ignored, as in Go. An error keeps no result.
\<close>

definition alphabet :: string where
  "alphabet = ''ABCDEFGHIJKLMNOPQRSTUVWXYZabcdefghijklmnopqrstuvwxyz0123456789+/''"

fun index_of :: "'a \<Rightarrow> 'a list \<Rightarrow> nat option" where
  "index_of x [] = None"
| "index_of x (y # ys) = (if x = y then Some 0 else map_option Suc (index_of x ys))"

definition decodeChar :: "char \<Rightarrow> nat option" where
  "decodeChar c = index_of c alphabet"

definition byte :: "nat \<Rightarrow> char" where
  "byte n = char_of n"

fun decodeQuanta :: "string \<Rightarrow> string option" where
  "decodeQuanta [] = Some []"
| "decodeQuanta (a # b # c # d # rest) =
     (case (decodeChar a, decodeChar b) of
        (Some x, Some y) \<Rightarrow>
          let b1 = byte (x * 4 + y div 16) in
          if c = CHR ''='' then
            (if d = CHR ''='' \<and> rest = [] then Some [b1] else None)
          else
            (case decodeChar c of
               None \<Rightarrow> None
             | Some z \<Rightarrow>
                 let b2 = byte (y mod 16 * 16 + z div 4) in
                 if d = CHR ''='' then (if rest = [] then Some [b1, b2] else None)
                 else
                   (case (decodeChar d, decodeQuanta rest) of
                      (Some w, Some r) \<Rightarrow> Some (b1 # b2 # byte (z mod 4 * 64 + w) # r)
                    | _ \<Rightarrow> None))
      | _ \<Rightarrow> None)"
| "decodeQuanta _ = None"

definition isNewline :: "char \<Rightarrow> bool" where
  "isNewline c = (c = CHR 0x0A \<or> c = CHR 0x0D)"

definition DecodeString :: "string \<Rightarrow> go_error + string" where
  "DecodeString s =
     (case decodeQuanta (filter (\<lambda>c. \<not> isNewline c) s) of
        None \<Rightarrow> Inl (errNew ''illegal base64 data at input byte'')
      | Some r \<Rightarrow> Inr r)"

definition encodeChar :: "nat \<Rightarrow> char" where
  "encodeChar n = alphabet ! n"

fun EncodeToString :: "string \<Rightarrow> string" where
  "EncodeToString [] = []"
| "EncodeToString [a] =
     (let x = of_char a in
      [encodeChar (x div 4), encodeChar (x mod 4 * 16), CHR ''='', CHR ''=''])"
| "EncodeToString [a, b] =
     (let x = of_char a; y = of_char b in
      [encodeChar (x div 4), encodeChar (x mod 4 * 16 + y div 16), encodeChar (y mod 16 * 4),
       CHR ''=''])"
| "EncodeToString (a # b # c # rest) =
     (let x = of_char a; y = of_char b; z = of_char c in
      encodeChar (x div 4) # encodeChar (x mod 4 * 16 + y div 16)
        # encodeChar (y mod 16 * 4 + z div 64) # encodeChar (z mod 64) # EncodeToString rest)"

section \<open>Round trip\<close>

lemma decode_encodeChar_all: "list_all (\<lambda>n. decodeChar (encodeChar n) = Some n) [0..<64]"
  by code_simp

lemma decode_encodeChar [simp]: "n < 64 \<Longrightarrow> decodeChar (encodeChar n) = Some n"
  using decode_encodeChar_all by (simp add: list_all_iff)

lemma encodeChar_special_all:
  "list_all (\<lambda>n. encodeChar n \<noteq> CHR ''='' \<and> \<not> isNewline (encodeChar n)) [0..<64]"
  by code_simp

lemma encodeChar_special [simp]:
  "n < 64 \<Longrightarrow> encodeChar n \<noteq> CHR ''=''"
  "n < 64 \<Longrightarrow> \<not> isNewline (encodeChar n)"
  using encodeChar_special_all by (simp_all add: list_all_iff)

lemma sextets [simp]:
  "(of_char a :: nat) div 4 < 64"
  "(of_char a :: nat) mod 4 * 16 < 64"
  "(of_char a :: nat) mod 4 * 16 + (of_char b) div 16 < 64"
  "(of_char b :: nat) mod 16 * 4 < 64"
  "(of_char b :: nat) mod 16 * 4 + (of_char c) div 64 < 64"
  "(of_char c :: nat) mod 64 < 64"
  using nat_of_char_less_256 [of a] nat_of_char_less_256 [of b] nat_of_char_less_256 [of c]
  by linarith+

lemma EncodeToString_no_newline: "filter (\<lambda>c. \<not> isNewline c) (EncodeToString s) = EncodeToString s"
  by (induction s rule: EncodeToString.induct) (auto simp: Let_def, auto simp: isNewline_def)

lemma octets [simp]:
  "(of_char b :: nat) div 16 div 16 = 0"
  "(of_char c :: nat) div 64 div 4 = 0"
  "(of_char b :: nat) div 16 mod 16 = of_char b div 16"
  "(of_char c :: nat) div 64 mod 4 = of_char c div 64"
  using nat_of_char_less_256 [of b] nat_of_char_less_256 [of c]
  by (simp_all add: div_less less_mult_imp_div_less)

lemma decodeQuanta_EncodeToString: "decodeQuanta (EncodeToString s) = Some s"
  by (induction s rule: EncodeToString.induct) (simp_all add: Let_def byte_def)

lemma DecodeString_EncodeToString: "DecodeString (EncodeToString s) = Inr s"
  by (simp add: DecodeString_def EncodeToString_no_newline decodeQuanta_EncodeToString)

end
