(* ===== verification/Binding.thy ===== *)
theory Binding
  imports Workload Annotations Base64
begin

text \<open>
  Binding definitions, \<open>pkg/binding\<close>: the annotation language (\<open>model.go\<close>), the
  definitions built from an annotation (\<open>annotationmapper.go\<close>), their evaluation on a
  service resource (\<open>definition.go\<close>, \<open>jsonpath.go\<close>) and the stand-alone handler of one
  annotation (\<open>spec.go\<close>).

  A \<open>Value\<close> is the interface it wraps, \<open>JNull\<close> for nil. The reader of secrets and
  config maps is a client of the API server and a parameter \<open>rd\<close>. An object type and an
  element type are strings, as in the code, which accepts values outside its constants.
\<close>

section \<open>The annotation language\<close>

record model =
  m_path :: string
  m_elementType :: string
  m_objectType :: string
  m_sourceKey :: string
  m_sourceValue :: string
  m_value :: string
  m_optional :: bool

definition secretObjectType :: string where "secretObjectType = ''Secret''"
definition configMapObjectType :: string where "configMapObjectType = ''ConfigMap''"
definition stringObjectType :: string where "stringObjectType = ''string''"
definition mapElementType :: string where "mapElementType = ''map''"
definition sliceOfMapsElementType :: string where "sliceOfMapsElementType = ''sliceOfMaps''"
definition sliceOfStringsElementType :: string where "sliceOfStringsElementType = ''sliceOfStrings''"
definition stringElementType :: string where "stringElementType = ''string''"

definition isStringElementType :: "model \<Rightarrow> bool" where
  "isStringElementType m = (m_elementType m = stringElementType)"
definition isStringObjectType :: "model \<Rightarrow> bool" where
  "isStringObjectType m = (m_objectType m = stringObjectType)"
definition isMapElementType :: "model \<Rightarrow> bool" where
  "isMapElementType m = (m_elementType m = mapElementType)"
definition isSliceOfMapsElementType :: "model \<Rightarrow> bool" where
  "isSliceOfMapsElementType m = (m_elementType m = sliceOfMapsElementType)"
definition isSliceOfStringsElementType :: "model \<Rightarrow> bool" where
  "isSliceOfStringsElementType m = (m_elementType m = sliceOfStringsElementType)"
definition hasDataField :: "model \<Rightarrow> bool" where
  "hasDataField m = (m_objectType m = secretObjectType \<or> m_objectType m = configMapObjectType)"

definition modelKeys :: "string list" where
  "modelKeys = [''path'', ''optional'', ''objectType'', ''elementType'', ''sourceKey'', ''sourceValue'']"

definition rawStep :: "string \<Rightarrow> strmap \<Rightarrow> strmap" where
  "rawStep kv raw =
     fold (\<lambda>k r. if HasPrefix kv (k @ ''='') then AList.update k (drop (length (k @ ''='')) kv) r else r)
       modelKeys raw"

definition rawModel :: "string \<Rightarrow> strmap" where
  "rawModel annotationValue = fold rawStep (Split (CHR '','') annotationValue) []"

definition rawObjectType :: "strmap \<Rightarrow> string" where
  "rawObjectType raw =
     (case map_of raw ''objectType'' of
        None \<Rightarrow> stringObjectType
      | Some t \<Rightarrow> if t = '''' then stringObjectType else t)"

definition rawSourceKey :: "strmap \<Rightarrow> string" where
  "rawSourceKey raw = (case map_of raw ''sourceKey'' of None \<Rightarrow> '''' | Some k \<Rightarrow> k)"

definition rawSourceValue :: "strmap \<Rightarrow> string" where
  "rawSourceValue raw =
     (case map_of raw ''sourceValue'' of
        Some v \<Rightarrow> v
      | None \<Rightarrow> (case map_of raw ''sourceKey'' of None \<Rightarrow> '''' | Some k \<Rightarrow> k))"

definition rawElementType :: "strmap \<Rightarrow> string" where
  "rawElementType raw =
     (case map_of raw ''elementType'' of
        Some t \<Rightarrow> t
      | None \<Rightarrow>
          if rawObjectType raw = secretObjectType \<or> rawObjectType raw = configMapObjectType
          then mapElementType else stringElementType)"

definition newModel :: "string \<Rightarrow> go_error + model" where
  "newModel annotationValue =
     (let raw = rawModel annotationValue in
      case map_of raw ''path'' of
        None \<Rightarrow>
          if raw = [] then
            Inr \<lparr>m_path = '''', m_elementType = '''', m_objectType = '''', m_sourceKey = '''',
                 m_sourceValue = '''', m_value = annotationValue, m_optional = False\<rparr>
          else Inl (Errorf ''path not found: %q'' [JStr annotationValue])
      | Some path \<Rightarrow>
          if Count path (CHR ''{'') = 0 \<or> Count path (CHR ''{'') \<noteq> Count path (CHR ''}'') then
            Inl (Errorf ''path has invalid syntax: %q'' [JStr path])
          else if rawElementType raw = sliceOfMapsElementType
                  \<and> (rawSourceValue raw = '''' \<or> rawSourceKey raw = '''') then
            Inl (errNew ''sliceOfMaps elementType requires sourceKey and sourceValue to be present'')
          else
            Inr \<lparr>m_path = path, m_elementType = rawElementType raw, m_objectType = rawObjectType raw,
                 m_sourceKey = rawSourceKey raw, m_sourceValue = rawSourceValue raw, m_value = '''',
                 m_optional = (map_of raw ''optional'' = Some ''true'')\<rparr>)"

section \<open>Definitions\<close>

datatype bindef =
    StringDefinition (outputNameOf: string) (valueOf: string) (GetPath: string) (optionalOf: bool)
  | StringFromDataField (objectTypeOf: string) (outputNameOf: string) (GetPath: string)
      (optionalOf: bool) (sourceKeyOf: string)
  | MapFromDataField (objectTypeOf: string) (outputNameOf: string) (sourceValueOf: string)
      (GetPath: string) (optionalOf: bool)
  | StringOfMap (outputNameOf: string) (GetPath: string) (optionalOf: bool)
  | SliceOfMapsFromPath (outputNameOf: string) (GetPath: string) (optionalOf: bool)
      (sourceKeyOf: string) (sourceValueOf: string)
  | SliceOfStringsFromPath (outputNameOf: string) (GetPath: string) (optionalOf: bool)
      (sourceValueOf: string)

definition outputName :: "string \<Rightarrow> string" where
  "outputName name =
     (case SplitN2 (CHR ''/'') name of [a, b] \<Rightarrow> if b \<noteq> '''' then b else '''' | _ \<Rightarrow> '''')"

text \<open>\<open>Inr None\<close> is the pair of a nil definition and a nil error.\<close>

definition Build :: "string \<Rightarrow> string \<Rightarrow> go_error + bindef option" where
  "Build name value =
     (case IsServiceBindingAnnotation name of
        Inl e \<Rightarrow> Inl e
      | Inr False \<Rightarrow> Inr None
      | Inr True \<Rightarrow>
          (case newModel value of
             Inl e \<Rightarrow> Inl (Wrapf ''could not create binding model for annotation key %s and value %s: %w''
                        [JStr name, JStr value] e)
           | Inr md \<Rightarrow>
               if (isStringElementType md \<and> isStringObjectType md) \<or> m_value md \<noteq> '''' then
                 Inr (Some (StringDefinition (outputName name) (m_value md) (m_path md) (m_optional md)))
               else if isStringElementType md \<and> hasDataField md then
                 Inr (Some (StringFromDataField (m_objectType md) (outputName name) (m_path md)
                        (m_optional md) (m_sourceKey md)))
               else if isMapElementType md \<and> hasDataField md then
                 Inr (Some (MapFromDataField (m_objectType md) (outputName name) (m_sourceValue md)
                        (m_path md) (m_optional md)))
               else if isMapElementType md \<and> isStringObjectType md then
                 Inr (Some (StringOfMap (outputName name) (m_path md) (m_optional md)))
               else if isSliceOfMapsElementType md then
                 Inr (Some (SliceOfMapsFromPath (outputName name) (m_path md) (m_optional md)
                        (m_sourceKey md) (m_sourceValue md)))
               else if isSliceOfStringsElementType md then
                 Inr (Some (SliceOfStringsFromPath (outputName name) (m_path md) (m_optional md)
                        (m_sourceValue md)))
               else Inl (Errorf ''Annotation %s: %s not implemented!'' [JStr name, JStr value])))"

section \<open>Evaluation\<close>

record reader =
  rd_configMap :: "string \<Rightarrow> string \<Rightarrow> go_error + fields"
  rd_secret :: "string \<Rightarrow> string \<Rightarrow> go_error + fields"

text \<open>The builder of one annotation; its definitions read through its readers.\<close>

record definition_builder =
  db_name :: string
  db_value :: string
  db_reader :: reader

definition NewDefinitionBuilder ::
  "string \<Rightarrow> string \<Rightarrow> (string \<Rightarrow> string \<Rightarrow> go_error + fields) \<Rightarrow> (string \<Rightarrow> string \<Rightarrow> go_error + fields)
     \<Rightarrow> definition_builder" where
  "NewDefinitionBuilder annotationName annotationValue configMapReader secretReader =
     \<lparr>db_name = annotationName, db_value = annotationValue,
      db_reader = \<lparr>rd_configMap = configMapReader, rd_secret = secretReader\<rparr>\<rparr>"

fun printAll :: "jsonpath \<Rightarrow> rv list list \<Rightarrow> go_error + string" where
  "printAll jp [] = Inr []"
| "printAll jp (r # rs) =
     (case jp_PrintResults jp r of
        Inl e \<Rightarrow> Inl e
      | Inr s \<Rightarrow> map_sum id (\<lambda>t. s @ t) (printAll jp rs))"

definition getValuesByJSONPath :: "jsonpath \<Rightarrow> fields \<Rightarrow> string \<Rightarrow> rv list go" where
  "getValuesByJSONPath jp obj path =
     (case jp_Parse jp path of
        Inl e \<Rightarrow> Err e
      | Inr _ \<Rightarrow>
          (case jp_FindResults jp path obj of
             Inl e \<Rightarrow> Err e
           | Inr result \<Rightarrow>
               if length result > 1 then
                 (case printAll jp result of Inl e \<Rightarrow> Err e | Inr s \<Rightarrow> Ok [RVal (JStr s)])
               else
                 (case result of [] \<Rightarrow> Panic ''index out of range'' | r # _ \<Rightarrow> Ok r)))"

text \<open>
  \<open>reflect.Value.String\<close>: the text of a value of kind string, otherwise the name of its
  type. A value reached by a step into a map or a slice has kind interface, whatever it
  holds; the object itself is a map.
\<close>

fun rv_String :: "rv \<Rightarrow> string" where
  "rv_String (RRef [] v) = ''<map[string]interface {} Value>''"
| "rv_String (RRef (s # l) v) = ''<interface {} Value>''"
| "rv_String (RVal (JStr s)) = s"
| "rv_String (RVal (JBool b)) = ''<bool Value>''"
| "rv_String (RVal (JInt i)) = ''<int Value>''"
| "rv_String (RVal (JFloat f)) = ''<float64 Value>''"
| "rv_String (RVal v) = ''<interface {} Value>''"

definition NonExistingOptional :: "bindef \<Rightarrow> json \<Rightarrow> bool" where
  "NonExistingOptional d v = (optionalOf d \<and> v = JNull)"

definition onlyOne :: "string \<Rightarrow> rv list \<Rightarrow> go_error" where
  "onlyOne path vs =
     Errorf ''only one value should be returned for %v but we got %v''
       [JStr path, JArr (map rv_Interface vs)]"

text \<open>
  The values of a path for a definition: an error is the nil value when the definition is
  optional.
\<close>

definition withValues ::
  "jsonpath \<Rightarrow> fields \<Rightarrow> bindef \<Rightarrow> (rv list \<Rightarrow> json go) \<Rightarrow> json go" where
  "withValues jp u d k =
     (case getValuesByJSONPath jp u (GetPath d) of
        Panic s \<Rightarrow> Panic s
      | Err e \<Rightarrow> if optionalOf d then Ok JNull else Err e
      | Ok vs \<Rightarrow> k vs)"

definition readData :: "reader \<Rightarrow> string \<Rightarrow> string \<Rightarrow> string \<Rightarrow> fields go" where
  "readData rd objectType ns name =
     (if objectType = secretObjectType then
        (case rd_secret rd ns name of Inl e \<Rightarrow> Err e | Inr o1 \<Rightarrow> Ok o1)
      else if objectType = configMapObjectType then
        (case rd_configMap rd ns name of Inl e \<Rightarrow> Err e | Inr o1 \<Rightarrow> Ok o1)
      else Panic ''nil pointer dereference'')"

definition decodeData :: "string \<Rightarrow> string \<Rightarrow> go_error + string" where
  "decodeData objectType v = (if objectType = secretObjectType then DecodeString v else Inr v)"

fun mapData :: "bindef \<Rightarrow> strmap \<Rightarrow> fields \<Rightarrow> go_error + fields" where
  "mapData d [] out = Inr out"
| "mapData d ((k, v) # data) out =
     (if sourceValueOf d \<noteq> '''' \<and> k \<noteq> sourceValueOf d then mapData d data out
      else
        (case decodeData (objectTypeOf d) v of
           Inl e \<Rightarrow> Inl e
         | Inr n \<Rightarrow>
             mapData d data
               (AList.update (if sourceValueOf d \<noteq> '''' \<and> outputNameOf d \<noteq> '''' then outputNameOf d else k)
                  (JStr n) out)))"

definition index :: "fields \<Rightarrow> string \<Rightarrow> json" where
  "index m k = (case map_of m k of None \<Rightarrow> JNull | Some v \<Rightarrow> v)"

definition assignAll :: "fields \<Rightarrow> fields \<Rightarrow> fields" where
  "assignAll res new = fold (\<lambda>(k, v) r. AList.update k v r) new res"

primrec collectSourceValuesWithKey :: "string \<Rightarrow> string \<Rightarrow> json \<Rightarrow> fields" where
  "collectSourceValuesWithKey sv sk JNull = []"
| "collectSourceValuesWithKey sv sk (JBool b) = []"
| "collectSourceValuesWithKey sv sk (JInt i) = []"
| "collectSourceValuesWithKey sv sk (JFloat f) = []"
| "collectSourceValuesWithKey sv sk (JStr s) = []"
| "collectSourceValuesWithKey sv sk (JObj m) = [(fmt_v (index m sk), index m sv)]"
| "collectSourceValuesWithKey sv sk (JArr items) =
     foldl assignAll [] (map (collectSourceValuesWithKey sv sk) items)"
| "collectSourceValuesWithKey sv sk (JMaps ms) = []"

primrec collectSourceValues :: "string \<Rightarrow> json \<Rightarrow> json list" where
  "collectSourceValues sv JNull = []"
| "collectSourceValues sv (JBool b) = []"
| "collectSourceValues sv (JInt i) = []"
| "collectSourceValues sv (JFloat f) = []"
| "collectSourceValues sv (JStr s) = (if sv = '''' then [JStr s] else [])"
| "collectSourceValues sv (JObj m) = (if sv \<noteq> '''' then [index m sv] else [])"
| "collectSourceValues sv (JArr items) = concat (map (collectSourceValues sv) items)"
| "collectSourceValues sv (JMaps ms) = []"

definition needsClient :: go_error where
  "needsClient = errNew ''kubeClient required for this functionality''"

definition stringDefinition_Apply :: "jsonpath \<Rightarrow> fields \<Rightarrow> bindef \<Rightarrow> json go" where
  "stringDefinition_Apply jp u d =
     (if outputNameOf d = '''' then
        Err (errNew ''cannot use generic service.binding annotation for string elements, need to specify binding key like service.binding/foo'')
      else if valueOf d \<noteq> '''' then Ok (JObj [(outputNameOf d, JStr (valueOf d))])
      else withValues jp u d
        (\<lambda>vs. case vs of
            [v] \<Rightarrow> Ok (JObj [(outputNameOf d, rv_Interface v)])
          | _ \<Rightarrow> Err (onlyOne (GetPath d) vs)))"

definition stringFromDataField_Apply ::
  "jsonpath \<Rightarrow> reader option \<Rightarrow> fields \<Rightarrow> bindef \<Rightarrow> json go" where
  "stringFromDataField_Apply jp rd u d =
     (case rd of
        None \<Rightarrow> Err needsClient
      | Some r \<Rightarrow> withValues jp u d
          (\<lambda>vs. case vs of
              [v] \<Rightarrow>
                (case readData r (objectTypeOf d) (GetNamespace u) (rv_String v) of
                   Err e \<Rightarrow> Err e
                 | Panic s \<Rightarrow> Panic s
                 | Ok other \<Rightarrow>
                     (case NestedString other [''data'', sourceKeyOf d] of
                        Inl e \<Rightarrow> Err e
                      | Inr None \<Rightarrow> Err (errNew ''not found'')
                      | Inr (Some s) \<Rightarrow>
                          (case decodeData (objectTypeOf d) s of
                             Inl e \<Rightarrow> Err e
                           | Inr n \<Rightarrow> Ok (JObj [('''', JStr n)]))))
            | _ \<Rightarrow> Err (onlyOne (GetPath d) vs)))"

definition mapFromDataField_Apply ::
  "jsonpath \<Rightarrow> reader option \<Rightarrow> fields \<Rightarrow> bindef \<Rightarrow> json go" where
  "mapFromDataField_Apply jp rd u d =
     (case rd of
        None \<Rightarrow> Err needsClient
      | Some r \<Rightarrow> withValues jp u d
          (\<lambda>vs. case vs of
              [v] \<Rightarrow>
                (case readData r (objectTypeOf d) (GetNamespace u) (fmt_v (rv_Interface v)) of
                   Err e \<Rightarrow> Err e
                 | Panic s \<Rightarrow> Panic s
                 | Ok other \<Rightarrow>
                     (case NestedStringMap other [''data''] of
                        Inl e \<Rightarrow> Err e
                      | Inr None \<Rightarrow> Err (errNew ''not found'')
                      | Inr (Some data) \<Rightarrow>
                          (case mapData d data [] of
                             Inl e \<Rightarrow> Err e
                           | Inr out \<Rightarrow> Ok (JObj out))))
            | _ \<Rightarrow> Err (onlyOne (GetPath d) vs)))"

definition stringOfMap_Apply :: "jsonpath \<Rightarrow> fields \<Rightarrow> bindef \<Rightarrow> json go" where
  "stringOfMap_Apply jp u d =
     withValues jp u d
       (\<lambda>vs. case vs of
           [v] \<Rightarrow>
             (case rv_Interface v of
                JObj valMap \<Rightarrow>
                  Ok (JObj (if outputNameOf d \<noteq> '''' then [(outputNameOf d, JObj valMap)] else valMap))
              | j \<Rightarrow> Err (Errorf ''returned value for %v should be map, but we got %v''
                          [JStr (GetPath d), j]))
         | _ \<Rightarrow> Err (onlyOne (GetPath d) vs))"

definition sliceOfMapsFromPath_Apply :: "jsonpath \<Rightarrow> fields \<Rightarrow> bindef \<Rightarrow> json go" where
  "sliceOfMapsFromPath_Apply jp u d =
     withValues jp u d
       (\<lambda>vs. let res = foldl (\<lambda>r v. assignAll r
                   (collectSourceValuesWithKey (sourceValueOf d) (sourceKeyOf d) (rv_Interface v))) [] vs
             in Ok (JObj (if outputNameOf d = '''' then res else [(outputNameOf d, JObj res)])))"

definition sliceOfStringsFromPath_Apply :: "jsonpath \<Rightarrow> fields \<Rightarrow> bindef \<Rightarrow> json go" where
  "sliceOfStringsFromPath_Apply jp u d =
     withValues jp u d
       (\<lambda>vs. Ok (JObj [(outputNameOf d,
           JArr (concat (map (\<lambda>v. collectSourceValues (sourceValueOf d) (rv_Interface v)) vs)))]))"

text \<open>The method \<open>Apply\<close> of the interface \<open>Definition\<close>.\<close>

fun Apply :: "jsonpath \<Rightarrow> reader option \<Rightarrow> bindef \<Rightarrow> fields \<Rightarrow> json go" where
  "Apply jp rd (StringDefinition o1 v p b) u = stringDefinition_Apply jp u (StringDefinition o1 v p b)"
| "Apply jp rd (StringFromDataField t o1 p b k) u =
     stringFromDataField_Apply jp rd u (StringFromDataField t o1 p b k)"
| "Apply jp rd (MapFromDataField t o1 sv p b) u =
     mapFromDataField_Apply jp rd u (MapFromDataField t o1 sv p b)"
| "Apply jp rd (StringOfMap o1 p b) u = stringOfMap_Apply jp u (StringOfMap o1 p b)"
| "Apply jp rd (SliceOfMapsFromPath o1 p b k sv) u =
     sliceOfMapsFromPath_Apply jp u (SliceOfMapsFromPath o1 p b k sv)"
| "Apply jp rd (SliceOfStringsFromPath o1 p b sv) u =
     sliceOfStringsFromPath_Apply jp u (SliceOfStringsFromPath o1 p b sv)"

section \<open>The handler of one annotation\<close>

text \<open>A handler with the read call of its client.\<close>

record spec_handler =
  sh_kubeClient :: "gvr \<Rightarrow> string \<Rightarrow> string \<Rightarrow> go_error + fields"
  sh_obj :: fields
  sh_annotationKey :: string
  sh_annotationValue :: string

definition NewSpecHandler ::
  "(gvr \<Rightarrow> string \<Rightarrow> string \<Rightarrow> go_error + fields) \<Rightarrow> string \<Rightarrow> string \<Rightarrow> fields \<Rightarrow> go_error + spec_handler" where
  "NewSpecHandler kubeClient annotationKey annotationValue obj =
     Inr \<lparr>sh_kubeClient = kubeClient, sh_obj = obj, sh_annotationKey = annotationKey,
          sh_annotationValue = annotationValue\<rparr>"

definition configMapsReader ::
  "(gvr \<Rightarrow> string \<Rightarrow> string \<Rightarrow> go_error + fields) \<Rightarrow> string \<Rightarrow> string \<Rightarrow> go_error + fields" where
  "configMapsReader client =
     (\<lambda>ns name. client \<lparr>gvr_group = '''', gvr_version = ''v1'', gvr_resource = ''configmaps''\<rparr> ns name)"

definition secretsReader ::
  "(gvr \<Rightarrow> string \<Rightarrow> string \<Rightarrow> go_error + fields) \<Rightarrow> string \<Rightarrow> string \<Rightarrow> go_error + fields" where
  "secretsReader client =
     (\<lambda>ns name. client \<lparr>gvr_group = '''', gvr_version = ''v1'', gvr_resource = ''secrets''\<rparr> ns name)"

definition SpecHandler_Handle :: "jsonpath \<Rightarrow> spec_handler \<Rightarrow> fields go" where
  "SpecHandler_Handle jp s =
     (let b = NewDefinitionBuilder (sh_annotationKey s) (sh_annotationValue s)
                (configMapsReader (sh_kubeClient s)) (secretsReader (sh_kubeClient s))
      in case Build (db_name b) (db_value b) of
        Inl e \<Rightarrow> Err e
      | Inr None \<Rightarrow> Panic ''nil pointer dereference''
      | Inr (Some d) \<Rightarrow>
          (case Apply jp (Some (db_reader b)) d (sh_obj s) of
             Err e \<Rightarrow> Err e
           | Panic s \<Rightarrow> Panic s
           | Ok v \<Rightarrow> Ok (assignAll [] (fields_of v))))"

section \<open>Notions for the theorems\<close>

text \<open>An annotation value spelled out from keys and values.\<close>

definition renderKV :: "strmap \<Rightarrow> string" where
  "renderKV kvs = Join '','' (map (\<lambda>(k, v). k @ ''='' @ v) kvs)"

definition plainKVs :: "strmap \<Rightarrow> bool" where
  "plainKVs kvs =
     (kvs \<noteq> [] \<and> distinct (map fst kvs)
      \<and> list_all (\<lambda>(k, v). k \<in> set modelKeys \<and> CHR '','' \<notin> set v) kvs)"

definition modelKVs :: "model \<Rightarrow> strmap" where
  "modelKVs m =
     [(''path'', m_path m), (''objectType'', m_objectType m), (''elementType'', m_elementType m),
      (''sourceKey'', m_sourceKey m), (''sourceValue'', m_sourceValue m),
      (''optional'', if m_optional m then ''true'' else ''false'')]"

text \<open>The models that \<open>newModel\<close> gives for an annotation with a path.\<close>

definition wf_model :: "model \<Rightarrow> bool" where
  "wf_model m =
     (m_value m = '''' \<and> m_objectType m \<noteq> ''''
      \<and> Count (m_path m) (CHR ''{'') \<noteq> 0
      \<and> Count (m_path m) (CHR ''{'') = Count (m_path m) (CHR ''}'')
      \<and> (m_elementType m = sliceOfMapsElementType \<longrightarrow> m_sourceKey m \<noteq> '''' \<and> m_sourceValue m \<noteq> ''''))"

text \<open>The definitions that \<open>Build\<close> gives.\<close>

fun wf_def :: "bindef \<Rightarrow> bool" where
  "wf_def (StringDefinition o1 v p b) = (v \<noteq> '''' \<or> Count p (CHR ''{'') \<noteq> 0)"
| "wf_def (StringFromDataField t o1 p b k) = (t = secretObjectType \<or> t = configMapObjectType)"
| "wf_def (MapFromDataField t o1 sv p b) = (t = secretObjectType \<or> t = configMapObjectType)"
| "wf_def (StringOfMap o1 p b) = True"
| "wf_def (SliceOfMapsFromPath o1 p b k sv) = (k \<noteq> '''' \<and> sv \<noteq> '''')"
| "wf_def (SliceOfStringsFromPath o1 p b sv) = True"

definition encodeAll :: "strmap \<Rightarrow> strmap" where
  "encodeAll data = map (\<lambda>(k, v). (k, EncodeToString v)) data"

section \<open>Lemmas on the annotation language\<close>

lemmas type_defs = secretObjectType_def configMapObjectType_def stringObjectType_def
  mapElementType_def sliceOfMapsElementType_def sliceOfStringsElementType_def
  stringElementType_def

lemmas model_tests = isStringElementType_def isStringObjectType_def isMapElementType_def
  isSliceOfMapsElementType_def isSliceOfStringsElementType_def hasDataField_def

lemma rawStep_kv:
  "k \<in> set modelKeys \<Longrightarrow> rawStep (k @ ''='' @ v) raw = AList.update k v raw"
  by (auto simp: rawStep_def modelKeys_def HasPrefix_def)

lemma modelKeys_no_comma: "k \<in> set modelKeys \<Longrightarrow> CHR '','' \<notin> set k"
  by (auto simp: modelKeys_def)

lemma rawModel_renderKV:
  assumes "plainKVs kvs"
  shows "rawModel (renderKV kvs) = fold (\<lambda>(k, v) m. AList.update k v m) kvs []"
proof -
  have "Split (CHR '','') (renderKV kvs) = map (\<lambda>(k, v). k @ ''='' @ v) kvs"
    unfolding renderKV_def using assms modelKeys_no_comma
    by (intro Split_Join) (auto simp: plainKVs_def list_all_iff)
  moreover have "fold rawStep (map (\<lambda>(k, v). k @ ''='' @ v) xs) raw
      = fold (\<lambda>(k, v) m. AList.update k v m) xs raw"
    if "list_all (\<lambda>(k, v). k \<in> set modelKeys) xs" for xs raw
    using that by (induction xs arbitrary: raw) (auto simp: rawStep_kv [simplified])
  moreover have "list_all (\<lambda>(k, v). k \<in> set modelKeys) kvs"
    using assms by (auto simp: plainKVs_def list_all_iff)
  ultimately show ?thesis by (simp only: rawModel_def)
qed

lemma rawModel_lookup:
  "plainKVs kvs \<Longrightarrow> map_of (rawModel (renderKV kvs)) k = map_of kvs k"
  by (simp add: rawModel_renderKV map_of_fold_update plainKVs_def split: option.splits)

text \<open>Only the values of the keys count, once there is a path.\<close>

lemmas raw_defs = rawObjectType_def rawSourceKey_def rawSourceValue_def rawElementType_def

lemma newModel_raw:
  assumes "\<And>k. map_of (rawModel s) k = map_of (rawModel t) k"
    and "map_of (rawModel t) ''path'' \<noteq> None"
  shows "newModel s = newModel t"
proof -
  have eq: "map_of (rawModel s) = map_of (rawModel t)" by (rule ext) (rule assms(1))
  from assms(2) obtain p where "map_of (rawModel t) ''path'' = Some p" by auto
  then show ?thesis unfolding newModel_def Let_def raw_defs eq by simp
qed

lemma rawObjectType_nonempty: "rawObjectType raw \<noteq> ''''"
  by (auto simp: rawObjectType_def stringObjectType_def split: option.splits)

lemma newModel_cases:
  assumes "newModel s = Inr m"
  shows "(rawModel s = [] \<and> m_value m = s \<and> m_elementType m = '''' \<and> m_objectType m = '''') \<or> wf_model m"
  using assms
  by (auto simp: newModel_def wf_model_def Let_def rawObjectType_nonempty
      split: option.splits if_splits)

lemma Build_wf:
  assumes "Build name value = Inr (Some d)"
  shows "wf_def d"
proof -
  from assms obtain m where m: "newModel value = Inr m"
    by (auto simp: Build_def split: sum.splits bool.splits)
  with assms newModel_cases [OF m] show ?thesis
    by (auto simp: Build_def wf_model_def model_tests type_defs split: sum.splits bool.splits if_splits)
qed

section \<open>Evaluation does not panic\<close>

lemma getValues_no_panic:
  "jp_FindResults jp path u \<noteq> Inr [] \<Longrightarrow> getValuesByJSONPath jp u path \<noteq> Panic s"
  by (auto simp: getValuesByJSONPath_def split: sum.splits list.splits)

lemma withValues_PanicD:
  "withValues jp u d k = Panic s \<Longrightarrow> jp_FindResults jp (GetPath d) u \<noteq> Inr [] \<Longrightarrow> \<exists>vs. k vs = Panic s"
  using getValues_no_panic by (auto simp: withValues_def split: go.splits if_splits)

lemma readData_no_panic:
  "t = secretObjectType \<or> t = configMapObjectType \<Longrightarrow> readData rd t ns n \<noteq> Panic s"
  by (auto simp: readData_def split: sum.splits)

lemma Apply_no_panic:
  assumes "wf_def d" and "jp_FindResults jp (GetPath d) u \<noteq> Inr []"
  shows "Apply jp rd d u \<noteq> Panic s"
proof (cases d)
  case (StringFromDataField t o1 p b k)
  with assms show ?thesis
    by (auto simp: stringFromDataField_Apply_def readData_no_panic dest!: withValues_PanicD
        split: option.splits list.splits go.splits sum.splits)
next
  case (MapFromDataField t o1 sv p b)
  with assms show ?thesis
    by (auto simp: mapFromDataField_Apply_def readData_no_panic dest!: withValues_PanicD
        split: option.splits list.splits go.splits sum.splits)
qed (use assms in \<open>auto simp: stringDefinition_Apply_def stringOfMap_Apply_def
    sliceOfMapsFromPath_Apply_def sliceOfStringsFromPath_Apply_def Let_def
    dest!: withValues_PanicD split: list.splits json.splits if_splits\<close>)

section \<open>Data read from secrets\<close>

lemma mapData_all:
  assumes "sourceValueOf d = ''''" and "objectTypeOf d = secretObjectType"
  shows "mapData d (encodeAll data) out
    = Inr (fold (\<lambda>(k, v) m. AList.update k v m) (map (map_prod id JStr) data) out)"
  using assms
  by (induction data arbitrary: out)
    (auto simp: encodeAll_def decodeData_def DecodeString_EncodeToString)

lemma modelKVs_plain:
  "list_all (\<lambda>(k, v). CHR '','' \<notin> set v) (modelKVs m) \<Longrightarrow> plainKVs (modelKVs m)"
  by (simp add: plainKVs_def modelKVs_def modelKeys_def)

section \<open>Properties\<close>

text \<open>
  The annotation language does not depend on the order of its keys. Two annotation
  values that spell out the same keys and values, none twice, in any order, give the same
  model or the same error, provided they have a path.
\<close>

theorem newModel_order:
  assumes "plainKVs kvs" and "plainKVs kvs'" and "set kvs = set kvs'" and "''path'' \<in> fst ` set kvs"
  shows "newModel (renderKV kvs) = newModel (renderKV kvs')"
proof (rule newModel_raw)
  have d: "distinct (map fst kvs)" "distinct (map fst kvs')"
    using assms(1,2) by (auto simp: plainKVs_def)
  have "map_of kvs = map_of kvs'"
    using d assms(3) by (metis map_of_inject_set)
  then show "map_of (rawModel (renderKV kvs)) k = map_of (rawModel (renderKV kvs')) k" for k
    using assms(1,2) by (simp add: rawModel_lookup)
  show "map_of (rawModel (renderKV kvs')) ''path'' \<noteq> None"
    using assms(2-4) by (auto simp: rawModel_lookup map_of_eq_None_iff)
qed

theorem newModel_order_witness:
  "newModel ''path={.status.host},objectType=Secret'' = newModel ''objectType=Secret,path={.status.host}''"
proof -
  have "newModel (renderKV [(''path'', ''{.status.host}''), (''objectType'', ''Secret'')])
      = newModel (renderKV [(''objectType'', ''Secret''), (''path'', ''{.status.host}'')])"
    by (rule newModel_order) (auto simp: plainKVs_def modelKeys_def)
  then show ?thesis by (simp add: renderKV_def)
qed

text \<open>
  C30: Round trip of the annotation language. A well-formed model whose fields hold no comma
  is read back from the annotation value that spells it out.
\<close>

theorem newModel_roundtrip:
  assumes "wf_model m" and "list_all (\<lambda>(k, v). CHR '','' \<notin> set v) (modelKVs m)"
  shows "newModel (renderKV (modelKVs m)) = Inr m"
proof -
  have raw: "map_of (rawModel (renderKV (modelKVs m))) k = map_of (modelKVs m) k" for k
    using modelKVs_plain [OF assms(2)] by (rule rawModel_lookup)
  show ?thesis
    using assms(1) unfolding newModel_def Let_def raw_defs raw
    by (auto simp: modelKVs_def wf_model_def)
qed

theorem newModel_roundtrip_witness:
  "newModel ''path={.spec.users},objectType=string,elementType=sliceOfMaps,sourceKey=name,sourceValue=pass,optional=true''
     = Inr \<lparr>m_path = ''{.spec.users}'', m_elementType = ''sliceOfMaps'', m_objectType = ''string'',
            m_sourceKey = ''name'', m_sourceValue = ''pass'', m_value = '''', m_optional = True\<rparr>"
proof -
  let ?m = "\<lparr>m_path = ''{.spec.users}'', m_elementType = ''sliceOfMaps'', m_objectType = ''string'',
            m_sourceKey = ''name'', m_sourceValue = ''pass'', m_value = '''', m_optional = True\<rparr>"
  have "newModel (renderKV (modelKVs ?m)) = Inr ?m"
    by (rule newModel_roundtrip) (simp_all add: wf_model_def modelKVs_def Count_def type_defs)
  then show ?thesis by (simp add: renderKV_def modelKVs_def)
qed

text \<open>
  C31: A definition built from an annotation can be evaluated on every service resource
  without a panic, whatever the reader of secrets answers, as long as the evaluation of its
  path yields at least one list of results.
\<close>

theorem Build_Apply_no_panic:
  assumes "Build name value = Inr (Some d)" and "jp_FindResults jp (GetPath d) u \<noteq> Inr []"
  shows "Apply jp rd d u \<noteq> Panic s"
  using Build_wf [OF assms(1)] assms(2) by (rule Apply_no_panic)

theorem Build_Apply_no_panic_witness:
  "\<forall>s. Apply \<lparr>jp_Parse = \<lambda>s. Inr (NodeText s), jp_FindResults = \<lambda>s u. Inr [[RVal (JStr ''creds'')]],
          jp_PrintResults = \<lambda>r. Inr ''''\<rparr>
     (Some \<lparr>rd_configMap = \<lambda>ns n. Inl (errNew ''no''), rd_secret = \<lambda>ns n. Inr []\<rparr>)
     (MapFromDataField ''Secret'' '''' '''' ''{.spec.secret}'' False) [] \<noteq> Panic s"
proof (rule allI, rule Build_Apply_no_panic)
  show "Build ''service.binding'' ''path={.spec.secret},objectType=Secret''
      = Inr (Some (MapFromDataField ''Secret'' '''' '''' ''{.spec.secret}'' False))"
    by code_simp
qed simp

text \<open>
  What is stored in a secret is what is bound. When the annotation names a secret and no
  single key, the value of the binding definition holds every key of the secret's data with
  the decoded content, and nothing else.
\<close>

theorem secret_data_roundtrip:
  assumes "getValuesByJSONPath jp u path = Ok [v]"
    and "rd_secret rd (GetNamespace u) (fmt_v (rv_Interface v)) = Inr obj"
    and "NestedStringMap obj [''data''] = Inr (Some (encodeAll data))"
    and "distinct (map fst data)"
  shows "\<exists>out. Apply jp (Some rd) (MapFromDataField secretObjectType name '''' path opt) u = Ok (JObj out)
    \<and> (\<forall>k. map_of out k = map_option JStr (map_of data k))"
proof -
  let ?d = "MapFromDataField secretObjectType name '''' path opt"
  let ?out = "fold (\<lambda>(k, v) m. AList.update k v m) (map (map_prod id JStr) data) ([] :: fields)"
  have "Apply jp (Some rd) ?d u = Ok (JObj ?out)"
    using assms(1-3) mapData_all [of ?d data "[]"]
    by (simp add: mapFromDataField_Apply_def withValues_def readData_def)
  moreover have "map_of ?out k = map_option JStr (map_of data k)" for k
    using assms(4) by (subst map_of_fold_update) (auto split: option.splits)
  ultimately show ?thesis by blast
qed

theorem secret_data_roundtrip_witness:
  "\<exists>out. Apply \<lparr>jp_Parse = \<lambda>s. Inr (NodeText s), jp_FindResults = \<lambda>s u. Inr [[RVal (JStr ''creds'')]],
            jp_PrintResults = \<lambda>r. Inr ''''\<rparr>
       (Some \<lparr>rd_configMap = \<lambda>ns n. Inl (errNew ''no''),
              rd_secret = \<lambda>ns n. Inr [(''data'', JObj [(''user'', JStr ''YWRtaW4='')])]\<rparr>)
       (MapFromDataField secretObjectType '''' '''' ''{.spec.secret}'' False) [] = Ok (JObj out)
     \<and> map_of out ''user'' = Some (JStr ''admin'')"
proof -
  have "\<exists>out. Apply \<lparr>jp_Parse = \<lambda>s. Inr (NodeText s), jp_FindResults = \<lambda>s u. Inr [[RVal (JStr ''creds'')]],
            jp_PrintResults = \<lambda>r. Inr ''''\<rparr>
       (Some \<lparr>rd_configMap = \<lambda>ns n. Inl (errNew ''no''),
              rd_secret = \<lambda>ns n. Inr [(''data'', JObj [(''user'', JStr ''YWRtaW4='')])]\<rparr>)
       (MapFromDataField secretObjectType '''' '''' ''{.spec.secret}'' False) [] = Ok (JObj out)
     \<and> (\<forall>k. map_of out k = map_option JStr (map_of [(''user'', ''admin'')] k))"
    by (rule secret_data_roundtrip [where v = "RVal (JStr ''creds'')"
          and obj = "[(''data'', JObj [(''user'', JStr ''YWRtaW4='')])]"])
      (simp_all add: getValuesByJSONPath_def NestedStringMap_def nestedMapNoCopy_def
        NestedFieldNoCopy_def encodeAll_def encodeChar_def alphabet_def)
  then show ?thesis by force
qed


end
