(* ===== verification/Application.thy ===== *)
theory Application
  imports Workload
begin

text \<open>
  An application, the workload a service is bound to:
  \<open>pkg/reconcile/pipeline/context/application.go\<close>.

  The persisted resource comes from the API server, so it holds no
  \<open>[]map[string]interface{}\<close> and its deep copy is the same value. \<open>app_resource\<close> is the
  working copy, \<open>None\<close> until it is first asked for; the operations that may create it
  return the application. The location of a container is relative to that copy.
\<close>

section \<open>State\<close>

record application =
  app_gvr :: gvr
  app_persistedResource :: fields
  app_resource :: "fields option"
  app_bindingPath :: "(string \<times> string) option"
  app_bindableContainerNames :: "string list"
  app_resourceMapping :: workload_mapping

text \<open>
  \<open>reflect.DeepEqual\<close>: the order of a map does not count, the dynamic type of a slice
  does.
\<close>

primrec DeepEqual :: "json \<Rightarrow> json \<Rightarrow> bool" where
  "DeepEqual JNull y = (y = JNull)"
| "DeepEqual (JBool b) y = (y = JBool b)"
| "DeepEqual (JInt i) y = (y = JInt i)"
| "DeepEqual (JFloat s) y = (y = JFloat s)"
| "DeepEqual (JStr s) y = (y = JStr s)"
| "DeepEqual (JArr xs) y =
     (case y of JArr ys \<Rightarrow> list_all2 (\<lambda>f. f) (map DeepEqual xs) ys | _ \<Rightarrow> False)"
| "DeepEqual (JObj m) y =
     (case y of
        JObj n \<Rightarrow> length m = length n \<and>
          list_all (\<lambda>(k, f). case map_of n k of None \<Rightarrow> False | Some w \<Rightarrow> f w)
            (map (map_prod id DeepEqual) m)
      | _ \<Rightarrow> False)"
| "DeepEqual (JMaps ms) y =
     (case y of
        JMaps ns \<Rightarrow>
          list_all2 (\<lambda>m n. length m = length n \<and>
              list_all (\<lambda>(k, f). case map_of n k of None \<Rightarrow> False | Some w \<Rightarrow> f w) m)
            (map (map (map_prod id DeepEqual)) ms) ns
      | _ \<Rightarrow> False)"

text \<open>The maps of a value have distinct keys, as Go maps do.\<close>

primrec wf_json :: "json \<Rightarrow> bool" where
  "wf_json JNull = True"
| "wf_json (JBool b) = True"
| "wf_json (JInt i) = True"
| "wf_json (JFloat s) = True"
| "wf_json (JStr s) = True"
| "wf_json (JArr xs) = list_all id (map wf_json xs)"
| "wf_json (JObj m) = (distinct (map fst m) \<and> list_all snd (map (map_prod id wf_json) m))"
| "wf_json (JMaps ms) =
     list_all (\<lambda>m. distinct (map fst m) \<and> list_all snd m) (map (map (map_prod id wf_json)) ms)"

section \<open>Operations\<close>

definition SecretPath :: "application \<Rightarrow> string" where
  "SecretPath a = (case app_bindingPath a of None \<Rightarrow> '''' | Some (containersPath, secretPath) \<Rightarrow> secretPath)"

text \<open>The object that \<open>Resource()\<close> returns, and the application after the call.\<close>

definition resourceOf :: "application \<Rightarrow> fields" where
  "resourceOf a = (case app_resource a of None \<Rightarrow> app_persistedResource a | Some r \<Rightarrow> r)"

definition Resource :: "application \<Rightarrow> application" where
  "Resource a = a\<lparr>app_resource := Some (resourceOf a)\<rparr>"

definition IsUpdated :: "application \<Rightarrow> bool" where
  "IsUpdated a =
     (case app_resource a of
        None \<Rightarrow> True
      | Some r \<Rightarrow> \<not> DeepEqual (JObj (app_persistedResource a)) (JObj r))"

definition intoMetaContainer :: "workload_container \<Rightarrow> loc \<Rightarrow> fields \<Rightarrow> meta_container" where
  "intoMetaContainer c l d =
     \<lparr>mc_Name = (case NestedString d (wc_Name c) of Inr (Some n) \<Rightarrow> n | _ \<Rightarrow> ''''),
      mc_Env = wc_Env c, mc_EnvFrom = wc_EnvFrom c, mc_VolumeMount = wc_VolumeMounts c,
      mc_Data = l\<rparr>"

definition unsuitable :: "json \<Rightarrow> go_error" where
  "unsuitable v =
     Errorf ''Unable to convert data to suitable format: %v, received type %v'' [v]"

definition selected :: "string list \<Rightarrow> meta_container \<Rightarrow> bool" where
  "selected names c = (names = [] \<or> mc_Name c \<in> set names)"

fun sliceContainers ::
  "workload_container \<Rightarrow> json \<Rightarrow> loc \<Rightarrow> nat \<Rightarrow> json list \<Rightarrow> go_error + meta_container list" where
  "sliceContainers wc datum l i [] = Inr []"
| "sliceContainers wc datum l i (c # cs) =
     (case c of
        JObj d \<Rightarrow> map_sum id (\<lambda>r. intoMetaContainer wc (l @ [Idx i]) d # r)
                   (sliceContainers wc datum l (Suc i) cs)
      | _ \<Rightarrow> Inl (unsuitable datum))"

fun datumContainers :: "workload_container \<Rightarrow> rv \<Rightarrow> go_error + meta_container list" where
  "datumContainers wc (RRef l (JArr cs)) = sliceContainers wc (JArr cs) l 0 cs"
| "datumContainers wc (RRef l (JObj d)) = Inr [intoMetaContainer wc l d]"
| "datumContainers wc r = Inl (unsuitable (rv_Interface r))"

fun dataContainers :: "workload_container \<Rightarrow> rv list \<Rightarrow> go_error + meta_container list" where
  "dataContainers wc [] = Inr []"
| "dataContainers wc (r # rs) =
     (case datumContainers wc r of
        Inl e \<Rightarrow> Inl e
      | Inr cs \<Rightarrow> map_sum id (\<lambda>cs'. cs @ cs') (dataContainers wc rs))"

fun bindableContainers ::
  "jsonpath \<Rightarrow> fields \<Rightarrow> string list \<Rightarrow> workload_container list \<Rightarrow> meta_container list go" where
  "bindableContainers jp d names [] = Ok []"
| "bindableContainers jp d names (wc # wcs) =
     (case jp_FindResults jp (wc_Path wc) d of
        Inl e \<Rightarrow> bindableContainers jp d names wcs
      | Inr [] \<Rightarrow> Panic ''index out of range''
      | Inr (pathData # _) \<Rightarrow>
          (case dataContainers wc pathData of
             Inl e \<Rightarrow> Err e
           | Inr cs \<Rightarrow>
               (case bindableContainers jp d names wcs of
                  Ok cs' \<Rightarrow> Ok (filter (selected names) cs @ cs')
                | Err e \<Rightarrow> Err e
                | Panic s \<Rightarrow> Panic s)))"

definition BindablePods :: "jsonpath \<Rightarrow> application \<Rightarrow> application \<times> meta_pod_spec go" where
  "BindablePods jp a =
     (Resource a,
      case bindableContainers jp (resourceOf a) (app_bindableContainerNames a)
             (wm_Containers (app_resourceMapping a)) of
        Ok cs \<Rightarrow>
          if cs = [] then
            Err (Errorf ''no containers found in application resource: data: %v, names: %v''
                   [JObj (resourceOf a), JArr (map JStr (app_bindableContainerNames a))])
          else Ok \<lparr>mp_Containers = cs, mp_Volume = wm_Volume (app_resourceMapping a)\<rparr>
      | Err e \<Rightarrow> Err e
      | Panic s \<Rightarrow> Panic s)"

definition SetMapping :: "workload_mapping \<Rightarrow> application \<Rightarrow> application" where
  "SetMapping m a = a\<lparr>app_resourceMapping := m\<rparr>"

section \<open>The working copy\<close>

lemma resourceOf_Resource [simp]: "resourceOf (Resource a) = resourceOf a"
  by (simp add: resourceOf_def Resource_def)

lemma Resource_idem [simp]: "Resource (Resource a) = Resource a"
  by (simp add: Resource_def resourceOf_def)

lemma DeepEqual_fields:
  assumes "distinct (map fst m)"
    and "\<And>k v. (k, v) \<in> set m \<Longrightarrow> DeepEqual v v"
  shows "list_all (\<lambda>(k, f). case map_of m k of None \<Rightarrow> False | Some w \<Rightarrow> f w)
    (map (map_prod id DeepEqual) m)"
  using assms by (auto simp: list_all_iff simp del: map_of_eq_Some_iff)

lemma DeepEqual_refl: "wf_json j \<Longrightarrow> DeepEqual j j"
proof (induction j)
  case (JArr xs)
  then show ?case by (auto simp: list_all2_conv_all_nth list_all_iff)
next
  case (JObj m)
  then show ?case by (auto intro!: DeepEqual_fields simp: list_all_iff)
next
  case (JMaps ms)
  have "list_all (\<lambda>(k, f). case map_of m k of None \<Rightarrow> False | Some w \<Rightarrow> f w)
      (map (map_prod id DeepEqual) m)" if "m \<in> set ms" for m
    using JMaps that by (intro DeepEqual_fields) (fastforce simp: list_all_iff)+
  then show ?case by (simp add: list_all2_conv_all_nth)
qed auto

lemma IsUpdated_Resource:
  "app_resource a = None \<Longrightarrow> wf_json (JObj (app_persistedResource a)) \<Longrightarrow> \<not> IsUpdated (Resource a)"
  by (simp add: IsUpdated_def Resource_def resourceOf_def DeepEqual_refl
      del: DeepEqual.simps wf_json.simps)

end
