(* ===== verification/Api.thy ===== *)
theory Api
  imports Binding Application
begin

text \<open>
  The API types of the two kinds of service binding (\<open>apis/binding/v1alpha1\<close> and
  \<open>apis/spec/v1beta1\<close>), the builder of conditions (\<open>apis/conditions.go\<close>), the
  helpers shared by both kinds (\<open>apis/common.go\<close>), the resolution of references
  (\<open>pkg/client/kubernetes/resource_lookup.go\<close>) and the environment the operator runs in.

  The two \<open>ServiceBinding\<close> types differ in their specification only, which is a datatype
  with one constructor for each. The name of the binding secret in the status is \<open>None\<close>
  where the status has none. Times are left out of conditions; the message of a condition
  is the error it renders.

  The environment \<open>'w env\<close> collects what the operator calls outside its code: the API
  server, whose state \<open>'w\<close> the calls read and change, the REST mapper, the JSONPath
  library, the reflective converters, the JSON codecs of user and mapping, and the two
  template engines. \<open>env_Version\<close> is the resource version of an object, which the answer to
  a write carries.
\<close>

section \<open>Metadata, conditions and references\<close>

record object_meta =
  om_Name :: string
  om_Namespace :: string
  om_UID :: string
  om_Annotations :: strmap
  om_Finalizers :: "string list"
  om_Deleted :: bool
  om_Generation :: int
  om_ResourceVersion :: string

record condition =
  cn_Type :: string
  cn_Status :: string
  cn_Reason :: string
  cn_Message :: "go_error option"

record ref =
  ref_Group :: string
  ref_Version :: string
  ref_Kind :: string
  ref_Resource :: string
  ref_Name :: string

record label_selector =
  ls_MatchLabels :: "strmap option"

section \<open>Service bindings\<close>

record core_service =
  cs_Ref :: ref
  cs_Namespace :: "string option"
  cs_Id :: "string option"

record core_application =
  ca_Ref :: ref
  ca_LabelSelector :: "label_selector option"
  ca_BindingPath :: "(string \<times> string) option"

record core_spec =
  co_Name :: string
  co_NamingStrategy :: string
  co_Mappings :: strmap
  co_Services :: "core_service list"
  co_Application :: core_application
  co_DetectBindingResources :: bool
  co_BindAsFiles :: bool

record workload_ref =
  wr_APIVersion :: string
  wr_Kind :: string
  wr_Name :: string
  wr_Selector :: "label_selector option"
  wr_Containers :: "string list"

record service_ref =
  sr_APIVersion :: string
  sr_Kind :: string
  sr_Name :: string

record spec_spec =
  sp_Name :: string
  sp_Type :: string
  sp_Provider :: string
  sp_Workload :: workload_ref
  sp_Service :: service_ref
  sp_Env :: strmap

datatype binding_spec = CoreSpec core_spec | SpecSpec spec_spec

record sbinding =
  sb_Kind :: string
  sb_APIVersion :: string
  sb_Meta :: object_meta
  sb_Spec :: binding_spec
  sb_Conditions :: "condition list"
  sb_SecretName :: "string option"
  sb_ObservedGeneration :: int

record mapping =
  mp_Name :: string
  mp_Versions :: "mapping_template list"

section \<open>The environment\<close>

record userinfo =
  ui_Username :: string
  ui_Groups :: "string list"

record access_review =
  ar_Namespace :: string
  ar_Verb :: string
  ar_Resource :: gvr
  ar_Name :: string
  ar_User :: string
  ar_Groups :: "string list"

record 'w env =
  env_jp :: jsonpath
  env_conv :: converter
  env_Get :: "'w \<Rightarrow> gvr \<Rightarrow> string \<Rightarrow> string \<Rightarrow> go_error + fields"
  env_List :: "'w \<Rightarrow> gvr \<Rightarrow> string \<Rightarrow> string \<Rightarrow> go_error + fields list"
  env_Create :: "gvr \<Rightarrow> string \<Rightarrow> fields \<Rightarrow> 'w \<Rightarrow> go_error option \<times> 'w"
  env_Update :: "gvr \<Rightarrow> string \<Rightarrow> fields \<Rightarrow> 'w \<Rightarrow> go_error option \<times> 'w"
  env_UpdateStatus :: "gvr \<Rightarrow> string \<Rightarrow> fields \<Rightarrow> 'w \<Rightarrow> go_error option \<times> 'w"
  env_Version :: "'w \<Rightarrow> gvr \<Rightarrow> string \<Rightarrow> string \<Rightarrow> string"
  env_Review :: "'w \<Rightarrow> access_review \<Rightarrow> go_error + bool"
  env_RESTMapping :: "gvk \<Rightarrow> go_error + gvr"
  env_UnmarshalUser :: "string \<Rightarrow> userinfo option"
  env_MarshalUser :: "userinfo \<Rightarrow> string"
  env_UnmarshalMapping :: "string \<Rightarrow> go_error + mapping"
  env_MarshalMapping :: "mapping \<Rightarrow> string"
  env_MappingFrom :: "fields \<Rightarrow> go_error + mapping"
  env_BindingTo :: "sbinding \<Rightarrow> go_error + fields"
  env_BindingFrom :: "fields \<Rightarrow> go_error + sbinding"
  env_registry :: registry
  env_HtmlTemplate :: "string \<Rightarrow> go_error + (json \<Rightarrow> go_error + string)"
  env_TextTemplate :: "string \<Rightarrow> go_error + (json \<Rightarrow> go_error + string)"

section \<open>Building conditions\<close>

definition BindingReady :: string where "BindingReady = ''Ready''"
definition CollectionReady :: string where "CollectionReady = ''CollectionReady''"
definition InjectionReady :: string where "InjectionReady = ''InjectionReady''"
definition ConditionTrue :: string where "ConditionTrue = ''True''"
definition ConditionFalse :: string where "ConditionFalse = ''False''"

definition Conditions :: condition where
  "Conditions = \<lparr>cn_Type = '''', cn_Status = '''', cn_Reason = '''', cn_Message = None\<rparr>"

definition withNotCollectionReady :: "condition \<Rightarrow> condition" where
  "withNotCollectionReady c = c\<lparr>cn_Status := ConditionFalse, cn_Type := CollectionReady\<rparr>"
definition withCollectionReady :: "condition \<Rightarrow> condition" where
  "withCollectionReady c = c\<lparr>cn_Status := ConditionTrue, cn_Type := CollectionReady\<rparr>"
definition withNotInjectionReady :: "condition \<Rightarrow> condition" where
  "withNotInjectionReady c = c\<lparr>cn_Status := ConditionFalse, cn_Type := InjectionReady\<rparr>"
definition withInjectionReady :: "condition \<Rightarrow> condition" where
  "withInjectionReady c = c\<lparr>cn_Status := ConditionTrue, cn_Type := InjectionReady\<rparr>"
definition withNotBindingReady :: "condition \<Rightarrow> condition" where
  "withNotBindingReady c = c\<lparr>cn_Status := ConditionFalse, cn_Type := BindingReady\<rparr>"
definition withBindingReady :: "condition \<Rightarrow> condition" where
  "withBindingReady c = c\<lparr>cn_Status := ConditionTrue, cn_Type := BindingReady\<rparr>"
definition withReason :: "string \<Rightarrow> condition \<Rightarrow> condition" where
  "withReason r c = c\<lparr>cn_Reason := r\<rparr>"
definition withDataCollected :: "condition \<Rightarrow> condition" where
  "withDataCollected c = c\<lparr>cn_Reason := ''DataCollected''\<rparr>"
definition withApplicationNotFound :: "condition \<Rightarrow> condition" where
  "withApplicationNotFound c = c\<lparr>cn_Reason := ''ApplicationNotFound''\<rparr>"
definition withMsg :: "go_error \<Rightarrow> condition \<Rightarrow> condition" where
  "withMsg e c = c\<lparr>cn_Message := Some e\<rparr>"

fun FindStatusCondition :: "condition list \<Rightarrow> string \<Rightarrow> condition option" where
  "FindStatusCondition [] t = None"
| "FindStatusCondition (c # cs) t = (if cn_Type c = t then Some c else FindStatusCondition cs t)"

fun SetStatusCondition :: "condition list \<Rightarrow> condition \<Rightarrow> condition list" where
  "SetStatusCondition [] new = [new]"
| "SetStatusCondition (c # cs) new =
     (if cn_Type c = cn_Type new
      then c\<lparr>cn_Status := cn_Status new, cn_Reason := cn_Reason new, cn_Message := cn_Message new\<rparr> # cs
      else c # SetStatusCondition cs new)"

definition IsStatusConditionTrue :: "condition list \<Rightarrow> string \<Rightarrow> bool" where
  "IsStatusConditionTrue cs t =
     (case FindStatusCondition cs t of None \<Rightarrow> False | Some c \<Rightarrow> cn_Status c = ConditionTrue)"

section \<open>Finalizers, requester and updates\<close>

definition finalizerName :: string where
  "finalizerName = ''finalizer.servicebinding.openshift.io''"
definition requesterAnnotationKey :: string where
  "requesterAnnotationKey = ''servicebinding.io/requester''"
definition MappingAnnotationKey :: string where
  "MappingAnnotationKey = ''servicebinding.io/mapping''"

text \<open>The flag tells whether the finalizers were changed.\<close>

definition MaybeAddFinalizer :: "object_meta \<Rightarrow> bool \<times> object_meta" where
  "MaybeAddFinalizer m =
     (if finalizerName \<in> set (om_Finalizers m) then (False, m)
      else (True, m\<lparr>om_Finalizers := om_Finalizers m @ [finalizerName]\<rparr>))"

definition MaybeRemoveFinalizer :: "object_meta \<Rightarrow> bool \<times> object_meta" where
  "MaybeRemoveFinalizer m =
     (if finalizerName \<in> set (om_Finalizers m)
      then (True, m\<lparr>om_Finalizers := remove_first (\<lambda>f. f = finalizerName) (om_Finalizers m)\<rparr>)
      else (False, m))"

definition CanUpdateBinding :: "sbinding \<Rightarrow> sbinding \<Rightarrow> go_error option" where
  "CanUpdateBinding obj oldObj =
     (if IsStatusConditionTrue (sb_Conditions obj) BindingReady \<and> sb_Spec obj \<noteq> sb_Spec oldObj
      then Some (errNew ''cannot update Service Binding if 'Ready' condition is True. If you want to rebind to another service/application, remove this binding and create a new one.'')
      else None)"

definition SetRequester :: "'w env \<Rightarrow> fields \<Rightarrow> userinfo \<Rightarrow> fields" where
  "SetRequester e obj userInfo =
     (let anns = (case GetAnnotations obj of None \<Rightarrow> [] | Some a \<Rightarrow> a)
      in SetAnnotations obj (AList.update requesterAnnotationKey (env_MarshalUser e userInfo) anns))"

definition Requester :: "'w env \<Rightarrow> object_meta \<Rightarrow> userinfo option" where
  "Requester e m =
     (case map_of (om_Annotations m) requesterAnnotationKey of
        None \<Rightarrow> None
      | Some req \<Rightarrow> env_UnmarshalUser e req)"

definition HasDeletionTimestamp :: "sbinding \<Rightarrow> bool" where
  "HasDeletionTimestamp sb = om_Deleted (sb_Meta sb)"

definition AsOwnerReference :: "sbinding \<Rightarrow> fields" where
  "AsOwnerReference sb =
     [(''apiVersion'', JStr (sb_APIVersion sb)), (''kind'', JStr (sb_Kind sb)),
      (''name'', JStr (om_Name (sb_Meta sb))), (''uid'', JStr (om_UID (sb_Meta sb))),
      (''controller'', JBool True)]"

definition NamingTemplate :: "core_spec \<Rightarrow> string" where
  "NamingTemplate spec =
     (let templates = [(''none'', ''{{ .name }}''),
            (''uppercase'', ''{{ .service.kind | upper }}_{{ .name | upper }}''),
            (''lowercase'', ''{{ .name | lower }}'')]
      in if co_NamingStrategy spec \<noteq> '''' then
           (case map_of templates (co_NamingStrategy spec) of
              Some v \<Rightarrow> v
            | None \<Rightarrow> co_NamingStrategy spec)
         else if co_BindAsFiles spec then ''{{ .name }}''
         else ''{{ .service.kind | upper }}_{{ .name | upper }}'')"

section \<open>Resolution of references\<close>

definition ref_GroupVersionResource :: "ref \<Rightarrow> go_error + gvr" where
  "ref_GroupVersionResource r =
     (if ref_Resource r = '''' then Inl (errNew ''Resource undefined'')
      else Inr \<lparr>gvr_group = ref_Group r, gvr_version = ref_Version r, gvr_resource = ref_Resource r\<rparr>)"

definition ref_GroupVersionKind :: "ref \<Rightarrow> go_error + gvk" where
  "ref_GroupVersionKind r =
     (if ref_Kind r = '''' then Inl (errNew ''Kind undefined'')
      else Inr \<lparr>gvk_group = ref_Group r, gvk_version = ref_Version r, gvk_kind = ref_Kind r\<rparr>)"

definition FromAPIVersionAndKind :: "string \<Rightarrow> string \<Rightarrow> gvk" where
  "FromAPIVersionAndKind apiVersion kind =
     (case ParseGroupVersion apiVersion of
        Some (g, v) \<Rightarrow> \<lparr>gvk_group = g, gvk_version = v, gvk_kind = kind\<rparr>
      | None \<Rightarrow> \<lparr>gvk_group = '''', gvk_version = '''', gvk_kind = kind\<rparr>)"

definition ResourceForKind :: "'w env \<Rightarrow> gvk \<Rightarrow> go_error + gvr" where
  "ResourceForKind e k = env_RESTMapping e k"

text \<open>
  A referable object is given by the results of its two methods; the references of the
  specification API have a kind only.
\<close>

definition ResourceForReferable ::
  "'w env \<Rightarrow> go_error + gvr \<Rightarrow> go_error + gvk \<Rightarrow> go_error + gvr" where
  "ResourceForReferable e gvr gvk =
     (case gvr of
        Inr r \<Rightarrow> Inr r
      | Inl _ \<Rightarrow> (case gvk of Inl err \<Rightarrow> Inl err | Inr k \<Rightarrow> ResourceForKind e k))"

definition workload_GroupVersionKind :: "workload_ref \<Rightarrow> gvk" where
  "workload_GroupVersionKind r = FromAPIVersionAndKind (wr_APIVersion r) (wr_Kind r)"

definition service_GroupVersionKind :: "service_ref \<Rightarrow> gvk" where
  "service_GroupVersionKind r = FromAPIVersionAndKind (sr_APIVersion r) (sr_Kind r)"

definition noResource :: "go_error + gvr" where
  "noResource = Inl (errNew ''Resource undefined'')"

section \<open>Conditions and finalizers\<close>

lemmas condition_defs = Conditions_def withNotCollectionReady_def withCollectionReady_def
  withNotInjectionReady_def withInjectionReady_def withNotBindingReady_def withBindingReady_def
  withReason_def withDataCollected_def withApplicationNotFound_def withMsg_def

lemma Find_SetStatusCondition:
  "FindStatusCondition (SetStatusCondition cs c) t =
     (if t = cn_Type c
      then Some ((case FindStatusCondition cs t of None \<Rightarrow> c | Some c' \<Rightarrow> c')
        \<lparr>cn_Status := cn_Status c, cn_Reason := cn_Reason c, cn_Message := cn_Message c\<rparr>)
      else FindStatusCondition cs t)"
  by (induction cs) auto

lemma finalizer_add_remove:
  "finalizerName \<notin> set (om_Finalizers m) \<Longrightarrow>
     MaybeRemoveFinalizer (snd (MaybeAddFinalizer m)) = (True, m)"
proof -
  assume a: "finalizerName \<notin> set (om_Finalizers m)"
  then have "\<not> list_ex (\<lambda>f. f = finalizerName) (om_Finalizers m)" by (auto simp: list_ex_iff)
  with a show ?thesis
    by (simp add: MaybeAddFinalizer_def MaybeRemoveFinalizer_def remove_first_append)
qed

end
