(* ===== verification/Structs.thy ===== *)
theory Structs
  imports Memory Api
begin

text \<open>
  The API types as they lie in memory (\<open>apis/binding/v1alpha1\<close>,
    \<open>apis/spec/v1beta1\<close> and
  the metadata of \<open>meta/v1/types.go\<close>).

  The records are the Go structs with pointers, slices and maps as addresses; a field that
  the code copies by assignment is a plain value. A time is immutable and is copied by
  assignment.
\<close>

record h_requirement =
  rq_Key :: string
  rq_Operator :: string
  rq_Values :: ptr

record h_selector =
  hl_MatchLabels :: ptr
  hl_MatchExpressions :: ptr

record h_owner =
  ow_APIVersion :: string
  ow_Kind :: string
  ow_Name :: string
  ow_UID :: string
  ow_Controller :: ptr
  ow_BlockOwnerDeletion :: ptr

record h_fields_v1 =
  fv_Raw :: ptr

record h_managed =
  mf_Manager :: string
  mf_Operation :: string
  mf_APIVersion :: string
  mf_Time :: ptr
  mf_FieldsType :: string
  mf_FieldsV1 :: ptr
  mf_Subresource :: string

record h_meta =
  hm_Name :: string
  hm_GenerateName :: string
  hm_Namespace :: string
  hm_SelfLink :: string
  hm_UID :: string
  hm_ResourceVersion :: string
  hm_Generation :: int
  hm_CreationTimestamp :: int
  hm_DeletionTimestamp :: ptr
  hm_DeletionGracePeriodSeconds :: ptr
  hm_Labels :: ptr
  hm_Annotations :: ptr
  hm_OwnerReferences :: ptr
  hm_Finalizers :: ptr
  hm_ManagedFields :: ptr

record h_list_meta =
  li_SelfLink :: string
  li_ResourceVersion :: string
  li_Continue :: string
  li_RemainingItemCount :: ptr

record h_type_meta =
  tm_Kind :: string
  tm_APIVersion :: string

record h_condition =
  hc_Type :: string
  hc_Status :: string
  hc_ObservedGeneration :: int
  hc_LastTransitionTime :: int
  hc_Reason :: string
  hc_Message :: string

record h_path =
  bp_ContainersPath :: string
  bp_SecretPath :: string

record h_mapping =
  hp_Name :: string
  hp_Value :: string

record h_kind =
  ks_Group :: string
  ks_Version :: string
  ks_Kind :: string

record h_namespaced =
  nr_Ref :: ref
  nr_Namespace :: ptr

record h_service =
  hs_NamespacedRef :: h_namespaced
  hs_Id :: ptr

record h_application =
  ha_Ref :: ref
  ha_LabelSelector :: ptr
  ha_BindingPath :: ptr

record h_spec =
  hx_Name :: string
  hx_NamingStrategy :: string
  hx_Mappings :: ptr
  hx_Services :: ptr
  hx_Application :: h_application
  hx_DetectBindingResources :: bool
  hx_BindAsFiles :: bool

record h_status =
  ht_Conditions :: ptr
  ht_Secret :: string

record h_binding =
  hb_TypeMeta :: h_type_meta
  hb_ObjectMeta :: h_meta
  hb_Spec :: h_spec
  hb_Status :: h_status

record h_binding_list =
  hbl_TypeMeta :: h_type_meta
  hbl_ListMeta :: h_list_meta
  hbl_Items :: ptr

record h_kinds =
  hk_TypeMeta :: h_type_meta
  hk_ObjectMeta :: h_meta
  hk_Status :: ptr

record h_kinds_list =
  hkl_TypeMeta :: h_type_meta
  hkl_ListMeta :: h_list_meta
  hkl_Items :: ptr

record h_map_container =
  cc_Path :: string
  cc_Name :: string
  cc_Env :: string
  cc_VolumeMounts :: string

record h_map_template =
  cp_Version :: string
  cp_Annotations :: string
  cp_Containers :: ptr
  cp_Volumes :: string

record h_map_spec =
  cw_Versions :: ptr

record h_resource_mapping =
  cm_TypeMeta :: h_type_meta
  cm_ObjectMeta :: h_meta
  cm_Spec :: h_map_spec

record h_resource_mapping_list =
  cml_TypeMeta :: h_type_meta
  cml_ListMeta :: h_list_meta
  cml_Items :: ptr

record h_env =
  em_Name :: string
  em_Key :: string

record h_secret_ref =
  bsr_Name :: string

record h_service_ref =
  bvr_APIVersion :: string
  bvr_Kind :: string
  bvr_Name :: string

record h_workload_ref =
  bwr_APIVersion :: string
  bwr_Kind :: string
  bwr_Name :: string
  bwr_Selector :: ptr
  bwr_Containers :: ptr

record h_beta_spec =
  bs_Name :: string
  bs_Type :: string
  bs_Provider :: string
  bs_Workload :: h_workload_ref
  bs_Service :: h_service_ref
  bs_Env :: ptr

record h_beta_status =
  bt_ObservedGeneration :: int
  bt_Conditions :: ptr
  bt_Binding :: ptr

record h_beta_binding =
  bb_TypeMeta :: h_type_meta
  bb_ObjectMeta :: h_meta
  bb_Spec :: h_beta_spec
  bb_Status :: h_beta_status

record h_beta_binding_list =
  bbl_TypeMeta :: h_type_meta
  bbl_ListMeta :: h_list_meta
  bbl_Items :: ptr

text \<open>A cell holds the target of a pointer, the elements of a slice or the entries of a map.\<close>

datatype cell =
    CStrings (un_CStrings: "string list")
  | CMap (un_CMap: "(string, string) alist")
  | CRequirements (un_CRequirements: "h_requirement list")
  | CBool (un_CBool: "bool")
  | CBytes (un_CBytes: "int list")
  | CTime (un_CTime: "int")
  | CFields (un_CFields: "h_fields_v1")
  | CInt64 (un_CInt64: "int")
  | COwners (un_COwners: "h_owner list")
  | CManaged (un_CManaged: "h_managed list")
  | CString (un_CString: "string")
  | CSelector (un_CSelector: "h_selector")
  | CPath (un_CPath: "h_path")
  | CMappings (un_CMappings: "h_mapping list")
  | CServices (un_CServices: "h_service list")
  | CConditions (un_CConditions: "h_condition list")
  | CBindings (un_CBindings: "h_binding list")
  | CKindStatuses (un_CKindStatuses: "h_kind list")
  | CKinds (un_CKinds: "h_kinds list")
  | CContainers (un_CContainers: "h_map_container list")
  | CTemplates (un_CTemplates: "h_map_template list")
  | CResourceMappings (un_CResourceMappings: "h_resource_mapping list")
  | CEnvs (un_CEnvs: "h_env list")
  | CSecretRef (un_CSecretRef: "h_secret_ref")
  | CSpecBindings (un_CSpecBindings: "h_beta_binding list")
  | CWorkloadMappingContainer (un_CWorkloadMappingContainer: "h_map_container")
  | CWorkloadMappingTemplate (un_CWorkloadMappingTemplate: "h_map_template")
  | CWorkloadMappingSpec (un_CWorkloadMappingSpec: "h_map_spec")
  | CWorkloadMapping (un_CWorkloadMapping: "h_resource_mapping")
  | CWorkloadMappingList (un_CWorkloadMappingList: "h_resource_mapping_list")
  | CEnvMapping (un_CEnvMapping: "h_env")
  | CServiceRef (un_CServiceRef: "h_service_ref")
  | CWorkloadRef (un_CWorkloadRef: "h_workload_ref")
  | CBetaBindingSpec (un_CBetaBindingSpec: "h_beta_spec")
  | CBetaBindingStatus (un_CBetaBindingStatus: "h_beta_status")
  | CBetaBinding (un_CBetaBinding: "h_beta_binding")
  | CBetaBindingList (un_CBetaBindingList: "h_beta_binding_list")
  | CApplication (un_CApplication: "h_application")
  | CBindableKinds (un_CBindableKinds: "h_kinds")
  | CBindableKindsList (un_CBindableKindsList: "h_kinds_list")
  | CBindableKindsStatus (un_CBindableKindsStatus: "h_kind")
  | CMapping (un_CMapping: "h_mapping")
  | CNamespacedRef (un_CNamespacedRef: "h_namespaced")
  | CRef (un_CRef: "ref")
  | CService (un_CService: "h_service")
  | CServiceBinding (un_CServiceBinding: "h_binding")
  | CServiceBindingList (un_CServiceBindingList: "h_binding_list")
  | CServiceBindingSpec (un_CServiceBindingSpec: "h_spec")
  | CServiceBindingStatus (un_CServiceBindingStatus: "h_status")

type_synonym mem = "cell list"

end
