(* ===== verification/MetaCopy.thy ===== *)
theory MetaCopy
  imports Structs
begin

text \<open>
  The deep copies of the metadata types (\<open>meta/v1/zz_generated.deepcopy.go\<close>) that the
  copies of the API types call. For each struct, the view is what \<open>reflect.DeepEqual\<close>
  compares and the addresses are all cells that can be reached from it; the contract
  \<open>deep_copy\<close> of \<open>Memory\<close> is proved for every type.
\<close>

section \<open>The copies\<close>

definition Requirement_DeepCopyInto :: "mem \<Rightarrow> h_requirement \<Rightarrow> h_requirement \<times> mem" where
  "Requirement_DeepCopyInto m x =
     (let (values', m1) = copyPtr CStrings un_CStrings assign m (rq_Values x)
      in (x\<lparr>rq_Values := values'\<rparr>, m1))"

definition LabelSelector_DeepCopyInto :: "mem \<Rightarrow> h_selector \<Rightarrow> h_selector \<times> mem" where
  "LabelSelector_DeepCopyInto m x =
     (let (matchLabels', m1) = copyPtr CMap un_CMap copyEntries m (hl_MatchLabels x);
          (matchExpressions',
            m2) = copyPtr CRequirements un_CRequirements (copyElems Requirement_DeepCopyInto)
              m1 (hl_MatchExpressions x)
      in (x\<lparr>hl_MatchLabels := matchLabels', hl_MatchExpressions := matchExpressions'\<rparr>, m2))"

definition OwnerReference_DeepCopyInto :: "mem \<Rightarrow> h_owner \<Rightarrow> h_owner \<times> mem" where
  "OwnerReference_DeepCopyInto m x =
     (let (controller', m1) = copyPtr CBool un_CBool assign m (ow_Controller x);
          (blockOwnerDeletion', m2) = copyPtr CBool un_CBool assign m1 (ow_BlockOwnerDeletion x)
      in (x\<lparr>ow_Controller := controller', ow_BlockOwnerDeletion := blockOwnerDeletion'\<rparr>, m2))"

definition FieldsV1_DeepCopyInto :: "mem \<Rightarrow> h_fields_v1 \<Rightarrow> h_fields_v1 \<times> mem" where
  "FieldsV1_DeepCopyInto m x =
     (let (raw', m1) = copyPtr CBytes un_CBytes assign m (fv_Raw x)
      in (x\<lparr>fv_Raw := raw'\<rparr>, m1))"

definition ManagedFieldsEntry_DeepCopyInto :: "mem \<Rightarrow> h_managed \<Rightarrow> h_managed \<times> mem" where
  "ManagedFieldsEntry_DeepCopyInto m x =
     (let (time', m1) = copyPtr CTime un_CTime assign m (mf_Time x);
          (fieldsV1', m2) = copyPtr CFields un_CFields FieldsV1_DeepCopyInto m1 (mf_FieldsV1 x)
      in (x\<lparr>mf_Time := time', mf_FieldsV1 := fieldsV1'\<rparr>, m2))"

definition ObjectMeta_DeepCopyInto :: "mem \<Rightarrow> h_meta \<Rightarrow> h_meta \<times> mem" where
  "ObjectMeta_DeepCopyInto m x =
     (let (deletionTimestamp', m1) = copyPtr CTime un_CTime assign m (hm_DeletionTimestamp x);
          (deletionGracePeriodSeconds', m2) = copyPtr CInt64 un_CInt64 assign
            m1 (hm_DeletionGracePeriodSeconds x);
          (labels', m3) = copyPtr CMap un_CMap copyEntries m2 (hm_Labels x);
          (annotations', m4) = copyPtr CMap un_CMap copyEntries m3 (hm_Annotations x);
          (ownerReferences', m5) = copyPtr COwners un_COwners (copyElems OwnerReference_DeepCopyInto)
            m4 (hm_OwnerReferences x);
          (finalizers', m6) = copyPtr CStrings un_CStrings assign m5 (hm_Finalizers x);
          (managedFields', m7) = copyPtr CManaged un_CManaged (copyElems ManagedFieldsEntry_DeepCopyInto)
            m6 (hm_ManagedFields x)
      in (x\<lparr>hm_DeletionTimestamp := deletionTimestamp',
        hm_DeletionGracePeriodSeconds := deletionGracePeriodSeconds', hm_Labels := labels',
          hm_Annotations := annotations', hm_OwnerReferences := ownerReferences', hm_Finalizers := finalizers',
            hm_ManagedFields := managedFields'\<rparr>, m7))"

definition ListMeta_DeepCopyInto :: "mem \<Rightarrow> h_list_meta \<Rightarrow> h_list_meta \<times> mem" where
  "ListMeta_DeepCopyInto m x =
     (let (remainingItemCount', m1) = copyPtr CInt64 un_CInt64 assign m (li_RemainingItemCount x)
      in (x\<lparr>li_RemainingItemCount := remainingItemCount'\<rparr>, m1))"

definition Condition_DeepCopyInto :: "mem \<Rightarrow> h_condition \<Rightarrow> h_condition \<times> mem" where
  "Condition_DeepCopyInto m x = assign m x"

section \<open>Views and addresses of the structs\<close>

definition Requirement_view :: "mem \<Rightarrow> h_requirement \<Rightarrow> gotree" where
  "Requirement_view m x =
     GStruct [GText (rq_Key x), GText (rq_Operator x),
     ptrView un_CStrings (\<lambda>m xs. GSeq (map GText xs)) m (rq_Values x)]"

definition Requirement_addrs :: "mem \<Rightarrow> h_requirement \<Rightarrow> nat list" where
  "Requirement_addrs m x =
     ptrAddrs un_CStrings noAddrs m (rq_Values x)"

definition LabelSelector_view :: "mem \<Rightarrow> h_selector \<Rightarrow> gotree" where
  "LabelSelector_view m x =
     GStruct [bothView (ptrView un_CMap (\<lambda>m. GDict))
       (ptrView un_CRequirements (seqView Requirement_view)) m
       (hl_MatchLabels x, hl_MatchExpressions x)]"

definition LabelSelector_addrs :: "mem \<Rightarrow> h_selector \<Rightarrow> nat list" where
  "LabelSelector_addrs m x =
     bothAddrs (ptrAddrs un_CMap noAddrs)
       (ptrAddrs un_CRequirements (seqAddrs Requirement_addrs)) m
       (hl_MatchLabels x, hl_MatchExpressions x)"

definition OwnerReference_view :: "mem \<Rightarrow> h_owner \<Rightarrow> gotree" where
  "OwnerReference_view m x =
     GStruct [GText (ow_APIVersion x), GText (ow_Kind x), GText (ow_Name x), GText (ow_UID x),
     bothView (ptrView un_CBool (\<lambda>m. GFlag))
       (ptrView un_CBool (\<lambda>m. GFlag)) m
       (ow_Controller x, ow_BlockOwnerDeletion x)]"

definition OwnerReference_addrs :: "mem \<Rightarrow> h_owner \<Rightarrow> nat list" where
  "OwnerReference_addrs m x =
     bothAddrs (ptrAddrs un_CBool noAddrs)
       (ptrAddrs un_CBool noAddrs) m
       (ow_Controller x, ow_BlockOwnerDeletion x)"

definition FieldsV1_view :: "mem \<Rightarrow> h_fields_v1 \<Rightarrow> gotree" where
  "FieldsV1_view m x =
     GStruct [ptrView un_CBytes (\<lambda>m xs. GSeq (map GNum xs)) m (fv_Raw x)]"

definition FieldsV1_addrs :: "mem \<Rightarrow> h_fields_v1 \<Rightarrow> nat list" where
  "FieldsV1_addrs m x =
     ptrAddrs un_CBytes noAddrs m (fv_Raw x)"

definition ManagedFieldsEntry_view :: "mem \<Rightarrow> h_managed \<Rightarrow> gotree" where
  "ManagedFieldsEntry_view m x =
     GStruct [GText (mf_Manager x), GText (mf_Operation x), GText (mf_APIVersion x), GText (mf_FieldsType x),
       GText (mf_Subresource x),
     bothView (ptrView un_CTime (\<lambda>m. GNum))
       (ptrView un_CFields FieldsV1_view) m
       (mf_Time x, mf_FieldsV1 x)]"

definition ManagedFieldsEntry_addrs :: "mem \<Rightarrow> h_managed \<Rightarrow> nat list" where
  "ManagedFieldsEntry_addrs m x =
     bothAddrs (ptrAddrs un_CTime noAddrs)
       (ptrAddrs un_CFields FieldsV1_addrs) m
       (mf_Time x, mf_FieldsV1 x)"

definition ObjectMeta_view :: "mem \<Rightarrow> h_meta \<Rightarrow> gotree" where
  "ObjectMeta_view m x =
     GStruct [GText (hm_Name x), GText (hm_GenerateName x), GText (hm_Namespace x), GText (hm_SelfLink x),
       GText (hm_UID x), GText (hm_ResourceVersion x), GNum (hm_Generation x), GNum (hm_CreationTimestamp x),
     bothView (ptrView un_CTime (\<lambda>m. GNum))
       (bothView (ptrView un_CInt64 (\<lambda>m. GNum))
       (bothView (ptrView un_CMap (\<lambda>m. GDict))
       (bothView (ptrView un_CMap (\<lambda>m. GDict))
       (bothView (ptrView un_COwners (seqView OwnerReference_view))
       (bothView (ptrView un_CStrings (\<lambda>m xs. GSeq (map GText xs)))
       (ptrView un_CManaged (seqView ManagedFieldsEntry_view))))))) m
       (hm_DeletionTimestamp x, hm_DeletionGracePeriodSeconds x, hm_Labels x, hm_Annotations x,
         hm_OwnerReferences x, hm_Finalizers x, hm_ManagedFields x)]"

definition ObjectMeta_addrs :: "mem \<Rightarrow> h_meta \<Rightarrow> nat list" where
  "ObjectMeta_addrs m x =
     bothAddrs (ptrAddrs un_CTime noAddrs)
       (bothAddrs (ptrAddrs un_CInt64 noAddrs)
       (bothAddrs (ptrAddrs un_CMap noAddrs)
       (bothAddrs (ptrAddrs un_CMap noAddrs)
       (bothAddrs (ptrAddrs un_COwners (seqAddrs OwnerReference_addrs))
       (bothAddrs (ptrAddrs un_CStrings noAddrs)
       (ptrAddrs un_CManaged (seqAddrs ManagedFieldsEntry_addrs))))))) m
       (hm_DeletionTimestamp x, hm_DeletionGracePeriodSeconds x, hm_Labels x, hm_Annotations x,
         hm_OwnerReferences x, hm_Finalizers x, hm_ManagedFields x)"

definition ListMeta_view :: "mem \<Rightarrow> h_list_meta \<Rightarrow> gotree" where
  "ListMeta_view m x =
     GStruct [GText (li_SelfLink x), GText (li_ResourceVersion x), GText (li_Continue x),
     ptrView un_CInt64 (\<lambda>m. GNum) m (li_RemainingItemCount x)]"

definition ListMeta_addrs :: "mem \<Rightarrow> h_list_meta \<Rightarrow> nat list" where
  "ListMeta_addrs m x =
     ptrAddrs un_CInt64 noAddrs m (li_RemainingItemCount x)"

definition TypeMeta_view :: "h_type_meta \<Rightarrow> gotree" where
  "TypeMeta_view x =
     GStruct [GText (tm_Kind x), GText (tm_APIVersion x)]"

definition Condition_view :: "h_condition \<Rightarrow> gotree" where
  "Condition_view x =
     GStruct [GText (hc_Type x), GText (hc_Status x), GNum (hc_ObservedGeneration x),
       GNum (hc_LastTransitionTime x), GText (hc_Reason x), GText (hc_Message x)]"

section \<open>Every struct keeps the contract\<close>

lemma Requirement_copies:
  "deep_copy Requirement_DeepCopyInto Requirement_view Requirement_addrs"
  by (rule deep_copy_structI [OF deep_copy_ptr [where mk = CStrings, OF deep_copy_assign],
      where part = "\<lambda>x. rq_Values x"
        and put = "\<lambda>values x. x\<lparr>rq_Values := values\<rparr>"
        and F = "\<lambda>x t. GStruct [GText (rq_Key x), GText (rq_Operator x), t]"])
    (simp_all add: Requirement_DeepCopyInto_def Requirement_view_def Requirement_addrs_def
      copy_simps split: prod.splits)

lemma LabelSelector_copies:
  "deep_copy LabelSelector_DeepCopyInto LabelSelector_view LabelSelector_addrs"
  by (rule deep_copy_structI [OF deep_copy_both [OF deep_copy_ptr [where mk = CMap, OF deep_copy_entries]
      deep_copy_ptr [where mk = CRequirements, OF deep_copy_elems [OF Requirement_copies]]],
      where part = "\<lambda>x. (hl_MatchLabels x, hl_MatchExpressions x)"
        and put = "\<lambda>(matchLabels, matchExpressions) x. x\<lparr>hl_MatchLabels := matchLabels,
          hl_MatchExpressions := matchExpressions\<rparr>"
        and F = "\<lambda>x t. GStruct [t]"])
    (simp_all add: LabelSelector_DeepCopyInto_def LabelSelector_view_def LabelSelector_addrs_def
      copy_simps split: prod.splits)

lemma OwnerReference_copies:
  "deep_copy OwnerReference_DeepCopyInto OwnerReference_view OwnerReference_addrs"
  by (rule deep_copy_structI [OF deep_copy_both [OF deep_copy_ptr [where mk = CBool, OF deep_copy_assign]
      deep_copy_ptr [where mk = CBool, OF deep_copy_assign]],
      where part = "\<lambda>x. (ow_Controller x, ow_BlockOwnerDeletion x)"
        and put = "\<lambda>(controller, blockOwnerDeletion) x. x\<lparr>ow_Controller := controller,
          ow_BlockOwnerDeletion := blockOwnerDeletion\<rparr>"
        and F = "\<lambda>x t. GStruct [GText (ow_APIVersion x), GText (ow_Kind x), GText (ow_Name x),
          GText (ow_UID x), t]"])
    (simp_all add: OwnerReference_DeepCopyInto_def OwnerReference_view_def OwnerReference_addrs_def
      copy_simps split: prod.splits)

lemma FieldsV1_copies:
  "deep_copy FieldsV1_DeepCopyInto FieldsV1_view FieldsV1_addrs"
  by (rule deep_copy_structI [OF deep_copy_ptr [where mk = CBytes, OF deep_copy_assign],
      where part = "\<lambda>x. fv_Raw x"
        and put = "\<lambda>raw x. x\<lparr>fv_Raw := raw\<rparr>"
        and F = "\<lambda>x t. GStruct [t]"])
    (simp_all add: FieldsV1_DeepCopyInto_def FieldsV1_view_def FieldsV1_addrs_def
      copy_simps split: prod.splits)

lemma ManagedFieldsEntry_copies:
  "deep_copy ManagedFieldsEntry_DeepCopyInto ManagedFieldsEntry_view ManagedFieldsEntry_addrs"
  by (rule deep_copy_structI [OF deep_copy_both [OF deep_copy_ptr [where mk = CTime, OF deep_copy_assign]
      deep_copy_ptr [where mk = CFields, OF FieldsV1_copies]],
      where part = "\<lambda>x. (mf_Time x, mf_FieldsV1 x)"
        and put = "\<lambda>(time, fieldsV1) x. x\<lparr>mf_Time := time, mf_FieldsV1 := fieldsV1\<rparr>"
        and F = "\<lambda>x t. GStruct [GText (mf_Manager x), GText (mf_Operation x), GText (mf_APIVersion x),
          GText (mf_FieldsType x), GText (mf_Subresource x), t]"])
    (simp_all add: ManagedFieldsEntry_DeepCopyInto_def ManagedFieldsEntry_view_def ManagedFieldsEntry_addrs_def
      copy_simps split: prod.splits)

lemma ObjectMeta_copies:
  "deep_copy ObjectMeta_DeepCopyInto ObjectMeta_view ObjectMeta_addrs"
  by (rule deep_copy_structI [OF deep_copy_both [OF deep_copy_ptr [where mk = CTime, OF deep_copy_assign]
      deep_copy_both [OF deep_copy_ptr [where mk = CInt64, OF deep_copy_assign]
      deep_copy_both [OF deep_copy_ptr [where mk = CMap, OF deep_copy_entries]
      deep_copy_both [OF deep_copy_ptr [where mk = CMap, OF deep_copy_entries]
      deep_copy_both [OF deep_copy_ptr [where mk = COwners, OF deep_copy_elems [OF OwnerReference_copies]]
      deep_copy_both [OF deep_copy_ptr [where mk = CStrings, OF deep_copy_assign]
      deep_copy_ptr [where mk = CManaged, OF deep_copy_elems [OF ManagedFieldsEntry_copies]]]]]]]],
      where part = "\<lambda>x. (hm_DeletionTimestamp x, hm_DeletionGracePeriodSeconds x, hm_Labels x,
        hm_Annotations x, hm_OwnerReferences x, hm_Finalizers x, hm_ManagedFields x)"
        and put = "\<lambda>(deletionTimestamp, deletionGracePeriodSeconds, labels, annotations,
          ownerReferences, finalizers, managedFields) x. x\<lparr>hm_DeletionTimestamp := deletionTimestamp,
            hm_DeletionGracePeriodSeconds := deletionGracePeriodSeconds, hm_Labels := labels,
              hm_Annotations := annotations, hm_OwnerReferences := ownerReferences,
                hm_Finalizers := finalizers, hm_ManagedFields := managedFields\<rparr>"
        and F = "\<lambda>x t. GStruct [GText (hm_Name x), GText (hm_GenerateName x), GText (hm_Namespace x),
          GText (hm_SelfLink x), GText (hm_UID x), GText (hm_ResourceVersion x), GNum (hm_Generation x),
            GNum (hm_CreationTimestamp x), t]"])
    (simp_all add: ObjectMeta_DeepCopyInto_def ObjectMeta_view_def ObjectMeta_addrs_def
      copy_simps split: prod.splits)

lemma ListMeta_copies:
  "deep_copy ListMeta_DeepCopyInto ListMeta_view ListMeta_addrs"
  by (rule deep_copy_structI [OF deep_copy_ptr [where mk = CInt64, OF deep_copy_assign],
      where part = "\<lambda>x. li_RemainingItemCount x"
        and put = "\<lambda>remainingItemCount x. x\<lparr>li_RemainingItemCount := remainingItemCount\<rparr>"
        and F = "\<lambda>x t. GStruct [GText (li_SelfLink x), GText (li_ResourceVersion x),
          GText (li_Continue x), t]"])
    (simp_all add: ListMeta_DeepCopyInto_def ListMeta_view_def ListMeta_addrs_def
      copy_simps split: prod.splits)

lemma Condition_copies: "deep_copy Condition_DeepCopyInto (\<lambda>m. Condition_view) noAddrs"
  using deep_copy_assign by (simp add: Condition_DeepCopyInto_def [abs_def] assign_def [abs_def])

end
