(* ===== verification/DeepCopy.thy ===== *)
theory DeepCopy
  imports MetaCopy
begin

text \<open>
  The deep copies of the core API (\<open>apis/binding/v1alpha1/zz_generated.deepcopy.go\<close>).

  The contract \<open>deep_copy\<close> of \<open>Memory\<close> is proved for every type: the copy shows the same
  as the original, and neither sees what is later written through the other. This is why
  the rest of the development can represent pointers and slices by optional values and
  lists.
\<close>

section \<open>The copies\<close>

definition Ref_DeepCopyInto :: "mem \<Rightarrow> ref \<Rightarrow> ref \<times> mem" where
  "Ref_DeepCopyInto m x = assign m x"

definition BindingPath_DeepCopyInto :: "mem \<Rightarrow> h_path \<Rightarrow> h_path \<times> mem" where
  "BindingPath_DeepCopyInto m x = assign m x"

definition Mapping_DeepCopyInto :: "mem \<Rightarrow> h_mapping \<Rightarrow> h_mapping \<times> mem" where
  "Mapping_DeepCopyInto m x = assign m x"

definition BindableKindsStatus_DeepCopyInto :: "mem \<Rightarrow> h_kind \<Rightarrow> h_kind \<times> mem" where
  "BindableKindsStatus_DeepCopyInto m x = assign m x"

definition NamespacedRef_DeepCopyInto :: "mem \<Rightarrow> h_namespaced \<Rightarrow> h_namespaced \<times> mem" where
  "NamespacedRef_DeepCopyInto m x =
     (let (namespace', m1) = copyPtr CString un_CString assign m (nr_Namespace x)
      in (x\<lparr>nr_Namespace := namespace'\<rparr>, m1))"

definition Service_DeepCopyInto :: "mem \<Rightarrow> h_service \<Rightarrow> h_service \<times> mem" where
  "Service_DeepCopyInto m x =
     (let (namespacedRef', m1) = NamespacedRef_DeepCopyInto m (hs_NamespacedRef x);
          (id', m2) = copyPtr CString un_CString assign m1 (hs_Id x)
      in (x\<lparr>hs_NamespacedRef := namespacedRef', hs_Id := id'\<rparr>, m2))"

definition Application_DeepCopyInto :: "mem \<Rightarrow> h_application \<Rightarrow> h_application \<times> mem" where
  "Application_DeepCopyInto m x =
     (let (labelSelector', m1) = copyPtr CSelector un_CSelector LabelSelector_DeepCopyInto
       m (ha_LabelSelector x);
          (bindingPath', m2) = copyPtr CPath un_CPath assign m1 (ha_BindingPath x)
      in (x\<lparr>ha_LabelSelector := labelSelector', ha_BindingPath := bindingPath'\<rparr>, m2))"

definition ServiceBindingSpec_DeepCopyInto :: "mem \<Rightarrow> h_spec \<Rightarrow> h_spec \<times> mem" where
  "ServiceBindingSpec_DeepCopyInto m x =
     (let (mappings', m1) = copyPtr CMappings un_CMappings assign m (hx_Mappings x);
          (services', m2) = copyPtr CServices un_CServices (copyElems Service_DeepCopyInto) m1 (hx_Services x);
          (application', m3) = Application_DeepCopyInto m2 (hx_Application x)
      in (x\<lparr>hx_Mappings := mappings', hx_Services := services', hx_Application := application'\<rparr>,
        m3))"

definition ServiceBindingStatus_DeepCopyInto :: "mem \<Rightarrow> h_status \<Rightarrow> h_status \<times> mem" where
  "ServiceBindingStatus_DeepCopyInto m x =
     (let (conditions', m1) = copyPtr CConditions un_CConditions (copyElems Condition_DeepCopyInto)
       m (ht_Conditions x)
      in (x\<lparr>ht_Conditions := conditions'\<rparr>, m1))"

definition ServiceBinding_DeepCopyInto :: "mem \<Rightarrow> h_binding \<Rightarrow> h_binding \<times> mem" where
  "ServiceBinding_DeepCopyInto m x =
     (let (objectMeta', m1) = ObjectMeta_DeepCopyInto m (hb_ObjectMeta x);
          (spec', m2) = ServiceBindingSpec_DeepCopyInto m1 (hb_Spec x);
          (status', m3) = ServiceBindingStatus_DeepCopyInto m2 (hb_Status x)
      in (x\<lparr>hb_ObjectMeta := objectMeta', hb_Spec := spec', hb_Status := status'\<rparr>, m3))"

definition ServiceBindingList_DeepCopyInto :: "mem \<Rightarrow> h_binding_list \<Rightarrow> h_binding_list \<times> mem" where
  "ServiceBindingList_DeepCopyInto m x =
     (let (listMeta', m1) = ListMeta_DeepCopyInto m (hbl_ListMeta x);
          (items', m2) = copyPtr CBindings un_CBindings (copyElems ServiceBinding_DeepCopyInto) m1 (hbl_Items x)
      in (x\<lparr>hbl_ListMeta := listMeta', hbl_Items := items'\<rparr>, m2))"

definition BindableKinds_DeepCopyInto :: "mem \<Rightarrow> h_kinds \<Rightarrow> h_kinds \<times> mem" where
  "BindableKinds_DeepCopyInto m x =
     (let (objectMeta', m1) = ObjectMeta_DeepCopyInto m (hk_ObjectMeta x);
          (status', m2) = copyPtr CKindStatuses un_CKindStatuses assign m1 (hk_Status x)
      in (x\<lparr>hk_ObjectMeta := objectMeta', hk_Status := status'\<rparr>, m2))"

definition BindableKindsList_DeepCopyInto :: "mem \<Rightarrow> h_kinds_list \<Rightarrow> h_kinds_list \<times> mem" where
  "BindableKindsList_DeepCopyInto m x =
     (let (listMeta', m1) = ListMeta_DeepCopyInto m (hkl_ListMeta x);
          (items', m2) = copyPtr CKinds un_CKinds (copyElems BindableKinds_DeepCopyInto) m1 (hkl_Items x)
      in (x\<lparr>hkl_ListMeta := listMeta', hkl_Items := items'\<rparr>, m2))"

definition Application_DeepCopy :: "mem \<Rightarrow> ptr \<Rightarrow> ptr \<times> mem" where
  "Application_DeepCopy = copyPtr CApplication un_CApplication Application_DeepCopyInto"

definition BindableKinds_DeepCopy :: "mem \<Rightarrow> ptr \<Rightarrow> ptr \<times> mem" where
  "BindableKinds_DeepCopy = copyPtr CBindableKinds un_CBindableKinds BindableKinds_DeepCopyInto"

definition BindableKindsList_DeepCopy :: "mem \<Rightarrow> ptr \<Rightarrow> ptr \<times> mem" where
  "BindableKindsList_DeepCopy = copyPtr CBindableKindsList un_CBindableKindsList BindableKindsList_DeepCopyInto"

definition BindableKindsStatus_DeepCopy :: "mem \<Rightarrow> ptr \<Rightarrow> ptr \<times> mem" where
  "BindableKindsStatus_DeepCopy = copyPtr CBindableKindsStatus un_CBindableKindsStatus BindableKindsStatus_DeepCopyInto"

definition BindingPath_DeepCopy :: "mem \<Rightarrow> ptr \<Rightarrow> ptr \<times> mem" where
  "BindingPath_DeepCopy = copyPtr CPath un_CPath BindingPath_DeepCopyInto"

definition Mapping_DeepCopy :: "mem \<Rightarrow> ptr \<Rightarrow> ptr \<times> mem" where
  "Mapping_DeepCopy = copyPtr CMapping un_CMapping Mapping_DeepCopyInto"

definition NamespacedRef_DeepCopy :: "mem \<Rightarrow> ptr \<Rightarrow> ptr \<times> mem" where
  "NamespacedRef_DeepCopy = copyPtr CNamespacedRef un_CNamespacedRef NamespacedRef_DeepCopyInto"

definition Ref_DeepCopy :: "mem \<Rightarrow> ptr \<Rightarrow> ptr \<times> mem" where
  "Ref_DeepCopy = copyPtr CRef un_CRef Ref_DeepCopyInto"

definition Service_DeepCopy :: "mem \<Rightarrow> ptr \<Rightarrow> ptr \<times> mem" where
  "Service_DeepCopy = copyPtr CService un_CService Service_DeepCopyInto"

definition ServiceBinding_DeepCopy :: "mem \<Rightarrow> ptr \<Rightarrow> ptr \<times> mem" where
  "ServiceBinding_DeepCopy = copyPtr CServiceBinding un_CServiceBinding ServiceBinding_DeepCopyInto"

definition ServiceBindingList_DeepCopy :: "mem \<Rightarrow> ptr \<Rightarrow> ptr \<times> mem" where
  "ServiceBindingList_DeepCopy = copyPtr CServiceBindingList un_CServiceBindingList ServiceBindingList_DeepCopyInto"

definition ServiceBindingSpec_DeepCopy :: "mem \<Rightarrow> ptr \<Rightarrow> ptr \<times> mem" where
  "ServiceBindingSpec_DeepCopy = copyPtr CServiceBindingSpec un_CServiceBindingSpec ServiceBindingSpec_DeepCopyInto"

definition ServiceBindingStatus_DeepCopy :: "mem \<Rightarrow> ptr \<Rightarrow> ptr \<times> mem" where
  "ServiceBindingStatus_DeepCopy = copyPtr CServiceBindingStatus un_CServiceBindingStatus ServiceBindingStatus_DeepCopyInto"

definition BindableKinds_DeepCopyObject :: "mem \<Rightarrow> ptr \<Rightarrow> ptr \<times> mem" where
  "BindableKinds_DeepCopyObject m p =
     (case BindableKinds_DeepCopy m p of (Some c, m') \<Rightarrow> (Some c, m') | (None,
       m') \<Rightarrow> (None, m'))"

definition BindableKindsList_DeepCopyObject :: "mem \<Rightarrow> ptr \<Rightarrow> ptr \<times> mem" where
  "BindableKindsList_DeepCopyObject m p =
     (case BindableKindsList_DeepCopy m p of (Some c, m') \<Rightarrow> (Some c, m') | (None,
       m') \<Rightarrow> (None, m'))"

definition ServiceBinding_DeepCopyObject :: "mem \<Rightarrow> ptr \<Rightarrow> ptr \<times> mem" where
  "ServiceBinding_DeepCopyObject m p =
     (case ServiceBinding_DeepCopy m p of (Some c, m') \<Rightarrow> (Some c, m') | (None,
       m') \<Rightarrow> (None, m'))"

definition ServiceBindingList_DeepCopyObject :: "mem \<Rightarrow> ptr \<Rightarrow> ptr \<times> mem" where
  "ServiceBindingList_DeepCopyObject m p =
     (case ServiceBindingList_DeepCopy m p of (Some c, m') \<Rightarrow> (Some c, m') | (None,
       m') \<Rightarrow> (None, m'))"

section \<open>Views and addresses of the structs\<close>

definition Ref_view :: "ref \<Rightarrow> gotree" where
  "Ref_view x = GStruct [GText (ref_Group x), GText (ref_Version x), GText (ref_Kind x),
    GText (ref_Resource x), GText (ref_Name x)]"

definition BindingPath_view :: "h_path \<Rightarrow> gotree" where
  "BindingPath_view x =
     GStruct [GText (bp_ContainersPath x), GText (bp_SecretPath x)]"

definition Mapping_view :: "h_mapping \<Rightarrow> gotree" where
  "Mapping_view x =
     GStruct [GText (hp_Name x), GText (hp_Value x)]"

definition BindableKindsStatus_view :: "h_kind \<Rightarrow> gotree" where
  "BindableKindsStatus_view x =
     GStruct [GText (ks_Group x), GText (ks_Version x), GText (ks_Kind x)]"

definition NamespacedRef_view :: "mem \<Rightarrow> h_namespaced \<Rightarrow> gotree" where
  "NamespacedRef_view m x =
     GStruct [Ref_view (nr_Ref x),
     ptrView un_CString (\<lambda>m. GText) m (nr_Namespace x)]"

definition NamespacedRef_addrs :: "mem \<Rightarrow> h_namespaced \<Rightarrow> nat list" where
  "NamespacedRef_addrs m x =
     ptrAddrs un_CString noAddrs m (nr_Namespace x)"

definition Service_view :: "mem \<Rightarrow> h_service \<Rightarrow> gotree" where
  "Service_view m x =
     GStruct [bothView NamespacedRef_view
       (ptrView un_CString (\<lambda>m. GText)) m
       (hs_NamespacedRef x, hs_Id x)]"

definition Service_addrs :: "mem \<Rightarrow> h_service \<Rightarrow> nat list" where
  "Service_addrs m x =
     bothAddrs NamespacedRef_addrs
       (ptrAddrs un_CString noAddrs) m
       (hs_NamespacedRef x, hs_Id x)"

definition Application_view :: "mem \<Rightarrow> h_application \<Rightarrow> gotree" where
  "Application_view m x =
     GStruct [Ref_view (ha_Ref x),
     bothView (ptrView un_CSelector LabelSelector_view)
       (ptrView un_CPath (\<lambda>m. BindingPath_view)) m
       (ha_LabelSelector x, ha_BindingPath x)]"

definition Application_addrs :: "mem \<Rightarrow> h_application \<Rightarrow> nat list" where
  "Application_addrs m x =
     bothAddrs (ptrAddrs un_CSelector LabelSelector_addrs)
       (ptrAddrs un_CPath noAddrs) m
       (ha_LabelSelector x, ha_BindingPath x)"

definition ServiceBindingSpec_view :: "mem \<Rightarrow> h_spec \<Rightarrow> gotree" where
  "ServiceBindingSpec_view m x =
     GStruct [GText (hx_Name x), GText (hx_NamingStrategy x), GFlag (hx_DetectBindingResources x),
       GFlag (hx_BindAsFiles x),
     bothView (ptrView un_CMappings (\<lambda>m xs. GSeq (map Mapping_view xs)))
       (bothView (ptrView un_CServices (seqView Service_view))
       Application_view) m
       (hx_Mappings x, hx_Services x, hx_Application x)]"

definition ServiceBindingSpec_addrs :: "mem \<Rightarrow> h_spec \<Rightarrow> nat list" where
  "ServiceBindingSpec_addrs m x =
     bothAddrs (ptrAddrs un_CMappings noAddrs)
       (bothAddrs (ptrAddrs un_CServices (seqAddrs Service_addrs))
       Application_addrs) m
       (hx_Mappings x, hx_Services x, hx_Application x)"

definition ServiceBindingStatus_view :: "mem \<Rightarrow> h_status \<Rightarrow> gotree" where
  "ServiceBindingStatus_view m x =
     GStruct [GText (ht_Secret x),
     ptrView un_CConditions (seqView (\<lambda>m. Condition_view)) m (ht_Conditions x)]"

definition ServiceBindingStatus_addrs :: "mem \<Rightarrow> h_status \<Rightarrow> nat list" where
  "ServiceBindingStatus_addrs m x =
     ptrAddrs un_CConditions (seqAddrs noAddrs) m (ht_Conditions x)"

definition ServiceBinding_view :: "mem \<Rightarrow> h_binding \<Rightarrow> gotree" where
  "ServiceBinding_view m x =
     GStruct [TypeMeta_view (hb_TypeMeta x),
     bothView ObjectMeta_view
       (bothView ServiceBindingSpec_view
       ServiceBindingStatus_view) m
       (hb_ObjectMeta x, hb_Spec x, hb_Status x)]"

definition ServiceBinding_addrs :: "mem \<Rightarrow> h_binding \<Rightarrow> nat list" where
  "ServiceBinding_addrs m x =
     bothAddrs ObjectMeta_addrs
       (bothAddrs ServiceBindingSpec_addrs
       ServiceBindingStatus_addrs) m
       (hb_ObjectMeta x, hb_Spec x, hb_Status x)"

definition ServiceBindingList_view :: "mem \<Rightarrow> h_binding_list \<Rightarrow> gotree" where
  "ServiceBindingList_view m x =
     GStruct [TypeMeta_view (hbl_TypeMeta x),
     bothView ListMeta_view
       (ptrView un_CBindings (seqView ServiceBinding_view)) m
       (hbl_ListMeta x, hbl_Items x)]"

definition ServiceBindingList_addrs :: "mem \<Rightarrow> h_binding_list \<Rightarrow> nat list" where
  "ServiceBindingList_addrs m x =
     bothAddrs ListMeta_addrs
       (ptrAddrs un_CBindings (seqAddrs ServiceBinding_addrs)) m
       (hbl_ListMeta x, hbl_Items x)"

definition BindableKinds_view :: "mem \<Rightarrow> h_kinds \<Rightarrow> gotree" where
  "BindableKinds_view m x =
     GStruct [TypeMeta_view (hk_TypeMeta x),
     bothView ObjectMeta_view
       (ptrView un_CKindStatuses (\<lambda>m xs. GSeq (map BindableKindsStatus_view xs))) m
       (hk_ObjectMeta x, hk_Status x)]"

definition BindableKinds_addrs :: "mem \<Rightarrow> h_kinds \<Rightarrow> nat list" where
  "BindableKinds_addrs m x =
     bothAddrs ObjectMeta_addrs
       (ptrAddrs un_CKindStatuses noAddrs) m
       (hk_ObjectMeta x, hk_Status x)"

definition BindableKindsList_view :: "mem \<Rightarrow> h_kinds_list \<Rightarrow> gotree" where
  "BindableKindsList_view m x =
     GStruct [TypeMeta_view (hkl_TypeMeta x),
     bothView ListMeta_view
       (ptrView un_CKinds (seqView BindableKinds_view)) m
       (hkl_ListMeta x, hkl_Items x)]"

definition BindableKindsList_addrs :: "mem \<Rightarrow> h_kinds_list \<Rightarrow> nat list" where
  "BindableKindsList_addrs m x =
     bothAddrs ListMeta_addrs
       (ptrAddrs un_CKinds (seqAddrs BindableKinds_addrs)) m
       (hkl_ListMeta x, hkl_Items x)"

text \<open>What is seen through a pointer to a binding, and the cells it reaches.\<close>

definition binding_seen :: "mem \<Rightarrow> ptr \<Rightarrow> gotree" where
  "binding_seen = ptrView un_CServiceBinding ServiceBinding_view"

definition binding_cells :: "mem \<Rightarrow> ptr \<Rightarrow> nat list" where
  "binding_cells = ptrAddrs un_CServiceBinding ServiceBinding_addrs"

definition bindings_seen :: "mem \<Rightarrow> ptr \<Rightarrow> gotree" where
  "bindings_seen = ptrView un_CServiceBindingList ServiceBindingList_view"

definition bindings_cells :: "mem \<Rightarrow> ptr \<Rightarrow> nat list" where
  "bindings_cells = ptrAddrs un_CServiceBindingList ServiceBindingList_addrs"

definition kinds_seen :: "mem \<Rightarrow> ptr \<Rightarrow> gotree" where
  "kinds_seen = ptrView un_CBindableKindsList BindableKindsList_view"

definition kinds_cells :: "mem \<Rightarrow> ptr \<Rightarrow> nat list" where
  "kinds_cells = ptrAddrs un_CBindableKindsList BindableKindsList_addrs"

text \<open>The value of a specification, as the rest of the development has it.\<close>

definition deref :: "(cell \<Rightarrow> 'a) \<Rightarrow> mem \<Rightarrow> ptr \<Rightarrow> 'a option" where
  "deref get m p = map_option (\<lambda>a. get (m ! a)) p"

definition elems :: "(cell \<Rightarrow> 'a list) \<Rightarrow> mem \<Rightarrow> ptr \<Rightarrow> 'a list" where
  "elems get m p = (case p of None \<Rightarrow> [] | Some a \<Rightarrow> get (m ! a))"

definition service_value :: "mem \<Rightarrow> h_service \<Rightarrow> core_service" where
  "service_value m x =
     \<lparr>cs_Ref = nr_Ref (hs_NamespacedRef x), cs_Namespace = deref un_CString
       m (nr_Namespace (hs_NamespacedRef x)),
      cs_Id = deref un_CString m (hs_Id x)\<rparr>"

definition application_value :: "mem \<Rightarrow> h_application \<Rightarrow> core_application" where
  "application_value m x =
     \<lparr>ca_Ref = ha_Ref x,
      ca_LabelSelector = map_option (\<lambda>s. \<lparr>ls_MatchLabels = map_option DAList.impl_of (deref un_CMap m (hl_MatchLabels s))\<rparr>)
        (deref un_CSelector m (ha_LabelSelector x)),
      ca_BindingPath = map_option (\<lambda>b. (bp_ContainersPath b, bp_SecretPath b)) (deref un_CPath
        m (ha_BindingPath x))\<rparr>"

definition spec_value :: "mem \<Rightarrow> h_spec \<Rightarrow> core_spec" where
  "spec_value m x =
     \<lparr>co_Name = hx_Name x, co_NamingStrategy = hx_NamingStrategy x,
      co_Mappings = map (\<lambda>p. (hp_Name p, hp_Value p)) (elems un_CMappings m (hx_Mappings x)),
      co_Services = map (service_value m) (elems un_CServices m (hx_Services x)),
      co_Application = application_value m (hx_Application x),
      co_DetectBindingResources = hx_DetectBindingResources x, co_BindAsFiles = hx_BindAsFiles x\<rparr>"

text \<open>A binding in memory: its metadata, one service in another namespace, one condition.\<close>

definition storedMeta :: h_meta where
  "storedMeta =
     \<lparr>hm_Name = ''shop-db'', hm_GenerateName = '''', hm_Namespace = ''shop'', hm_SelfLink = '''',
       hm_UID = ''1'',
      hm_ResourceVersion = ''7'', hm_Generation = 1, hm_CreationTimestamp = 0, hm_DeletionTimestamp = None,
      hm_DeletionGracePeriodSeconds = None, hm_Labels = None, hm_Annotations = Some 0,
        hm_OwnerReferences = None,
      hm_Finalizers = Some 1, hm_ManagedFields = None\<rparr>"

definition storedSpec :: h_spec where
  "storedSpec =
     \<lparr>hx_Name = '''', hx_NamingStrategy = '''', hx_Mappings = None, hx_Services = Some 3,
      hx_Application = \<lparr>ha_Ref = \<lparr>ref_Group = ''apps'', ref_Version = ''v1'',
        ref_Kind = ''Deployment'',
        ref_Resource = '''', ref_Name = ''web''\<rparr>, ha_LabelSelector = None,
          ha_BindingPath = Some 4\<rparr>,
      hx_DetectBindingResources = False, hx_BindAsFiles = True\<rparr>"

definition storedBinding :: mem where
  "storedBinding =
     [CMap DAList.empty, CStrings [finalizerName], CString ''data'',
      CServices [\<lparr>hs_NamespacedRef = \<lparr>nr_Ref = \<lparr>ref_Group = ''db'', ref_Version = ''v1'',
        ref_Kind = ''Database'',
        ref_Resource = '''', ref_Name = ''db''\<rparr>, nr_Namespace = Some 2\<rparr>, hs_Id = None\<rparr>],
      CPath \<lparr>bp_ContainersPath = '''', bp_SecretPath = ''spec.secret''\<rparr>,
      CServiceBinding \<lparr>hb_TypeMeta = \<lparr>tm_Kind = ''ServiceBinding'',
        tm_APIVersion = ''binding.operators.coreos.com/v1alpha1''\<rparr>,
        hb_ObjectMeta = storedMeta, hb_Spec = storedSpec, hb_Status = \<lparr>ht_Conditions = None,
          ht_Secret = ''''\<rparr>\<rparr>]"

section \<open>Every struct keeps the contract\<close>

lemma NamespacedRef_copies:
  "deep_copy NamespacedRef_DeepCopyInto NamespacedRef_view NamespacedRef_addrs"
  by (rule deep_copy_structI [OF deep_copy_ptr [where mk = CString, OF deep_copy_assign],
      where part = "\<lambda>x. nr_Namespace x"
        and put = "\<lambda>namespace x. x\<lparr>nr_Namespace := namespace\<rparr>"
        and F = "\<lambda>x t. GStruct [Ref_view (nr_Ref x), t]"])
    (simp_all add: NamespacedRef_DeepCopyInto_def NamespacedRef_view_def NamespacedRef_addrs_def
      copy_simps split: prod.splits)

lemma Service_copies:
  "deep_copy Service_DeepCopyInto Service_view Service_addrs"
  by (rule deep_copy_structI [OF deep_copy_both [OF NamespacedRef_copies
      deep_copy_ptr [where mk = CString, OF deep_copy_assign]],
      where part = "\<lambda>x. (hs_NamespacedRef x, hs_Id x)"
        and put = "\<lambda>(namespacedRef, id) x. x\<lparr>hs_NamespacedRef := namespacedRef,
          hs_Id := id\<rparr>"
        and F = "\<lambda>x t. GStruct [t]"])
    (simp_all add: Service_DeepCopyInto_def Service_view_def Service_addrs_def
      copy_simps split: prod.splits)

lemma Application_copies:
  "deep_copy Application_DeepCopyInto Application_view Application_addrs"
  by (rule deep_copy_structI [OF deep_copy_both [OF deep_copy_ptr [where mk = CSelector, OF
    LabelSelector_copies]
      deep_copy_ptr [where mk = CPath, OF deep_copy_assign]],
      where part = "\<lambda>x. (ha_LabelSelector x, ha_BindingPath x)"
        and put = "\<lambda>(labelSelector, bindingPath) x. x\<lparr>ha_LabelSelector := labelSelector,
          ha_BindingPath := bindingPath\<rparr>"
        and F = "\<lambda>x t. GStruct [Ref_view (ha_Ref x), t]"])
    (simp_all add: Application_DeepCopyInto_def Application_view_def Application_addrs_def
      copy_simps split: prod.splits)

lemma ServiceBindingSpec_copies:
  "deep_copy ServiceBindingSpec_DeepCopyInto ServiceBindingSpec_view ServiceBindingSpec_addrs"
  by (rule deep_copy_structI [OF deep_copy_both [OF deep_copy_ptr [where mk = CMappings, OF deep_copy_assign]
      deep_copy_both [OF deep_copy_ptr [where mk = CServices, OF deep_copy_elems [OF Service_copies]]
      Application_copies]],
      where part = "\<lambda>x. (hx_Mappings x, hx_Services x, hx_Application x)"
        and put = "\<lambda>(mappings, services, application) x. x\<lparr>hx_Mappings := mappings,
          hx_Services := services, hx_Application := application\<rparr>"
        and F = "\<lambda>x t. GStruct [GText (hx_Name x), GText (hx_NamingStrategy x),
          GFlag (hx_DetectBindingResources x), GFlag (hx_BindAsFiles x), t]"])
    (simp_all add: ServiceBindingSpec_DeepCopyInto_def ServiceBindingSpec_view_def ServiceBindingSpec_addrs_def
      copy_simps split: prod.splits)

lemma ServiceBindingStatus_copies:
  "deep_copy ServiceBindingStatus_DeepCopyInto ServiceBindingStatus_view ServiceBindingStatus_addrs"
  by (rule deep_copy_structI [OF deep_copy_ptr [where mk = CConditions, OF deep_copy_elems [OF
    Condition_copies]],
      where part = "\<lambda>x. ht_Conditions x"
        and put = "\<lambda>conditions x. x\<lparr>ht_Conditions := conditions\<rparr>"
        and F = "\<lambda>x t. GStruct [GText (ht_Secret x), t]"])
    (simp_all add: ServiceBindingStatus_DeepCopyInto_def ServiceBindingStatus_view_def ServiceBindingStatus_addrs_def
      copy_simps split: prod.splits)

lemma ServiceBinding_copies:
  "deep_copy ServiceBinding_DeepCopyInto ServiceBinding_view ServiceBinding_addrs"
  by (rule deep_copy_structI [OF deep_copy_both [OF ObjectMeta_copies
      deep_copy_both [OF ServiceBindingSpec_copies
      ServiceBindingStatus_copies]],
      where part = "\<lambda>x. (hb_ObjectMeta x, hb_Spec x, hb_Status x)"
        and put = "\<lambda>(objectMeta, spec, status) x. x\<lparr>hb_ObjectMeta := objectMeta,
          hb_Spec := spec, hb_Status := status\<rparr>"
        and F = "\<lambda>x t. GStruct [TypeMeta_view (hb_TypeMeta x), t]"])
    (simp_all add: ServiceBinding_DeepCopyInto_def ServiceBinding_view_def ServiceBinding_addrs_def
      copy_simps split: prod.splits)

lemma ServiceBindingList_copies:
  "deep_copy ServiceBindingList_DeepCopyInto ServiceBindingList_view ServiceBindingList_addrs"
  by (rule deep_copy_structI [OF deep_copy_both [OF ListMeta_copies
      deep_copy_ptr [where mk = CBindings, OF deep_copy_elems [OF ServiceBinding_copies]]],
      where part = "\<lambda>x. (hbl_ListMeta x, hbl_Items x)"
        and put = "\<lambda>(listMeta, items) x. x\<lparr>hbl_ListMeta := listMeta, hbl_Items := items\<rparr>"
        and F = "\<lambda>x t. GStruct [TypeMeta_view (hbl_TypeMeta x), t]"])
    (simp_all add: ServiceBindingList_DeepCopyInto_def ServiceBindingList_view_def ServiceBindingList_addrs_def
      copy_simps split: prod.splits)

lemma BindableKinds_copies:
  "deep_copy BindableKinds_DeepCopyInto BindableKinds_view BindableKinds_addrs"
  by (rule deep_copy_structI [OF deep_copy_both [OF ObjectMeta_copies
      deep_copy_ptr [where mk = CKindStatuses, OF deep_copy_assign]],
      where part = "\<lambda>x. (hk_ObjectMeta x, hk_Status x)"
        and put = "\<lambda>(objectMeta, status) x. x\<lparr>hk_ObjectMeta := objectMeta,
          hk_Status := status\<rparr>"
        and F = "\<lambda>x t. GStruct [TypeMeta_view (hk_TypeMeta x), t]"])
    (simp_all add: BindableKinds_DeepCopyInto_def BindableKinds_view_def BindableKinds_addrs_def
      copy_simps split: prod.splits)

lemma BindableKindsList_copies:
  "deep_copy BindableKindsList_DeepCopyInto BindableKindsList_view BindableKindsList_addrs"
  by (rule deep_copy_structI [OF deep_copy_both [OF ListMeta_copies
      deep_copy_ptr [where mk = CKinds, OF deep_copy_elems [OF BindableKinds_copies]]],
      where part = "\<lambda>x. (hkl_ListMeta x, hkl_Items x)"
        and put = "\<lambda>(listMeta, items) x. x\<lparr>hkl_ListMeta := listMeta, hkl_Items := items\<rparr>"
        and F = "\<lambda>x t. GStruct [TypeMeta_view (hkl_TypeMeta x), t]"])
    (simp_all add: BindableKindsList_DeepCopyInto_def BindableKindsList_view_def BindableKindsList_addrs_def
      copy_simps split: prod.splits)

interpretation binding_copy: deep_copy ServiceBinding_DeepCopy binding_seen binding_cells
  unfolding ServiceBinding_DeepCopy_def binding_seen_def binding_cells_def
  by (rule deep_copy_ptr [OF ServiceBinding_copies]) simp

interpretation bindings_copy: deep_copy ServiceBindingList_DeepCopy bindings_seen bindings_cells
  unfolding ServiceBindingList_DeepCopy_def bindings_seen_def bindings_cells_def
  by (rule deep_copy_ptr [OF ServiceBindingList_copies]) simp

interpretation kinds_copy: deep_copy BindableKindsList_DeepCopy kinds_seen kinds_cells
  unfolding BindableKindsList_DeepCopy_def kinds_seen_def kinds_cells_def
  by (rule deep_copy_ptr [OF BindableKindsList_copies]) simp

interpretation spec_copy: deep_copy ServiceBindingSpec_DeepCopyInto ServiceBindingSpec_view ServiceBindingSpec_addrs
  by (rule ServiceBindingSpec_copies)

section \<open>Independent copies\<close>

lemma DeepCopyObject_same:
  "ServiceBinding_DeepCopyObject = ServiceBinding_DeepCopy" "ServiceBindingList_DeepCopyObject = ServiceBindingList_DeepCopy"
  "BindableKinds_DeepCopyObject = BindableKinds_DeepCopy" "BindableKindsList_DeepCopyObject = BindableKindsList_DeepCopy"
  by (auto simp: fun_eq_iff ServiceBinding_DeepCopyObject_def ServiceBindingList_DeepCopyObject_def
      BindableKinds_DeepCopyObject_def BindableKindsList_DeepCopyObject_def split: prod.splits option.splits)

text \<open>
  C13: The deep copy of a service binding shows what the original shows, it leaves every
  cell of the memory as it was, and the two are independent: no write to a cell that the
  copy reaches is seen through the original, and no write to a cell that the original
  reaches is seen through the copy.
\<close>

theorem binding_copy_independent:
  assumes "ServiceBinding_DeepCopyObject m p = (q, m')" and "allocated m (binding_cells m p)"
  shows "binding_seen m' q = binding_seen m p \<and> take (length m) m' = m
    \<and> (\<forall>a c. a \<in> set (binding_cells m' q) \<longrightarrow> binding_seen (m'[a := c]) p = binding_seen m p)
    \<and> (\<forall>a c. a \<in> set (binding_cells m p) \<longrightarrow> binding_seen (m'[a := c]) q = binding_seen m p)"
  using assms binding_copy.extends binding_copy.copied binding_copy.original_unchanged binding_copy.copy_unchanged
  by (simp add: DeepCopyObject_same)

theorem binding_copy_independent_witness:
  "\<exists>q m'. ServiceBinding_DeepCopyObject storedBinding (Some 5) = (q,
    m') \<and> set (binding_cells storedBinding (Some 5)) = {0, 1, 2, 3, 4, 5}
    \<and> binding_seen (m'[2 := CString ''other'']) q = binding_seen storedBinding (Some 5)"
proof -
  obtain q m' where c: "ServiceBinding_DeepCopyObject storedBinding (Some 5) = (q, m')" by fastforce
  have "allocated storedBinding (binding_cells storedBinding (Some 5))"
    "set (binding_cells storedBinding (Some 5)) = {0, 1, 2, 3, 4, 5}" by code_simp+
  with binding_copy_independent [OF c] c show ?thesis by auto
qed

lemma option_view: "ptrView get (\<lambda>m. f) m p = ptrView get (\<lambda>m. f) m' p' \<Longrightarrow> inj f \<Longrightarrow> deref get m p = deref get m' p'"
  by (auto simp: ptrView_def deref_def inj_def split: option.splits)

lemma service_value_view: "Service_view m x = Service_view m' x' \<Longrightarrow> service_value m x = service_value m' x'"
  by (auto simp: Service_view_def NamespacedRef_view_def service_value_def bothView_def Ref_view_def inj_def dest!: option_view)

lemma application_value_view: "Application_view m x = Application_view m' x' \<Longrightarrow> application_value m x = application_value m' x'"
  by (cases "ha_LabelSelector x"; cases "ha_LabelSelector x'")
    (auto simp: Application_view_def application_value_def bothView_def Ref_view_def inj_def deref_def LabelSelector_view_def
      BindingPath_view_def ptrView_def split: option.splits)

lemma map_via:
  assumes "map f xs = map g ys" and "\<And>x y. f x = g y \<Longrightarrow> h x = k y"
  shows "map h xs = map k ys"
  using assms(1) by (induction xs arbitrary: ys) (auto intro: assms(2) simp: Cons_eq_map_conv)

lemma elems_view:
  "ptrView get (\<lambda>m xs. GSeq (map (f m) xs)) m p = ptrView get (\<lambda>m xs. GSeq (map (f m) xs)) m' p' \<Longrightarrow>
     map (f m) (elems get m p) = map (f m') (elems get m' p')"
  by (auto simp: ptrView_def elems_def split: option.splits)

lemma spec_value_view:
  assumes "ServiceBindingSpec_view m x = ServiceBindingSpec_view m' x'"
  shows "spec_value m x = spec_value m' x'"
proof -
  have fields: "hx_Name x = hx_Name x'" "hx_NamingStrategy x = hx_NamingStrategy x'" "hx_BindAsFiles x = hx_BindAsFiles x'"
    "hx_DetectBindingResources x = hx_DetectBindingResources x'"
    "Application_view m (hx_Application x) = Application_view m' (hx_Application x')"
    using assms by (simp_all add: ServiceBindingSpec_view_def bothView_def)
  have "map Mapping_view (elems un_CMappings
    m (hx_Mappings x)) = map Mapping_view (elems un_CMappings m' (hx_Mappings x'))"
    using assms by (intro elems_view [where f = "\<lambda>m. Mapping_view"]) (simp add: ServiceBindingSpec_view_def bothView_def)
  then have "map (\<lambda>p. (hp_Name p, hp_Value p)) (elems un_CMappings m (hx_Mappings x))
      = map (\<lambda>p. (hp_Name p, hp_Value p)) (elems un_CMappings m' (hx_Mappings x'))"
    by (rule map_via) (simp add: Mapping_view_def)
  moreover have "map (Service_view m) (elems un_CServices
    m (hx_Services x)) = map (Service_view m') (elems un_CServices m' (hx_Services x'))"
    using assms by (intro elems_view) (simp add: ServiceBindingSpec_view_def bothView_def seqView_def [abs_def])
  then have "map (service_value m) (elems un_CServices
    m (hx_Services x)) = map (service_value m') (elems un_CServices m' (hx_Services x'))"
    by (rule map_via) (rule service_value_view)
  ultimately show ?thesis using fields application_value_view [OF fields(5)] by (simp add: spec_value_def)
qed

text \<open>
  C27: The value that the operator works on is the same after a deep copy of a specification,
  and what is written through the copy afterwards does not change it: the optional values
  and the lists in which the development represents pointers and slices are faithful to
  the memory.
\<close>

theorem spec_copy_value:
  assumes "ServiceBindingSpec_DeepCopyInto m x = (y, m')" and "allocated m (ServiceBindingSpec_addrs m x)"
    and "a \<in> set (ServiceBindingSpec_addrs m' y)"
  shows "spec_value m' y = spec_value m x \<and> spec_value (m'[a := c]) x = spec_value m x"
  using spec_copy.copied [OF assms(1,2)] spec_copy.original_unchanged [OF assms] spec_value_view by blast

theorem spec_copy_value_witness:
  "\<exists>y m'. ServiceBindingSpec_DeepCopyInto storedBinding storedSpec = (y, m')
    \<and> cs_Namespace (hd (co_Services (spec_value m' y))) = Some ''data''
    \<and> spec_value (m'[7 := CString ''other'']) storedSpec = spec_value storedBinding storedSpec"
proof -
  let ?y = "fst (ServiceBindingSpec_DeepCopyInto storedBinding storedSpec)"
    and ?m = "snd (ServiceBindingSpec_DeepCopyInto storedBinding storedSpec)"
  have "ServiceBindingSpec_DeepCopyInto storedBinding storedSpec = (?y, ?m)" by simp
  moreover have "allocated storedBinding (ServiceBindingSpec_addrs storedBinding storedSpec)"
    "7 \<in> set (ServiceBindingSpec_addrs ?m ?y)"
    "cs_Namespace (hd (co_Services (spec_value storedBinding storedSpec))) = Some ''data''" by code_simp+
  ultimately show ?thesis using spec_copy_value [of storedBinding storedSpec ?y ?m 7] by (metis)
qed

end
