(* ===== verification/Service.thy ===== *)
theory Service
  imports Api
begin

text \<open>
  Services and their custom resource definitions
  (\<open>pkg/reconcile/pipeline/context/service/service.go\<close>), and the bindings backed by a
  secret (\<open>pkg/reconcile/pipeline/secretbackedbindings.go\<close>).

  A service is a mutable object in the code: an operation that changes it returns it. A
  reader of the definition given as an option always answers the same; without one, the
  definition is read from the API server. A binding item refers to its service by position
  in the list of services of the context.
\<close>

section \<open>Services\<close>

record crd =
  crd_resource :: fields
  crd_serviceGVR :: gvr

record service =
  sv_namespace :: string
  sv_resource :: fields
  sv_groupVersionResource :: gvr
  sv_CrdReader :: "(go_error + fields) option"
  sv_crd :: "crd option"
  sv_crdLookup :: bool
  sv_lookForOwnedResources :: bool
  sv_bindingDefinitions :: "bindef list"
  sv_id :: "string option"

definition crdGVRs :: "gvr list" where
  "crdGVRs =
     [\<lparr>gvr_group = ''apiextensions.k8s.io'', gvr_version = ''v1'', gvr_resource = ''customresourcedefinitions''\<rparr>,
      \<lparr>gvr_group = ''apiextensions.k8s.io'', gvr_version = ''v1beta1'', gvr_resource = ''customresourcedefinitions''\<rparr>]"

definition bindableResourceGVRs :: "gvr list" where
  "bindableResourceGVRs =
     [\<lparr>gvr_group = '''', gvr_version = ''v1'', gvr_resource = ''configmaps''\<rparr>,
      \<lparr>gvr_group = '''', gvr_version = ''v1'', gvr_resource = ''secrets''\<rparr>,
      \<lparr>gvr_group = '''', gvr_version = ''v1'', gvr_resource = ''services''\<rparr>,
      \<lparr>gvr_group = ''route.openshift.io'', gvr_version = ''v1'', gvr_resource = ''routes''\<rparr>]"

text \<open>The default reader: the first version of the CRD API that answers, else the last error.\<close>

fun readCrd :: "'w env \<Rightarrow> 'w \<Rightarrow> gvr \<Rightarrow> gvr list \<Rightarrow> go_error \<Rightarrow> go_error + fields" where
  "readCrd e w r [] err = Inl err"
| "readCrd e w r (g # gs) err =
     (case env_Get e w g '''' (GroupResource_String r) of
        Inr u \<Rightarrow> Inr u
      | Inl err' \<Rightarrow> readCrd e w r gs err')"

definition CrdReader :: "'w env \<Rightarrow> 'w \<Rightarrow> service \<Rightarrow> go_error + fields" where
  "CrdReader e w s =
     (case sv_CrdReader s of
        Some r \<Rightarrow> r
      | None \<Rightarrow> readCrd e w (sv_groupVersionResource s) crdGVRs (errNew ''''))"

text \<open>
  Services are built by a builder, with options that change the new service. A builder
  without a reader gives the service the default one.
\<close>

record service_builder =
  bl_crdReader :: "(go_error + fields) option"
  bl_lookForOwnedResources :: bool

definition NewBuilder :: service_builder where
  "NewBuilder = \<lparr>bl_crdReader = None, bl_lookForOwnedResources = False\<rparr>"

definition WithCrdReader :: "go_error + fields \<Rightarrow> service_builder \<Rightarrow> service_builder" where
  "WithCrdReader reader b = b\<lparr>bl_crdReader := Some reader\<rparr>"

definition LookOwnedResources :: "bool \<Rightarrow> service_builder \<Rightarrow> service_builder" where
  "LookOwnedResources val b = b\<lparr>bl_lookForOwnedResources := val\<rparr>"

definition service_Id :: "string \<Rightarrow> service \<Rightarrow> service" where
  "service_Id v s = s\<lparr>sv_id := Some v\<rparr>"

definition CrdReaderOption :: "go_error + fields \<Rightarrow> service \<Rightarrow> service" where
  "CrdReaderOption reader s = s\<lparr>sv_CrdReader := Some reader\<rparr>"

definition service_Build ::
  "'w env \<Rightarrow> service_builder \<Rightarrow> fields \<Rightarrow> (service \<Rightarrow> service) list \<Rightarrow> go_error + service" where
  "service_Build e b content options =
     (case ResourceForKind e (GroupVersionKind content) of
        Inl err \<Rightarrow> Inl err
      | Inr r \<Rightarrow>
          let s = fold (\<lambda>opt. opt) options
                \<lparr>sv_namespace = GetNamespace content, sv_resource = content,
                 sv_groupVersionResource = r, sv_CrdReader = None, sv_crd = None,
                 sv_crdLookup = False, sv_lookForOwnedResources = bl_lookForOwnedResources b,
                 sv_bindingDefinitions = [], sv_id = None\<rparr>
          in Inr (if sv_CrdReader s = None then s\<lparr>sv_CrdReader := bl_crdReader b\<rparr> else s))"

text \<open>An object is listed once for every owner reference that names the service.\<close>

definition ownedItems :: "string \<Rightarrow> fields list \<Rightarrow> fields list" where
  "ownedItems uid items =
     concat (map (\<lambda>item. concat (map (\<lambda>o1. if o1 = uid then [item] else []) (GetOwnerReferences item))) items)"

fun ownedIn :: "'w env \<Rightarrow> 'w \<Rightarrow> service \<Rightarrow> gvr list \<Rightarrow> go_error + fields list" where
  "ownedIn e w s [] = Inr []"
| "ownedIn e w s (g # gs) =
     (case env_List e w g (sv_namespace s) '''' of
        Inl err \<Rightarrow> if IsNotFound err then ownedIn e w s gs else Inl err
      | Inr items \<Rightarrow>
          map_sum id (\<lambda>r. ownedItems (GetUID (sv_resource s)) items @ r) (ownedIn e w s gs))"

definition service_OwnedResources :: "'w env \<Rightarrow> 'w \<Rightarrow> service \<Rightarrow> go_error + fields list" where
  "service_OwnedResources e w s =
     (if \<not> sv_lookForOwnedResources s then Inr [] else ownedIn e w s bindableResourceGVRs)"

definition CustomResourceDefinition ::
  "'w env \<Rightarrow> 'w \<Rightarrow> service \<Rightarrow> service \<times> (go_error + crd option)" where
  "CustomResourceDefinition e w s =
     (case sv_crd s of
        Some c \<Rightarrow> (s, Inr (Some c))
      | None \<Rightarrow>
          if sv_crdLookup s then (s, Inr None)
          else
            (case CrdReader e w s of
               Inl err \<Rightarrow>
                 if IsNotFound err then (s\<lparr>sv_crdLookup := True\<rparr>, Inr None) else (s, Inl err)
             | Inr u \<Rightarrow>
                 let c = \<lparr>crd_resource = u, crd_serviceGVR = sv_groupVersionResource s\<rparr>
                 in (s\<lparr>sv_crd := Some c\<rparr>, Inr (Some c))))"

definition AddBindingDef :: "bindef \<Rightarrow> service \<Rightarrow> service" where
  "AddBindingDef d s = s\<lparr>sv_bindingDefinitions := sv_bindingDefinitions s @ [d]\<rparr>"

section \<open>Custom resource definitions\<close>

definition bindingNamePath :: string where
  "bindingNamePath =
     ''{..schema.openAPIV3Schema.properties.status.properties.binding.properties.name.type}''"

definition crd_kind :: "crd \<Rightarrow> string" where
  "crd_kind c =
     (case NestedString (crd_resource c) [''spec'', ''names'', ''kind''] of Inr (Some k) \<Rightarrow> k | _ \<Rightarrow> '''')"

definition hasBindingAnnotation :: "strmap option \<Rightarrow> bool" where
  "hasBindingAnnotation anns =
     (case anns of
        None \<Rightarrow> False
      | Some m \<Rightarrow> list_ex (\<lambda>(k, v). IsServiceBindingAnnotation k = Inr True) m)"

text \<open>The package has a function of its own for the values at a path.\<close>

definition service_getValuesByJSONPath :: "jsonpath \<Rightarrow> fields \<Rightarrow> string \<Rightarrow> rv list go" where
  "service_getValuesByJSONPath jp obj path =
     (case jp_Parse jp path of
        Inl e \<Rightarrow> Err e
      | Inr _ \<Rightarrow>
          (case jp_FindResults jp path obj of
             Inl e \<Rightarrow> Err e
           | Inr result \<Rightarrow>
               if length result > 1 then
                 (case printAll jp result of Inl e \<Rightarrow> Err e | Inr s \<Rightarrow> Ok [RVal (JStr s)])
               else
                 (case result of [] \<Rightarrow> Panic ''index out of range'' | r # _ \<Rightarrow> Ok r)))"

text \<open>The type assertion to a string panics on any other value.\<close>

definition crd_IsBindable :: "'w env \<Rightarrow> crd \<Rightarrow> bool go" where
  "crd_IsBindable e c =
     (case service_getValuesByJSONPath (env_jp e) (crd_resource c) bindingNamePath of
        Panic s \<Rightarrow> Panic s
      | Err _ \<Rightarrow> Ok (hasBindingAnnotation (GetAnnotations (crd_resource c)))
      | Ok vs \<Rightarrow>
          (case vs of
             [] \<Rightarrow> Ok (hasBindingAnnotation (GetAnnotations (crd_resource c)))
           | v # _ \<Rightarrow>
               (case rv_Interface v of
                  JStr t \<Rightarrow>
                    Ok (t = ''string'' \<or> hasBindingAnnotation (GetAnnotations (crd_resource c)))
                | _ \<Rightarrow> Panic ''interface conversion'')))"

text \<open>
  The resource of a definition: one without annotations of its own gets those that the
  registry knows for its kind. The definition after the call is returned.
\<close>

definition crd_Resource :: "'w env \<Rightarrow> crd \<Rightarrow> crd go" where
  "crd_Resource e c =
     (case crd_IsBindable e c of
        Panic s \<Rightarrow> Panic s
      | Ok True \<Rightarrow> Ok c
      | _ \<Rightarrow>
          let gvk = \<lparr>gvk_group = gvr_group (crd_serviceGVR c),
                     gvk_version = gvr_version (crd_serviceGVR c), gvk_kind = crd_kind c\<rparr>
          in (case registryGetAnnotations (env_registry e) gvk of
                None \<Rightarrow> Ok c
              | Some annotations \<Rightarrow>
                  (case MergeMaps (GetAnnotations (crd_resource c)) (Some annotations) of
                     None \<Rightarrow> Ok c
                   | Some m \<Rightarrow> Ok (c\<lparr>crd_resource := SetAnnotations (crd_resource c) m\<rparr>))))"

definition service_IsBindable :: "'w env \<Rightarrow> 'w \<Rightarrow> service \<Rightarrow> service \<times> bool go" where
  "service_IsBindable e w s =
     (case CustomResourceDefinition e w s of
        (s', Inl err) \<Rightarrow> (s', Err err)
      | (s', Inr None) \<Rightarrow> (s', Panic ''nil pointer dereference'')
      | (s', Inr (Some c)) \<Rightarrow> (s', crd_IsBindable e c))"

section \<open>Binding items and bindings backed by a secret\<close>

record item =
  it_Name :: string
  it_Value :: json
  it_Source :: "nat option"

record secret_bindings =
  sbk_Service :: "nat option"
  sbk_Secret :: fields
  sbk_items :: "item list option"

definition AsMap :: "item list \<Rightarrow> strmap" where
  "AsMap items = fold (\<lambda>i m. AList.update (it_Name i) (fmt_v (it_Value i)) m) items []"

text \<open>
  The loop over the data: items decoded before an error stay in the field. The field is nil
  (\<open>None\<close>) as long as nothing was appended to it; a secret without data makes it an
  empty slice.
\<close>

fun decodeItems ::
  "nat option \<Rightarrow> strmap \<Rightarrow> item list option \<Rightarrow> item list option \<times> go_error option" where
  "decodeItems src [] acc = (acc, None)"
| "decodeItems src ((k, v) # data) acc =
     (case DecodeString v of
        Inl err \<Rightarrow> (acc, Some err)
      | Inr s \<Rightarrow>
          decodeItems src data
            (Some ((case acc of None \<Rightarrow> [] | Some is \<Rightarrow> is)
               @ [\<lparr>it_Name = k, it_Value = JStr s, it_Source = src\<rparr>])))"

definition Items :: "secret_bindings \<Rightarrow> secret_bindings \<times> (go_error + item list)" where
  "Items b =
     (case sbk_items b of
        Some is \<Rightarrow> (b, Inr is)
      | None \<Rightarrow>
          (case NestedStringMap (sbk_Secret b) [''data''] of
             Inl err \<Rightarrow> (b, Inl err)
           | Inr None \<Rightarrow> (b\<lparr>sbk_items := Some []\<rparr>, Inr [])
           | Inr (Some data) \<Rightarrow>
               (case decodeItems (sbk_Service b) data None of
                  (items, Some err) \<Rightarrow> (b\<lparr>sbk_items := items\<rparr>, Inl err)
                | (items, None) \<Rightarrow>
                    (b\<lparr>sbk_items := items\<rparr>, Inr (case items of None \<Rightarrow> [] | Some is \<Rightarrow> is)))))"

text \<open>
  The namespace and name of the secret that holds the bindings as they are: none once an
  item has been renamed to something the secret does not have.
\<close>

definition Source :: "secret_bindings \<Rightarrow> (string \<times> string) option" where
  "Source b =
     (case sbk_items b of
        None \<Rightarrow> Some (GetNamespace (sbk_Secret b), GetName (sbk_Secret b))
      | Some is \<Rightarrow>
          (case NestedStringMap (sbk_Secret b) [''data''] of
             Inr (Some data) \<Rightarrow>
               if list_all (\<lambda>i. map_of data (it_Name i) \<noteq> None) is
               then Some (GetNamespace (sbk_Secret b), GetName (sbk_Secret b)) else None
           | _ \<Rightarrow> None))"

end
