(* ===== verification/Context.thy ===== *)
theory Context
  imports Service Sha256
begin

text \<open>
  The state of one reconciliation: \<open>pkg/reconcile/pipeline/context/impl.go\<close>,
  \<open>spec_binding_impl.go\<close> and \<open>flow_ctrl.go\<close>.

  \<open>'w ctx\<close> is the struct \<open>impl\<close> with the service binding it serves and the state of the
  API server. The methods that differ between \<open>bindingImpl\<close> and \<open>specImpl\<close> are defined
  by cases on the specification. The slices \<open>services\<close>, \<open>applications\<close>, \<open>bindings\<close>
  and \<open>bindingItems\<close> are only ever appended to, so nil is the empty list. The field
  \<open>resourceMapping\<close> is never assigned and left out. The rate limiter is a counter of the
  times it was asked; its token bucket, which holds a hundred tokens, adds no delay within
  one reconciliation. Times are in nanoseconds.
\<close>

section \<open>State\<close>

record 'w ctx =
  world :: 'w
  cx_sb :: sbinding
  cx_services :: "service list"
  cx_applications :: "application list"
  cx_bindingItems :: "item list"
  cx_bindings :: "secret_bindings list"
  cx_conditions :: "(string \<times> condition) list"
  cx_retry :: bool
  cx_stop :: bool
  cx_err :: "go_error option"
  cx_delay :: nat
  cx_requeues :: nat
  cx_lookOwned :: bool

abbreviation cx_Meta :: "('w, 'z) ctx_scheme \<Rightarrow> object_meta" where
  "cx_Meta c \<equiv> sb_Meta (cx_sb c)"

definition AddBindingItem :: "item \<Rightarrow> 'w ctx \<Rightarrow> 'w ctx" where
  "AddBindingItem i c = c\<lparr>cx_bindingItems := cx_bindingItems c @ [i]\<rparr>"

definition newContext :: "'w \<Rightarrow> sbinding \<Rightarrow> bool \<Rightarrow> 'w ctx" where
  "newContext w sb lookOwned =
     \<lparr>world = w, cx_sb = sb, cx_services = [], cx_applications = [], cx_bindingItems = [],
      cx_bindings = [], cx_conditions = [], cx_retry = False, cx_stop = False, cx_err = None,
      cx_delay = 0, cx_requeues = 0, cx_lookOwned = lookOwned\<rparr>"

definition typeItems :: "spec_spec \<Rightarrow> item list" where
  "typeItems s =
     (if sp_Type s \<noteq> '''' then [\<lparr>it_Name = ''type'', it_Value = JStr (sp_Type s), it_Source = None\<rparr>] else [])
     @ (if sp_Provider s \<noteq> '''' then [\<lparr>it_Name = ''provider'', it_Value = JStr (sp_Provider s), it_Source = None\<rparr>] else [])"

text \<open>The providers of contexts for the two kinds of binding.\<close>

definition Provider :: "'w \<Rightarrow> sbinding \<Rightarrow> go_error + 'w ctx" where
  "Provider w sb =
     (case sb_Spec sb of
        CoreSpec s \<Rightarrow> Inr (newContext w sb (co_DetectBindingResources s))
      | SpecSpec s \<Rightarrow> Inl (Errorf ''cannot create context for passed instance %v'' []))"

definition SpecProvider :: "'w \<Rightarrow> sbinding \<Rightarrow> go_error + 'w ctx" where
  "SpecProvider w sb =
     (case sb_Spec sb of
        CoreSpec s \<Rightarrow> Inl (Errorf ''cannot create context for passed instance %v'' [])
      | SpecSpec s \<Rightarrow>
          let sb' = (if om_Generation (sb_Meta sb) \<noteq> 0
                     then sb\<lparr>sb_ObservedGeneration := om_Generation (sb_Meta sb)\<rparr> else sb)
          in Inr (fold AddBindingItem (typeItems s) (newContext w sb' False)))"

section \<open>Flow control\<close>

definition RetryProcessing :: "go_error option \<Rightarrow> 'w ctx \<Rightarrow> 'w ctx" where
  "RetryProcessing reason c =
     c\<lparr>cx_retry := True, cx_stop := True, cx_err := reason, cx_delay := 0\<rparr>"

definition RetryProcessingWithDelay :: "go_error option \<Rightarrow> nat \<Rightarrow> 'w ctx \<Rightarrow> 'w ctx" where
  "RetryProcessingWithDelay reason d c =
     c\<lparr>cx_retry := True, cx_stop := (reason \<noteq> None), cx_err := reason, cx_delay := d\<rparr>"

definition Error :: "go_error \<Rightarrow> 'w ctx \<Rightarrow> 'w ctx" where
  "Error e c = c\<lparr>cx_err := Some e\<rparr>"

definition StopProcessing :: "'w ctx \<Rightarrow> 'w ctx" where
  "StopProcessing c = c\<lparr>cx_stop := True\<rparr>"

definition When :: "nat \<Rightarrow> nat" where
  "When failures = min (5000000 * 2 ^ failures) 120000000000"

definition DelayReprocessing :: "go_error option \<Rightarrow> 'w ctx \<Rightarrow> 'w ctx" where
  "DelayReprocessing e c =
     RetryProcessingWithDelay e (When (cx_requeues c)) (c\<lparr>cx_requeues := cx_requeues c + 1\<rparr>)"

definition SetCondition :: "condition \<Rightarrow> 'w ctx \<Rightarrow> 'w ctx" where
  "SetCondition cond c = c\<lparr>cx_conditions := AList.update (cn_Type cond) cond (cx_conditions c)\<rparr>"

section \<open>The binding\<close>

definition IsRemoved :: "'w ctx \<Rightarrow> bool" where
  "IsRemoved c = om_Deleted (cx_Meta c)"

definition UnbindRequested :: "'w ctx \<Rightarrow> bool" where
  "UnbindRequested c =
     (map_of (om_Annotations (cx_Meta c)) MappingAnnotationKey \<noteq> None \<or> IsRemoved c)"

text \<open>
  A context has one of two implementations, for a binding of the core API and for one of the
  specification API; a method of both is chosen by the kind of the binding.
\<close>

definition bindingImpl_BindingName :: "core_spec \<Rightarrow> 'w ctx \<Rightarrow> string" where
  "bindingImpl_BindingName s c = (if co_Name s \<noteq> '''' then co_Name s else om_Name (cx_Meta c))"

definition specImpl_BindingName :: "spec_spec \<Rightarrow> 'w ctx \<Rightarrow> string" where
  "specImpl_BindingName s c = (if sp_Name s \<noteq> '''' then sp_Name s else om_Name (cx_Meta c))"

definition BindingName :: "'w ctx \<Rightarrow> string" where
  "BindingName c =
     (case sb_Spec (cx_sb c) of
        CoreSpec s \<Rightarrow> bindingImpl_BindingName s c | SpecSpec s \<Rightarrow> specImpl_BindingName s c)"

text \<open>Pairs of the environment variable and the key of the secret.\<close>

definition bindingImpl_EnvBindings :: "core_spec \<Rightarrow> (string \<times> string) list" where
  "bindingImpl_EnvBindings s = []"

definition specImpl_EnvBindings :: "spec_spec \<Rightarrow> (string \<times> string) list" where
  "specImpl_EnvBindings s = sp_Env s"

definition EnvBindings :: "'w ctx \<Rightarrow> (string \<times> string) list" where
  "EnvBindings c =
     (case sb_Spec (cx_sb c) of CoreSpec s \<Rightarrow> bindingImpl_EnvBindings s | SpecSpec s \<Rightarrow> specImpl_EnvBindings s)"

definition CleanAnnotations :: "'w ctx \<Rightarrow> 'w ctx \<times> bool" where
  "CleanAnnotations c =
     (if map_of (om_Annotations (cx_Meta c)) MappingAnnotationKey \<noteq> None
      then (c\<lparr>cx_sb := (cx_sb c)\<lparr>sb_Meta := (cx_Meta c)\<lparr>om_Annotations :=
              AList.delete MappingAnnotationKey (om_Annotations (cx_Meta c))\<rparr>\<rparr>\<rparr>, True)
      else (c, False))"

definition bindingImpl_Mappings :: "core_spec \<Rightarrow> strmap" where
  "bindingImpl_Mappings s = fold (\<lambda>(k, v) m. AList.update k v m) (co_Mappings s) []"

definition specImpl_Mappings :: "spec_spec \<Rightarrow> strmap" where
  "specImpl_Mappings s = []"

definition Mappings :: "'w ctx \<Rightarrow> strmap" where
  "Mappings c =
     (case sb_Spec (cx_sb c) of CoreSpec s \<Rightarrow> bindingImpl_Mappings s | SpecSpec s \<Rightarrow> specImpl_Mappings s)"

definition bindingImpl_NamingTemplate :: "core_spec \<Rightarrow> string" where
  "bindingImpl_NamingTemplate s = NamingTemplate s"

definition specImpl_NamingTemplate :: "spec_spec \<Rightarrow> string" where
  "specImpl_NamingTemplate s = ''''"

definition ctx_NamingTemplate :: "'w ctx \<Rightarrow> string" where
  "ctx_NamingTemplate c =
     (case sb_Spec (cx_sb c) of
        CoreSpec s \<Rightarrow> bindingImpl_NamingTemplate s | SpecSpec s \<Rightarrow> specImpl_NamingTemplate s)"

definition bindingImpl_BindAsFiles :: "core_spec \<Rightarrow> bool" where
  "bindingImpl_BindAsFiles s = co_BindAsFiles s"

definition specImpl_BindAsFiles :: "spec_spec \<Rightarrow> bool" where
  "specImpl_BindAsFiles s = True"

definition BindAsFiles :: "'w ctx \<Rightarrow> bool" where
  "BindAsFiles c =
     (case sb_Spec (cx_sb c) of CoreSpec s \<Rightarrow> bindingImpl_BindAsFiles s | SpecSpec s \<Rightarrow> specImpl_BindAsFiles s)"

definition bindingImpl_HasLabelSelector :: "core_spec \<Rightarrow> bool" where
  "bindingImpl_HasLabelSelector s \<longleftrightarrow> ca_LabelSelector (co_Application s) \<noteq> None"

definition specImpl_HasLabelSelector :: "spec_spec \<Rightarrow> bool" where
  "specImpl_HasLabelSelector s \<longleftrightarrow> wr_Selector (sp_Workload s) \<noteq> None"

definition HasLabelSelector :: "'w ctx \<Rightarrow> bool" where
  "HasLabelSelector c =
     (case sb_Spec (cx_sb c) of
        CoreSpec s \<Rightarrow> bindingImpl_HasLabelSelector s | SpecSpec s \<Rightarrow> specImpl_HasLabelSelector s)"

section \<open>Access\<close>

definition canPerform :: "'w env \<Rightarrow> 'w ctx \<Rightarrow> gvr \<Rightarrow> string \<Rightarrow> string \<Rightarrow> string \<Rightarrow> bool" where
  "canPerform e c gvr name ns verb =
     (case Requester e (cx_Meta c) of
        None \<Rightarrow> True
      | Some u \<Rightarrow>
          (case env_Review e (world c)
                  \<lparr>ar_Namespace = ns, ar_Verb = verb, ar_Resource = gvr, ar_Name = name,
                   ar_User = ui_Username u, ar_Groups = ui_Groups u\<rparr> of
             Inl _ \<Rightarrow> False
           | Inr allowed \<Rightarrow> allowed))"

definition coreGVR :: "string \<Rightarrow> gvr" where
  "coreGVR r = \<lparr>gvr_group = '''', gvr_version = ''v1'', gvr_resource = r\<rparr>"

definition ReadConfigMap :: "'w env \<Rightarrow> 'w ctx \<Rightarrow> string \<Rightarrow> string \<Rightarrow> go_error + fields" where
  "ReadConfigMap e c ns name =
     (if \<not> canPerform e c (coreGVR ''configmaps'') name ns ''get''
      then Inl (Errorf ''cannot read configmap %s in namespace %s'' [JStr name, JStr ns])
      else env_Get e (world c) (coreGVR ''configmaps'') ns name)"

definition ReadSecret :: "'w env \<Rightarrow> 'w ctx \<Rightarrow> string \<Rightarrow> string \<Rightarrow> go_error + fields" where
  "ReadSecret e c ns name =
     (if \<not> canPerform e c (coreGVR ''secrets'') name ns ''get''
      then Inl (Errorf ''cannot read secret %s in namespace %s'' [JStr name, JStr ns])
      else env_Get e (world c) (coreGVR ''secrets'') ns name)"

section \<open>Services\<close>

definition AddService :: "service \<Rightarrow> 'w ctx \<Rightarrow> 'w ctx" where
  "AddService s c = c\<lparr>cx_services := cx_services c @ [s]\<rparr>"

text \<open>The builder of the services; that of the specification API has the default for owned resources.\<close>

definition serviceBuilder :: "'w ctx \<Rightarrow> service_builder" where
  "serviceBuilder c = LookOwnedResources (cx_lookOwned c) NewBuilder"

fun coreServices ::
  "'w env \<Rightarrow> core_service list \<Rightarrow> 'w ctx \<Rightarrow> 'w ctx \<times> go_error option" where
  "coreServices e [] c = (c, None)"
| "coreServices e (r # rs) c =
     (case ResourceForReferable e (ref_GroupVersionResource (cs_Ref r)) (ref_GroupVersionKind (cs_Ref r)) of
        Inl err \<Rightarrow> (c, Some err)
      | Inr gvr \<Rightarrow>
          let ns = (case cs_Namespace r of None \<Rightarrow> om_Namespace (cx_Meta c) | Some n \<Rightarrow> n);
              name = ref_Name (cs_Ref r)
          in if \<not> canPerform e c gvr name ns ''get''
             then (c, Some (Errorf ''cannot read service %s in namespace %s'' [JStr name, JStr ns]))
             else
               (case env_Get e (world c) gvr ns name of
                  Inl err \<Rightarrow> (c, Some err)
                | Inr u \<Rightarrow>
                    (case service_Build e (serviceBuilder c) u (case cs_Id r of None \<Rightarrow> [] | Some i \<Rightarrow> [service_Id i]) of
                       Inl err \<Rightarrow> (c, Some err)
                     | Inr s \<Rightarrow> coreServices e rs (AddService s c))))"

definition specServices :: "'w env \<Rightarrow> service_ref \<Rightarrow> 'w ctx \<Rightarrow> 'w ctx \<times> go_error option" where
  "specServices e r c =
     (case ResourceForReferable e noResource (Inr (service_GroupVersionKind r)) of
        Inl err \<Rightarrow> (c, Some err)
      | Inr gvr \<Rightarrow>
          let ns = om_Namespace (cx_Meta c) in
          if \<not> canPerform e c gvr (sr_Name r) ns ''get''
          then (c, Some (Errorf ''cannot read service %s in namespace %s'' [JStr (sr_Name r), JStr ns]))
          else
            (case env_Get e (world c) gvr ns (sr_Name r) of
               Inl err \<Rightarrow> (c, Some err)
             | Inr u \<Rightarrow>
                 (case service_Build e (serviceBuilder c) u [] of
                    Inl err \<Rightarrow> (c, Some err)
                  | Inr s \<Rightarrow> (AddService s c, None))))"

text \<open>
  The services of the binding. The list that the call returns is \<open>cx_services\<close> of the
  context after the call, or nothing where there is an error.
\<close>

definition Services :: "'w env \<Rightarrow> 'w ctx \<Rightarrow> 'w ctx \<times> go_error option" where
  "Services e c =
     (if cx_services c \<noteq> [] then (c, None)
      else
        (case sb_Spec (cx_sb c) of
           CoreSpec s \<Rightarrow> coreServices e (co_Services s) c
         | SpecSpec s \<Rightarrow> specServices e (sp_Service s) c))"

section \<open>Workload mappings\<close>

definition mappingGVR :: gvr where
  "mappingGVR =
     \<lparr>gvr_group = ''servicebinding.io'', gvr_version = ''v1beta1'',
      gvr_resource = ''clusterworkloadresourcemappings''\<rparr>"

fun pickTemplate :: "string \<Rightarrow> mapping_template list \<Rightarrow> mapping_template \<Rightarrow> mapping_template" where
  "pickTemplate v [] wildcard = wildcard"
| "pickTemplate v (t # ts) wildcard =
     (if mpt_Version t = v then t
      else if mpt_Version t = ''*'' then pickTemplate v ts t
      else pickTemplate v ts wildcard)"

definition readMapping :: "'w env \<Rightarrow> 'w ctx \<Rightarrow> gvr \<Rightarrow> go_error + mapping_template list" where
  "readMapping e c gvr =
     (case map_of (om_Annotations (cx_Meta c)) MappingAnnotationKey of
        Some mappingData \<Rightarrow> map_sum id mp_Versions (env_UnmarshalMapping e mappingData)
      | None \<Rightarrow>
          (case env_Get e (world c) mappingGVR '''' (GroupResource_String gvr) of
             Inl err \<Rightarrow> if IsNotFound err then Inr [] else Inl err
           | Inr obj \<Rightarrow> map_sum id mp_Versions (env_MappingFrom e obj)))"

definition addContainersPath :: "string \<Rightarrow> mapping_template \<Rightarrow> mapping_template" where
  "addContainersPath containerPath t =
     (let path = ''.'' @ containerPath @ ''[*]'' in
      if containerPath \<noteq> '''' \<and> list_ex (\<lambda>c. path \<noteq> mpc_Path c) (mpt_Containers t)
      then t\<lparr>mpt_Containers := mpt_Containers t @
             [\<lparr>mpc_Path = path, mpc_Name = '''', mpc_Env = '''', mpc_VolumeMounts = ''''\<rparr>]\<rparr>
      else t)"

definition WorkloadResourceTemplate ::
  "'w env \<Rightarrow> 'w ctx \<Rightarrow> gvr \<Rightarrow> string \<Rightarrow> go_error + workload_mapping" where
  "WorkloadResourceTemplate e c gvr containerPath =
     (if \<not> canPerform e c mappingGVR (GroupResource_String gvr) '''' ''get''
      then Inl (StatusErr ''BadRequest'' ''Unable to retrieve ClusterWorkloadResourceMapping for type'')
      else
        (case readMapping e c gvr of
           Inl err \<Rightarrow> Inl err
         | Inr versions \<Rightarrow>
             let t = pickTemplate (gvr_version gvr) versions DefaultTemplate;
                 t1 = (if mpt_Containers t = [] then t\<lparr>mpt_Containers := mpt_Containers DefaultTemplate\<rparr> else t)
             in FromWorkloadResourceMappingTemplate (env_jp e) (addContainersPath containerPath t1)))"

section \<open>Applications\<close>

definition labelsString :: "strmap option \<Rightarrow> string" where
  "labelsString ls =
     Join '','' (sort (map (\<lambda>(k, v). k @ ''='' @ v) (case ls of None \<Rightarrow> [] | Some m \<Rightarrow> m)))"

definition AddApplication :: "application \<Rightarrow> 'w ctx \<Rightarrow> 'w ctx" where
  "AddApplication a c = c\<lparr>cx_applications := cx_applications c @ [a]\<rparr>"

text \<open>The two places of the code that read applications, by name and by label.\<close>

definition namedApplication ::
  "'w env \<Rightarrow> gvr \<Rightarrow> string \<Rightarrow> (fields \<Rightarrow> application) \<Rightarrow> 'w ctx \<Rightarrow> 'w ctx \<times> go_error option" where
  "namedApplication e gvr name mk c =
     (let ns = om_Namespace (cx_Meta c) in
      if name = '''' then (c, None)
      else if \<not> canPerform e c gvr name ns ''get''
      then (c, Some (Errorf ''cannot read application %s in namespace %s'' [JStr name, JStr ns]))
      else if \<not> canPerform e c gvr name ns ''update''
      then (c, Some (Errorf ''cannot update application resource %s in namespace %s'' [JStr name, JStr ns]))
      else
        (case env_Get e (world c) gvr ns name of
           Inl err \<Rightarrow> (c, Some (EmptyApplicationsErr (Some err)))
         | Inr u \<Rightarrow> (AddApplication (mk u) c, None)))"

fun labelledItems ::
  "'w env \<Rightarrow> gvr \<Rightarrow> (fields \<Rightarrow> application) \<Rightarrow> fields list \<Rightarrow> 'w ctx \<Rightarrow> 'w ctx \<times> go_error option" where
  "labelledItems e gvr mk [] c = (c, None)"
| "labelledItems e gvr mk (u # us) c =
     (let ns = om_Namespace (cx_Meta c) in
      if \<not> canPerform e c gvr (GetName u) ns ''update''
      then (c, Some (Errorf ''cannot update application resource %s in namespace %s'' [JStr (GetName u), JStr ns]))
      else labelledItems e gvr mk us (AddApplication (mk u) c))"

definition labelledApplications ::
  "'w env \<Rightarrow> gvr \<Rightarrow> label_selector option \<Rightarrow> (fields \<Rightarrow> application) \<Rightarrow> 'w ctx \<Rightarrow> 'w ctx \<times> go_error option" where
  "labelledApplications e gvr sel mk c =
     (case sel of
        None \<Rightarrow> (c, None)
      | Some ls \<Rightarrow>
          let ns = om_Namespace (cx_Meta c) in
          if \<not> canPerform e c gvr '''' ns ''list''
          then (c, Some (Errorf ''cannot read application in namespace %s'' [JStr ns]))
          else
            (case env_List e (world c) gvr ns (labelsString (ls_MatchLabels ls)) of
               Inl err \<Rightarrow> (c, Some err)
             | Inr items \<Rightarrow>
                 if items = [] then (c, Some (EmptyApplicationsErr None))
                 else labelledItems e gvr mk items c))"

definition findApplications ::
  "'w env \<Rightarrow> go_error + gvr \<Rightarrow> string \<Rightarrow> string \<Rightarrow> label_selector option
     \<Rightarrow> (gvr \<Rightarrow> workload_mapping \<Rightarrow> fields \<Rightarrow> application) \<Rightarrow> 'w ctx \<Rightarrow> 'w ctx \<times> go_error option" where
  "findApplications e gvr containerPath name sel mk c =
     (case gvr of
        Inl err \<Rightarrow> (c, Some err)
      | Inr r \<Rightarrow>
          (case WorkloadResourceTemplate e c r containerPath of
             Inl err \<Rightarrow> (c, Some err)
           | Inr m \<Rightarrow>
               (case namedApplication e r name (mk r m) c of
                  (c', Some err) \<Rightarrow> (c', Some err)
                | (c', None) \<Rightarrow> labelledApplications e r sel (mk r m) c')))"

definition coreApplications :: "'w env \<Rightarrow> core_application \<Rightarrow> 'w ctx \<Rightarrow> 'w ctx \<times> go_error option" where
  "coreApplications e a c =
     findApplications e
       (ResourceForReferable e (ref_GroupVersionResource (ca_Ref a)) (ref_GroupVersionKind (ca_Ref a)))
       (case ca_BindingPath a of None \<Rightarrow> '''' | Some (containersPath, secretPath) \<Rightarrow> containersPath)
       (ref_Name (ca_Ref a)) (ca_LabelSelector a)
       (\<lambda>r m u. \<lparr>app_gvr = r, app_persistedResource = u, app_resource = None,
                  app_bindingPath = ca_BindingPath a, app_bindableContainerNames = [],
                  app_resourceMapping = m\<rparr>) c"

definition specApplications :: "'w env \<Rightarrow> workload_ref \<Rightarrow> 'w ctx \<Rightarrow> 'w ctx \<times> go_error option" where
  "specApplications e a c =
     findApplications e
       (ResourceForReferable e noResource (Inr (workload_GroupVersionKind a)))
       '''' (wr_Name a) (wr_Selector a)
       (\<lambda>r m u. \<lparr>app_gvr = r, app_persistedResource = u, app_resource = None,
                  app_bindingPath = None, app_bindableContainerNames = wr_Containers a,
                  app_resourceMapping = m\<rparr>) c"

text \<open>As for services, the applications are those of the context after the call.\<close>

definition Applications :: "'w env \<Rightarrow> 'w ctx \<Rightarrow> 'w ctx \<times> go_error option" where
  "Applications e c =
     (if cx_applications c \<noteq> [] then (c, None)
      else
        (case sb_Spec (cx_sb c) of
           CoreSpec s \<Rightarrow> coreApplications e (co_Application s) c
         | SpecSpec s \<Rightarrow> specApplications e (sp_Workload s) c))"

section \<open>Binding items\<close>

definition AddBindings :: "secret_bindings \<Rightarrow> 'w ctx \<Rightarrow> 'w ctx" where
  "AddBindings b c = c\<lparr>cx_bindings := cx_bindings c @ [b]\<rparr>"

text \<open>
  The items of each of the bindings; a binding whose items cannot be read has none. Reading
  fills the caches of the bindings.
\<close>

definition itemsOf :: "secret_bindings \<Rightarrow> item list" where
  "itemsOf b = (case snd (Items b) of Inl _ \<Rightarrow> [] | Inr is \<Rightarrow> is)"

definition loadBindings :: "'w ctx \<Rightarrow> 'w ctx" where
  "loadBindings c = c\<lparr>cx_bindings := map (\<lambda>b. fst (Items b)) (cx_bindings c)\<rparr>"

definition BindingItems :: "'w ctx \<Rightarrow> 'w ctx \<times> item list" where
  "BindingItems c =
     (loadBindings c, concat (map itemsOf (cx_bindings c)) @ cx_bindingItems c)"

definition mergeInto :: "strmap \<Rightarrow> strmap \<Rightarrow> strmap" where
  "mergeInto dest src = (case MergeMaps (Some dest) (Some src) of None \<Rightarrow> [] | Some m \<Rightarrow> m)"

definition bindingItemMap :: "'w ctx \<Rightarrow> 'w ctx \<times> strmap" where
  "bindingItemMap c =
     (let data = foldl (\<lambda>m b. case snd (Items b) of Inl _ \<Rightarrow> m | Inr is \<Rightarrow> mergeInto m (AsMap is))
                   [] (cx_bindings c)
      in (loadBindings c,
          if cx_bindingItems c \<noteq> [] then mergeInto data (AsMap (cx_bindingItems c)) else data))"

section \<open>The binding secret\<close>

definition statusSecretName :: "'w ctx \<Rightarrow> string" where
  "statusSecretName c = (case sb_SecretName (cx_sb c) of None \<Rightarrow> '''' | Some n \<Rightarrow> n)"

definition setStatusSecretName :: "string \<Rightarrow> 'w ctx \<Rightarrow> 'w ctx" where
  "setStatusSecretName n c = c\<lparr>cx_sb := (cx_sb c)\<lparr>sb_SecretName := Some n\<rparr>\<rparr>"

definition hashedName :: "string \<Rightarrow> strmap \<Rightarrow> string" where
  "hashedName name data =
     name @ ''-'' @ take 8 (hexEncode (sha256_sum
       (concat (map (\<lambda>k. k @ the (map_of data k)) (sort (map fst data))))))"

text \<open>The flag tells that the secret exists already.\<close>

definition bindingSecretName :: "'w ctx \<Rightarrow> 'w ctx \<times> string \<times> bool" where
  "bindingSecretName c =
     (if UnbindRequested c then (c, statusSecretName c, True)
      else
        (case (cx_bindingItems c, cx_bindings c) of
           ([], [b]) \<Rightarrow>
             (case Source b of
                Some (ns, name) \<Rightarrow>
                  if ns = om_Namespace (cx_Meta c) then (c, name, True)
                  else (let (c', data) = bindingItemMap c
                        in (c', hashedName (om_Name (cx_Meta c)) data, False))
              | None \<Rightarrow>
                  (let (c', data) = bindingItemMap c
                   in (c', hashedName (om_Name (cx_Meta c)) data, False)))
         | _ \<Rightarrow>
             (let (c', data) = bindingItemMap c
              in (c', hashedName (om_Name (cx_Meta c)) data, False))))"

definition BindingSecretName :: "'w ctx \<Rightarrow> 'w ctx \<times> string" where
  "BindingSecretName c = (let (c', name, exists) = bindingSecretName c in (c', name))"

definition secretObject :: "sbinding \<Rightarrow> string \<Rightarrow> strmap \<Rightarrow> fields" where
  "secretObject sb name data =
     [(''apiVersion'', JStr ''v1''), (''kind'', JStr ''Secret''),
      (''metadata'', JObj ([(''name'', JStr name), (''namespace'', JStr (om_Namespace (sb_Meta sb))),
         (''creationTimestamp'', JNull)]
         @ (if om_UID (sb_Meta sb) \<noteq> ''''
            then [(''ownerReferences'', JArr [JObj (AsOwnerReference sb)])] else []))),
      (''stringData'', JObj (map (map_prod id JStr) data))]"

definition persistSecret :: "'w env \<Rightarrow> 'w ctx \<Rightarrow> 'w ctx \<times> string \<times> go_error option" where
  "persistSecret e c =
     (case bindingSecretName c of
        (c1, name, True) \<Rightarrow> (c1, name, None)
      | (c1, name, False) \<Rightarrow>
          (case bindingItemMap c1 of
             (c2, data) \<Rightarrow>
               if data = [] then (c2, '''', None)
               else
                 let u = secretObject (cx_sb c2) name data; ns = om_Namespace (cx_Meta c2) in
                 (case env_Get e (world c2) (coreGVR ''secrets'') ns name of
                    Inl err \<Rightarrow>
                      if IsNotFound err then
                        (case env_Create e (coreGVR ''secrets'') ns u (world c2) of
                           (r, w) \<Rightarrow> (c2\<lparr>world := w\<rparr>, name, r))
                      else (c2, name, Some err)
                  | Inr _ \<Rightarrow>
                      (case env_Update e (coreGVR ''secrets'') ns u (world c2) of
                         (r, w) \<Rightarrow> (c2\<lparr>world := w\<rparr>, name, r)))))"

section \<open>Persisting\<close>

definition bindingGVR :: "sbinding \<Rightarrow> gvr" where
  "bindingGVR sb =
     (case sb_Spec sb of
        CoreSpec _ \<Rightarrow> \<lparr>gvr_group = ''binding.operators.coreos.com'', gvr_version = ''v1alpha1'',
                       gvr_resource = ''servicebindings''\<rparr>
      | SpecSpec _ \<Rightarrow> \<lparr>gvr_group = ''servicebinding.io'', gvr_version = ''v1beta1'',
                       gvr_resource = ''servicebindings''\<rparr>)"

definition statusWith :: "(string \<times> condition) list \<Rightarrow> sbinding \<Rightarrow> sbinding" where
  "statusWith conds sb =
     sb\<lparr>sb_Conditions := foldl (\<lambda>cs (t, cond). SetStatusCondition cs cond) (sb_Conditions sb) conds\<rparr>"

definition persistBinding :: "'w env \<Rightarrow> 'w ctx \<Rightarrow> 'w ctx \<times> go_error option" where
  "persistBinding e c =
     (if om_UID (cx_Meta c) = '''' then (c, None)
      else
        let c1 = c\<lparr>cx_sb := statusWith (cx_conditions c) (cx_sb c)\<rparr> in
        (case env_BindingTo e (cx_sb c1) of
           Inl err \<Rightarrow> (c1, Some err)
         | Inr u \<Rightarrow>
             (case env_UpdateStatus e (bindingGVR (cx_sb c1)) (om_Namespace (cx_Meta c1)) u (world c1) of
                (Some err, w) \<Rightarrow> (c1\<lparr>world := w\<rparr>, Some err)
              | (None, w) \<Rightarrow>
                  (case env_Update e (bindingGVR (cx_sb c1)) (om_Namespace (cx_Meta c1)) u w of
                     (r, w') \<Rightarrow> (c1\<lparr>world := w'\<rparr>, r)))))"

definition PersistSecret :: "'w env \<Rightarrow> 'w ctx \<Rightarrow> 'w ctx \<times> go_error option" where
  "PersistSecret e c =
     (case persistSecret e c of
        (c1, name, Some err) \<Rightarrow>
          (fst (persistBinding e (SetCondition
             (withMsg err (withReason ''ErrorPersistingSecret'' (withNotBindingReady Conditions))) c1)),
           Some err)
      | (c1, name, None) \<Rightarrow>
          (if name \<noteq> '''' then setStatusSecretName name c1 else c1, None))"

text \<open>
  The clone of an application that is sent to the API server: every
  \<open>[]map[string]interface{}\<close> becomes a \<open>[]interface{}\<close>. A nil slice and an empty one are
  not told apart.
\<close>

primrec normalize :: "json \<Rightarrow> json" where
  "normalize JNull = JNull"
| "normalize (JBool b) = JBool b"
| "normalize (JInt i) = JInt i"
| "normalize (JFloat f) = JFloat f"
| "normalize (JStr s) = JStr s"
| "normalize (JArr xs) = JArr (map normalize xs)"
| "normalize (JObj m) = JObj (map (map_prod id normalize) m)"
| "normalize (JMaps ms) = JArr (map JObj (map (map (map_prod id normalize)) ms))"

fun updateApplications ::
  "'w env \<Rightarrow> application list \<Rightarrow> 'w ctx \<Rightarrow> 'w ctx \<times> go_error option" where
  "updateApplications e [] c = (c, None)"
| "updateApplications e (a # as) c =
     (if IsUpdated a then
        (case env_Update e (app_gvr a) (om_Namespace (cx_Meta c))
                (fields_of (normalize (JObj (resourceOf a)))) (world c) of
           (Some err, w) \<Rightarrow> (c\<lparr>world := w\<rparr>, Some err)
         | (None, w) \<Rightarrow> updateApplications e as (c\<lparr>world := w\<rparr>))
      else updateApplications e as c)"

definition Close :: "'w env \<Rightarrow> 'w ctx \<Rightarrow> 'w ctx \<times> go_error option" where
  "Close e c =
     (case cx_err c of
        Some err \<Rightarrow>
          persistBinding e (SetCondition
            (withMsg err (withReason ''ProcessingError'' (withNotBindingReady Conditions))) c)
      | None \<Rightarrow>
          (case updateApplications e (cx_applications c) c of
             (c1, Some err) \<Rightarrow>
               (fst (persistBinding e (SetCondition
                  (withMsg err (withReason ''ApplicationUpdateError'' (withNotBindingReady Conditions))) c1)),
                Some err)
           | (c1, None) \<Rightarrow>
               persistBinding e (SetCondition
                 (withReason ''ApplicationsBound'' (withBindingReady Conditions)) c1)))"

end
