(* ===== verification/SpecCopy.thy ===== *)
theory SpecCopy
  imports MetaCopy Context
begin

text \<open>
  The deep copies of the specification API (\<open>apis/spec/v1beta1/zz_generated.deepcopy.go\<close>):
  bindings and workload mappings. The code of the deprecated version \<open>v1alpha3\<close> is the
  same but for the name of the package.
\<close>

section \<open>The copies\<close>

definition ClusterWorkloadResourceMappingContainer_DeepCopyInto :: "mem \<Rightarrow> h_map_container \<Rightarrow> h_map_container \<times> mem" where
  "ClusterWorkloadResourceMappingContainer_DeepCopyInto m x = assign m x"

definition ClusterWorkloadResourceMappingTemplate_DeepCopyInto :: "mem \<Rightarrow> h_map_template \<Rightarrow> h_map_template \<times> mem" where
  "ClusterWorkloadResourceMappingTemplate_DeepCopyInto m x =
     (let (containers', m1) = copyPtr CContainers un_CContainers assign m (cp_Containers x)
      in (x\<lparr>cp_Containers := containers'\<rparr>, m1))"

definition ClusterWorkloadResourceMappingSpec_DeepCopyInto :: "mem \<Rightarrow> h_map_spec \<Rightarrow> h_map_spec \<times> mem" where
  "ClusterWorkloadResourceMappingSpec_DeepCopyInto m x =
     (let (versions',
       m1) = copyPtr CTemplates un_CTemplates (copyElems ClusterWorkloadResourceMappingTemplate_DeepCopyInto) m (cw_Versions x)
      in (x\<lparr>cw_Versions := versions'\<rparr>, m1))"

definition ClusterWorkloadResourceMapping_DeepCopyInto :: "mem \<Rightarrow> h_resource_mapping \<Rightarrow> h_resource_mapping \<times> mem" where
  "ClusterWorkloadResourceMapping_DeepCopyInto m x =
     (let (objectMeta', m1) = ObjectMeta_DeepCopyInto m (cm_ObjectMeta x);
          (spec', m2) = ClusterWorkloadResourceMappingSpec_DeepCopyInto m1 (cm_Spec x)
      in (x\<lparr>cm_ObjectMeta := objectMeta', cm_Spec := spec'\<rparr>, m2))"

definition ClusterWorkloadResourceMappingList_DeepCopyInto :: "mem \<Rightarrow> h_resource_mapping_list \<Rightarrow> h_resource_mapping_list \<times> mem" where
  "ClusterWorkloadResourceMappingList_DeepCopyInto m x =
     (let (listMeta', m1) = ListMeta_DeepCopyInto m (cml_ListMeta x);
          (items',
            m2) = copyPtr CResourceMappings un_CResourceMappings (copyElems ClusterWorkloadResourceMapping_DeepCopyInto) m1 (cml_Items x)
      in (x\<lparr>cml_ListMeta := listMeta', cml_Items := items'\<rparr>, m2))"

definition EnvMapping_DeepCopyInto :: "mem \<Rightarrow> h_env \<Rightarrow> h_env \<times> mem" where
  "EnvMapping_DeepCopyInto m x = assign m x"

definition ServiceBindingSecretReference_DeepCopyInto :: "mem \<Rightarrow> h_secret_ref \<Rightarrow> h_secret_ref \<times> mem" where
  "ServiceBindingSecretReference_DeepCopyInto m x = assign m x"

definition ServiceBindingServiceReference_DeepCopyInto :: "mem \<Rightarrow> h_service_ref \<Rightarrow> h_service_ref \<times> mem" where
  "ServiceBindingServiceReference_DeepCopyInto m x = assign m x"

definition ServiceBindingWorkloadReference_DeepCopyInto :: "mem \<Rightarrow> h_workload_ref \<Rightarrow> h_workload_ref \<times> mem" where
  "ServiceBindingWorkloadReference_DeepCopyInto m x =
     (let (selector', m1) = copyPtr CSelector un_CSelector LabelSelector_DeepCopyInto m (bwr_Selector x);
          (containers', m2) = copyPtr CStrings un_CStrings assign m1 (bwr_Containers x)
      in (x\<lparr>bwr_Selector := selector', bwr_Containers := containers'\<rparr>, m2))"

definition v1beta1_ServiceBindingSpec_DeepCopyInto :: "mem \<Rightarrow> h_beta_spec \<Rightarrow> h_beta_spec \<times> mem" where
  "v1beta1_ServiceBindingSpec_DeepCopyInto m x =
     (let (workload', m1) = ServiceBindingWorkloadReference_DeepCopyInto m (bs_Workload x);
          (env', m2) = copyPtr CEnvs un_CEnvs assign m1 (bs_Env x)
      in (x\<lparr>bs_Workload := workload', bs_Env := env'\<rparr>, m2))"

definition v1beta1_ServiceBindingStatus_DeepCopyInto :: "mem \<Rightarrow> h_beta_status \<Rightarrow> h_beta_status \<times> mem" where
  "v1beta1_ServiceBindingStatus_DeepCopyInto m x =
     (let (conditions', m1) = copyPtr CConditions un_CConditions (copyElems Condition_DeepCopyInto)
       m (bt_Conditions x);
          (binding', m2) = copyPtr CSecretRef un_CSecretRef assign m1 (bt_Binding x)
      in (x\<lparr>bt_Conditions := conditions', bt_Binding := binding'\<rparr>, m2))"

definition v1beta1_ServiceBinding_DeepCopyInto :: "mem \<Rightarrow> h_beta_binding \<Rightarrow> h_beta_binding \<times> mem" where
  "v1beta1_ServiceBinding_DeepCopyInto m x =
     (let (objectMeta', m1) = ObjectMeta_DeepCopyInto m (bb_ObjectMeta x);
          (spec', m2) = v1beta1_ServiceBindingSpec_DeepCopyInto m1 (bb_Spec x);
          (status', m3) = v1beta1_ServiceBindingStatus_DeepCopyInto m2 (bb_Status x)
      in (x\<lparr>bb_ObjectMeta := objectMeta', bb_Spec := spec', bb_Status := status'\<rparr>, m3))"

definition v1beta1_ServiceBindingList_DeepCopyInto :: "mem \<Rightarrow> h_beta_binding_list \<Rightarrow> h_beta_binding_list \<times> mem" where
  "v1beta1_ServiceBindingList_DeepCopyInto m x =
     (let (listMeta', m1) = ListMeta_DeepCopyInto m (bbl_ListMeta x);
          (items',
            m2) = copyPtr CSpecBindings un_CSpecBindings (copyElems v1beta1_ServiceBinding_DeepCopyInto)
              m1 (bbl_Items x)
      in (x\<lparr>bbl_ListMeta := listMeta', bbl_Items := items'\<rparr>, m2))"

definition ClusterWorkloadResourceMappingContainer_DeepCopy :: "mem \<Rightarrow> ptr \<Rightarrow> ptr \<times> mem" where
  "ClusterWorkloadResourceMappingContainer_DeepCopy =
     copyPtr CWorkloadMappingContainer un_CWorkloadMappingContainer ClusterWorkloadResourceMappingContainer_DeepCopyInto"

definition ClusterWorkloadResourceMappingTemplate_DeepCopy :: "mem \<Rightarrow> ptr \<Rightarrow> ptr \<times> mem" where
  "ClusterWorkloadResourceMappingTemplate_DeepCopy =
     copyPtr CWorkloadMappingTemplate un_CWorkloadMappingTemplate ClusterWorkloadResourceMappingTemplate_DeepCopyInto"

definition ClusterWorkloadResourceMappingSpec_DeepCopy :: "mem \<Rightarrow> ptr \<Rightarrow> ptr \<times> mem" where
  "ClusterWorkloadResourceMappingSpec_DeepCopy =
     copyPtr CWorkloadMappingSpec un_CWorkloadMappingSpec ClusterWorkloadResourceMappingSpec_DeepCopyInto"

definition ClusterWorkloadResourceMapping_DeepCopy :: "mem \<Rightarrow> ptr \<Rightarrow> ptr \<times> mem" where
  "ClusterWorkloadResourceMapping_DeepCopy =
     copyPtr CWorkloadMapping un_CWorkloadMapping ClusterWorkloadResourceMapping_DeepCopyInto"

definition ClusterWorkloadResourceMappingList_DeepCopy :: "mem \<Rightarrow> ptr \<Rightarrow> ptr \<times> mem" where
  "ClusterWorkloadResourceMappingList_DeepCopy =
     copyPtr CWorkloadMappingList un_CWorkloadMappingList ClusterWorkloadResourceMappingList_DeepCopyInto"

definition EnvMapping_DeepCopy :: "mem \<Rightarrow> ptr \<Rightarrow> ptr \<times> mem" where
  "EnvMapping_DeepCopy = copyPtr CEnvMapping un_CEnvMapping EnvMapping_DeepCopyInto"

definition ServiceBindingSecretReference_DeepCopy :: "mem \<Rightarrow> ptr \<Rightarrow> ptr \<times> mem" where
  "ServiceBindingSecretReference_DeepCopy =
     copyPtr CSecretRef un_CSecretRef ServiceBindingSecretReference_DeepCopyInto"

definition ServiceBindingServiceReference_DeepCopy :: "mem \<Rightarrow> ptr \<Rightarrow> ptr \<times> mem" where
  "ServiceBindingServiceReference_DeepCopy =
     copyPtr CServiceRef un_CServiceRef ServiceBindingServiceReference_DeepCopyInto"

definition ServiceBindingWorkloadReference_DeepCopy :: "mem \<Rightarrow> ptr \<Rightarrow> ptr \<times> mem" where
  "ServiceBindingWorkloadReference_DeepCopy =
     copyPtr CWorkloadRef un_CWorkloadRef ServiceBindingWorkloadReference_DeepCopyInto"

definition v1beta1_ServiceBindingSpec_DeepCopy :: "mem \<Rightarrow> ptr \<Rightarrow> ptr \<times> mem" where
  "v1beta1_ServiceBindingSpec_DeepCopy =
     copyPtr CBetaBindingSpec un_CBetaBindingSpec v1beta1_ServiceBindingSpec_DeepCopyInto"

definition v1beta1_ServiceBindingStatus_DeepCopy :: "mem \<Rightarrow> ptr \<Rightarrow> ptr \<times> mem" where
  "v1beta1_ServiceBindingStatus_DeepCopy =
     copyPtr CBetaBindingStatus un_CBetaBindingStatus v1beta1_ServiceBindingStatus_DeepCopyInto"

definition v1beta1_ServiceBinding_DeepCopy :: "mem \<Rightarrow> ptr \<Rightarrow> ptr \<times> mem" where
  "v1beta1_ServiceBinding_DeepCopy = copyPtr CBetaBinding un_CBetaBinding v1beta1_ServiceBinding_DeepCopyInto"

definition v1beta1_ServiceBindingList_DeepCopy :: "mem \<Rightarrow> ptr \<Rightarrow> ptr \<times> mem" where
  "v1beta1_ServiceBindingList_DeepCopy =
     copyPtr CBetaBindingList un_CBetaBindingList v1beta1_ServiceBindingList_DeepCopyInto"

definition ClusterWorkloadResourceMapping_DeepCopyObject :: "mem \<Rightarrow> ptr \<Rightarrow> ptr \<times> mem" where
  "ClusterWorkloadResourceMapping_DeepCopyObject m p =
     (case ClusterWorkloadResourceMapping_DeepCopy m p of (Some c, m') \<Rightarrow> (Some c, m') | (None,
       m') \<Rightarrow> (None, m'))"

definition ClusterWorkloadResourceMappingList_DeepCopyObject :: "mem \<Rightarrow> ptr \<Rightarrow> ptr \<times> mem" where
  "ClusterWorkloadResourceMappingList_DeepCopyObject m p =
     (case ClusterWorkloadResourceMappingList_DeepCopy m p of (Some c, m') \<Rightarrow> (Some c, m') | (None,
       m') \<Rightarrow> (None, m'))"

definition v1beta1_ServiceBinding_DeepCopyObject :: "mem \<Rightarrow> ptr \<Rightarrow> ptr \<times> mem" where
  "v1beta1_ServiceBinding_DeepCopyObject m p =
     (case v1beta1_ServiceBinding_DeepCopy m p of (Some c, m') \<Rightarrow> (Some c, m') | (None,
       m') \<Rightarrow> (None, m'))"

definition v1beta1_ServiceBindingList_DeepCopyObject :: "mem \<Rightarrow> ptr \<Rightarrow> ptr \<times> mem" where
  "v1beta1_ServiceBindingList_DeepCopyObject m p =
     (case v1beta1_ServiceBindingList_DeepCopy m p of (Some c, m') \<Rightarrow> (Some c, m') | (None,
       m') \<Rightarrow> (None, m'))"

section \<open>Views and addresses of the structs\<close>

definition ClusterWorkloadResourceMappingContainer_view :: "h_map_container \<Rightarrow> gotree" where
  "ClusterWorkloadResourceMappingContainer_view x =
     GStruct [GText (cc_Path x), GText (cc_Name x), GText (cc_Env x), GText (cc_VolumeMounts x)]"

definition ClusterWorkloadResourceMappingTemplate_view :: "mem \<Rightarrow> h_map_template \<Rightarrow> gotree" where
  "ClusterWorkloadResourceMappingTemplate_view m x =
     GStruct [GText (cp_Version x), GText (cp_Annotations x), GText (cp_Volumes x),
     ptrView un_CContainers (\<lambda>m xs. GSeq (map ClusterWorkloadResourceMappingContainer_view xs))
       m (cp_Containers x)]"

definition ClusterWorkloadResourceMappingTemplate_addrs :: "mem \<Rightarrow> h_map_template \<Rightarrow> nat list" where
  "ClusterWorkloadResourceMappingTemplate_addrs m x =
     ptrAddrs un_CContainers noAddrs m (cp_Containers x)"

definition ClusterWorkloadResourceMappingSpec_view :: "mem \<Rightarrow> h_map_spec \<Rightarrow> gotree" where
  "ClusterWorkloadResourceMappingSpec_view m x =
     GStruct [ptrView un_CTemplates (seqView ClusterWorkloadResourceMappingTemplate_view) m (cw_Versions x)]"

definition ClusterWorkloadResourceMappingSpec_addrs :: "mem \<Rightarrow> h_map_spec \<Rightarrow> nat list" where
  "ClusterWorkloadResourceMappingSpec_addrs m x =
     ptrAddrs un_CTemplates (seqAddrs ClusterWorkloadResourceMappingTemplate_addrs) m (cw_Versions x)"

definition ClusterWorkloadResourceMapping_view :: "mem \<Rightarrow> h_resource_mapping \<Rightarrow> gotree" where
  "ClusterWorkloadResourceMapping_view m x =
     GStruct [TypeMeta_view (cm_TypeMeta x),
     bothView ObjectMeta_view
       ClusterWorkloadResourceMappingSpec_view m
       (cm_ObjectMeta x, cm_Spec x)]"

definition ClusterWorkloadResourceMapping_addrs :: "mem \<Rightarrow> h_resource_mapping \<Rightarrow> nat list" where
  "ClusterWorkloadResourceMapping_addrs m x =
     bothAddrs ObjectMeta_addrs
       ClusterWorkloadResourceMappingSpec_addrs m
       (cm_ObjectMeta x, cm_Spec x)"

definition ClusterWorkloadResourceMappingList_view :: "mem \<Rightarrow> h_resource_mapping_list \<Rightarrow> gotree" where
  "ClusterWorkloadResourceMappingList_view m x =
     GStruct [TypeMeta_view (cml_TypeMeta x),
     bothView ListMeta_view
       (ptrView un_CResourceMappings (seqView ClusterWorkloadResourceMapping_view)) m
       (cml_ListMeta x, cml_Items x)]"

definition ClusterWorkloadResourceMappingList_addrs :: "mem \<Rightarrow> h_resource_mapping_list \<Rightarrow> nat list" where
  "ClusterWorkloadResourceMappingList_addrs m x =
     bothAddrs ListMeta_addrs
       (ptrAddrs un_CResourceMappings (seqAddrs ClusterWorkloadResourceMapping_addrs)) m
       (cml_ListMeta x, cml_Items x)"

definition EnvMapping_view :: "h_env \<Rightarrow> gotree" where
  "EnvMapping_view x =
     GStruct [GText (em_Name x), GText (em_Key x)]"

definition ServiceBindingSecretReference_view :: "h_secret_ref \<Rightarrow> gotree" where
  "ServiceBindingSecretReference_view x =
     GStruct [GText (bsr_Name x)]"

definition ServiceBindingServiceReference_view :: "h_service_ref \<Rightarrow> gotree" where
  "ServiceBindingServiceReference_view x =
     GStruct [GText (bvr_APIVersion x), GText (bvr_Kind x), GText (bvr_Name x)]"

definition ServiceBindingWorkloadReference_view :: "mem \<Rightarrow> h_workload_ref \<Rightarrow> gotree" where
  "ServiceBindingWorkloadReference_view m x =
     GStruct [GText (bwr_APIVersion x), GText (bwr_Kind x), GText (bwr_Name x),
     bothView (ptrView un_CSelector LabelSelector_view)
       (ptrView un_CStrings (\<lambda>m xs. GSeq (map GText xs))) m
       (bwr_Selector x, bwr_Containers x)]"

definition ServiceBindingWorkloadReference_addrs :: "mem \<Rightarrow> h_workload_ref \<Rightarrow> nat list" where
  "ServiceBindingWorkloadReference_addrs m x =
     bothAddrs (ptrAddrs un_CSelector LabelSelector_addrs)
       (ptrAddrs un_CStrings noAddrs) m
       (bwr_Selector x, bwr_Containers x)"

definition v1beta1_ServiceBindingSpec_view :: "mem \<Rightarrow> h_beta_spec \<Rightarrow> gotree" where
  "v1beta1_ServiceBindingSpec_view m x =
     GStruct [GText (bs_Name x), GText (bs_Type x), GText (bs_Provider x),
       ServiceBindingServiceReference_view (bs_Service x),
     bothView ServiceBindingWorkloadReference_view
       (ptrView un_CEnvs (\<lambda>m xs. GSeq (map EnvMapping_view xs))) m
       (bs_Workload x, bs_Env x)]"

definition v1beta1_ServiceBindingSpec_addrs :: "mem \<Rightarrow> h_beta_spec \<Rightarrow> nat list" where
  "v1beta1_ServiceBindingSpec_addrs m x =
     bothAddrs ServiceBindingWorkloadReference_addrs
       (ptrAddrs un_CEnvs noAddrs) m
       (bs_Workload x, bs_Env x)"

definition v1beta1_ServiceBindingStatus_view :: "mem \<Rightarrow> h_beta_status \<Rightarrow> gotree" where
  "v1beta1_ServiceBindingStatus_view m x =
     GStruct [GNum (bt_ObservedGeneration x),
     bothView (ptrView un_CConditions (seqView (\<lambda>m. Condition_view)))
       (ptrView un_CSecretRef (\<lambda>m. ServiceBindingSecretReference_view)) m
       (bt_Conditions x, bt_Binding x)]"

definition v1beta1_ServiceBindingStatus_addrs :: "mem \<Rightarrow> h_beta_status \<Rightarrow> nat list" where
  "v1beta1_ServiceBindingStatus_addrs m x =
     bothAddrs (ptrAddrs un_CConditions (seqAddrs noAddrs))
       (ptrAddrs un_CSecretRef noAddrs) m
       (bt_Conditions x, bt_Binding x)"

definition v1beta1_ServiceBinding_view :: "mem \<Rightarrow> h_beta_binding \<Rightarrow> gotree" where
  "v1beta1_ServiceBinding_view m x =
     GStruct [TypeMeta_view (bb_TypeMeta x),
     bothView ObjectMeta_view
       (bothView v1beta1_ServiceBindingSpec_view
       v1beta1_ServiceBindingStatus_view) m
       (bb_ObjectMeta x, bb_Spec x, bb_Status x)]"

definition v1beta1_ServiceBinding_addrs :: "mem \<Rightarrow> h_beta_binding \<Rightarrow> nat list" where
  "v1beta1_ServiceBinding_addrs m x =
     bothAddrs ObjectMeta_addrs
       (bothAddrs v1beta1_ServiceBindingSpec_addrs
       v1beta1_ServiceBindingStatus_addrs) m
       (bb_ObjectMeta x, bb_Spec x, bb_Status x)"

definition v1beta1_ServiceBindingList_view :: "mem \<Rightarrow> h_beta_binding_list \<Rightarrow> gotree" where
  "v1beta1_ServiceBindingList_view m x =
     GStruct [TypeMeta_view (bbl_TypeMeta x),
     bothView ListMeta_view
       (ptrView un_CSpecBindings (seqView v1beta1_ServiceBinding_view)) m
       (bbl_ListMeta x, bbl_Items x)]"

definition v1beta1_ServiceBindingList_addrs :: "mem \<Rightarrow> h_beta_binding_list \<Rightarrow> nat list" where
  "v1beta1_ServiceBindingList_addrs m x =
     bothAddrs ListMeta_addrs
       (ptrAddrs un_CSpecBindings (seqAddrs v1beta1_ServiceBinding_addrs)) m
       (bbl_ListMeta x, bbl_Items x)"

section \<open>Values and the choice of a template\<close>

text \<open>What is seen through a pointer to a binding or a mapping, and the cells it reaches.\<close>

definition beta_seen :: "mem \<Rightarrow> ptr \<Rightarrow> gotree" where
  "beta_seen = ptrView un_CBetaBinding v1beta1_ServiceBinding_view"

definition beta_cells :: "mem \<Rightarrow> ptr \<Rightarrow> nat list" where
  "beta_cells = ptrAddrs un_CBetaBinding v1beta1_ServiceBinding_addrs"

definition mapping_seen :: "mem \<Rightarrow> ptr \<Rightarrow> gotree" where
  "mapping_seen = ptrView un_CWorkloadMapping ClusterWorkloadResourceMapping_view"

definition mapping_cells :: "mem \<Rightarrow> ptr \<Rightarrow> nat list" where
  "mapping_cells = ptrAddrs un_CWorkloadMapping ClusterWorkloadResourceMapping_addrs"

text \<open>The value of a template, as the rest of the development has it.\<close>

definition elemsAt :: "(cell \<Rightarrow> 'a list) \<Rightarrow> mem \<Rightarrow> ptr \<Rightarrow> 'a list" where
  "elemsAt get m p = (case p of None \<Rightarrow> [] | Some a \<Rightarrow> get (m ! a))"

definition container_value :: "h_map_container \<Rightarrow> mapping_container" where
  "container_value x =
     \<lparr>mpc_Path = cc_Path x, mpc_Name = cc_Name x, mpc_Env = cc_Env x,
       mpc_VolumeMounts = cc_VolumeMounts x\<rparr>"

definition template_value :: "mem \<Rightarrow> h_map_template \<Rightarrow> mapping_template" where
  "template_value m x =
     \<lparr>mpt_Version = cp_Version x, mpt_Annotations = cp_Annotations x,
      mpt_Containers = map container_value (elemsAt un_CContainers m (cp_Containers x)),
      mpt_Volumes = cp_Volumes x\<rparr>"

text \<open>
  The choice of a template with the pointers of the code (\<open>WorkloadResourceTemplate\<close> of
  \<open>context/impl.go\<close>): \<open>g\<close> is the address of the package variable \<open>DefaultTemplate\<close>, whose
  slice of containers the local copy shares, and \<open>versions\<close> the slice of the mapping that
  was read. Each turn of the loop has a variable of its own. Appending gives a slice of its
  own: elements that \<open>append\<close> writes behind the end of a shared array are not seen through
  the other slices.
\<close>

fun pickAt :: "string \<Rightarrow> h_map_template list \<Rightarrow> ptr \<Rightarrow> ptr \<Rightarrow> mem \<Rightarrow> ptr \<times> ptr \<times> mem" where
  "pickAt v [] mapped wildcard m = (mapped, wildcard, m)"
| "pickAt v (t # ts) mapped wildcard m =
     (let q = length m; m' = m @ [CWorkloadMappingTemplate t] in
      if cp_Version t = v then (Some q, wildcard, m')
      else if cp_Version t = ''*'' then pickAt v ts mapped (Some q) m'
      else pickAt v ts mapped wildcard m')"

definition setContainers :: "nat \<Rightarrow> ptr \<Rightarrow> mem \<Rightarrow> mem" where
  "setContainers p cs m = m[p := CWorkloadMappingTemplate ((un_CWorkloadMappingTemplate (m ! p))\<lparr>cp_Containers := cs\<rparr>)]"

definition appendContainer :: "nat \<Rightarrow> h_map_container \<Rightarrow> mem \<Rightarrow> mem" where
  "appendContainer p x m =
     (let cs = elemsAt un_CContainers m (cp_Containers (un_CWorkloadMappingTemplate (m ! p)))
      in setContainers p (Some (length m)) (m @ [CContainers (cs @ [x])]))"

definition defaultContainers :: "nat \<Rightarrow> nat \<Rightarrow> mem \<Rightarrow> mem" where
  "defaultContainers d p m =
     (if elemsAt un_CContainers m (cp_Containers (un_CWorkloadMappingTemplate (m ! p))) = []
      then setContainers p (cp_Containers (un_CWorkloadMappingTemplate (m ! d))) m else m)"

definition addPathAt :: "string \<Rightarrow> nat \<Rightarrow> mem \<Rightarrow> mem" where
  "addPathAt containerPath p m =
     (let path = ''.'' @ containerPath @ ''[*]'' in
      if containerPath \<noteq> ''''
        \<and> list_ex (\<lambda>c. path \<noteq> cc_Path c) (elemsAt un_CContainers
          m (cp_Containers (un_CWorkloadMappingTemplate (m ! p))))
      then appendContainer p \<lparr>cc_Path = path, cc_Name = '''', cc_Env = '''',
        cc_VolumeMounts = ''''\<rparr> m
      else m)"

definition templateAt :: "nat \<Rightarrow> bool \<Rightarrow> string \<Rightarrow> ptr \<Rightarrow> string \<Rightarrow> mem \<Rightarrow> nat \<times> mem" where
  "templateAt g notFound version versions containerPath m =
     (let d = length m;
          m1 = m @ [m ! g];
          mapped = (if notFound then Some d else None);
          (wildcard, m2) = ClusterWorkloadResourceMappingTemplate_DeepCopy m1 (Some d);
          (mapped', wildcard', m3) = pickAt version (elemsAt un_CTemplates m2 versions) mapped wildcard m2;
          p = (case mapped' of None \<Rightarrow> (case wildcard' of None \<Rightarrow> d | Some w \<Rightarrow> w) | Some q \<Rightarrow> q)
      in (p, addPathAt containerPath p (defaultContainers d p m3)))"

text \<open>The memory with the default template, as the package has it, and a mapping with one version.\<close>

definition defaultAt :: mem where
  "defaultAt =
     [CContainers [\<lparr>cc_Path = ''.spec.template.spec.containers[*]'', cc_Name = ''.name'',
       cc_Env = ''.env'', cc_VolumeMounts = ''.volumeMounts''\<rparr>,
        \<lparr>cc_Path = ''.spec.template.spec.initContainers[*]'', cc_Name = ''.name'', cc_Env = ''.env'',
          cc_VolumeMounts = ''.volumeMounts''\<rparr>],
      CWorkloadMappingTemplate \<lparr>cp_Version = ''*'',
        cp_Annotations = ''.spec.template.spec.annotations'', cp_Containers = Some 0,
        cp_Volumes = ''.spec.template.spec.volumes''\<rparr>,
      CTemplates [\<lparr>cp_Version = ''v1'', cp_Annotations = '''', cp_Containers = None,
        cp_Volumes = ''.spec.volumes''\<rparr>]]"

text \<open>The address of the containers is allocated and is not \<open>p\<close>.\<close>

definition containersOk :: "mem \<Rightarrow> nat \<Rightarrow> ptr \<Rightarrow> bool" where
  "containersOk m p cs = (case cs of None \<Rightarrow> True | Some a \<Rightarrow> a < length m \<and> a \<noteq> p)"

definition templateOk :: "mem \<Rightarrow> h_map_template \<Rightarrow> bool" where
  "templateOk m t = (case cp_Containers t of None \<Rightarrow> True | Some a \<Rightarrow> a < length m)"

section \<open>Every struct keeps the contract\<close>

lemma ClusterWorkloadResourceMappingTemplate_copies:
  "deep_copy ClusterWorkloadResourceMappingTemplate_DeepCopyInto ClusterWorkloadResourceMappingTemplate_view
    ClusterWorkloadResourceMappingTemplate_addrs"
  by (rule deep_copy_structI [OF deep_copy_ptr [where mk = CContainers, OF deep_copy_assign],
      where part = "\<lambda>x. cp_Containers x"
        and put = "\<lambda>containers x. x\<lparr>cp_Containers := containers\<rparr>"
        and F = "\<lambda>x t. GStruct [GText (cp_Version x), GText (cp_Annotations x), GText (cp_Volumes x),
          t]"])
    (simp_all add: ClusterWorkloadResourceMappingTemplate_DeepCopyInto_def ClusterWorkloadResourceMappingTemplate_view_def
      ClusterWorkloadResourceMappingTemplate_addrs_def
      copy_simps split: prod.splits)

lemma ClusterWorkloadResourceMappingSpec_copies:
  "deep_copy ClusterWorkloadResourceMappingSpec_DeepCopyInto ClusterWorkloadResourceMappingSpec_view
    ClusterWorkloadResourceMappingSpec_addrs"
  by (rule deep_copy_structI [OF deep_copy_ptr [where mk = CTemplates, OF
    deep_copy_elems [OF ClusterWorkloadResourceMappingTemplate_copies]],
      where part = "\<lambda>x. cw_Versions x"
        and put = "\<lambda>versions x. x\<lparr>cw_Versions := versions\<rparr>"
        and F = "\<lambda>x t. GStruct [t]"])
    (simp_all add: ClusterWorkloadResourceMappingSpec_DeepCopyInto_def ClusterWorkloadResourceMappingSpec_view_def
      ClusterWorkloadResourceMappingSpec_addrs_def
      copy_simps split: prod.splits)

lemma ClusterWorkloadResourceMapping_copies:
  "deep_copy ClusterWorkloadResourceMapping_DeepCopyInto ClusterWorkloadResourceMapping_view
    ClusterWorkloadResourceMapping_addrs"
  by (rule deep_copy_structI [OF deep_copy_both [OF ObjectMeta_copies
      ClusterWorkloadResourceMappingSpec_copies],
      where part = "\<lambda>x. (cm_ObjectMeta x, cm_Spec x)"
        and put = "\<lambda>(objectMeta, spec) x. x\<lparr>cm_ObjectMeta := objectMeta, cm_Spec := spec\<rparr>"
        and F = "\<lambda>x t. GStruct [TypeMeta_view (cm_TypeMeta x), t]"])
    (simp_all add: ClusterWorkloadResourceMapping_DeepCopyInto_def ClusterWorkloadResourceMapping_view_def
      ClusterWorkloadResourceMapping_addrs_def
      copy_simps split: prod.splits)

lemma ClusterWorkloadResourceMappingList_copies:
  "deep_copy ClusterWorkloadResourceMappingList_DeepCopyInto ClusterWorkloadResourceMappingList_view
    ClusterWorkloadResourceMappingList_addrs"
  by (rule deep_copy_structI [OF deep_copy_both [OF ListMeta_copies
      deep_copy_ptr [where mk = CResourceMappings, OF deep_copy_elems [OF
        ClusterWorkloadResourceMapping_copies]]],
      where part = "\<lambda>x. (cml_ListMeta x, cml_Items x)"
        and put = "\<lambda>(listMeta, items) x. x\<lparr>cml_ListMeta := listMeta, cml_Items := items\<rparr>"
        and F = "\<lambda>x t. GStruct [TypeMeta_view (cml_TypeMeta x), t]"])
    (simp_all add: ClusterWorkloadResourceMappingList_DeepCopyInto_def ClusterWorkloadResourceMappingList_view_def
      ClusterWorkloadResourceMappingList_addrs_def
      copy_simps split: prod.splits)

lemma ServiceBindingWorkloadReference_copies:
  "deep_copy ServiceBindingWorkloadReference_DeepCopyInto ServiceBindingWorkloadReference_view
    ServiceBindingWorkloadReference_addrs"
  by (rule deep_copy_structI [OF deep_copy_both [OF deep_copy_ptr [where mk = CSelector, OF
    LabelSelector_copies]
      deep_copy_ptr [where mk = CStrings, OF deep_copy_assign]],
      where part = "\<lambda>x. (bwr_Selector x, bwr_Containers x)"
        and put = "\<lambda>(selector, containers) x. x\<lparr>bwr_Selector := selector,
          bwr_Containers := containers\<rparr>"
        and F = "\<lambda>x t. GStruct [GText (bwr_APIVersion x), GText (bwr_Kind x), GText (bwr_Name x), t]"])
    (simp_all add: ServiceBindingWorkloadReference_DeepCopyInto_def ServiceBindingWorkloadReference_view_def
      ServiceBindingWorkloadReference_addrs_def
      copy_simps split: prod.splits)

lemma v1beta1_ServiceBindingSpec_copies:
  "deep_copy v1beta1_ServiceBindingSpec_DeepCopyInto v1beta1_ServiceBindingSpec_view
    v1beta1_ServiceBindingSpec_addrs"
  by (rule deep_copy_structI [OF deep_copy_both [OF ServiceBindingWorkloadReference_copies
      deep_copy_ptr [where mk = CEnvs, OF deep_copy_assign]],
      where part = "\<lambda>x. (bs_Workload x, bs_Env x)"
        and put = "\<lambda>(workload, env) x. x\<lparr>bs_Workload := workload, bs_Env := env\<rparr>"
        and F = "\<lambda>x t. GStruct [GText (bs_Name x), GText (bs_Type x), GText (bs_Provider x),
          ServiceBindingServiceReference_view (bs_Service x), t]"])
    (simp_all add: v1beta1_ServiceBindingSpec_DeepCopyInto_def v1beta1_ServiceBindingSpec_view_def
      v1beta1_ServiceBindingSpec_addrs_def
      copy_simps split: prod.splits)

lemma v1beta1_ServiceBindingStatus_copies:
  "deep_copy v1beta1_ServiceBindingStatus_DeepCopyInto v1beta1_ServiceBindingStatus_view
    v1beta1_ServiceBindingStatus_addrs"
  by (rule deep_copy_structI [OF deep_copy_both [OF deep_copy_ptr [where mk = CConditions, OF
    deep_copy_elems [OF Condition_copies]]
      deep_copy_ptr [where mk = CSecretRef, OF deep_copy_assign]],
      where part = "\<lambda>x. (bt_Conditions x, bt_Binding x)"
        and put = "\<lambda>(conditions, binding) x. x\<lparr>bt_Conditions := conditions,
          bt_Binding := binding\<rparr>"
        and F = "\<lambda>x t. GStruct [GNum (bt_ObservedGeneration x), t]"])
    (simp_all add: v1beta1_ServiceBindingStatus_DeepCopyInto_def v1beta1_ServiceBindingStatus_view_def
      v1beta1_ServiceBindingStatus_addrs_def
      copy_simps split: prod.splits)

lemma v1beta1_ServiceBinding_copies:
  "deep_copy v1beta1_ServiceBinding_DeepCopyInto v1beta1_ServiceBinding_view v1beta1_ServiceBinding_addrs"
  by (rule deep_copy_structI [OF deep_copy_both [OF ObjectMeta_copies
      deep_copy_both [OF v1beta1_ServiceBindingSpec_copies
      v1beta1_ServiceBindingStatus_copies]],
      where part = "\<lambda>x. (bb_ObjectMeta x, bb_Spec x, bb_Status x)"
        and put = "\<lambda>(objectMeta, spec, status) x. x\<lparr>bb_ObjectMeta := objectMeta,
          bb_Spec := spec, bb_Status := status\<rparr>"
        and F = "\<lambda>x t. GStruct [TypeMeta_view (bb_TypeMeta x), t]"])
    (simp_all add: v1beta1_ServiceBinding_DeepCopyInto_def v1beta1_ServiceBinding_view_def v1beta1_ServiceBinding_addrs_def
      copy_simps split: prod.splits)

lemma v1beta1_ServiceBindingList_copies:
  "deep_copy v1beta1_ServiceBindingList_DeepCopyInto v1beta1_ServiceBindingList_view
    v1beta1_ServiceBindingList_addrs"
  by (rule deep_copy_structI [OF deep_copy_both [OF ListMeta_copies
      deep_copy_ptr [where mk = CSpecBindings, OF deep_copy_elems [OF v1beta1_ServiceBinding_copies]]],
      where part = "\<lambda>x. (bbl_ListMeta x, bbl_Items x)"
        and put = "\<lambda>(listMeta, items) x. x\<lparr>bbl_ListMeta := listMeta, bbl_Items := items\<rparr>"
        and F = "\<lambda>x t. GStruct [TypeMeta_view (bbl_TypeMeta x), t]"])
    (simp_all add: v1beta1_ServiceBindingList_DeepCopyInto_def v1beta1_ServiceBindingList_view_def
      v1beta1_ServiceBindingList_addrs_def
      copy_simps split: prod.splits)

interpretation beta_copy: deep_copy v1beta1_ServiceBinding_DeepCopy beta_seen beta_cells
  unfolding v1beta1_ServiceBinding_DeepCopy_def beta_seen_def beta_cells_def
  by (rule deep_copy_ptr [OF v1beta1_ServiceBinding_copies]) simp

interpretation mapping_copy: deep_copy ClusterWorkloadResourceMapping_DeepCopy mapping_seen mapping_cells
  unfolding ClusterWorkloadResourceMapping_DeepCopy_def mapping_seen_def mapping_cells_def
  by (rule deep_copy_ptr [OF ClusterWorkloadResourceMapping_copies]) simp

section \<open>Independent copies\<close>

lemma spec_DeepCopyObject_same:
  "v1beta1_ServiceBinding_DeepCopyObject = v1beta1_ServiceBinding_DeepCopy"
  "ClusterWorkloadResourceMapping_DeepCopyObject = ClusterWorkloadResourceMapping_DeepCopy"
  by (auto simp: fun_eq_iff v1beta1_ServiceBinding_DeepCopyObject_def ClusterWorkloadResourceMapping_DeepCopyObject_def
      split: prod.splits option.splits)

text \<open>
  The deep copy of a binding of the specification API and that of a workload mapping show
  what the original shows, and a write to either is not seen through the other.
\<close>

theorem beta_copy_independent:
  assumes "v1beta1_ServiceBinding_DeepCopyObject m p = (q, m')" and "allocated m (beta_cells m p)"
  shows "beta_seen m' q = beta_seen m p \<and> take (length m) m' = m
    \<and> (\<forall>a c. a \<in> set (beta_cells m' q) \<longrightarrow> beta_seen (m'[a := c]) p = beta_seen m p)
    \<and> (\<forall>a c. a \<in> set (beta_cells m p) \<longrightarrow> beta_seen (m'[a := c]) q = beta_seen m p)"
  using assms beta_copy.extends beta_copy.copied beta_copy.original_unchanged beta_copy.copy_unchanged
  by (simp add: spec_DeepCopyObject_same)

theorem mapping_copy_independent:
  assumes "ClusterWorkloadResourceMapping_DeepCopyObject m p = (q, m')" and "allocated m (mapping_cells m p)"
  shows "mapping_seen m' q = mapping_seen m p \<and> take (length m) m' = m
    \<and> (\<forall>a c. a \<in> set (mapping_cells m' q) \<longrightarrow> mapping_seen (m'[a := c]) p = mapping_seen m p)
    \<and> (\<forall>a c. a \<in> set (mapping_cells m p) \<longrightarrow> mapping_seen (m'[a := c]) q = mapping_seen m p)"
  using assms mapping_copy.extends mapping_copy.copied mapping_copy.original_unchanged mapping_copy.copy_unchanged
  by (simp add: spec_DeepCopyObject_same)

section \<open>The default template\<close>

lemma prefix_nth: "take (length m) m' = m \<Longrightarrow> a < length m \<Longrightarrow> m' ! a = m ! a"
  by (metis nth_take)

lemma template_grown:
  "templateOk m t \<Longrightarrow> take (length m) m' = m \<Longrightarrow> template_value m' t = template_value m t \<and> templateOk m' t"
  using prefix_length [of m m']
  by (auto simp: templateOk_def template_value_def elemsAt_def prefix_nth split: option.splits)

lemma template_copy:
  assumes "d < length m" "m ! d = CWorkloadMappingTemplate t" "templateOk m t"
  obtains t' m' where "ClusterWorkloadResourceMappingTemplate_DeepCopy m (Some d) = (Some (length m), m')"
    "take (length m) m' = m" "length m < length m'" "m' ! length m = CWorkloadMappingTemplate t'"
    "template_value m' t' = template_value m t" "containersOk m' (length m) (cp_Containers t')"
proof (cases "cp_Containers t")
  case None
  let ?m = "m @ [CWorkloadMappingTemplate t]"
  have "ClusterWorkloadResourceMappingTemplate_DeepCopy m (Some d) = (Some (length m), ?m)"
    using assms(2) None
    by (cases t) (simp add: ClusterWorkloadResourceMappingTemplate_DeepCopy_def ClusterWorkloadResourceMappingTemplate_DeepCopyInto_def copyPtr_def Let_def)
  then show thesis by (rule that [of ?m t]) (simp_all add: None containersOk_def template_value_def elemsAt_def)
next
  case (Some a)
  let ?t = "t\<lparr>cp_Containers := Some (Suc (length m))\<rparr>"
  let ?m = "m @ [CWorkloadMappingTemplate ?t, CContainers (un_CContainers (m ! a))]"
  have a: "a < length m" using assms(3) Some by (simp add: templateOk_def)
  then have "ClusterWorkloadResourceMappingTemplate_DeepCopy m (Some d) = (Some (length m), ?m)"
    using assms(2) Some
    by (simp add: ClusterWorkloadResourceMappingTemplate_DeepCopy_def ClusterWorkloadResourceMappingTemplate_DeepCopyInto_def
        copyPtr_def assign_def Let_def nth_append list_update_append)
  then show thesis
    by (rule that [of ?m ?t]) (use a in \<open>simp_all add: Some containersOk_def template_value_def elemsAt_def nth_append\<close>)
qed

lemma pickAt_result:
  assumes "w < length m" "m ! w = CWorkloadMappingTemplate t"
  shows "\<exists>mapped wild p s m'. pickAt v ts None (Some w) m = (mapped, wild,
    m') \<and> (mapped = Some p \<or> mapped = None \<and> wild = Some p)
    \<and> take (length m) m' = m \<and> p < length m' \<and> (p = w \<or> length m \<le> p) \<and> m' ! p = CWorkloadMappingTemplate s
    \<and> (s \<in> set ts \<or> p = w \<and> s = t)
    \<and> pickTemplate v (map (template_value M) ts) (template_value M t) = template_value M s"
  using assms
proof (induction ts arbitrary: m w t)
  case Nil
  then show ?case by auto
next
  case (Cons x ts)
  let ?m = "m @ [CWorkloadMappingTemplate x]"
  have version: "mpt_Version (template_value M x) = cp_Version x" by (simp add: template_value_def)
  have keep: "take (length m) m' = m" if "take (length ?m) m' = ?m" for m'
    using that by (metis append_eq_conv_conj prefix_trans)
  consider "cp_Version x = v" | "cp_Version x \<noteq> v" "cp_Version x = ''*''" | "cp_Version x \<noteq> v" "cp_Version x \<noteq> ''*''" by blast
  then show ?case
  proof cases
    case 1
    with Cons.prems version show ?thesis by (auto simp: Let_def nth_append)
  next
    case 2
    have w: "length m < length ?m" "?m ! length m = CWorkloadMappingTemplate x" by simp_all
    from Cons.IH [OF w] obtain mapped wild p s m' where r: "pickAt v ts None (Some (length m)) ?m = (mapped,
      wild, m')"
      "mapped = Some p \<or> mapped = None \<and> wild = Some p" "take (length ?m) m' = ?m" "p < length m'"
      "p = length m \<or> length ?m \<le> p" "m' ! p = CWorkloadMappingTemplate s" "s \<in> set ts \<or> p = length m \<and> s = x"
      "pickTemplate v (map (template_value M) ts) (template_value M x) = template_value M s" by blast
    with 2 version keep [OF r(3)] show ?thesis by (auto simp: Let_def)
  next
    case 3
    have w: "w < length ?m" "?m ! w = CWorkloadMappingTemplate t" using Cons.prems by (simp_all add: nth_append)
    from Cons.IH [OF w] obtain mapped wild p s m' where r: "pickAt v ts None (Some w) ?m = (mapped, wild, m')"
      "mapped = Some p \<or> mapped = None \<and> wild = Some p" "take (length ?m) m' = ?m" "p < length m'"
      "p = w \<or> length ?m \<le> p" "m' ! p = CWorkloadMappingTemplate s" "s \<in> set ts \<or> p = w \<and> s = t"
      "pickTemplate v (map (template_value M) ts) (template_value M t) = template_value M s" by blast
    with 3 version keep [OF r(3)] show ?thesis by (auto simp: Let_def)
  qed
qed

lemma setContainers_result:
  assumes "p < length m" "m ! p = CWorkloadMappingTemplate t" "containersOk m p cs" "N \<le> p"
  shows "setContainers p cs m ! p = CWorkloadMappingTemplate (t\<lparr>cp_Containers := cs\<rparr>)" "length (setContainers p cs m) = length m"
    "template_value (setContainers p cs m) (t\<lparr>cp_Containers := cs\<rparr>)
      = (template_value m t)\<lparr>mpt_Containers := map container_value (elemsAt un_CContainers m cs)\<rparr>"
    "take N (setContainers p cs m) = take N m"
  using assms by (auto simp: setContainers_def template_value_def elemsAt_def containersOk_def
    split: option.splits)

lemma containersOk_length: "containersOk m p cs \<Longrightarrow> length m \<le> length m' \<Longrightarrow> containersOk m' p cs"
  by (auto simp: containersOk_def split: option.splits)

lemma defaultContainers_result:
  assumes "p < length m" "m ! p = CWorkloadMappingTemplate t" "containersOk m p (cp_Containers t)"
    and "m ! d = CWorkloadMappingTemplate t0" "containersOk m p (cp_Containers t0)" "N \<le> p" "defaultContainers d p m = m'"
  obtains t' where "m' ! p = CWorkloadMappingTemplate t'" "containersOk m' p (cp_Containers t')" "p < length m'" "take N m' = take N m"
    "template_value m' t' = (let v = template_value m t in
       if mpt_Containers v = [] then v\<lparr>mpt_Containers := mpt_Containers (template_value m t0)\<rparr> else v)"
proof (cases "elemsAt un_CContainers m (cp_Containers t) = []")
  case True
  note s = setContainers_result [OF assms(1,2,5,6)]
  from True assms(2,4,7) have m': "m' = setContainers p (cp_Containers t0) m" by (simp add: defaultContainers_def)
  have "mpt_Containers (template_value m t0) = map container_value (elemsAt un_CContainers
    m (cp_Containers t0))"
    by (simp add: template_value_def)
  with True s m' assms(1,5) show thesis
    by (intro that [of "t\<lparr>cp_Containers := cp_Containers t0\<rparr>"]) (auto simp: template_value_def Let_def intro: containersOk_length)
next
  case False
  with assms(1-3,7) show thesis by (intro that [of t]) (auto simp: defaultContainers_def template_value_def Let_def)
qed

lemma addPathAt_result:
  assumes "p < length m" "m ! p = CWorkloadMappingTemplate t" "containersOk m p (cp_Containers t)" "N \<le> p"
    and "addPathAt path p m = m'"
  obtains t' where "m' ! p = CWorkloadMappingTemplate t'" "take N m' = take N m"
    "template_value m' t' = addContainersPath path (template_value m t)"
proof -
  let ?cs = "elemsAt un_CContainers m (cp_Containers t)"
    and ?x = "\<lparr>cc_Path = ''.'' @ path @ ''[*]'', cc_Name = '''', cc_Env = '''',
      cc_VolumeMounts = ''''\<rparr>"
  let ?m = "m @ [CContainers (?cs @ [?x])]"
  have ex: "list_ex (\<lambda>c. q \<noteq> mpc_Path c) (mpt_Containers (template_value m t)) = list_ex (\<lambda>c. q \<noteq> cc_Path c) ?cs" for q
    by (simp add: template_value_def container_value_def list_ex_iff)
  show thesis
  proof (cases "path \<noteq> '''' \<and> list_ex (\<lambda>c. ''.'' @ path @ ''[*]'' \<noteq> cc_Path c) ?cs")
    case True
    have p: "p < length ?m" "?m ! p = CWorkloadMappingTemplate t" "containersOk ?m p (Some (length m))"
      using assms(1-3) by (simp_all add: containersOk_def nth_append)
    note s = setContainers_result [OF p assms(4)]
    have m': "m' = setContainers p (Some (length m)) ?m"
      using True assms(2,5) by (simp add: addPathAt_def appendContainer_def Let_def)
    have "template_value ?m t = template_value m t"
      using assms(3) by (intro conjunct1 [OF template_grown]) (auto simp: templateOk_def containersOk_def
        split: option.splits)
    with True s m' ex assms(1,4) show thesis
      by (intro that [of "t\<lparr>cp_Containers := Some (length m)\<rparr>"])
        (auto simp: addContainersPath_def Let_def elemsAt_def template_value_def container_value_def)
  next
    case False
    with assms ex show thesis by (intro that [of t]) (auto simp: addPathAt_def addContainersPath_def Let_def)
  qed
qed

lemma pickAt_chosen:
  assumes "take (length m) m2 = m" "w < length m2" "length m \<le> w" "m2 ! w = CWorkloadMappingTemplate tw" "containersOk m2 w (cp_Containers tw)"
    and "list_all (templateOk m) ts"
  obtains mapped wild p s m3 where "pickAt v ts None (Some w) m2 = (mapped, wild,
    m3)" "mapped = Some p \<or> mapped = None \<and> wild = Some p"
    "take (length m2) m3 = m2" "length m \<le> p" "p < length m3" "m3 ! p = CWorkloadMappingTemplate s" "containersOk m3 p (cp_Containers s)"
    "template_value m3 s = pickTemplate v (map (template_value m) ts) (template_value m2 tw)"
proof -
  obtain mapped wild p s m3 where r: "pickAt v ts None (Some w) m2 = (mapped, wild,
    m3)" "mapped = Some p \<or> mapped = None \<and> wild = Some p"
    "take (length m2) m3 = m2" "p < length m3" "p = w \<or> length m2 \<le> p" "m3 ! p = CWorkloadMappingTemplate s" "s \<in> set ts \<or> p = w \<and> s = tw"
    "pickTemplate v (map (template_value m2) ts) (template_value m2 tw) = template_value m2 s"
    using pickAt_result [OF assms(2,4), of v ts m2] by blast
  have p: "length m \<le> p" using r(5) assms(3) prefix_length [OF assms(1)] by linarith
  have "templateOk m2 tw" using assms(5) by (auto simp: containersOk_def templateOk_def split: option.splits)
  then have ok: "templateOk m2 s" using r(7) assms(6) template_grown [OF _ assms(1)] by (auto simp: list_all_iff)
  have "containersOk m3 p (cp_Containers s)"
  proof (cases "s \<in> set ts")
    case True
    with assms(6) have "templateOk m s" by (simp add: list_all_iff)
    with p r(4) show ?thesis by (auto simp: containersOk_def templateOk_def split: option.splits)
  next
    case False
    with r(7) assms(5) prefix_length [OF r(3)] show ?thesis by (auto intro: containersOk_length)
  qed
  moreover have "map (template_value m2) ts = map (template_value m) ts"
    using assms(6) template_grown [OF _ assms(1)] by (auto simp: list_all_iff)
  then have "template_value m3 s = pickTemplate v (map (template_value m) ts) (template_value m2 tw)"
    using r(8) template_grown [OF ok r(3)] by metis
  ultimately show thesis using that [OF r(1-3) p r(4,6)] by blast
qed

lemma templateAt_chosen:
  assumes "g < length m" "m ! g = CWorkloadMappingTemplate t0" "templateOk m t0" "case versions of None \<Rightarrow> True | Some a \<Rightarrow> a < length m"
    and "list_all (templateOk m) (elemsAt un_CTemplates m versions)" "notFound \<Longrightarrow> versions = None"
  obtains p s m3 where "templateAt g notFound v versions path m = (p,
    addPathAt path p (defaultContainers (length m) p m3))"
    "take (length m) m3 = m" "m3 ! length m = CWorkloadMappingTemplate t0" "length m \<le> p" "p < length m3"
    "m3 ! p = CWorkloadMappingTemplate s" "containersOk m3 p (cp_Containers s)"
    "template_value m3 s = pickTemplate v (map (template_value m) (elemsAt un_CTemplates m versions)) (template_value m t0)"
proof -
  let ?d = "length m" and ?m1 = "m @ [CWorkloadMappingTemplate t0]" and ?ts = "elemsAt un_CTemplates m versions"
  have g1: "take (length m) ?m1 = m" by simp
  have d: "?d < length ?m1" "?m1 ! ?d = CWorkloadMappingTemplate t0" "templateOk ?m1 t0" "template_value ?m1 t0 = template_value m t0"
    using template_grown [OF assms(3) g1] by simp_all
  obtain tw m2 where w: "ClusterWorkloadResourceMappingTemplate_DeepCopy ?m1 (Some ?d) = (Some (length ?m1),
    m2)"
    "take (length ?m1) m2 = ?m1" "length ?m1 < length m2" "m2 ! length ?m1 = CWorkloadMappingTemplate tw"
    "template_value m2 tw = template_value ?m1 t0" "containersOk m2 (length ?m1) (cp_Containers tw)"
    by (rule template_copy [OF d(1-3)])
  have g2: "take (length m) m2 = m" using g1 w(2) by (rule prefix_trans)
  have md: "m2 ! ?d = CWorkloadMappingTemplate t0" using prefix_nth [OF w(2) d(1)] d(2) by simp
  have "elemsAt un_CTemplates m2 versions = ?ts" using assms(4) prefix_nth [OF g2] by (auto simp: elemsAt_def split: option.splits)
  then have run: "templateAt g notFound v versions path m = (let (mapped, wild,
    m3) = pickAt v ?ts (if notFound then Some ?d else None) (Some (length ?m1)) m2;
      p = (case mapped of None \<Rightarrow> (case wild of None \<Rightarrow> ?d | Some w \<Rightarrow> w) | Some q \<Rightarrow> q) in (p, addPathAt path p (defaultContainers ?d p m3)))"
    using assms(2) w(1) by (simp add: templateAt_def Let_def)
  show thesis
  proof (cases notFound)
    case True
    with assms(6) have "?ts = []" by (simp add: elemsAt_def)
    moreover have "containersOk m2 ?d (cp_Containers t0)" using assms(3) w(3) by (auto simp: templateOk_def containersOk_def split: option.splits)
    ultimately show thesis using that [of ?d m2 t0] run True g2 md w(3) template_grown [OF assms(3) g2] by (simp add: Let_def)
  next
    case False
    have w': "length m \<le> length ?m1" by simp
    obtain mapped wild p s m3 where r: "pickAt v ?ts None (Some (length ?m1)) m2 = (mapped, wild, m3)"
      "mapped = Some p \<or> mapped = None \<and> wild = Some p" "take (length m2) m3 = m2" "length m \<le> p" "p < length m3"
      "m3 ! p = CWorkloadMappingTemplate s" "containersOk m3 p (cp_Containers s)"
      "template_value m3 s = pickTemplate v (map (template_value m) ?ts) (template_value m2 tw)"
      by (rule pickAt_chosen [OF g2 w(3) w' w(4,6) assms(5)])
    have "m3 ! ?d = CWorkloadMappingTemplate t0" using prefix_nth [OF r(3), of ?d] w(3) md by simp
    then show thesis using that [of p m3 s] run False r prefix_trans [OF g2 r(3)] w(5) d(4) by (auto simp: Let_def)
  qed
qed

text \<open>
  C28: The choice of a mapping template with the pointers of the code is the function of the
  development on values, and it never writes to memory that was there before: neither the
  default template, whose containers the chosen one may share, nor the mapping that was
  read is changed by the path that a binding adds.
\<close>

theorem template_refined:
  assumes "g < length m" and "m ! g = CWorkloadMappingTemplate t0" and "templateOk m t0" and "template_value m t0 = DefaultTemplate"
    and "case versions of None \<Rightarrow> True | Some a \<Rightarrow> a < length m" and "list_all (templateOk m) (elemsAt un_CTemplates m versions)"
    and "notFound \<Longrightarrow> versions = None" and "templateAt g notFound v versions path m = (p, m')"
  shows "\<exists>t. m' ! p = CWorkloadMappingTemplate t \<and> take (length m) m' = m
    \<and> template_value m' t = addContainersPath path
        (let t = pickTemplate v (map (template_value m) (elemsAt un_CTemplates m versions)) DefaultTemplate in
         if mpt_Containers t = [] then t\<lparr>mpt_Containers := mpt_Containers DefaultTemplate\<rparr> else t)"
proof -
  obtain q s m3 where q: "templateAt g notFound v versions path m = (q,
    addPathAt path q (defaultContainers (length m) q m3))"
    "take (length m) m3 = m" "m3 ! length m = CWorkloadMappingTemplate t0" "length m \<le> q" "q < length m3"
    "m3 ! q = CWorkloadMappingTemplate s" "containersOk m3 q (cp_Containers s)"
    "template_value m3 s = pickTemplate v (map (template_value m) (elemsAt un_CTemplates m versions)) (template_value m t0)"
    by (rule templateAt_chosen [OF assms(1-3,5-7)])
  define m4 where "m4 = defaultContainers (length m) q m3"
  have "containersOk m3 q (cp_Containers t0)"
    using assms(3) q(4,5) by (auto simp: templateOk_def containersOk_def split: option.splits)
  then obtain s' where s': "m4 ! q = CWorkloadMappingTemplate s'" "containersOk m4 q (cp_Containers s')" "q < length m4"
    "take (length m) m4 = take (length m) m3" "template_value m4 s' = (let v = template_value m3 s in
       if mpt_Containers v = [] then v\<lparr>mpt_Containers := mpt_Containers (template_value m3 t0)\<rparr> else v)"
    by (rule defaultContainers_result [OF q(5-7,3) _ q(4) m4_def [symmetric]])
  have p: "p = q" "addPathAt path q m4 = m'" using assms(8) q(1) unfolding m4_def by auto
  obtain t where "m' ! q = CWorkloadMappingTemplate t" "take (length m) m' = take (length m) m4"
    "template_value m' t = addContainersPath path (template_value m4 s')"
    by (rule addPathAt_result [OF s'(3,1,2) q(4) p(2)])
  with s'(4,5) q(2,8) p(1) template_grown [OF assms(3) q(2)] assms(4) show ?thesis by (auto simp: Let_def)
qed

theorem template_refined_witness:
  "\<exists>t. snd (templateAt 1 False ''v1'' (Some 2) ''spec.jobs'' defaultAt) ! fst (templateAt 1 False ''v1'' (Some 2) ''spec.jobs'' defaultAt) = CWorkloadMappingTemplate t
    \<and> length (mpt_Containers (template_value (snd (templateAt 1 False ''v1'' (Some 2) ''spec.jobs'' defaultAt)) t)) = 3
    \<and> take 3 (snd (templateAt 1 False ''v1'' (Some 2) ''spec.jobs'' defaultAt)) = defaultAt"
proof -
  obtain p m' where r: "templateAt 1 False ''v1'' (Some 2) ''spec.jobs'' defaultAt = (p, m')" by fastforce
  obtain t0 where t0: "defaultAt ! 1 = CWorkloadMappingTemplate t0" "t0 = un_CWorkloadMappingTemplate (defaultAt ! 1)" by (simp add: defaultAt_def)
  have "1 < length defaultAt" "templateOk defaultAt (un_CWorkloadMappingTemplate (defaultAt ! 1))"
    "template_value defaultAt (un_CWorkloadMappingTemplate (defaultAt ! 1)) = DefaultTemplate" "2 < length defaultAt" "length defaultAt = 3"
    "list_all (templateOk defaultAt) (elemsAt un_CTemplates defaultAt (Some 2))"
    "length (mpt_Containers (addContainersPath ''spec.jobs''
        (let t = pickTemplate ''v1'' (map (template_value defaultAt) (elemsAt un_CTemplates defaultAt (Some 2))) DefaultTemplate in
         if mpt_Containers t = [] then t\<lparr>mpt_Containers := mpt_Containers DefaultTemplate\<rparr> else t))) = 3" by code_simp+
  with template_refined [OF _ t0(1) _ _ _ _ _ r] t0(2) r show ?thesis by auto
qed

end
