(* ===== verification/Collect.thy ===== *)
theory Collect
  imports Context
begin

text \<open>
  The handlers that collect binding data
  (\<open>pkg/reconcile/pipeline/handler/collect/impl.go\<close>), the handler of custom mappings
  (\<open>handler/mapping/impl.go\<close>), the handler of naming strategies
  (\<open>handler/naming/impl.go\<close>) and the templates of names (\<open>pkg/naming/naming.go\<close>).

  A handler maps the context to the context after it, together with the value of the panic
  it raised, if any. A loop over services or applications is a loop over their positions:
  its body continues, returns from the handler, or panics.
\<close>

section \<open>Handlers and loops\<close>

type_synonym 'w outcome = "'w ctx \<times> string option"
type_synonym 'w handler = "'w ctx \<Rightarrow> 'w outcome"

datatype flow = Continue | Return | Crash string

fun forEach :: "('a \<Rightarrow> 'w ctx \<Rightarrow> 'w ctx \<times> flow) \<Rightarrow> 'a list \<Rightarrow> 'w ctx \<Rightarrow> 'w ctx \<times> flow" where
  "forEach body [] c = (c, Continue)"
| "forEach body (x # xs) c =
     (case body x c of
        (c', Continue) \<Rightarrow> forEach body xs c'
      | (c', Return) \<Rightarrow> (c', Return)
      | (c', Crash s) \<Rightarrow> (c', Crash s))"

definition finish :: "'w ctx \<times> flow \<Rightarrow> 'w outcome" where
  "finish r = (fst r, case snd r of Crash s \<Rightarrow> Some s | _ \<Rightarrow> None)"

definition notCollectionReadyCond :: "string \<Rightarrow> go_error \<Rightarrow> condition" where
  "notCollectionReadyCond reason err =
     withMsg err (withReason reason (withNotCollectionReady Conditions))"

definition requestRetry :: "string \<Rightarrow> go_error \<Rightarrow> 'w ctx \<Rightarrow> 'w ctx" where
  "requestRetry reason err c =
     SetCondition (notCollectionReadyCond reason err) (RetryProcessing (Some err) c)"

text \<open>The list of services a handler works on when it ignores the error of \<open>Services\<close>.\<close>

definition services :: "'w env \<Rightarrow> 'w ctx \<Rightarrow> 'w ctx \<times> nat list" where
  "services e c =
     (case Services e c of
        (c', None) \<Rightarrow> (c', [0..<length (cx_services c')])
      | (c', Some _) \<Rightarrow> (c', []))"

definition setService :: "nat \<Rightarrow> service \<Rightarrow> 'w ctx \<Rightarrow> 'w ctx" where
  "setService i s c = c\<lparr>cx_services := (cx_services c)[i := s]\<rparr>"

section \<open>Pre-flight check\<close>

definition PreFlight :: "'w env \<Rightarrow> 'w handler" where
  "PreFlight e c =
     (case Services e c of
        (c', Some err) \<Rightarrow> (requestRetry ''ErrorReadingServices'' err c', None)
      | (c', None) \<Rightarrow> (c', None))"

section \<open>Binding definitions\<close>

definition addDefinition :: "nat \<Rightarrow> string \<times> string \<Rightarrow> 'w ctx \<Rightarrow> 'w ctx" where
  "addDefinition i kv c =
     (case kv of
        (k, v) \<Rightarrow>
          (case Build k v of
             Inl err \<Rightarrow>
               StopProcessing (Error err (SetCondition
                 (notCollectionReadyCond ''InvalidAnnotation''
                    (Wrapf ''Failed to create binding definition from \"%v: %v\": %v'' [JStr k, JStr v] err)) c))
           | Inr None \<Rightarrow> c
           | Inr (Some d) \<Rightarrow> setService i (AddBindingDef d (cx_services c ! i)) c))"

text \<open>The definition's annotations overridden by those of the service itself.\<close>

definition mergeAnnotations :: "strmap \<Rightarrow> fields \<Rightarrow> strmap" where
  "mergeAnnotations anns res =
     (case MergeMaps (Some anns) (GetAnnotations res) of None \<Rightarrow> [] | Some m \<Rightarrow> m)"

definition serviceDefinitions :: "'w env \<Rightarrow> nat \<Rightarrow> 'w ctx \<Rightarrow> 'w ctx \<times> flow" where
  "serviceDefinitions e i c =
     (case CustomResourceDefinition e (world c) (cx_services c ! i) of
        (s, Inl err) \<Rightarrow> (requestRetry ''ErrorReadingCRD'' err (setService i s c), Return)
      | (s, Inr None) \<Rightarrow>
          (fold (addDefinition i) (mergeAnnotations [] (sv_resource s)) (setService i s c), Continue)
      | (s, Inr (Some crd)) \<Rightarrow>
          (case crd_Resource e crd of
             Panic p \<Rightarrow> (setService i s c, Crash p)
           | Err _ \<Rightarrow> (setService i s c, Continue)
           | Ok crd' \<Rightarrow>
               (fold (addDefinition i)
                  (mergeAnnotations (mergeAnnotations [] (crd_resource crd')) (sv_resource s))
                  (setService i (s\<lparr>sv_crd := Some crd'\<rparr>) c), Continue)))"

definition BindingDefinitions :: "'w env \<Rightarrow> 'w handler" where
  "BindingDefinitions e c =
     (case services e c of (c', is) \<Rightarrow> finish (forEach (serviceDefinitions e) is c'))"

section \<open>Binding items\<close>

text \<open>
  \<open>collectItems\<close> flattens a value into items. A nil below a map stops the processing and
  the loop over that map, but not the loops above it; a nil at the top has no interface
  value and panics.
\<close>

fun collectItems ::
  "nat \<Rightarrow> string \<Rightarrow> string \<Rightarrow> json \<Rightarrow> 'w ctx \<Rightarrow> 'w ctx \<times> flow"
  and collectFields ::
  "nat \<Rightarrow> string \<Rightarrow> string \<Rightarrow> fields \<Rightarrow> 'w ctx \<Rightarrow> 'w ctx \<times> flow" where
  "collectItems i prefix k (JObj m) c = collectFields i prefix k m c"
| "collectItems i prefix k (JArr xs) c =
     (fold (\<lambda>(j, x). AddBindingItem
        \<lparr>it_Name = prefix @ k @ ''_'' @ showNat j, it_Value = x, it_Source = Some i\<rparr>)
        (enumerate 0 xs) c, Continue)"
| "collectItems i prefix k (JMaps ms) c =
     (fold (\<lambda>(j, m). AddBindingItem
        \<lparr>it_Name = prefix @ k @ ''_'' @ showNat j, it_Value = JObj m, it_Source = Some i\<rparr>)
        (enumerate 0 ms) c, Continue)"
| "collectItems i prefix k JNull c = (c, Crash ''reflect: call of reflect.Value.Interface on zero Value'')"
| "collectItems i prefix k (JBool b) c =
     (AddBindingItem \<lparr>it_Name = prefix @ k, it_Value = JBool b, it_Source = Some i\<rparr> c, Continue)"
| "collectItems i prefix k (JInt n) c =
     (AddBindingItem \<lparr>it_Name = prefix @ k, it_Value = JInt n, it_Source = Some i\<rparr> c, Continue)"
| "collectItems i prefix k (JFloat f) c =
     (AddBindingItem \<lparr>it_Name = prefix @ k, it_Value = JFloat f, it_Source = Some i\<rparr> c, Continue)"
| "collectItems i prefix k (JStr s) c =
     (AddBindingItem \<lparr>it_Name = prefix @ k, it_Value = JStr s, it_Source = Some i\<rparr> c, Continue)"
| "collectFields i prefix k [] c = (c, Continue)"
| "collectFields i prefix k ((n, v) # m) c =
     (if v = JNull then
        (StopProcessing (Error (errNew ''Value not found in map'') (SetCondition
           (notCollectionReadyCond ''ValueNotFound''
              (Errorf ''Value for key %v_%v not found'' [JStr (prefix @ k), JStr n])) c)), Continue)
      else
        (case collectItems i (if prefix @ k @ ''_'' = ''_'' then '''' else prefix @ k @ ''_'') n v c of
           (c', Continue) \<Rightarrow> collectFields i prefix k m c'
         | r \<Rightarrow> r))"

definition ctxReader :: "'w env \<Rightarrow> 'w ctx \<Rightarrow> reader" where
  "ctxReader e c = \<lparr>rd_configMap = ReadConfigMap e c, rd_secret = ReadSecret e c\<rparr>"

definition collectDefinition :: "'w env \<Rightarrow> nat \<Rightarrow> bindef \<Rightarrow> 'w ctx \<Rightarrow> 'w ctx \<times> flow" where
  "collectDefinition e i bd c =
     (case Apply (env_jp e) (Some (ctxReader e c)) bd (sv_resource (cx_services c ! i)) of
        Panic s \<Rightarrow> (c, Crash s)
      | Err err \<Rightarrow> (requestRetry ''ErrorReadingBinding'' err c, Return)
      | Ok v \<Rightarrow>
          if NonExistingOptional bd v then (c, Continue)
          else
            (case v of
               JObj m \<Rightarrow> forEach (\<lambda>(n, x). collectItems i '''' n x) m c
             | _ \<Rightarrow>
                 (requestRetry ''DataNotMap''
                    (errNew ''Returned data are not a map, skip collecting'') c, Return)))"

definition BindingItemsHandler :: "'w env \<Rightarrow> 'w handler" where
  "BindingItemsHandler e c =
     (case services e c of
        (c', is) \<Rightarrow>
          finish (forEach (\<lambda>i c. forEach (collectDefinition e i)
             (sv_bindingDefinitions (cx_services c ! i)) c) is c'))"

section \<open>Provisioned services and direct references\<close>

definition provisioned :: "'w env \<Rightarrow> nat \<Rightarrow> 'w ctx \<Rightarrow> 'w ctx \<times> flow" where
  "provisioned e i c =
     (let res = sv_resource (cx_services c ! i) in
      case NestedString res [''status'', ''binding'', ''name''] of
        Inl err \<Rightarrow> (requestRetry ''ErrorReadingBinding'' err c, Return)
      | Inr (Some secretName) \<Rightarrow>
          if secretName = '''' then (c, Continue)
          else
            (case ReadSecret e c (GetNamespace res) secretName of
               Inl err \<Rightarrow> (requestRetry ''ErrorReadingSecret'' err c, Return)
             | Inr secret \<Rightarrow>
                 (AddBindings \<lparr>sbk_Service = Some i, sbk_Secret = secret, sbk_items = None\<rparr> c, Continue))
      | Inr None \<Rightarrow>
          (case CustomResourceDefinition e (world c) (cx_services c ! i) of
             (s, Inl err) \<Rightarrow> (requestRetry ''ErrorReadingCRD'' err (setService i s c), Return)
           | (s, Inr None) \<Rightarrow> (setService i s c, Continue)
           | (s, Inr (Some crd)) \<Rightarrow>
               (case crd_Resource e crd of
                  Panic p \<Rightarrow> (setService i s c, Crash p)
                | Err _ \<Rightarrow> (setService i s c, Continue)
                | Ok crd' \<Rightarrow>
                    let c' = setService i (s\<lparr>sv_crd := Some crd'\<rparr>) c in
                    if (case GetAnnotations (crd_resource crd') of
                          None \<Rightarrow> False
                        | Some anns \<Rightarrow> map_of anns ProvisionedServiceAnnotationKey = Some ''true'')
                    then (requestRetry ''ErrorReadingBinding''
                            (Errorf ''CRD of service %v/%v indicates provisioned service, but no secret name provided under .status.binding.name''
                               [JStr (GetNamespace res), JStr (GetName res)]) c', Return)
                    else (c', Continue))))"

definition ProvisionedService :: "'w env \<Rightarrow> 'w handler" where
  "ProvisionedService e c =
     (case services e c of (c', is) \<Rightarrow> finish (forEach (provisioned e) is c'))"

definition directSecret :: "'w env \<Rightarrow> nat \<Rightarrow> 'w ctx \<Rightarrow> 'w ctx \<times> flow" where
  "directSecret e i c =
     (let res = sv_resource (cx_services c ! i) in
      if GetKind res = ''Secret'' \<and> GetAPIVersion res = ''v1'' \<and> gvk_group (GroupVersionKind res) = '''' then
        (if (case GetAnnotations res of
               None \<Rightarrow> False
             | Some anns \<Rightarrow> list_ex (\<lambda>(k, v). HasPrefix k AnnotationPrefix) anns)
         then (c, Return)
         else
           (case ReadSecret e c (GetNamespace res) (GetName res) of
              Inl err \<Rightarrow> (requestRetry ''ErrorReadingSecret'' err c, Return)
            | Inr secret \<Rightarrow>
                (AddBindings \<lparr>sbk_Service = Some i, sbk_Secret = secret, sbk_items = None\<rparr> c, Continue)))
      else (c, Continue))"

definition DirectSecretReference :: "'w env \<Rightarrow> 'w handler" where
  "DirectSecretReference e c =
     (case services e c of (c', is) \<Rightarrow> finish (forEach (directSecret e) is c'))"

section \<open>Owned resources\<close>

text \<open>The input path, whether the value is decoded, and the output name for a kind.\<close>

definition bindableResources :: "(gvk \<times> string \<times> bool \<times> string) list" where
  "bindableResources =
     [(mkgvk '''' ''v1'' ''ConfigMap'', ''data'', False, ''''),
      (mkgvk '''' ''v1'' ''Secret'', ''data'', True, ''''),
      (mkgvk '''' ''v1'' ''Service'', ''spec.clusterIP'', False, ''clusterIP''),
      (mkgvk ''route.openshift.io'' ''v1'' ''Route'', ''spec.host'', False, ''host'')]"

fun decodeValues :: "fields \<Rightarrow> go_error + fields" where
  "decodeValues [] = Inr []"
| "decodeValues ((k, v) # m) =
     (case DecodeString (fmt_v v) of
        Inl err \<Rightarrow> Inl err
      | Inr s \<Rightarrow> map_sum id (\<lambda>r. (k, JStr s) # r) (decodeValues m))"

definition transformData :: "json \<Rightarrow> go_error + json" where
  "transformData j =
     (case j of
        JObj m \<Rightarrow> map_sum id JObj (decodeValues m)
      | _ \<Rightarrow> Inl (errNew ''data is not map''))"

definition collectOwned :: "nat \<Rightarrow> fields \<Rightarrow> 'w ctx \<Rightarrow> 'w ctx \<times> flow" where
  "collectOwned i res c =
     (case map_of bindableResources (GroupVersionKind res) of
        None \<Rightarrow> (c, Continue)
      | Some (input, decode, output) \<Rightarrow>
          (case NestedFieldNoCopy res (Split (CHR ''.'') input) of
             Inr (Some val) \<Rightarrow>
               (case (if decode then transformData val else Inr val) of
                  Inl err \<Rightarrow> (requestRetry ''ErrorReadingServices'' err c, Return)
                | Inr v \<Rightarrow> collectItems i '''' output v c)
           | _ \<Rightarrow> (requestRetry ''ErrorReadingServices'' (errNew ''Not found'') c, Return)))"

definition OwnedResources :: "'w env \<Rightarrow> 'w handler" where
  "OwnedResources e c =
     (case Services e c of
        (c', Some err) \<Rightarrow> (requestRetry ''ErrorReadingServices'' err c', None)
      | (c', None) \<Rightarrow>
          finish (forEach (\<lambda>i c.
             case service_OwnedResources e (world c) (cx_services c ! i) of
               Inl err \<Rightarrow> (requestRetry ''ErrorReadingServices'' err c, Return)
             | Inr rs \<Rightarrow> forEach (collectOwned i) rs c) [0..<length (cx_services c')] c'))"

section \<open>Custom mappings\<close>

definition templateVars :: "service list \<Rightarrow> item list \<Rightarrow> fields" where
  "templateVars ss is =
     fold (\<lambda>i m. AList.update (it_Name i) (it_Value i) m) is
       (fold (\<lambda>s m. case sv_id s of None \<Rightarrow> m | Some n \<Rightarrow> AList.update n (JObj (sv_resource s)) m) ss [])"

definition renderMapping :: "'w env \<Rightarrow> fields \<Rightarrow> string \<times> string \<Rightarrow> 'w ctx \<Rightarrow> 'w ctx \<times> flow" where
  "renderMapping e vars kv c =
     (case env_TextTemplate e (snd kv) of
        Inl err \<Rightarrow> (Error err (StopProcessing c), Return)
      | Inr exec \<Rightarrow>
          (case exec (JObj vars) of
             Inl err \<Rightarrow> (Error err (StopProcessing c), Return)
           | Inr s \<Rightarrow>
               (AddBindingItem \<lparr>it_Name = fst kv, it_Value = JStr s, it_Source = None\<rparr> c, Continue)))"

definition MappingHandle :: "'w env \<Rightarrow> 'w handler" where
  "MappingHandle e c =
     (case BindingItems c of
        (c1, is) \<Rightarrow>
          (case services e c1 of
             (c2, ks) \<Rightarrow>
               finish (forEach (renderMapping e (templateVars (if ks = [] then [] else cx_services c2) is))
                 (Mappings c2) c2)))"

section \<open>Naming strategies\<close>

definition templateData :: "service \<Rightarrow> json" where
  "templateData s =
     JObj [(''kind'', JStr (GetKind (sv_resource s))), (''name'', JStr (GetName (sv_resource s)))]"

text \<open>A template is its execution.\<close>

record naming_template =
  nt_template :: "json \<Rightarrow> go_error + string"
  nt_data :: json
  nt_namingTemplate :: string

definition NewTemplate :: "'w env \<Rightarrow> string \<Rightarrow> json \<Rightarrow> go_error + naming_template" where
  "NewTemplate e templateStr data =
     (case env_HtmlTemplate e templateStr of
        Inl err \<Rightarrow> Inl err
      | Inr t \<Rightarrow> Inr \<lparr>nt_template = t, nt_data = data, nt_namingTemplate = templateStr\<rparr>)"

definition GetBindingName :: "naming_template \<Rightarrow> string \<Rightarrow> go_error + string" where
  "GetBindingName n bindingName =
     (case nt_template n (JObj [(''service'', nt_data n), (''name'', JStr bindingName)]) of
        Inl _ \<Rightarrow> Inl TemplateError
      | Inr s \<Rightarrow> Inr s)"

text \<open>
  Renaming one item: the item after it and the error that stops the loop. A template that
  fails to execute leaves the empty name behind.
\<close>

definition renameItem ::
  "'w env \<Rightarrow> string \<Rightarrow> service list \<Rightarrow> item \<Rightarrow> item \<times> go_error option" where
  "renameItem e tmpl ss i =
     (case it_Source i of
        None \<Rightarrow> (i, None)
      | Some n \<Rightarrow>
          (case NewTemplate e tmpl (templateData (ss ! n)) of
             Inl err \<Rightarrow> (i, Some err)
           | Inr template \<Rightarrow>
               (case GetBindingName template (it_Name i) of
                  Inl err \<Rightarrow> (i\<lparr>it_Name := ''''\<rparr>, Some err)
                | Inr s \<Rightarrow> (i\<lparr>it_Name := s\<rparr>, None))))"

fun renameItems ::
  "'w env \<Rightarrow> string \<Rightarrow> service list \<Rightarrow> item list \<Rightarrow> item list \<times> go_error option" where
  "renameItems e tmpl ss [] = ([], None)"
| "renameItems e tmpl ss (i # is) =
     (case renameItem e tmpl ss i of
        (i', Some err) \<Rightarrow> (i' # is, Some err)
      | (i', None) \<Rightarrow> (case renameItems e tmpl ss is of (is', r) \<Rightarrow> (i' # is', r)))"

text \<open>
  The items are shared with the bindings that own them: renaming goes through the bindings
  whose items could be read, in order, then through the items of the context.
\<close>

fun renameBindings ::
  "'w env \<Rightarrow> string \<Rightarrow> service list \<Rightarrow> secret_bindings list \<Rightarrow> secret_bindings list \<times> go_error option" where
  "renameBindings e tmpl ss [] = ([], None)"
| "renameBindings e tmpl ss (b # bs) =
     (case Items b of
        (b', Inl _) \<Rightarrow> (case renameBindings e tmpl ss bs of (bs', r) \<Rightarrow> (b' # bs', r))
      | (b', Inr is) \<Rightarrow>
          (case renameItems e tmpl ss is of
             (is', Some err) \<Rightarrow>
               (b'\<lparr>sbk_items := map_option (\<lambda>_. is') (sbk_items b')\<rparr> # map (\<lambda>b. fst (Items b)) bs, Some err)
           | (is', None) \<Rightarrow>
               (case renameBindings e tmpl ss bs of
                  (bs', r) \<Rightarrow> (b'\<lparr>sbk_items := map_option (\<lambda>_. is') (sbk_items b')\<rparr> # bs', r))))"

definition namingStop :: "go_error \<Rightarrow> 'w ctx \<Rightarrow> 'w ctx" where
  "namingStop err c =
     SetCondition (withMsg err (withReason ''NamingStrategyError'' (withNotCollectionReady Conditions)))
       (StopProcessing (Error err c))"

definition NamingHandle :: "'w env \<Rightarrow> 'w handler" where
  "NamingHandle e c =
     (case renameBindings e (ctx_NamingTemplate c) (cx_services c) (cx_bindings c) of
        (bs, Some err) \<Rightarrow> (namingStop err (c\<lparr>cx_bindings := bs\<rparr>), None)
      | (bs, None) \<Rightarrow>
          (case renameItems e (ctx_NamingTemplate c) (cx_services c) (cx_bindingItems c) of
             (is, Some err) \<Rightarrow> (namingStop err (c\<lparr>cx_bindings := bs, cx_bindingItems := is\<rparr>), None)
           | (is, None) \<Rightarrow> (c\<lparr>cx_bindings := bs, cx_bindingItems := is\<rparr>, None)))"

end
