(* ===== verification/Project.thy ===== *)
theory Project
  imports Collect
begin

text \<open>
  The handlers that project the binding into the applications:
  \<open>pkg/reconcile/pipeline/handler/project/impl.go\<close>.

  A container is edited in place: the edit is applied to the map at its location in the
  working copy of the application. The locations stay valid as long as the paths of a
  mapping do not lead into the slices that are rewritten (the environment, the volume
  mounts and the volumes), which is what this model covers.
\<close>

section \<open>Editing an application\<close>

definition editAt :: "loc \<Rightarrow> (fields \<Rightarrow> fields \<times> 'a go) \<Rightarrow> application \<Rightarrow> application \<times> 'a go" where
  "editAt l f a =
     (case get_at l (JObj (resourceOf a)) of
        Some (JObj d) \<Rightarrow>
          (a\<lparr>app_resource := Some (fields_of (upd_obj_at l (\<lambda>_. fst (f d)) (JObj (resourceOf a))))\<rparr>,
           snd (f d))
      | _ \<Rightarrow> (a, Panic ''no container at this location''))"

definition andThen ::
  "(application \<Rightarrow> application \<times> 'a go) \<Rightarrow> ('a \<Rightarrow> application \<Rightarrow> application \<times> 'b go)
     \<Rightarrow> application \<Rightarrow> application \<times> 'b go" where
  "andThen f g a =
     (case f a of
        (a', Ok x) \<Rightarrow> g x a'
      | (a', Err e) \<Rightarrow> (a', Err e)
      | (a', Panic s) \<Rightarrow> (a', Panic s))"

fun forAll ::
  "('x \<Rightarrow> application \<Rightarrow> application \<times> unit go) \<Rightarrow> 'x list \<Rightarrow> application \<Rightarrow> application \<times> unit go" where
  "forAll f [] a = (a, Ok ())"
| "forAll f (x # xs) a = andThen (f x) (\<lambda>_. forAll f xs) a"

definition setApplication :: "nat \<Rightarrow> application \<Rightarrow> 'w ctx \<Rightarrow> 'w ctx" where
  "setApplication i a c = c\<lparr>cx_applications := (cx_applications c)[i := a]\<rparr>"

definition stop :: "go_error \<Rightarrow> 'w ctx \<Rightarrow> 'w ctx" where
  "stop err c =
     SetCondition (withMsg err (withReason ''Error'' (withNotInjectionReady Conditions)))
       (Error err (StopProcessing c))"

text \<open>The end of the edits of one application: an error stops the handler.\<close>

definition settle :: "nat \<Rightarrow> application \<times> unit go \<Rightarrow> 'w ctx \<Rightarrow> 'w ctx \<times> flow" where
  "settle i r c =
     (case r of
        (a, Ok _) \<Rightarrow> (setApplication i a c, Continue)
      | (a, Err err) \<Rightarrow> (stop err (setApplication i a c), Return)
      | (a, Panic s) \<Rightarrow> (setApplication i a c, Crash s))"

definition applications :: "'w env \<Rightarrow> 'w ctx \<Rightarrow> 'w ctx \<times> nat list" where
  "applications e c =
     (case Applications e c of
        (c', None) \<Rightarrow> (c', [0..<length (cx_applications c')])
      | (c', Some _) \<Rightarrow> (c', []))"

text \<open>
  The pods of an application for a projection. An application whose containers cannot be
  found is skipped when the binding names a path for the secret.
\<close>

definition withPods ::
  "'w env \<Rightarrow> (meta_pod_spec \<Rightarrow> application \<Rightarrow> application \<times> unit go)
     \<Rightarrow> nat \<Rightarrow> 'w ctx \<Rightarrow> 'w ctx \<times> flow" where
  "withPods e f i c =
     (case BindablePods (env_jp e) (cx_applications c ! i) of
        (a, Panic s) \<Rightarrow> (setApplication i a c, Crash s)
      | (a, Err err) \<Rightarrow>
          if SecretPath a \<noteq> '''' then (setApplication i a c, Continue)
          else (stop err (setApplication i a c), Return)
      | (a, Ok pods) \<Rightarrow> settle i (f pods a) c)"

section \<open>Checks before and after\<close>

definition missingKey :: "string list \<Rightarrow> strmap \<Rightarrow> string option" where
  "missingKey keys m = find (\<lambda>k. map_of m k = None) keys"

definition PreFlightCheck :: "'w env \<Rightarrow> string list \<Rightarrow> 'w handler" where
  "PreFlightCheck e mandatory c =
     (case PersistSecret e c of
        (c1, Some _) \<Rightarrow> (SetCondition (withNotCollectionReady Conditions) c1, None)
      | (c1, None) \<Rightarrow>
          (case Applications e (SetCondition (withDataCollected (withCollectionReady Conditions)) c1) of
             (c2, Some err) \<Rightarrow>
               (SetCondition (withMsg err (withApplicationNotFound (withNotInjectionReady Conditions)))
                  (RetryProcessing (Some err) c2), None)
           | (c2, None) \<Rightarrow>
               if cx_applications c2 = [] then
                 (StopProcessing (SetCondition
                    (withReason ''EmptyApplication'' (withNotInjectionReady Conditions)) c2), None)
               else
                 (case BindingItems c2 of
                    (c3, is) \<Rightarrow>
                      if is = [] then
                        let err = errNew ''no binding data to project'' in
                        (SetCondition (withMsg err (withReason ''NoBindingData'' (withNotInjectionReady Conditions)))
                           (RetryProcessing (Some err) c3), None)
                      else
                        (case missingKey mandatory (AsMap is) of
                           None \<Rightarrow> (c3, None)
                         | Some bk \<Rightarrow>
                             let err = Errorf ''Mandatory binding '%v' not found'' [JStr bk] in
                             (StopProcessing (Error err (SetCondition
                                (withMsg err (withReason ''RequiredBindingNotFound'' (withNotInjectionReady Conditions)))
                                c3)), None)))))"

definition PostFlightCheck :: "'w handler" where
  "PostFlightCheck c =
     (let c1 = SetCondition (withReason ''ApplicationUpdated'' (withInjectionReady Conditions)) c
      in (if HasLabelSelector c1 then DelayReprocessing None c1 else c1, None))"

section \<open>The secret reference\<close>

definition injectSecretRef :: "nat \<Rightarrow> 'w ctx \<Rightarrow> 'w ctx \<times> flow" where
  "injectSecretRef i c =
     (let a = cx_applications c ! i; path = SecretPath a in
      if path = '''' then (c, Continue)
      else
        (case BindingSecretName (setApplication i (Resource a) c) of
           (c1, name) \<Rightarrow>
             (case SetNestedField (resourceOf a) (JStr name) (Split (CHR ''.'') path) of
                Ok r \<Rightarrow> (setApplication i (a\<lparr>app_resource := Some r\<rparr>) c1, Continue)
              | Err err \<Rightarrow> (stop err c1, Return)
              | Panic s \<Rightarrow> (c1, Crash s))))"

definition InjectSecretRef :: "'w env \<Rightarrow> 'w handler" where
  "InjectSecretRef e c =
     (case applications e c of (c', is) \<Rightarrow> finish (forEach injectSecretRef is c'))"

section \<open>Bindings as environment variables\<close>

definition envVarsFor :: "string \<Rightarrow> (string \<times> string) list \<Rightarrow> env_var list" where
  "envVarsFor secretName envs =
     map (\<lambda>(var, key). \<lparr>ev_Name = var, ev_Value = '''', ev_SecretKeyRef = Some (secretName, key)\<rparr>) envs"

definition envContainer ::
  "converter \<Rightarrow> bool \<Rightarrow> string \<Rightarrow> env_var list \<Rightarrow> meta_container \<Rightarrow> application \<Rightarrow> application \<times> unit go" where
  "envContainer conv asFiles secretName vars mc =
     andThen
       (if \<not> asFiles then editAt (mc_Data mc) (AddEnvFromVar conv mc secretName) else (\<lambda>a. (a, Ok ())))
       (\<lambda>_. editAt (mc_Data mc) (AddEnvVars conv mc vars))"

definition envApplication ::
  "converter \<Rightarrow> bool \<Rightarrow> string \<Rightarrow> env_var list \<Rightarrow> meta_pod_spec \<Rightarrow> application \<Rightarrow> application \<times> unit go" where
  "envApplication conv asFiles secretName vars pods =
     forAll (envContainer conv asFiles secretName vars) (mp_Containers pods)"

definition BindingsAsEnv :: "'w env \<Rightarrow> 'w handler" where
  "BindingsAsEnv e c =
     (if BindAsFiles c \<and> EnvBindings c = [] then (c, None)
      else
        (case BindingSecretName c of
           (c1, secretName) \<Rightarrow>
             (case applications e c1 of
                (c2, is) \<Rightarrow>
                  finish (forEach (withPods e (envApplication (env_conv e) (BindAsFiles c2) secretName
                    (envVarsFor secretName (EnvBindings c2)))) is c2))))"

section \<open>Bindings as files\<close>

definition fileContainer ::
  "converter \<Rightarrow> string \<Rightarrow> meta_container \<Rightarrow> application \<Rightarrow> application \<times> unit go" where
  "fileContainer conv bindingName mc =
     andThen (editAt (mc_Data mc) (MountPath conv mc bindingName))
       (\<lambda>mountPath. editAt (mc_Data mc) (AddVolumeMount conv mc bindingName mountPath))"

definition fileApplication ::
  "converter \<Rightarrow> string \<Rightarrow> string \<Rightarrow> meta_pod_spec \<Rightarrow> application \<Rightarrow> application \<times> unit go" where
  "fileApplication conv bindingName secretName pods =
     andThen (editAt [] (AddVolume conv pods bindingName secretName))
       (\<lambda>_. forAll (fileContainer conv bindingName) (mp_Containers pods))"

definition BindingsAsFiles :: "'w env \<Rightarrow> 'w handler" where
  "BindingsAsFiles e c =
     (if \<not> BindAsFiles c then (c, None)
      else
        (case BindingSecretName c of
           (c1, secretName) \<Rightarrow>
             (case applications e c1 of
                (c2, is) \<Rightarrow>
                  finish (forEach (withPods e (fileApplication (env_conv e) (BindingName c2) secretName))
                    is c2))))"

section \<open>Unbinding\<close>

definition unbindContainer ::
  "converter \<Rightarrow> string \<Rightarrow> string \<Rightarrow> (string \<times> string) list \<Rightarrow> meta_container
     \<Rightarrow> application \<Rightarrow> application \<times> unit go" where
  "unbindContainer conv bindingName secretName envs mc =
     andThen
       (forAll (\<lambda>(var, key). editAt (mc_Data mc) (RemoveEnvVars conv mc key)) envs)
       (\<lambda>_. andThen (editAt (mc_Data mc) (RemoveEnvFromVars conv mc secretName))
          (\<lambda>_. editAt (mc_Data mc) (RemoveVolumeMount conv mc bindingName)))"

definition unbindPods ::
  "converter \<Rightarrow> string \<Rightarrow> string \<Rightarrow> (string \<times> string) list \<Rightarrow> meta_pod_spec
     \<Rightarrow> application \<Rightarrow> application \<times> unit go" where
  "unbindPods conv bindingName secretName envs pods =
     andThen (editAt [] (RemoveVolume conv pods bindingName))
       (\<lambda>_. forAll (unbindContainer conv bindingName secretName envs) (mp_Containers pods))"

text \<open>
  The error of \<open>BindablePods\<close> is not looked at: there is no result to call the next method
  on, which is a nil dereference.
\<close>

definition unbindApplication ::
  "'w env \<Rightarrow> string \<Rightarrow> string \<Rightarrow> (string \<times> string) list \<Rightarrow> nat \<Rightarrow> 'w ctx \<Rightarrow> 'w ctx \<times> flow" where
  "unbindApplication e bindingName secretName envs i c =
     (case BindablePods (env_jp e) (cx_applications c ! i) of
        (a, Panic s) \<Rightarrow> (setApplication i a c, Crash s)
      | (a, Err err) \<Rightarrow> (setApplication i a c, Crash ''nil pointer dereference'')
      | (a, Ok pods) \<Rightarrow>
          settle i (unbindPods (env_conv e) bindingName secretName envs pods a) c)"

definition Unbind :: "'w env \<Rightarrow> 'w handler" where
  "Unbind e c =
     (if \<not> UnbindRequested c then (c, None)
      else
        (case Applications e c of
           (c1, Some _) \<Rightarrow> (StopProcessing c1, None)
         | (c1, None) \<Rightarrow>
             if cx_applications c1 = [] then (StopProcessing c1, None)
             else
               (case BindingSecretName c1 of
                  (c2, secretName) \<Rightarrow>
                    if secretName = '''' then (StopProcessing c2, None)
                    else
                      (case forEach (unbindApplication e (BindingName c2) secretName (EnvBindings c2))
                              [0..<length (cx_applications c2)] c2 of
                         (c3, Continue) \<Rightarrow>
                           (case CleanAnnotations c3 of
                              (c4, True) \<Rightarrow> (RetryProcessing None c4, None)
                            | (c4, False) \<Rightarrow> (StopProcessing c4, None))
                       | r \<Rightarrow> finish r))))"

end
