(* ===== verification/Pipeline.thy ===== *)
theory Pipeline
  imports Project
begin

text \<open>
  The pipeline of handlers (\<open>pkg/reconcile/pipeline/builder/pipeline.go\<close>) and the
  reconciler of service bindings (\<open>controllers/common.go\<close>).

  The service binding is passed by reference in the code: the pipeline returns it with the
  changes the handlers made. The client of the reconciler reads and writes typed objects,
  which is a read or a write of the unstructured object and a conversion.
\<close>

section \<open>Running handlers\<close>

record flow_status =
  fs_Retry :: bool
  fs_Stop :: bool
  fs_Err :: "go_error option"
  fs_Delay :: nat

definition FlowStatus :: "'w ctx \<Rightarrow> flow_status" where
  "FlowStatus c =
     \<lparr>fs_Retry = cx_retry c, fs_Stop = cx_stop c, fs_Err = cx_err c, fs_Delay = cx_delay c\<rparr>"

definition invokeHandler :: "'w handler \<Rightarrow> 'w ctx \<Rightarrow> 'w ctx" where
  "invokeHandler h c =
     (case h c of
        (c', None) \<Rightarrow> c'
      | (c', Some s) \<Rightarrow> RetryProcessing (Some (Errorf ''panic occurred: %v'' [JStr s])) c')"

fun runHandlers :: "'w handler list \<Rightarrow> flow_status \<Rightarrow> 'w ctx \<Rightarrow> 'w ctx \<times> flow_status" where
  "runHandlers [] st c = (c, st)"
| "runHandlers (h # hs) st c =
     (let c' = invokeHandler h c; st' = FlowStatus c'
      in if fs_Stop st' then (c', st') else runHandlers hs st' c')"

definition noStatus :: flow_status where
  "noStatus = \<lparr>fs_Retry = False, fs_Stop = False, fs_Err = None, fs_Delay = 0\<rparr>"

record 'w process_result =
  pr_Retry :: bool
  pr_Delay :: nat
  pr_Err :: "go_error option"
  pr_world :: 'w
  pr_sb :: sbinding

definition Process ::
  "'w env \<Rightarrow> ('w \<Rightarrow> sbinding \<Rightarrow> go_error + 'w ctx) \<Rightarrow> 'w handler list \<Rightarrow> 'w \<Rightarrow> sbinding
     \<Rightarrow> 'w process_result" where
  "Process e provider handlers w sb =
     (case provider w sb of
        Inl err \<Rightarrow> \<lparr>pr_Retry = False, pr_Delay = 0, pr_Err = Some err, pr_world = w, pr_sb = sb\<rparr>
      | Inr c \<Rightarrow>
          (case runHandlers handlers noStatus c of
             (c1, st) \<Rightarrow>
               (case Close e c1 of
                  (c2, Some err) \<Rightarrow>
                    \<lparr>pr_Retry = True, pr_Delay = 0, pr_Err = Some err, pr_world = world c2, pr_sb = cx_sb c2\<rparr>
                | (c2, None) \<Rightarrow>
                    \<lparr>pr_Retry = fs_Retry st, pr_Delay = fs_Delay st, pr_Err = fs_Err st,
                     pr_world = world c2, pr_sb = cx_sb c2\<rparr>)))"

section \<open>The two flows\<close>

definition defaultFlow :: "'w env \<Rightarrow> 'w handler list" where
  "defaultFlow e =
     [Unbind e, PreFlight e, ProvisionedService e, DirectSecretReference e, BindingDefinitions e,
      BindingItemsHandler e, OwnedResources e, MappingHandle e, NamingHandle e,
      PreFlightCheck e [], InjectSecretRef e, BindingsAsEnv e, BindingsAsFiles e, PostFlightCheck]"

definition specFlow :: "'w env \<Rightarrow> 'w handler list" where
  "specFlow e =
     [Unbind e, PreFlight e, ProvisionedService e, DirectSecretReference e, BindingDefinitions e,
      BindingItemsHandler e, PreFlightCheck e [''type''], BindingsAsEnv e, BindingsAsFiles e,
      PostFlightCheck]"

definition DefaultBuilder :: "'w env \<Rightarrow> 'w \<Rightarrow> sbinding \<Rightarrow> 'w process_result" where
  "DefaultBuilder e = Process e Provider (defaultFlow e)"

definition SpecBuilder :: "'w env \<Rightarrow> 'w \<Rightarrow> sbinding \<Rightarrow> 'w process_result" where
  "SpecBuilder e = Process e SpecProvider (specFlow e)"

section \<open>The reconciler\<close>

record reconcile_result =
  rr_Requeue :: bool
  rr_RequeueAfter :: nat

definition getBinding :: "'w env \<Rightarrow> gvr \<Rightarrow> string \<Rightarrow> string \<Rightarrow> 'w \<Rightarrow> go_error + sbinding" where
  "getBinding e gvr ns name w =
     (case env_Get e w gvr ns name of Inl err \<Rightarrow> Inl err | Inr u \<Rightarrow> env_BindingFrom e u)"

definition updateBinding :: "'w env \<Rightarrow> sbinding \<Rightarrow> 'w \<Rightarrow> go_error option \<times> 'w" where
  "updateBinding e sb w =
     (case env_BindingTo e sb of
        Inl err \<Rightarrow> (Some err, w)
      | Inr u \<Rightarrow> env_Update e (bindingGVR sb) (om_Namespace (sb_Meta sb)) u w)"

definition emptyResult :: reconcile_result where
  "emptyResult = \<lparr>rr_Requeue = False, rr_RequeueAfter = 0\<rparr>"

text \<open>
  The client writes the answer of the API server into the object it sent: the object as it
  was sent, with its new version.
\<close>

definition refreshed :: "'w env \<Rightarrow> 'w \<Rightarrow> sbinding \<Rightarrow> sbinding" where
  "refreshed e w sb =
     sb\<lparr>sb_Meta := (sb_Meta sb)\<lparr>om_ResourceVersion :=
       env_Version e w (bindingGVR sb) (om_Namespace (sb_Meta sb)) (om_Name (sb_Meta sb))\<rparr>\<rparr>"

text \<open>The finalizer is added before the binding is processed.\<close>

definition ensureFinalizer :: "'w env \<Rightarrow> sbinding \<Rightarrow> 'w \<Rightarrow> sbinding \<times> go_error option \<times> 'w" where
  "ensureFinalizer e sb w =
     (if HasDeletionTimestamp sb then (sb, None, w)
      else
        (case MaybeAddFinalizer (sb_Meta sb) of
           (False, m) \<Rightarrow> (sb, None, w)
         | (True, m) \<Rightarrow>
             let sb' = sb\<lparr>sb_Meta := m\<rparr> in
             (case updateBinding e sb' w of
                (Some err, w') \<Rightarrow> (sb', Some err, w')
              | (None, w') \<Rightarrow> (refreshed e w' sb', None, w'))))"

text \<open>The finalizer is removed once a deleted binding was processed without error.\<close>

definition releaseFinalizer :: "'w env \<Rightarrow> sbinding \<Rightarrow> 'w \<Rightarrow> go_error option \<times> 'w" where
  "releaseFinalizer e sb w =
     (if \<not> HasDeletionTimestamp sb then (None, w)
      else
        (case MaybeRemoveFinalizer (sb_Meta sb) of
           (False, m) \<Rightarrow> (None, w)
         | (True, m) \<Rightarrow> updateBinding e (sb\<lparr>sb_Meta := m\<rparr>) w))"

definition Reconcile ::
  "'w env \<Rightarrow> gvr \<Rightarrow> ('w \<Rightarrow> sbinding \<Rightarrow> 'w process_result) \<Rightarrow> string \<Rightarrow> string \<Rightarrow> 'w
     \<Rightarrow> reconcile_result \<times> go_error option \<times> 'w" where
  "Reconcile e gvr process ns name w =
     (case getBinding e gvr ns name w of
        Inl err \<Rightarrow> if IsNotFound err then (emptyResult, None, w) else (emptyResult, Some err, w)
      | Inr sb \<Rightarrow>
          (case ensureFinalizer e sb w of
             (sb1, Some err, w1) \<Rightarrow> (emptyResult, Some err, w1)
           | (sb1, None, w1) \<Rightarrow>
               let p = process w1 sb1 in
               (case (if \<not> pr_Retry p \<and> pr_Err p = None then releaseFinalizer e (pr_sb p) (pr_world p)
                      else (None, pr_world p)) of
                  (Some err, w2) \<Rightarrow> (emptyResult, Some err, w2)
                | (None, w2) \<Rightarrow>
                    (\<lparr>rr_Requeue = pr_Retry p, rr_RequeueAfter = pr_Delay p\<rparr>,
                     if pr_Retry p then pr_Err p else None, w2))))"

end
