(* ===== verification/WhoAmI.thy ===== *)
theory WhoAmI
  imports Prelude
begin

text \<open>
  The name of the operator's own account, \<open>pkg/client/kubernetes/whoami.go\<close>. The admission
  webhook lets requests of that account pass without recording a requester.

  What the code asks of its surroundings is the record \<open>auth_env\<close>: the transport
  configuration made of the client configuration, the client, the file with a token, the
  rules review with the authorization header of the request it sends, and the token
  review, whose result is the error of the status and the name of the user. The text of an
  API error is its message.
\<close>

record rest_config =
  rc_Username :: string
  rc_BearerToken :: string
  rc_BearerTokenFile :: string
  rc_CertData :: string
  rc_CertFile :: string
  rc_KeyData :: string
  rc_KeyFile :: string
  rc_AuthProvider :: bool
  rc_ExecProvider :: bool

record auth_env =
  au_TransportConfig :: "rest_config \<Rightarrow> go_error + rest_config"
  au_NewForConfig :: "rest_config \<Rightarrow> go_error option"
  au_ReadFile :: "string \<Rightarrow> go_error + string"
  au_RulesReview :: "string \<times> go_error option"
  au_TokenReview :: "string \<Rightarrow> go_error + string \<times> string"

definition HasBasicAuth :: "rest_config \<Rightarrow> bool" where
  "HasBasicAuth c = (rc_Username c \<noteq> '''')"

definition HasTokenAuth :: "rest_config \<Rightarrow> bool" where
  "HasTokenAuth c = (rc_BearerToken c \<noteq> '''' \<or> rc_BearerTokenFile c \<noteq> '''')"

definition HasCertAuth :: "rest_config \<Rightarrow> bool" where
  "HasCertAuth c =
     ((rc_CertData c \<noteq> '''' \<or> rc_CertFile c \<noteq> '''') \<and> (rc_KeyData c \<noteq> '''' \<or> rc_KeyFile c \<noteq> ''''))"

text \<open>\<open>strings.ReplaceAll\<close> with nothing, for a part that is not empty.\<close>

function removeAll :: "string \<Rightarrow> string \<Rightarrow> string" where
  "removeAll p [] = []"
| "removeAll p (c # s) =
     (if p \<noteq> [] \<and> HasPrefix (c # s) p then removeAll p (drop (length p) (c # s))
      else c # removeAll p s)"
  by pat_completeness auto
termination
  by (relation "measure (\<lambda>(p, s). length s)") auto

text \<open>The token that is remembered after a request with this header.\<close>

definition RoundTrip :: "string \<Rightarrow> string \<Rightarrow> string" where
  "RoundTrip token header = (if HasPrefix header ''Bearer '' then removeAll ''Bearer '' header else token)"

text \<open>
  The places of a part in a text, from the last to the first, each as what stands before and
  after it: the order in which a greedy repetition tries them.
\<close>

fun splits :: "string \<Rightarrow> string \<Rightarrow> (string \<times> string) list" where
  "splits p [] = (if p = [] then [([], [])] else [])"
| "splits p (c # s) =
     map (\<lambda>(a, b). (c # a, b)) (splits p s)
     @ (if HasPrefix (c # s) p then [([], drop (length p) (c # s))] else [])"

text \<open>
  The replacement of a match of the expression \<open>^.* User "(.*)" cannot .*$\<close> by its group:
  a match is the whole text, which has no line break then; a text that does not match stays.
\<close>

definition getUsernameFromError :: "string \<Rightarrow> string" where
  "getUsernameFromError msg =
     (if CHR 0x0A \<in> set msg then msg
      else
        (case concat (map (\<lambda>(_, rest). map fst (splits ''\" cannot '' rest)) (splits '' User \"'' msg)) of
           [] \<Rightarrow> msg
         | name # _ \<Rightarrow> name))"

definition reviewToken :: "auth_env \<Rightarrow> string \<Rightarrow> go_error + string" where
  "reviewToken au token =
     (case au_TokenReview au token of
        Inl (StatusErr reason msg) \<Rightarrow>
          if reason = ''Forbidden'' then Inr (getUsernameFromError msg) else Inl (StatusErr reason msg)
      | Inl err \<Rightarrow> Inl err
      | Inr (statusError, username) \<Rightarrow>
          if statusError \<noteq> '''' then Inl (Errorf statusError []) else Inr username)"

definition configuredToken :: "auth_env \<Rightarrow> rest_config \<Rightarrow> rest_config \<Rightarrow> go_error + string" where
  "configuredToken au tc c =
     (if \<not> HasTokenAuth tc then Inr ''''
      else
        (case (if rc_BearerTokenFile c \<noteq> '''' then au_ReadFile au (rc_BearerTokenFile c) else Inr '''') of
           Inl err \<Rightarrow> Inl err
         | Inr token \<Rightarrow> Inr (if rc_BearerToken c \<noteq> '''' then rc_BearerToken c else token)))"

definition providerToken :: "auth_env \<Rightarrow> rest_config \<Rightarrow> string \<Rightarrow> go_error + string" where
  "providerToken au c token =
     (if token = '''' \<and> (rc_AuthProvider c \<or> rc_ExecProvider c) then
        (case au_RulesReview au of
           (header, Some err) \<Rightarrow> Inl err
         | (header, None) \<Rightarrow> Inr (RoundTrip '''' header))
      else Inr token)"

definition accountName :: "auth_env \<Rightarrow> rest_config \<Rightarrow> rest_config \<Rightarrow> string \<Rightarrow> go_error + string" where
  "accountName au tc c token =
     (if token \<noteq> '''' then reviewToken au token
      else if HasBasicAuth tc then Inr (''kubecfg:basicauth:'' @ rc_Username c)
      else if HasCertAuth tc then Inr ''kubecfg:certauth:admin''
      else Inl (errNew ''unsupported auth mechanism''))"

definition WhoAmI :: "auth_env \<Rightarrow> rest_config \<Rightarrow> go_error + string" where
  "WhoAmI au c =
     (case au_TransportConfig au c of
        Inl err \<Rightarrow> Inl err
      | Inr tc \<Rightarrow>
          (case au_NewForConfig au c of
             Some err \<Rightarrow> Inl err
           | None \<Rightarrow>
               (case configuredToken au tc c of
                  Inl err \<Rightarrow> Inl err
                | Inr token \<Rightarrow>
                    (case providerToken au c token of
                       Inl err \<Rightarrow> Inl err
                     | Inr token' \<Rightarrow> accountName au tc c token'))))"

text \<open>The message of an API server that refuses a review, and a client with a token.\<close>

definition forbiddenMsg :: "string \<Rightarrow> string" where
  "forbiddenMsg user =
     ''tokenreviews is forbidden:'' @ '' User \"'' @ user @ ''\" cannot '' @ ''create resource \"tokenreviews\"''"

definition tokenClient :: "string \<Rightarrow> auth_env" where
  "tokenClient user =
     \<lparr>au_TransportConfig = Inr, au_NewForConfig = (\<lambda>_. None), au_ReadFile = (\<lambda>_. Inl (errNew ''no file'')),
      au_RulesReview = ('''', None), au_TokenReview = (\<lambda>_. Inl (StatusErr ''Forbidden'' (forbiddenMsg user)))\<rparr>"

definition tokenConfig :: rest_config where
  "tokenConfig = \<lparr>rc_Username = '''', rc_BearerToken = ''t'', rc_BearerTokenFile = '''', rc_CertData = '''',
     rc_CertFile = '''', rc_KeyData = '''', rc_KeyFile = '''', rc_AuthProvider = False, rc_ExecProvider = False\<rparr>"

section \<open>The name in a refusal\<close>

lemma splits_append: "\<exists>more. splits p (a @ s) = map (\<lambda>(x, y). (a @ x, y)) (splits p s) @ more"
proof (induction a)
  case (Cons c a)
  then obtain more where "splits p (a @ s) = map (\<lambda>(x, y). (a @ x, y)) (splits p s) @ more" by blast
  then show ?case by (auto simp: comp_def split_def)
qed auto

lemma splits_last:
  assumes "p \<noteq> []" and "splits p (tl (p @ s)) = []"
  shows "\<exists>more. splits p (a @ p @ s) = (a, s) # more"
proof -
  obtain c q where p: "p = c # q" using assms(1) by (cases p) auto
  with assms(2) have "splits p (p @ s) = [([], s)]" by (simp add: HasPrefix_iff)
  with splits_append [of p a "p @ s"] show ?thesis by auto
qed

text \<open>
  When the API server refuses to review the token of the operator, the operator takes
  its name from the refusal: from a message that says that a user cannot do something, in
  quotes and once, it is the name of that user, whatever the characters of the name and of
  the rest of the message.
\<close>

theorem username_from_refusal:
  assumes "au_TransportConfig au c = Inr tc" and "au_NewForConfig au c = None"
    and "HasTokenAuth tc" and "rc_BearerTokenFile c = ''''" and "rc_BearerToken c \<noteq> ''''"
    and "au_TokenReview au (rc_BearerToken c) = Inl (StatusErr ''Forbidden''
          (pre @ '' User \"'' @ name @ ''\" cannot '' @ post))"
    and "CHR 0x0A \<notin> set (pre @ name @ post)"
    and "splits '' User \"'' (tl ('' User \"'' @ name @ ''\" cannot '' @ post)) = []"
    and "splits ''\" cannot '' (tl (''\" cannot '' @ post)) = []"
  shows "WhoAmI au c = Inr name"
proof -
  obtain m1 where m1: "splits '' User \"'' (pre @ '' User \"'' @ name @ ''\" cannot '' @ post)
      = (pre, name @ ''\" cannot '' @ post) # m1"
    using splits_last [OF _ assms(8), of pre] by auto
  obtain m2 where m2: "splits ''\" cannot '' (name @ ''\" cannot '' @ post) = (name, post) # m2"
    using splits_last [OF _ assms(9), of name] by auto
  have "getUsernameFromError (pre @ '' User \"'' @ name @ ''\" cannot '' @ post) = name"
    using assms(7) m1 m2 by (simp add: getUsernameFromError_def)
  with assms(1-6) show ?thesis
    by (simp add: WhoAmI_def configuredToken_def providerToken_def accountName_def reviewToken_def)
qed

theorem username_from_refusal_witness:
  "WhoAmI (tokenClient ''system:serviceaccount:operators:sbo'') tokenConfig = Inr ''system:serviceaccount:operators:sbo''"
proof (rule username_from_refusal [where tc = tokenConfig and pre = "''tokenreviews is forbidden:''"
      and post = "''create resource \"tokenreviews\"''"])
  show "au_TokenReview (tokenClient ''system:serviceaccount:operators:sbo'') (rc_BearerToken tokenConfig)
    = Inl (StatusErr ''Forbidden'' (''tokenreviews is forbidden:'' @ '' User \"'' @ ''system:serviceaccount:operators:sbo''
        @ ''\" cannot '' @ ''create resource \"tokenreviews\"''))"
    by (simp add: tokenClient_def forbiddenMsg_def)
qed (code_simp+)

end
