(* ===== verification/Controller.thy ===== *)
theory Controller
  imports Pipeline WhoAmI
begin

text \<open>
  The controllers of service bindings: how their pipelines are built
  (\<open>builder/pipeline.go\<close>, \<open>controllers/binding\<close>, \<open>controllers/spec\<close>), which events reach them
  (\<open>SetupWithManager\<close> in \<open>controllers/common.go\<close> with \<open>predicate/predicate.go\<close> of the
  controller runtime), and what the runtime does with the result of a reconciliation
  (\<open>internal/controller/controller.go\<close>).

  A pipeline is the function \<open>Process\<close> of its provider and handlers. Metrics and logging are
  left out; the errors of the operator are none that the runtime regards as terminal.
\<close>

section \<open>Building pipelines\<close>

record 'w pipeline_builder =
  pb_ctxProvider :: "('w \<Rightarrow> sbinding \<Rightarrow> go_error + 'w ctx) option"
  pb_handlers :: "'w handler list"

definition Builder :: "'w pipeline_builder" where
  "Builder = \<lparr>pb_ctxProvider = None, pb_handlers = []\<rparr>"

definition WithContextProvider ::
  "('w \<Rightarrow> sbinding \<Rightarrow> go_error + 'w ctx) \<Rightarrow> 'w pipeline_builder \<Rightarrow> 'w pipeline_builder" where
  "WithContextProvider p b = b\<lparr>pb_ctxProvider := Some p\<rparr>"

definition WithHandlers :: "'w handler list \<Rightarrow> 'w pipeline_builder \<Rightarrow> 'w pipeline_builder" where
  "WithHandlers hs b = b\<lparr>pb_handlers := pb_handlers b @ hs\<rparr>"

text \<open>A pipeline; none without a provider, where the code panics when it is run.\<close>

definition pipeline_Build ::
  "'w env \<Rightarrow> 'w pipeline_builder \<Rightarrow> ('w \<Rightarrow> sbinding \<Rightarrow> 'w process_result) option" where
  "pipeline_Build e b = map_option (\<lambda>p. Process e p (pb_handlers b)) (pb_ctxProvider b)"

section \<open>Reconcilers\<close>

text \<open>
  What a reconciler asks of the libraries when it is set up: the two clients for a
  configuration, each of which may be refused.
\<close>

record clients =
  cl_NewDynamic :: "rest_config \<Rightarrow> go_error option"
  cl_NewAuthorization :: "rest_config \<Rightarrow> go_error option"

record 'w binding_reconciler =
  br_Resource :: gvr
  br_PipelineProvider :: "rest_config \<Rightarrow> go_error + ('w \<Rightarrow> sbinding \<Rightarrow> 'w process_result) option"
  br_pipeline :: "('w \<Rightarrow> sbinding \<Rightarrow> 'w process_result) option"

definition newPipeline ::
  "'w env \<Rightarrow> clients \<Rightarrow> 'w pipeline_builder \<Rightarrow> rest_config
     \<Rightarrow> go_error + ('w \<Rightarrow> sbinding \<Rightarrow> 'w process_result) option" where
  "newPipeline e cl b conf =
     (case cl_NewDynamic cl conf of
        Some err \<Rightarrow> Inl err
      | None \<Rightarrow>
          (case cl_NewAuthorization cl conf of
             Some err \<Rightarrow> Inl err
           | None \<Rightarrow> Inr (pipeline_Build e b)))"

definition binding_New :: "'w env \<Rightarrow> clients \<Rightarrow> 'w binding_reconciler" where
  "binding_New e cl =
     \<lparr>br_Resource = \<lparr>gvr_group = ''binding.operators.coreos.com'', gvr_version = ''v1alpha1'',
                     gvr_resource = ''servicebindings''\<rparr>,
      br_PipelineProvider = newPipeline e cl (WithContextProvider Provider (WithHandlers (defaultFlow e) Builder)),
      br_pipeline = None\<rparr>"

definition spec_New :: "'w env \<Rightarrow> clients \<Rightarrow> 'w binding_reconciler" where
  "spec_New e cl =
     \<lparr>br_Resource = \<lparr>gvr_group = ''servicebinding.io'', gvr_version = ''v1beta1'',
                     gvr_resource = ''servicebindings''\<rparr>,
      br_PipelineProvider = newPipeline e cl (WithContextProvider SpecProvider (WithHandlers (specFlow e) Builder)),
      br_pipeline = None\<rparr>"

section \<open>Events\<close>

text \<open>
  An event of a watched binding. Either object of an update may be missing. Annotations are
  compared as maps; no annotations and an empty map of annotations are not told apart.
\<close>

datatype binding_event =
    CreateEvent sbinding
  | UpdateEvent "sbinding option" "sbinding option"
  | DeleteEvent sbinding
  | GenericEvent sbinding

definition GenerationChangedPredicate :: "binding_event \<Rightarrow> bool" where
  "GenerationChangedPredicate ev =
     (case ev of
        UpdateEvent (Some old) (Some new) \<Rightarrow> om_Generation (sb_Meta new) \<noteq> om_Generation (sb_Meta old)
      | UpdateEvent _ _ \<Rightarrow> False
      | _ \<Rightarrow> True)"

definition AnnotationChangedPredicate :: "binding_event \<Rightarrow> bool" where
  "AnnotationChangedPredicate ev =
     (case ev of
        UpdateEvent (Some old) (Some new) \<Rightarrow> set (om_Annotations (sb_Meta new)) \<noteq> set (om_Annotations (sb_Meta old))
      | UpdateEvent _ _ \<Rightarrow> False
      | _ \<Rightarrow> True)"

fun predicate_Or :: "(binding_event \<Rightarrow> bool) list \<Rightarrow> binding_event \<Rightarrow> bool" where
  "predicate_Or [] ev = False"
| "predicate_Or (p # ps) ev = (if p ev then True else predicate_Or ps ev)"

text \<open>A controller; the requests of one without a pipeline panic.\<close>

record 'w controller =
  ct_For :: gvr
  ct_EventFilter :: "binding_event \<Rightarrow> bool"
  ct_MaxConcurrentReconciles :: int
  ct_Do :: "(string \<Rightarrow> string \<Rightarrow> 'w \<Rightarrow> reconcile_result \<times> go_error option \<times> 'w) option"

definition SetupWithManager ::
  "'w env \<Rightarrow> rest_config \<Rightarrow> int \<Rightarrow> 'w binding_reconciler \<Rightarrow> go_error + 'w controller" where
  "SetupWithManager e conf maxConcurrent r =
     (case br_PipelineProvider r conf of
        Inl err \<Rightarrow> Inl err
      | Inr pipeline \<Rightarrow>
          let r' = r\<lparr>br_pipeline := pipeline\<rparr> in
          Inr \<lparr>ct_For = br_Resource r',
               ct_EventFilter = predicate_Or [GenerationChangedPredicate, AnnotationChangedPredicate],
               ct_MaxConcurrentReconciles = maxConcurrent,
               ct_Do = map_option (Reconcile e (br_Resource r')) (br_pipeline r')\<rparr>)"

section \<open>The work queue\<close>

text \<open>What becomes of a request whose reconciliation returned a result or an error.\<close>

datatype requeue = AddRateLimited | AddAfter nat | Forget

definition reconcileHandler :: "reconcile_result \<Rightarrow> go_error option \<Rightarrow> requeue" where
  "reconcileHandler result err =
     (if err \<noteq> None then AddRateLimited
      else if rr_RequeueAfter result > 0 then AddAfter (rr_RequeueAfter result)
      else if rr_Requeue result then AddRateLimited
      else Forget)"

text \<open>
  The worker on the requests for one binding, while nothing else happens to it: the request
  is processed and comes back until it is forgotten. \<open>None\<close> is a worker that never
  gets there.
\<close>

partial_function (option) processWorkItems ::
  "('w \<Rightarrow> reconcile_result \<times> go_error option \<times> 'w) \<Rightarrow> 'w \<Rightarrow> 'w option" where
  "processWorkItems rec w =
     (case rec w of
        (result, err, w') \<Rightarrow>
          (case reconcileHandler result err of
             Forget \<Rightarrow> Some w'
           | _ \<Rightarrow> processWorkItems rec w'))"

section \<open>Pipelines and events\<close>

lemma newPipeline_DefaultBuilder:
  "br_PipelineProvider (binding_New e cl) conf = Inr p \<Longrightarrow> p = Some (DefaultBuilder e)"
  by (auto simp: binding_New_def newPipeline_def pipeline_Build_def WithContextProvider_def WithHandlers_def
      Builder_def DefaultBuilder_def fun_eq_iff split: option.splits)

lemma newPipeline_SpecBuilder:
  "br_PipelineProvider (spec_New e cl) conf = Inr p \<Longrightarrow> p = Some (SpecBuilder e)"
  by (auto simp: spec_New_def newPipeline_def pipeline_Build_def WithContextProvider_def WithHandlers_def
      Builder_def SpecBuilder_def fun_eq_iff split: option.splits)

lemma setup_controllers:
  "SetupWithManager e conf k (binding_New e cl) = Inr ct \<Longrightarrow>
     ct_Do ct = Some (Reconcile e (br_Resource (binding_New e cl)) (DefaultBuilder e))"
  "SetupWithManager e conf k (spec_New e cl) = Inr ct \<Longrightarrow>
     ct_Do ct = Some (Reconcile e (br_Resource (spec_New e cl)) (SpecBuilder e))"
  by (auto simp: SetupWithManager_def Let_def dest: newPipeline_DefaultBuilder newPipeline_SpecBuilder split: sum.splits)

lemma event_filter:
  "predicate_Or [GenerationChangedPredicate, AnnotationChangedPredicate] (UpdateEvent (Some old) (Some new)) \<longleftrightarrow>
     om_Generation (sb_Meta new) \<noteq> om_Generation (sb_Meta old)
     \<or> set (om_Annotations (sb_Meta new)) \<noteq> set (om_Annotations (sb_Meta old))"
  by (simp add: GenerationChangedPredicate_def AnnotationChangedPredicate_def)

lemma processWorkItems_forget:
  "rec w = (result, err, w') \<Longrightarrow> reconcileHandler result err = Forget \<Longrightarrow> processWorkItems rec w = Some w'"
  by (subst processWorkItems.simps) simp

lemma processWorkItems_again:
  "rec w = (result, err, w') \<Longrightarrow> reconcileHandler result err \<noteq> Forget \<Longrightarrow> processWorkItems rec w = processWorkItems rec w'"
  by (subst processWorkItems.simps) (auto split: requeue.splits)

end
