(* ===== verification/Invariants.thy ===== *)
theory Invariants
  imports Pipeline
begin

text \<open>
  What the handlers keep. A handler changes the context through a few primitive updates, so
  a property of contexts that every primitive keeps is kept by every handler, by both flows
  and by the run of the pipeline. The locale \<open>handler_inv\<close> states the primitives; it is
  interpreted for the conditions of the context, for the identity of the binding and for
  the delay of the next reconciliation here, and for the calls to the API server in the
  theory on access.
\<close>

section \<open>What is kept\<close>

text \<open>Conditions are stored under their type.\<close>

definition conditions_wf :: "'w ctx \<Rightarrow> bool" where
  "conditions_wf c = (distinct (map fst (cx_conditions c)) \<and> (\<forall>(t, cond) \<in> set (cx_conditions c). cn_Type cond = t))"

text \<open>
  The part of a binding that a reconciliation never changes: the specification and the
  metadata but for the annotation with the mapping.
\<close>

definition same_binding :: "sbinding \<Rightarrow> sbinding \<Rightarrow> bool" where
  "same_binding sb sb' =
     (sb_Spec sb' = sb_Spec sb \<and> sb_Kind sb' = sb_Kind sb \<and> sb_APIVersion sb' = sb_APIVersion sb
      \<and> om_Name (sb_Meta sb') = om_Name (sb_Meta sb) \<and> om_Namespace (sb_Meta sb') = om_Namespace (sb_Meta sb)
      \<and> om_UID (sb_Meta sb') = om_UID (sb_Meta sb) \<and> om_Finalizers (sb_Meta sb') = om_Finalizers (sb_Meta sb)
      \<and> om_Deleted (sb_Meta sb') = om_Deleted (sb_Meta sb)
      \<and> om_Generation (sb_Meta sb') = om_Generation (sb_Meta sb)
      \<and> om_ResourceVersion (sb_Meta sb') = om_ResourceVersion (sb_Meta sb)
      \<and> (\<forall>k. k \<noteq> MappingAnnotationKey \<longrightarrow>
            map_of (om_Annotations (sb_Meta sb')) k = map_of (om_Annotations (sb_Meta sb)) k))"

text \<open>No delay was asked for.\<close>

definition undelayed :: "'w ctx \<Rightarrow> bool" where
  "undelayed c = (cx_requeues c = 0 \<and> cx_delay c = 0)"

text \<open>A binding of the core API, on which the properties are applied.\<close>

definition shopBinding :: sbinding where
  "shopBinding =
     \<lparr>sb_Kind = ''ServiceBinding'', sb_APIVersion = ''binding.operators.coreos.com/v1alpha1'',
      sb_Meta = \<lparr>om_Name = ''shop-db'', om_Namespace = ''shop'', om_UID = ''u1'', om_Annotations = [],
        om_Finalizers = [], om_Deleted = False, om_Generation = 1,
        om_ResourceVersion = ''1''\<rparr>,
      sb_Spec = CoreSpec \<lparr>co_Name = '''', co_NamingStrategy = '''', co_Mappings = [],
        co_Services = [\<lparr>cs_Ref = \<lparr>ref_Group = ''db.io'', ref_Version = ''v1'', ref_Kind = ''Db'',
            ref_Resource = ''dbs'', ref_Name = ''db''\<rparr>, cs_Namespace = None, cs_Id = None\<rparr>],
        co_Application = \<lparr>ca_Ref = \<lparr>ref_Group = ''apps'', ref_Version = ''v1'', ref_Kind = ''Deployment'',
            ref_Resource = ''deployments'', ref_Name = ''web''\<rparr>, ca_LabelSelector = None, ca_BindingPath = None\<rparr>,
        co_DetectBindingResources = False, co_BindAsFiles = True\<rparr>,
      sb_Conditions = [], sb_SecretName = None, sb_ObservedGeneration = 0\<rparr>"

text \<open>A cluster without any object, in which every write succeeds.\<close>

definition emptyCluster :: "unit env" where
  "emptyCluster =
     \<lparr>env_jp = \<lparr>jp_Parse = (\<lambda>_. Inl (errNew ''no parser'')), jp_FindResults = (\<lambda>_ _. Inl (errNew ''no parser'')),
        jp_PrintResults = (\<lambda>_. Inl (errNew ''no parser''))\<rparr>,
      env_conv = nameConv,
      env_Get = (\<lambda>_ _ _ _. Inl (StatusErr ''NotFound'' '''')), env_List = (\<lambda>_ _ _ _. Inr []),
      env_Create = (\<lambda>_ _ _ w. (None, w)), env_Update = (\<lambda>_ _ _ w. (None, w)),
      env_UpdateStatus = (\<lambda>_ _ _ w. (None, w)), env_Version = (\<lambda>_ _ _ _. ''1''), env_Review = (\<lambda>_ _. Inr True),
      env_RESTMapping = (\<lambda>_. Inl (errNew ''no match'')), env_UnmarshalUser = (\<lambda>_. None),
      env_MarshalUser = ui_Username, env_UnmarshalMapping = (\<lambda>_. Inl (errNew ''no codec'')),
      env_MarshalMapping = mp_Name, env_MappingFrom = (\<lambda>_. Inl (errNew ''no codec'')),
      env_BindingTo = (\<lambda>_. Inr []), env_BindingFrom = (\<lambda>_. Inl (errNew ''no codec'')),
      env_registry = registryNew, env_HtmlTemplate = (\<lambda>_. Inl (errNew ''no template'')),
      env_TextTemplate = (\<lambda>_. Inl (errNew ''no template''))\<rparr>"

section \<open>The resource of an application stays\<close>

lemma editAt_gvr [simp]: "app_gvr (fst (editAt l f a)) = app_gvr a"
  by (simp add: editAt_def split: option.splits json.splits)

lemma andThen_gvr:
  "(\<And>a. app_gvr (fst (f a)) = app_gvr a) \<Longrightarrow> (\<And>x a. app_gvr (fst (g x a)) = app_gvr a) \<Longrightarrow>
     app_gvr (fst (andThen f g a)) = app_gvr a"
  by (auto simp: andThen_def split: prod.splits go.splits) (metis fst_conv)+

lemma forAll_gvr:
  "(\<And>x a. app_gvr (fst (f x a)) = app_gvr a) \<Longrightarrow> app_gvr (fst (forAll f xs a)) = app_gvr a"
  by (induction xs arbitrary: a) (auto intro: andThen_gvr)

lemma envApplication_gvr: "app_gvr (fst (envApplication conv asFiles s vars pods a)) = app_gvr a"
  by (auto simp: envApplication_def envContainer_def intro!: forAll_gvr andThen_gvr)

lemma fileApplication_gvr: "app_gvr (fst (fileApplication conv n s pods a)) = app_gvr a"
  by (auto simp: fileApplication_def fileContainer_def intro!: forAll_gvr andThen_gvr)

lemma unbindPods_gvr: "app_gvr (fst (unbindPods conv n s evs pods a)) = app_gvr a"
  by (auto simp: unbindPods_def unbindContainer_def intro!: forAll_gvr andThen_gvr)

section \<open>The primitives\<close>

locale collect_inv =
  fixes e :: "'w env" and Inv :: "'w ctx \<Rightarrow> bool"
  assumes inv_retry: "Inv c \<Longrightarrow> Inv (RetryProcessing r c)"
    and inv_error: "Inv c \<Longrightarrow> Inv (Error err c)"
    and inv_stop: "Inv c \<Longrightarrow> Inv (StopProcessing c)"
    and inv_condition: "Inv c \<Longrightarrow> Inv (SetCondition cond c)"
    and inv_items: "Inv c \<Longrightarrow> Inv (c\<lparr>cx_bindingItems := is\<rparr>)"
    and inv_bindings: "Inv c \<Longrightarrow> Inv (c\<lparr>cx_bindings := bs\<rparr>)"
    and inv_services: "Inv c \<Longrightarrow> Inv (c\<lparr>cx_services := ss\<rparr>)"
begin

lemmas inv_flow = inv_retry inv_error inv_stop inv_condition

lemma inv_AddBindingItem: "Inv c \<Longrightarrow> Inv (AddBindingItem i c)"
  by (simp add: AddBindingItem_def inv_items)

lemma inv_AddBindings: "Inv c \<Longrightarrow> Inv (AddBindings b c)"
  by (simp add: AddBindings_def inv_bindings)

lemma inv_AddService: "Inv c \<Longrightarrow> Inv (AddService s c)"
  by (simp add: AddService_def inv_services)

lemma inv_setService: "Inv c \<Longrightarrow> Inv (setService i s c)"
  by (simp add: setService_def inv_services)

lemma inv_loadBindings: "Inv c \<Longrightarrow> Inv (loadBindings c)"
  by (simp add: loadBindings_def inv_bindings)

lemma inv_requestRetry: "Inv c \<Longrightarrow> Inv (requestRetry reason err c)"
  by (simp add: requestRetry_def inv_flow)

lemma inv_stop_handler: "Inv c \<Longrightarrow> Inv (stop err c)"
  by (simp add: stop_def inv_flow)

lemma inv_forEach:
  "(\<And>x c. Inv c \<Longrightarrow> Inv (fst (body x c))) \<Longrightarrow> Inv c \<Longrightarrow> Inv (fst (forEach body xs c))"
proof (induction xs arbitrary: c)
  case (Cons x xs)
  obtain c' r where r: "body x c = (c', r)" by fastforce
  with Cons.prems(1) [OF Cons.prems(2), of x] have "Inv c'" by simp
  with Cons r show ?case by (cases r) auto
qed simp

lemma inv_finish: "Inv (fst r) \<Longrightarrow> Inv (fst (finish r))"
  by (simp add: finish_def)

lemma inv_fold: "(\<And>x c. Inv c \<Longrightarrow> Inv (f x c)) \<Longrightarrow> Inv c \<Longrightarrow> Inv (fold f xs c)"
  by (induction xs arbitrary: c) auto

subsection \<open>Services and binding data\<close>

lemma inv_coreServices: "Inv c \<Longrightarrow> Inv (fst (coreServices e rs c))"
  by (induction e rs c rule: coreServices.induct)
    (auto simp: Let_def inv_AddService split: sum.splits)

lemma inv_Services: "Inv c \<Longrightarrow> Inv (fst (Services e c))"
  by (auto simp: Services_def specServices_def Let_def inv_coreServices inv_AddService
      split: binding_spec.splits sum.splits)

lemma inv_services_handler: "Inv c \<Longrightarrow> Inv (fst (services e c))"
  using inv_Services [of c] by (auto simp: services_def split: prod.splits option.splits)

lemma inv_bindingItemMap: "Inv c \<Longrightarrow> Inv (fst (bindingItemMap c))"
  by (simp add: bindingItemMap_def Let_def inv_loadBindings)

lemma inv_BindingItems: "Inv c \<Longrightarrow> Inv (fst (BindingItems c))"
  by (simp add: BindingItems_def inv_loadBindings)

lemma inv_bindingSecretName: "Inv c \<Longrightarrow> Inv (fst (bindingSecretName c))"
  using inv_bindingItemMap [of c]
  by (auto simp: bindingSecretName_def split: prod.splits list.splits option.splits)

lemma inv_BindingSecretName: "Inv c \<Longrightarrow> Inv (fst (BindingSecretName c))"
  using inv_bindingSecretName [of c] by (auto simp: BindingSecretName_def split: prod.splits)

subsection \<open>Collecting handlers\<close>

lemma inv_PreFlight: "Inv c \<Longrightarrow> Inv (fst (PreFlight e c))"
  using inv_Services [of c] by (auto simp: PreFlight_def inv_requestRetry split: prod.splits option.splits)

lemma inv_addDefinition: "Inv c \<Longrightarrow> Inv (addDefinition i kv c)"
  by (auto simp: addDefinition_def inv_flow inv_setService split: prod.splits sum.splits option.splits)

lemma inv_serviceDefinitions: "Inv c \<Longrightarrow> Inv (fst (serviceDefinitions e i c))"
  by (auto simp: serviceDefinitions_def inv_requestRetry inv_setService
      intro!: inv_fold inv_addDefinition split: prod.splits sum.splits option.splits go.splits)

lemma inv_BindingDefinitions: "Inv c \<Longrightarrow> Inv (fst (BindingDefinitions e c))"
  using inv_services_handler [of c]
  by (auto simp: BindingDefinitions_def intro!: inv_finish inv_forEach inv_serviceDefinitions split: prod.splits)

lemma inv_collect:
  shows inv_collectItems: "Inv c \<Longrightarrow> Inv (fst (collectItems i p k v c))"
    and inv_collectFields: "Inv c \<Longrightarrow> Inv (fst (collectFields i p k m c))"
proof (induction i p k v c and i p k m c rule: collectItems_collectFields.induct)
  case (10 i prefix k n v m c)
  show ?case
  proof (cases "v = JNull")
    case True
    then show ?thesis using 10 by (simp add: inv_flow)
  next
    case False
    define p where "p = (if prefix @ k @ ''_'' = ''_'' then '''' else prefix @ k @ ''_'')"
    obtain c' r where r: "collectItems i p n v c = (c', r)" by fastforce
    with 10 False have "Inv c'" by (simp add: p_def)
    with 10(2) [OF False r [unfolded p_def, symmetric]] False r show ?thesis
      by (cases r) (auto simp: p_def)
  qed
qed (auto intro!: inv_fold inv_AddBindingItem)

lemma inv_collectDefinition: "Inv c \<Longrightarrow> Inv (fst (collectDefinition e i bd c))"
  by (auto simp: collectDefinition_def inv_requestRetry intro!: inv_forEach inv_collectItems
      split: go.splits json.splits prod.splits)

lemma inv_BindingItemsHandler: "Inv c \<Longrightarrow> Inv (fst (BindingItemsHandler e c))"
  using inv_services_handler [of c]
  by (auto simp: BindingItemsHandler_def intro!: inv_finish inv_forEach inv_collectDefinition split: prod.splits)

lemma inv_provisioned: "Inv c \<Longrightarrow> Inv (fst (provisioned e i c))"
  by (auto simp: provisioned_def Let_def inv_requestRetry inv_setService inv_AddBindings
      split: sum.splits option.splits prod.splits go.splits)

lemma inv_ProvisionedService: "Inv c \<Longrightarrow> Inv (fst (ProvisionedService e c))"
  using inv_services_handler [of c]
  by (auto simp: ProvisionedService_def intro!: inv_finish inv_forEach inv_provisioned split: prod.splits)

lemma inv_directSecret: "Inv c \<Longrightarrow> Inv (fst (directSecret e i c))"
  by (auto simp: directSecret_def Let_def inv_requestRetry inv_AddBindings
      split: sum.splits option.splits)

lemma inv_DirectSecretReference: "Inv c \<Longrightarrow> Inv (fst (DirectSecretReference e c))"
  using inv_services_handler [of c]
  by (auto simp: DirectSecretReference_def intro!: inv_finish inv_forEach inv_directSecret split: prod.splits)

lemma inv_collectOwned: "Inv c \<Longrightarrow> Inv (fst (collectOwned i res c))"
  by (auto simp: collectOwned_def inv_requestRetry inv_collectItems
      split: sum.splits option.splits prod.splits)

lemma inv_OwnedResources: "Inv c \<Longrightarrow> Inv (fst (OwnedResources e c))"
  using inv_Services [of c]
  by (auto simp: OwnedResources_def inv_requestRetry intro!: inv_finish inv_forEach inv_collectOwned
      split: prod.splits option.splits sum.splits)

lemma inv_renderMapping: "Inv c \<Longrightarrow> Inv (fst (renderMapping e vars kv c))"
  by (auto simp: renderMapping_def inv_flow inv_AddBindingItem split: sum.splits)

lemma inv_MappingHandle: "Inv c \<Longrightarrow> Inv (fst (MappingHandle e c))"
proof -
  assume c: "Inv c"
  obtain c1 its where 1: "BindingItems c = (c1, its)" by fastforce
  obtain c2 ks where 2: "services e c1 = (c2, ks)" by fastforce
  have "Inv c1" using inv_BindingItems [OF c] 1 by simp
  from inv_services_handler [OF this] have "Inv c2" using 2 by simp
  then show ?thesis
    by (auto simp: MappingHandle_def 1 2 intro!: inv_finish inv_forEach inv_renderMapping)
qed

lemma inv_NamingHandle: "Inv c \<Longrightarrow> Inv (fst (NamingHandle e c))"
proof -
  assume c: "Inv c"
  have "Inv (namingStop err c')" if "Inv c'" for err and c' using that by (simp add: namingStop_def inv_flow)
  then show ?thesis using c inv_bindings [OF c] inv_items [OF inv_bindings [OF c]]
    by (auto simp: NamingHandle_def split: prod.splits option.splits)
qed

lemmas inv_collectors = inv_PreFlight inv_ProvisionedService inv_DirectSecretReference
  inv_BindingDefinitions inv_BindingItemsHandler inv_OwnedResources inv_MappingHandle inv_NamingHandle

lemma inv_invokeHandler:
  "(\<And>c. Inv c \<Longrightarrow> Inv (fst (h c))) \<Longrightarrow> Inv c \<Longrightarrow> Inv (invokeHandler h c)"
proof -
  assume h: "\<And>c. Inv c \<Longrightarrow> Inv (fst (h c))" and "Inv c"
  obtain c' r where r: "h c = (c', r)" by fastforce
  with h [OF \<open>Inv c\<close>] have "Inv c'" by simp
  with r show ?thesis by (cases r) (simp_all add: invokeHandler_def inv_retry)
qed

lemma inv_runHandlers:
  "(\<And>h c. h \<in> set hs \<Longrightarrow> Inv c \<Longrightarrow> Inv (fst (h c))) \<Longrightarrow> Inv c \<Longrightarrow> Inv (fst (runHandlers hs st c))"
proof (induction hs arbitrary: st c)
  case (Cons h hs)
  have "Inv (invokeHandler h c)" using Cons.prems by (intro inv_invokeHandler) auto
  with Cons show ?case by (auto simp: Let_def)
qed simp

end

text \<open>
  The other handlers also find and edit applications, write the secret, and clean and
  persist the binding.
\<close>

locale handler_inv = collect_inv +
  assumes inv_add_application:
      "Inv c \<Longrightarrow> canPerform e c (app_gvr a) name (om_Namespace (cx_Meta c)) ''update'' \<Longrightarrow> Inv (AddApplication a c)"
    and inv_set_application:
      "Inv c \<Longrightarrow> app_gvr a = app_gvr (cx_applications c ! i) \<Longrightarrow> Inv (setApplication i a c)"
    and inv_secret_name: "Inv c \<Longrightarrow> Inv (setStatusSecretName n c)"
    and inv_annotations: "Inv c \<Longrightarrow> Inv (fst (CleanAnnotations c))"
    and inv_create_secret:
      "Inv c \<Longrightarrow> env_Create e (coreGVR ''secrets'') (om_Namespace (cx_Meta c)) u (world c) = (r, w) \<Longrightarrow> Inv (c\<lparr>world := w\<rparr>)"
    and inv_update_secret:
      "Inv c \<Longrightarrow> env_Update e (coreGVR ''secrets'') (om_Namespace (cx_Meta c)) u (world c) = (r, w) \<Longrightarrow> Inv (c\<lparr>world := w\<rparr>)"
    and inv_persist: "Inv c \<Longrightarrow> Inv (fst (persistBinding e c))"
begin

subsection \<open>Applications and the secret\<close>

lemma inv_labelledItems:
  "(\<And>u. app_gvr (mk u) = gvr) \<Longrightarrow> Inv c \<Longrightarrow> Inv (fst (labelledItems e gvr mk us c))"
  by (induction us arbitrary: c) (auto simp: Let_def inv_add_application)

lemma inv_labelledApplications:
  "(\<And>u. app_gvr (mk u) = gvr) \<Longrightarrow> Inv c \<Longrightarrow> Inv (fst (labelledApplications e gvr sel mk c))"
  by (auto simp: labelledApplications_def Let_def inv_labelledItems split: option.splits sum.splits)

lemma inv_namedApplication:
  "(\<And>u. app_gvr (mk u) = gvr) \<Longrightarrow> Inv c \<Longrightarrow> Inv (fst (namedApplication e gvr name mk c))"
  by (auto simp: namedApplication_def Let_def intro: inv_add_application split: sum.splits)

lemma inv_findApplications:
  assumes "\<And>r m u. app_gvr (mk r m u) = r" and "Inv c"
  shows "Inv (fst (findApplications e gvr path name sel mk c))"
proof -
  have "Inv (fst (case namedApplication e r name (mk r m) c of
      (c', Some err) \<Rightarrow> (c', Some err)
    | (c', None) \<Rightarrow> labelledApplications e r sel (mk r m) c'))" for r m
    using inv_namedApplication [of "mk r m" r c name] assms
    by (auto intro: inv_labelledApplications split: prod.splits option.splits)
  with assms(2) show ?thesis by (simp add: findApplications_def split: sum.splits)
qed

lemma inv_Applications: "Inv c \<Longrightarrow> Inv (fst (Applications e c))"
  by (auto simp: Applications_def coreApplications_def specApplications_def inv_findApplications
      split: binding_spec.splits)

lemma inv_applications_handler: "Inv c \<Longrightarrow> Inv (fst (applications e c))"
  using inv_Applications [of c] by (auto simp: applications_def split: prod.splits option.splits)

lemma inv_persistSecret: "Inv c \<Longrightarrow> Inv (fst (persistSecret e c))"
proof -
  assume c: "Inv c"
  obtain c1 name b where 1: "bindingSecretName c = (c1, name, b)" by (metis prod_cases3)
  obtain c2 data where 2: "bindingItemMap c1 = (c2, data)" by fastforce
  have "Inv c1" using inv_bindingSecretName [OF c] 1 by simp
  moreover from inv_bindingItemMap [OF this] have "Inv c2" using 2 by simp
  ultimately show ?thesis
    by (auto simp: persistSecret_def 1 2 Let_def intro: inv_create_secret inv_update_secret
        split: bool.splits sum.splits prod.splits)
qed

lemma inv_PersistSecret: "Inv c \<Longrightarrow> Inv (fst (PersistSecret e c))"
  using inv_persistSecret [of c]
  by (auto simp: PersistSecret_def inv_persist inv_condition inv_secret_name
      split: prod.splits option.splits)

subsection \<open>Projecting handlers\<close>

lemma inv_PreFlightCheck: "Inv c \<Longrightarrow> Inv (fst (PreFlightCheck e keys c))"
proof -
  assume c: "Inv c"
  obtain c1 r where 1: "PersistSecret e c = (c1, r)" by fastforce
  have i1: "Inv c1" using inv_PersistSecret [OF c] 1 by simp
  define c1' where "c1' = SetCondition (withDataCollected (withCollectionReady Conditions)) c1"
  have "Inv c1'" using i1 by (simp add: c1'_def inv_condition)
  obtain c2 r2 where 2: "Applications e c1' = (c2, r2)" by fastforce
  have i2: "Inv c2" using inv_Applications [OF \<open>Inv c1'\<close>] 2 by simp
  obtain c3 its where 3: "BindingItems c2 = (c3, its)" by fastforce
  have "Inv c3" using inv_BindingItems [OF i2] 3 by simp
  with i1 i2 2 3 show ?thesis
    by (auto simp: PreFlightCheck_def 1 c1'_def [symmetric] Let_def inv_flow split: option.splits)
qed

lemma inv_injectSecretRef: "Inv c \<Longrightarrow> Inv (fst (injectSecretRef i c))"
proof -
  assume c: "Inv c"
  let ?a = "cx_applications c ! i"
  obtain c1 name where 1: "BindingSecretName (setApplication i (Resource ?a) c) = (c1, name)" by fastforce
  have "Inv (setApplication i (Resource ?a) c)" using c by (intro inv_set_application) (auto simp: Resource_def)
  from inv_BindingSecretName [OF this] 1 have i1: "Inv c1" by simp
  have same: "cx_applications (fst (BindingSecretName x)) = cx_applications x" for x :: "'w ctx"
    by (auto simp: BindingSecretName_def bindingSecretName_def bindingItemMap_def loadBindings_def Let_def
        split: prod.splits list.splits option.splits)
  have "app_gvr (cx_applications c1 ! i) = app_gvr ?a"
    using same [of "setApplication i (Resource ?a) c"] 1
    by (cases "i < length (cx_applications c)")
      (auto simp: setApplication_def Resource_def list_update_beyond)
  with i1 c show ?thesis
    by (auto simp: injectSecretRef_def Let_def 1 inv_stop_handler
        intro!: inv_set_application split: go.splits)
qed

lemma inv_InjectSecretRef: "Inv c \<Longrightarrow> Inv (fst (InjectSecretRef e c))"
  using inv_applications_handler [of c]
  by (auto simp: InjectSecretRef_def intro!: inv_finish inv_forEach inv_injectSecretRef split: prod.splits)

lemma inv_settle:
  assumes "Inv c" and "app_gvr (fst r) = app_gvr (cx_applications c ! i)"
  shows "Inv (fst (settle i r c))"
proof -
  have "Inv (setApplication i (fst r) c)" using assms by (rule inv_set_application)
  then show ?thesis by (auto simp: settle_def inv_stop_handler split: prod.splits go.splits)
qed

lemma inv_withPods:
  assumes "Inv c" and "\<And>pods a. app_gvr (fst (f pods a)) = app_gvr a"
  shows "Inv (fst (withPods e f i c))"
proof -
  let ?a = "cx_applications c ! i"
  have "Inv (setApplication i (Resource ?a) c)" using assms(1) by (intro inv_set_application) (auto simp: Resource_def)
  moreover have "Inv (fst (settle i (f pods (Resource ?a)) c))" for pods
    using assms by (intro inv_settle) (auto simp: Resource_def)
  ultimately show ?thesis
    by (auto simp: withPods_def BindablePods_def inv_stop_handler split: go.splits)
qed

lemma inv_BindingsAsEnv: "Inv c \<Longrightarrow> Inv (fst (BindingsAsEnv e c))"
proof -
  assume c: "Inv c"
  obtain c1 s where 1: "BindingSecretName c = (c1, s)" by fastforce
  obtain c2 ns where 2: "applications e c1 = (c2, ns)" by fastforce
  have "Inv c1" using inv_BindingSecretName [OF c] 1 by simp
  from inv_applications_handler [OF this] have "Inv c2" using 2 by simp
  with c show ?thesis
    by (auto simp: BindingsAsEnv_def 1 2 intro!: inv_finish inv_forEach inv_withPods envApplication_gvr)
qed

lemma inv_BindingsAsFiles: "Inv c \<Longrightarrow> Inv (fst (BindingsAsFiles e c))"
proof -
  assume c: "Inv c"
  obtain c1 s where 1: "BindingSecretName c = (c1, s)" by fastforce
  obtain c2 ns where 2: "applications e c1 = (c2, ns)" by fastforce
  have "Inv c1" using inv_BindingSecretName [OF c] 1 by simp
  from inv_applications_handler [OF this] have "Inv c2" using 2 by simp
  with c show ?thesis
    by (auto simp: BindingsAsFiles_def 1 2 intro!: inv_finish inv_forEach inv_withPods fileApplication_gvr)
qed

lemma inv_unbindApplication: "Inv c \<Longrightarrow> Inv (fst (unbindApplication e n s evs i c))"
proof -
  assume c: "Inv c"
  let ?a = "cx_applications c ! i"
  have "Inv (setApplication i (Resource ?a) c)" using c by (intro inv_set_application) (auto simp: Resource_def)
  moreover have "Inv (fst (settle i (unbindPods (env_conv e) n s evs pods (Resource ?a)) c))" for pods
    using c by (intro inv_settle) (auto simp: unbindPods_gvr Resource_def)
  ultimately show ?thesis
    by (auto simp: unbindApplication_def BindablePods_def split: go.splits)
qed

lemma inv_Unbind: "Inv c \<Longrightarrow> Inv (fst (Unbind e c))"
proof -
  assume c: "Inv c"
  obtain c1 r where 1: "Applications e c = (c1, r)" by fastforce
  obtain c2 s where 2: "BindingSecretName c1 = (c2, s)" by fastforce
  have i1: "Inv c1" using inv_Applications [OF c] 1 by simp
  from inv_BindingSecretName [OF this] have i2: "Inv c2" using 2 by simp
  obtain c3 f where 3: "forEach (unbindApplication e (BindingName c2) s (EnvBindings c2))
      [0..<length (cx_applications c2)] c2 = (c3, f)" by fastforce
  have "Inv (fst (forEach (unbindApplication e (BindingName c2) s (EnvBindings c2))
      [0..<length (cx_applications c2)] c2))"
    using i2 by (intro inv_forEach inv_unbindApplication)
  then have i3: "Inv c3" by (simp add: 3)
  have "Inv (fst (case CleanAnnotations c3 of
      (c4, True) \<Rightarrow> (RetryProcessing None c4, None) | (c4, False) \<Rightarrow> (StopProcessing c4, None)))"
    using inv_annotations [OF i3] by (auto simp: inv_flow split: prod.splits bool.splits)
  with i3 have "Inv (fst (case (c3, f) of
      (c3, Continue) \<Rightarrow>
        (case CleanAnnotations c3 of
           (c4, True) \<Rightarrow> (RetryProcessing None c4, None)
         | (c4, False) \<Rightarrow> (StopProcessing c4, None))
    | r \<Rightarrow> finish r))"
    by (cases f) (simp_all add: inv_finish)
  with c i1 i2 show ?thesis
    by (cases r) (simp_all add: Unbind_def 1 2 3 inv_stop)
qed

subsection \<open>Flows\<close>

lemmas inv_handlers = inv_Unbind inv_collectors inv_PreFlightCheck inv_InjectSecretRef inv_BindingsAsEnv inv_BindingsAsFiles

lemma inv_before_PostFlight:
  assumes "Inv c"
  shows "Inv (fst (runHandlers (butlast (defaultFlow e)) st c))"
    and "Inv (fst (runHandlers (butlast (specFlow e)) st c))"
  using assms by (auto simp: defaultFlow_def specFlow_def simp del: runHandlers.simps
      intro!: inv_runHandlers inv_handlers)

end

text \<open>
  The last handler may delay the next reconciliation, and closing the context updates the
  applications.
\<close>

locale flow_inv = handler_inv +
  assumes inv_delay: "Inv c \<Longrightarrow> Inv (DelayReprocessing r c)"
    and inv_update_application:
      "Inv c \<Longrightarrow> a \<in> set (cx_applications c) \<Longrightarrow>
         env_Update e (app_gvr a) (om_Namespace (cx_Meta c)) u (world c) = (r', w) \<Longrightarrow> Inv (c\<lparr>world := w\<rparr>)"
begin

lemma inv_PostFlightCheck: "Inv c \<Longrightarrow> Inv (fst (PostFlightCheck c))"
  by (simp add: PostFlightCheck_def Let_def inv_delay inv_condition)

lemma inv_flows:
  assumes "Inv c"
  shows "Inv (fst (runHandlers (defaultFlow e) st c))" and "Inv (fst (runHandlers (specFlow e) st c))"
  using assms by (auto simp: defaultFlow_def specFlow_def simp del: runHandlers.simps
      intro!: inv_runHandlers inv_handlers inv_PostFlightCheck)

lemma inv_updateApplications:
  "set as \<subseteq> set (cx_applications c) \<Longrightarrow> Inv c \<Longrightarrow> Inv (fst (updateApplications e as c))"
proof (induction as arbitrary: c)
  case (Cons a as)
  obtain r w where w: "env_Update e (app_gvr a) (om_Namespace (cx_Meta c))
      (fields_of (normalize (JObj (resourceOf a)))) (world c) = (r, w)" by fastforce
  with Cons.prems have "Inv (c\<lparr>world := w\<rparr>)" by (auto intro: inv_update_application)
  with Cons w show ?case by (cases r) auto
qed simp

lemma inv_Close: "Inv c \<Longrightarrow> Inv (fst (Close e c))"
proof -
  assume c: "Inv c"
  obtain c1 r where 1: "updateApplications e (cx_applications c) c = (c1, r)" by fastforce
  have "Inv c1" using inv_updateApplications [OF order.refl c] 1 by simp
  with c 1 show ?thesis
    by (simp add: Close_def inv_persist inv_condition split: option.splits)
qed

lemma inv_Process:
  assumes "provider w sb = Inr c" and "Inv c" and "Inv (fst (runHandlers hs noStatus c))"
  obtains c' where "Inv c'" "pr_world (Process e provider hs w sb) = world c'"
    "pr_sb (Process e provider hs w sb) = cx_sb c'"
proof -
  obtain c1 st where 1: "runHandlers hs noStatus c = (c1, st)" by fastforce
  obtain c2 r where 2: "Close e c1 = (c2, r)" by fastforce
  have "Inv c2" using inv_Close [of c1] assms(3) 1 2 by simp
  with 1 2 assms(1) show thesis by (intro that [of c2]) (auto simp: Process_def split: option.splits)
qed

end

section \<open>Conditions and the binding\<close>

lemmas update_defs = RetryProcessing_def Error_def StopProcessing_def SetCondition_def AddApplication_def
  setApplication_def setStatusSecretName_def CleanAnnotations_def DelayReprocessing_def
  RetryProcessingWithDelay_def

lemma conditions_wf_set: "conditions_wf c \<Longrightarrow> conditions_wf (SetCondition cond c)"
proof -
  have "p \<in> set (AList.update k v xs) \<Longrightarrow> p = (k, v) \<or> p \<in> set xs" for p k v and xs :: "(string \<times> condition) list"
    by (induction xs) (auto split: if_splits)
  then show "conditions_wf c \<Longrightarrow> conditions_wf (SetCondition cond c)"
    by (fastforce simp: conditions_wf_def SetCondition_def distinct_update)
qed

lemma persistBinding_fields:
  "cx_conditions (fst (persistBinding e c)) = cx_conditions c"
  "cx_requeues (fst (persistBinding e c)) = cx_requeues c"
  "cx_delay (fst (persistBinding e c)) = cx_delay c"
  "cx_applications (fst (persistBinding e c)) = cx_applications c"
  by (auto simp: persistBinding_def Let_def split: sum.splits prod.splits option.splits)

lemma persistBinding_same: "same_binding sb (cx_sb c) \<Longrightarrow> same_binding sb (cx_sb (fst (persistBinding e c)))"
  by (auto simp: persistBinding_def same_binding_def statusWith_def Let_def
      split: sum.splits prod.splits option.splits)

interpretation conds: flow_inv e conditions_wf
  for e
  by unfold_locales
    (simp_all add: conditions_wf_set, auto simp: conditions_wf_def update_defs persistBinding_fields)

interpretation identity: flow_inv e "\<lambda>c. same_binding sb (cx_sb c)"
  for e sb
  by unfold_locales
    (simp_all add: persistBinding_same, auto simp: update_defs same_binding_def delete_conv')

interpretation delay: handler_inv e undelayed
  for e
  by unfold_locales (auto simp: undelayed_def update_defs persistBinding_fields)

section \<open>Properties of the pipeline\<close>

lemma runHandlers_status: "hs \<noteq> [] \<Longrightarrow> snd (runHandlers hs st c) = FlowStatus (fst (runHandlers hs st c))"
  by (induction hs arbitrary: st c) (auto simp: Let_def, metis runHandlers.simps(1) snd_conv fst_conv)

lemma runHandlers_append:
  "\<not> fs_Stop st \<Longrightarrow> runHandlers (hs @ hs') st c =
     (case runHandlers hs st c of (c1, st1) \<Rightarrow> if fs_Stop st1 then (c1, st1) else runHandlers hs' st1 c1)"
  by (induction hs arbitrary: st c) (auto simp: Let_def)

lemma noStatus_runs [simp]: "\<not> fs_Stop noStatus"
  by (simp add: noStatus_def)

lemma provider_context:
  assumes "provider = Provider \<or> provider = SpecProvider" and "provider w sb = Inr c"
  shows "conditions_wf c" "same_binding sb (cx_sb c)" "undelayed c" "cx_applications c = []" "world c = w"
proof -
  have AddBindingItem_simps: "cx_conditions (fold AddBindingItem is c) = cx_conditions c"
    "cx_sb (fold AddBindingItem is c) = cx_sb c" "cx_requeues (fold AddBindingItem is c) = cx_requeues c"
    "cx_delay (fold AddBindingItem is c) = cx_delay c" "cx_applications (fold AddBindingItem is c) = cx_applications c"
    "world (fold AddBindingItem is c) = world c" for "is" and c :: "'a ctx"
    by (induction "is" arbitrary: c) (auto simp: AddBindingItem_def)
  show "conditions_wf c" "same_binding sb (cx_sb c)" "undelayed c" "cx_applications c = []" "world c = w"
    using assms
    by (auto simp: Provider_def SpecProvider_def newContext_def conditions_wf_def same_binding_def undelayed_def
        AddBindingItem_simps Let_def split: binding_spec.splits if_splits)
qed

text \<open>
  A handler that stops the processing is the last one that runs: the handlers after it
  have no effect on the context or on the status, whatever they are.
\<close>

theorem stopped_flow:
  assumes "fs_Stop (snd (runHandlers hs noStatus c))"
  shows "runHandlers (hs @ hs') noStatus c = runHandlers hs noStatus c"
  using assms by (cases "runHandlers hs noStatus c") (simp add: runHandlers_append)

theorem stopped_flow_witness:
  "runHandlers ([\<lambda>c. (StopProcessing c, None)] @ [\<lambda>c. (c, Some ''later'')]) noStatus (newContext () shopBinding False)
     = runHandlers [\<lambda>c. (StopProcessing c, None)] noStatus (newContext () shopBinding False)"
  by (rule stopped_flow) (simp add: Let_def invokeHandler_def FlowStatus_def StopProcessing_def)

text \<open>
  C26: A panic in a handler does not escape: where the handlers before it did not stop, it
  ends the run with a request to retry at once and an error that carries the value of the
  panic, and no later handler runs.
\<close>

theorem panic_retries:
  assumes "runHandlers hs noStatus c = (d, st)" and "\<not> fs_Stop st" and "h d = (d', Some s)"
  shows "runHandlers (hs @ h # hs') noStatus c =
    (RetryProcessing (Some (Errorf ''panic occurred: %v'' [JStr s])) d',
     \<lparr>fs_Retry = True, fs_Stop = True, fs_Err = Some (Errorf ''panic occurred: %v'' [JStr s]), fs_Delay = 0\<rparr>)"
  using assms by (simp add: runHandlers_append Let_def invokeHandler_def FlowStatus_def RetryProcessing_def)

theorem panic_retries_witness:
  "runHandlers ([PostFlightCheck] @ (\<lambda>c. (c, Some ''nil'')) # [PostFlightCheck]) noStatus (newContext () shopBinding False) =
    (RetryProcessing (Some (Errorf ''panic occurred: %v'' [JStr ''nil'']))
       (fst (runHandlers [PostFlightCheck] noStatus (newContext () shopBinding False))),
     \<lparr>fs_Retry = True, fs_Stop = True, fs_Err = Some (Errorf ''panic occurred: %v'' [JStr ''nil'']), fs_Delay = 0\<rparr>)"
proof -
  let ?r = "runHandlers [PostFlightCheck] noStatus (newContext () shopBinding False)"
  have "\<not> fs_Stop (snd ?r)"
    by (simp add: Let_def invokeHandler_def FlowStatus_def PostFlightCheck_def HasLabelSelector_def bindingImpl_HasLabelSelector_def newContext_def
        SetCondition_def shopBinding_def)
  then show ?thesis by (intro panic_retries [where st = "snd ?r"]) simp_all
qed

text \<open>
  C25: A reconciliation never changes what the user wrote: after the run of either flow the
  binding has the same specification, name, namespace, UID, finalizers, deletion mark,
  generation and version, and the same annotations but for the one that holds a mapping.
\<close>

theorem pipeline_keeps_binding:
  "same_binding sb (pr_sb (DefaultBuilder e w sb)) \<and> same_binding sb (pr_sb (SpecBuilder e w sb))"
proof -
  have none: "same_binding sb (pr_sb (Process e provider hs w sb))" if "provider w sb = Inl err"
    for provider hs err using that by (simp add: Process_def same_binding_def)
  have flow: "same_binding sb (pr_sb (Process e provider hs w sb))"
    if "provider = Provider \<or> provider = SpecProvider" "hs = defaultFlow e \<or> hs = specFlow e" for provider hs
  proof (cases "provider w sb")
    case (Inr c)
    from provider_context(2) [OF that(1) Inr] have c: "same_binding sb (cx_sb c)" .
    with that(2) have "same_binding sb (cx_sb (fst (runHandlers hs noStatus c)))" by (auto intro: identity.inv_flows)
    with Inr c show ?thesis by (rule identity.inv_Process [where e = e]) simp
  qed (simp add: none)
  then show ?thesis by (simp add: DefaultBuilder_def SpecBuilder_def)
qed

lemma Find_foldl_SetStatus:
  "distinct (map fst conds) \<Longrightarrow> \<forall>(t, cond) \<in> set conds. cn_Type cond = t \<Longrightarrow>
   (case FindStatusCondition (foldl (\<lambda>cs (t, cond). SetStatusCondition cs cond) cs conds) t of
      None \<Rightarrow> map_of conds t = None | Some c \<Rightarrow> (\<forall>cond. map_of conds t = Some cond \<longrightarrow> cn_Status c = cn_Status cond))"
proof (induction conds arbitrary: cs)
  case (Cons p conds)
  obtain t' cond where p: "p = (t', cond)" by fastforce
  have keep: "\<lbrakk>FindStatusCondition cs t = Some c; map_of conds t = None; \<forall>(t, cond) \<in> set conds. cn_Type cond = t\<rbrakk> \<Longrightarrow>
      FindStatusCondition (foldl (\<lambda>cs (t, cond). SetStatusCondition cs cond) cs conds) t = Some c"
    for cs c and conds :: "(string \<times> condition) list"
    by (induction conds arbitrary: cs) (auto simp: Find_SetStatusCondition split: if_splits)
  show ?case
  proof (cases "t = t'")
    case True
    with Cons.prems p have "map_of conds t = None" by (auto simp: map_of_eq_None_iff)
    moreover have "\<exists>c. FindStatusCondition (SetStatusCondition cs cond) t = Some c \<and> cn_Status c = cn_Status cond"
      using Cons.prems p True by (auto simp: Find_SetStatusCondition)
    ultimately show ?thesis using keep [of "SetStatusCondition cs cond" _ conds] Cons.prems p True by fastforce
  next
    case False
    then have eq: "map_of (p # conds) t = map_of conds t" using p by simp
    show ?thesis unfolding eq using Cons.IH [of "SetStatusCondition cs cond"] Cons.prems p by simp
  qed
qed (auto split: option.splits)

lemma persistBinding_condition:
  assumes "conditions_wf c" and "om_UID (cx_Meta c) \<noteq> ''''" and "map_of (cx_conditions c) t = Some cond"
  shows "IsStatusConditionTrue (sb_Conditions (cx_sb (fst (persistBinding e c)))) t \<longleftrightarrow> cn_Status cond = ConditionTrue"
proof -
  have "cx_sb (fst (persistBinding e c)) = statusWith (cx_conditions c) (cx_sb c)"
    using assms(2) by (auto simp: persistBinding_def Let_def split: sum.splits prod.splits option.splits)
  with Find_foldl_SetStatus [of "cx_conditions c" t "sb_Conditions (cx_sb c)"] assms(1,3) show ?thesis
    by (auto simp: IsStatusConditionTrue_def statusWith_def conditions_wf_def split: option.splits)
qed

lemma persistBinding_set:
  assumes "conditions_wf c" and "om_UID (cx_Meta c) \<noteq> ''''"
  shows "IsStatusConditionTrue (sb_Conditions (cx_sb (fst (persistBinding e (SetCondition cond c))))) (cn_Type cond)
    \<longleftrightarrow> cn_Status cond = ConditionTrue"
  using assms by (intro persistBinding_condition conditions_wf_set) (auto simp: SetCondition_def update_conv')

lemma updateApplications_keeps:
  "cx_conditions (fst (updateApplications e as c)) = cx_conditions c \<and> cx_sb (fst (updateApplications e as c)) = cx_sb c
   \<and> cx_applications (fst (updateApplications e as c)) = cx_applications c"
  by (induction as arbitrary: c) (auto split: prod.splits option.splits)

lemma Close_ready:
  assumes "conditions_wf c" and "om_UID (cx_Meta c) \<noteq> ''''"
  shows "IsStatusConditionTrue (sb_Conditions (cx_sb (fst (Close e c)))) BindingReady \<longleftrightarrow>
    cx_err c = None \<and> snd (updateApplications e (cx_applications c) c) = None"
proof -
  obtain c1 r where 1: "updateApplications e (cx_applications c) c = (c1, r)" by fastforce
  with updateApplications_keeps [of e "cx_applications c" c] assms
  have c1: "conditions_wf c1" "om_UID (cx_Meta c1) \<noteq> ''''" by (auto simp: conditions_wf_def)
  have types: "cn_Type (withMsg m (withReason s (withNotBindingReady Conditions))) = BindingReady"
      "cn_Type (withReason s (withBindingReady Conditions)) = BindingReady"
      "cn_Status (withMsg m (withReason s (withNotBindingReady Conditions))) \<noteq> ConditionTrue"
      "cn_Status (withReason s (withBindingReady Conditions)) = ConditionTrue" for m s
    by (auto simp: condition_defs ConditionTrue_def ConditionFalse_def)
  show ?thesis
    using persistBinding_set [OF assms] persistBinding_set [OF c1] types 1
    by (simp add: Close_def split: option.splits) metis
qed

lemma run_ready:
  assumes "provider = Provider \<and> flow = defaultFlow e \<or> provider = SpecProvider \<and> flow = specFlow e"
    and "provider w sb = Inr c" and "om_UID (sb_Meta sb) \<noteq> ''''" and "runHandlers flow noStatus c = (d, st)"
  shows "IsStatusConditionTrue (sb_Conditions (pr_sb (Process e provider flow w sb))) BindingReady \<longleftrightarrow>
    fs_Err st = None \<and> snd (updateApplications e (cx_applications d) d) = None"
proof -
  have p: "provider = Provider \<or> provider = SpecProvider" and f: "flow = defaultFlow e \<or> flow = specFlow e"
    using assms(1) by auto
  note c = provider_context [OF p assms(2)]
  from f c(1) have "conditions_wf d"
    using conds.inv_flows [OF c(1), of e noStatus] assms(4) by auto
  moreover from f c(2) have "same_binding sb (cx_sb d)"
    using identity.inv_flows [of sb c e noStatus] assms(4) by auto
  ultimately have "IsStatusConditionTrue (sb_Conditions (cx_sb (fst (Close e d)))) BindingReady \<longleftrightarrow>
      cx_err d = None \<and> snd (updateApplications e (cx_applications d) d) = None"
    using assms(3) by (intro Close_ready) (auto simp: same_binding_def)
  moreover have "flow \<noteq> []" using f by (auto simp: defaultFlow_def specFlow_def)
  then have "fs_Err st = cx_err d"
    using runHandlers_status [of flow noStatus c] assms(4) by (simp add: FlowStatus_def)
  moreover have "pr_sb (Process e provider flow w sb) = cx_sb (fst (Close e d))"
    using assms(2,4) by (auto simp: Process_def split: prod.splits option.splits)
  ultimately show ?thesis by simp
qed

text \<open>
  C12: The condition \<open>Ready\<close> tells the outcome. At the end of either flow, for a binding
  that is stored in the cluster, it is true exactly when the handlers reported no error and
  every application was updated.
\<close>

theorem ready_condition:
  assumes "provider = Provider \<and> flow = defaultFlow e \<or> provider = SpecProvider \<and> flow = specFlow e"
    and "provider w sb = Inr c" and "om_UID (sb_Meta sb) \<noteq> ''''" and "runHandlers flow noStatus c = (d, st)"
  shows "IsStatusConditionTrue (sb_Conditions (pr_sb (Process e provider flow w sb))) BindingReady \<longleftrightarrow>
    fs_Err st = None \<and> snd (updateApplications e (cx_applications d) d) = None"
  by (rule run_ready [OF assms])

theorem ready_condition_witness:
  "\<not> IsStatusConditionTrue
     (sb_Conditions (pr_sb (Process emptyCluster Provider (defaultFlow emptyCluster) () shopBinding))) BindingReady"
proof -
  let ?c = "newContext () shopBinding False"
  let ?r = "runHandlers (defaultFlow emptyCluster) noStatus ?c"
  have c: "Provider () shopBinding = Inr ?c" by (simp add: Provider_def shopBinding_def)
  have uid: "om_UID (sb_Meta shopBinding) \<noteq> ''''" by (simp add: shopBinding_def)
  have "fs_Err (snd ?r) \<noteq> None" by code_simp
  with ready_condition [where provider = Provider and flow = "defaultFlow emptyCluster" and e = emptyCluster
      and d = "fst ?r" and st = "snd ?r", OF _ c uid]
  show ?thesis by simp
qed

text \<open>
  C40: The reconciliation is put off by five milliseconds or not at all: the rate limiter
  is created with the context and asked at most once, so its delay never grows.
\<close>

theorem delay_never_grows:
  "pr_Delay (DefaultBuilder e w sb) \<in> {0, 5000000} \<and> pr_Delay (SpecBuilder e w sb) \<in> {0, 5000000}"
proof -
  have post: "cx_delay (invokeHandler PostFlightCheck c) \<in> {0, 5000000}" if "undelayed c" for c :: "'a ctx"
    using that by (auto simp: invokeHandler_def PostFlightCheck_def undelayed_def update_defs When_def Let_def)
  have flow: "pr_Delay (Process e provider (hs @ [PostFlightCheck]) w sb) \<in> {0, 5000000}"
    if p: "provider = Provider \<or> provider = SpecProvider"
      and hs: "hs \<noteq> []" "\<And>c. undelayed c \<Longrightarrow> undelayed (fst (runHandlers hs noStatus c))" for provider hs
  proof (cases "provider w sb")
    case (Inr c)
    obtain d st where d: "runHandlers hs noStatus c = (d, st)" by fastforce
    have "undelayed d" using hs(2) [OF provider_context(3) [OF p Inr]] d by simp
    moreover have "st = FlowStatus d" using runHandlers_status [OF hs(1), of noStatus c] d by simp
    ultimately have "fs_Delay (snd (runHandlers (hs @ [PostFlightCheck]) noStatus c)) \<in> {0, 5000000}"
      using post [of d] d by (auto simp: runHandlers_append Let_def FlowStatus_def undelayed_def)
    with Inr show ?thesis by (auto simp: Process_def split: prod.splits option.splits)
  qed (simp add: Process_def)
  have "defaultFlow e = butlast (defaultFlow e) @ [PostFlightCheck]"
    and "specFlow e = butlast (specFlow e) @ [PostFlightCheck]"
    by (simp_all add: defaultFlow_def specFlow_def)
  with flow [of Provider "butlast (defaultFlow e)"] flow [of SpecProvider "butlast (specFlow e)"]
    delay.inv_before_PostFlight [of _ e noStatus]
  show ?thesis by (simp add: DefaultBuilder_def SpecBuilder_def) (simp add: defaultFlow_def specFlow_def)
qed

end
