(* ===== verification/Access.thy ===== *)
theory Access
  imports Invariants
begin

text \<open>
  What the operator does with its own rights on behalf of a user. The operator may read and
  write everything; before it reads a service, a secret, a config map or a workload for a
  binding, it asks the API server whether the user who requested the binding may do so
  (\<open>canPerform\<close> in \<open>pkg/reconcile/pipeline/context/impl.go\<close>).

  \<open>logged\<close> is an environment with a record of the writes that are made to it, so that a
  statement about all writes of a reconciliation is a statement about the log.
\<close>

section \<open>Writes and their log\<close>

datatype call =
    CreateCall (call_gvr: gvr) (call_ns: string) fields
  | UpdateCall (call_gvr: gvr) (call_ns: string) fields
  | StatusCall (call_gvr: gvr) (call_ns: string) fields

definition logged :: "'w env \<Rightarrow> ('w \<times> call list) env" where
  "logged e =
     \<lparr>env_jp = env_jp e, env_conv = env_conv e,
      env_Get = (\<lambda>w. env_Get e (fst w)), env_List = (\<lambda>w. env_List e (fst w)),
      env_Create = (\<lambda>g ns u w. map_prod id (\<lambda>w'. (w', snd w @ [CreateCall g ns u])) (env_Create e g ns u (fst w))),
      env_Update = (\<lambda>g ns u w. map_prod id (\<lambda>w'. (w', snd w @ [UpdateCall g ns u])) (env_Update e g ns u (fst w))),
      env_UpdateStatus = (\<lambda>g ns u w.
        map_prod id (\<lambda>w'. (w', snd w @ [StatusCall g ns u])) (env_UpdateStatus e g ns u (fst w))),
      env_Version = (\<lambda>w. env_Version e (fst w)), env_Review = (\<lambda>w. env_Review e (fst w)),
      env_RESTMapping = env_RESTMapping e,
      env_UnmarshalUser = env_UnmarshalUser e, env_MarshalUser = env_MarshalUser e,
      env_UnmarshalMapping = env_UnmarshalMapping e, env_MarshalMapping = env_MarshalMapping e,
      env_MappingFrom = env_MappingFrom e, env_BindingTo = env_BindingTo e, env_BindingFrom = env_BindingFrom e,
      env_registry = env_registry e, env_HtmlTemplate = env_HtmlTemplate e, env_TextTemplate = env_TextTemplate e\<rparr>"

text \<open>The requester of a binding may do something with a resource in the binding's namespace.\<close>

definition permitted :: "'w env \<Rightarrow> 'w \<Rightarrow> sbinding \<Rightarrow> gvr \<Rightarrow> string \<Rightarrow> string \<Rightarrow> bool" where
  "permitted e w sb g name verb =
     (case Requester e (sb_Meta sb) of
        None \<Rightarrow> True
      | Some u \<Rightarrow>
          env_Review e w \<lparr>ar_Namespace = om_Namespace (sb_Meta sb), ar_Verb = verb, ar_Resource = g, ar_Name = name,
            ar_User = ui_Username u, ar_Groups = ui_Groups u\<rparr> = Inr True)"

text \<open>The writes that serve a binding: its secret, the binding itself and its workloads.\<close>

definition own_call :: "sbinding \<Rightarrow> call \<Rightarrow> bool" where
  "own_call sb k =
     (call_ns k = om_Namespace (sb_Meta sb)
      \<and> (case k of
           CreateCall g ns u \<Rightarrow> g = coreGVR ''secrets''
         | UpdateCall g ns u \<Rightarrow> g = coreGVR ''secrets'' \<or> g = bindingGVR sb
         | StatusCall g ns u \<Rightarrow> g = bindingGVR sb))"

definition workload_call :: "'w env \<Rightarrow> sbinding \<Rightarrow> call \<Rightarrow> bool" where
  "workload_call e sb k =
     (call_ns k = om_Namespace (sb_Meta sb)
      \<and> (case k of
           UpdateCall g ns u \<Rightarrow> (\<exists>w name. permitted e w sb g name ''update'')
         | _ \<Rightarrow> False))"

definition access_ok :: "'w env \<Rightarrow> sbinding \<Rightarrow> ('w \<times> call list) ctx \<Rightarrow> bool" where
  "access_ok e sb c =
     (same_binding sb (cx_sb c)
      \<and> (\<forall>a \<in> set (cx_applications c). \<exists>w name. permitted e w sb (app_gvr a) name ''update'')
      \<and> (\<forall>k \<in> set (snd (world c)). own_call sb k \<or> workload_call e sb k))"

definition only_own :: "sbinding \<Rightarrow> ('w \<times> call list) ctx \<Rightarrow> bool" where
  "only_own sb c = (same_binding sb (cx_sb c) \<and> (\<forall>k \<in> set (snd (world c)). own_call sb k))"

text \<open>
  Another state of the cluster's objects that agrees on all objects the requester of the
  binding may read.
\<close>

definition same_readable ::
  "'w env \<Rightarrow> ('w \<Rightarrow> gvr \<Rightarrow> string \<Rightarrow> string \<Rightarrow> go_error + fields) \<Rightarrow> 'w ctx \<Rightarrow> bool" where
  "same_readable e get c =
     (\<forall>g ns name. canPerform e c g name ns ''get'' \<longrightarrow> get (world c) g ns name = env_Get e (world c) g ns name)"

text \<open>A cluster in which a requester may read nothing.\<close>

definition deniedCluster :: "unit env" where
  "deniedCluster = emptyCluster\<lparr>env_Review := (\<lambda>_ _. Inr False),
     env_UnmarshalUser := (\<lambda>s. Some \<lparr>ui_Username = s, ui_Groups = []\<rparr>)\<rparr>"

definition deniedContext :: "unit ctx" where
  "deniedContext = newContext () (shopBinding\<lparr>sb_Meta := (sb_Meta shopBinding)
     \<lparr>om_Annotations := [(requesterAnnotationKey, ''eve'')]\<rparr>\<rparr>) False"

section \<open>The log of the handlers\<close>

lemma logged_reads [simp]:
  "env_UnmarshalUser (logged e) = env_UnmarshalUser e" "env_BindingTo (logged e) = env_BindingTo e"
  "env_Review (logged e) w = env_Review e (fst w)"
  by (simp_all add: logged_def)

lemma logged_writes:
  "env_Create (logged e) g ns u w = (r, w') \<Longrightarrow> snd w' = snd w @ [CreateCall g ns u]"
  "env_Update (logged e) g ns u w = (r, w') \<Longrightarrow> snd w' = snd w @ [UpdateCall g ns u]"
  "env_UpdateStatus (logged e) g ns u w = (r, w') \<Longrightarrow> snd w' = snd w @ [StatusCall g ns u]"
  by (auto simp: logged_def map_prod_def split: prod.splits)

lemma Requester_same:
  "same_binding sb sb' \<Longrightarrow> Requester e (sb_Meta sb') = Requester e (sb_Meta sb)"
  by (simp add: Requester_def same_binding_def requesterAnnotationKey_def MappingAnnotationKey_def)

lemma bindingGVR_same: "same_binding sb sb' \<Longrightarrow> bindingGVR sb' = bindingGVR sb"
  by (simp add: bindingGVR_def same_binding_def)

lemma Requester_logged: "Requester (logged e) m = Requester e m"
  by (simp add: Requester_def split: option.splits)

lemma canPerform_permitted:
  assumes "same_binding sb (cx_sb c)" and "canPerform (logged e) c g name (om_Namespace (cx_Meta c)) verb"
  shows "permitted e (fst (world c)) sb g name verb"
proof -
  have "om_Namespace (cx_Meta c) = om_Namespace (sb_Meta sb)" using assms(1) by (simp add: same_binding_def)
  then show ?thesis
    using assms(2) Requester_same [OF assms(1), of e]
    by (auto simp: canPerform_def permitted_def Requester_logged split: option.splits sum.splits)
qed

lemma persistBinding_log:
  assumes "same_binding sb (cx_sb c)" and "k \<in> set (snd (world (fst (persistBinding (logged e) c))))"
  shows "k \<in> set (snd (world c)) \<or> own_call sb k"
proof -
  have "same_binding sb (statusWith (cx_conditions c) (cx_sb c))"
    using assms(1) by (simp add: same_binding_def statusWith_def)
  then have g: "bindingGVR (statusWith (cx_conditions c) (cx_sb c)) = bindingGVR sb"
    "om_Namespace (sb_Meta (statusWith (cx_conditions c) (cx_sb c))) = om_Namespace (sb_Meta sb)"
    by (simp_all add: bindingGVR_same same_binding_def)
  show ?thesis using assms(2)
    by (auto simp: persistBinding_def own_call_def g Let_def dest!: logged_writes
        split: if_splits sum.splits prod.splits option.splits)
qed

lemmas same_binding_defs = same_binding_def update_defs delete_conv'

interpretation access: flow_inv "logged e" "access_ok e sb"
  for e :: "'w env" and sb
proof unfold_locales
  fix c :: "('w \<times> call list) ctx" and a :: application and name
  assume c: "access_ok e sb c" and p: "canPerform (logged e) c (app_gvr a) name (om_Namespace (cx_Meta c)) ''update''"
  then have "permitted e (fst (world c)) sb (app_gvr a) name ''update''"
    by (intro canPerform_permitted) (auto simp: access_ok_def)
  with c show "access_ok e sb (AddApplication a c)" by (auto simp: access_ok_def AddApplication_def)
next
  fix c :: "('w \<times> call list) ctx" and a :: application and i
  assume c: "access_ok e sb c" and g: "app_gvr a = app_gvr (cx_applications c ! i)"
  have "\<exists>w name. permitted e w sb (app_gvr x) name ''update''" if "x \<in> set ((cx_applications c)[i := a])" for x
  proof (cases "i < length (cx_applications c)")
    case True
    with that have "x = a \<or> x \<in> set (cx_applications c)" using set_update_subset_insert by fast
    with c g True show ?thesis by (auto simp: access_ok_def)
  next
    case False
    with c that show ?thesis by (auto simp: access_ok_def list_update_beyond)
  qed
  with c show "access_ok e sb (setApplication i a c)" by (auto simp: access_ok_def setApplication_def)
next
  fix c :: "('w \<times> call list) ctx"
  assume c: "access_ok e sb c"
  then show "access_ok e sb (fst (persistBinding (logged e) c))"
    using persistBinding_log [of sb c _ e] persistBinding_same [of sb c "logged e"]
    by (auto simp: access_ok_def persistBinding_fields)
qed (auto simp: access_ok_def own_call_def workload_call_def same_binding_defs dest!: logged_writes)

interpretation quiet: handler_inv "logged e" "only_own sb"
  for e :: "'w env" and sb
proof unfold_locales
  fix c :: "('w \<times> call list) ctx"
  assume "only_own sb c"
  then show "only_own sb (fst (persistBinding (logged e) c))"
    using persistBinding_log [of sb c _ e] persistBinding_same [of sb c "logged e"] by (auto simp: only_own_def)
qed (auto simp: only_own_def own_call_def same_binding_defs dest!: logged_writes)

lemma quiet_PostFlightCheck: "only_own sb c \<Longrightarrow> only_own sb (fst (PostFlightCheck c))"
  by (auto simp: only_own_def PostFlightCheck_def Let_def update_defs)

lemma quiet_flows:
  assumes "only_own sb c"
  shows "only_own sb (fst (runHandlers (defaultFlow (logged e)) st c))"
    and "only_own sb (fst (runHandlers (specFlow (logged e)) st c))"
  using assms by (auto simp: defaultFlow_def specFlow_def simp del: runHandlers.simps
      intro!: quiet.inv_runHandlers quiet.inv_handlers quiet_PostFlightCheck)




section \<open>Reads\<close>

lemma canPerform_get: "canPerform (e\<lparr>env_Get := get\<rparr>) c g name ns verb = canPerform e c g name ns verb"
  by (simp add: canPerform_def Requester_def split: option.splits sum.splits)

lemma lookup_get:
  "ResourceForReferable (e\<lparr>env_Get := get\<rparr>) r k = ResourceForReferable e r k"
  "service_Build (e\<lparr>env_Get := get\<rparr>) b u os = service_Build e b u os"
  by (auto simp: ResourceForReferable_def service_Build_def ResourceForKind_def split: sum.splits)

lemma readable_AddService: "same_readable e get (AddService s c) \<longleftrightarrow> same_readable e get c"
proof -
  have "canPerform e (AddService s c) g name ns verb = canPerform e c g name ns verb" for g name ns verb
    by (simp add: canPerform_def AddService_def split: option.splits)
  moreover have "world (AddService s c) = world c" by (simp add: AddService_def)
  ultimately show ?thesis by (simp add: same_readable_def)
qed

lemma coreServices_access:
  "same_readable e get c \<Longrightarrow> coreServices (e\<lparr>env_Get := get\<rparr>) rs c = coreServices e rs c"
proof (induction rs arbitrary: c)
  case (Cons r rs)
  then have "coreServices (e\<lparr>env_Get := get\<rparr>) rs (AddService s c) = coreServices e rs (AddService s c)" for s
    by (simp add: readable_AddService)
  then show ?case
    using Cons.prems by (auto simp: same_readable_def canPerform_get lookup_get Let_def split: sum.splits)
qed simp

lemma specServices_access:
  "same_readable e get c \<Longrightarrow> specServices (e\<lparr>env_Get := get\<rparr>) r c = specServices e r c"
  by (auto simp: specServices_def same_readable_def canPerform_get lookup_get Let_def split: sum.splits)

lemma WorkloadResourceTemplate_access:
  "same_readable e get c \<Longrightarrow>
     WorkloadResourceTemplate (e\<lparr>env_Get := get\<rparr>) c g p = WorkloadResourceTemplate e c g p"
  by (auto simp: WorkloadResourceTemplate_def readMapping_def same_readable_def canPerform_get
      split: sum.splits option.splits)

lemma labelledItems_access:
  "labelledItems (e\<lparr>env_Get := get\<rparr>) g mk us c = labelledItems e g mk us c"
  by (induction us arbitrary: c) (simp_all add: canPerform_get Let_def)

lemma findApplications_access:
  assumes "same_readable e get c"
  shows "findApplications (e\<lparr>env_Get := get\<rparr>) g p name sel mk c = findApplications e g p name sel mk c"
proof -
  have "namedApplication (e\<lparr>env_Get := get\<rparr>) g name mk' c = namedApplication e g name mk' c" for g mk'
    using assms by (auto simp: namedApplication_def same_readable_def canPerform_get Let_def split: sum.splits)
  moreover have "labelledApplications (e\<lparr>env_Get := get\<rparr>) g sel mk' c' = labelledApplications e g sel mk' c'"
    for g mk' c'
    by (auto simp: labelledApplications_def labelledItems_access canPerform_get Let_def
        split: sum.splits option.splits)
  ultimately show ?thesis
    using assms by (auto simp: findApplications_def WorkloadResourceTemplate_access
        split: sum.splits prod.splits option.splits)
qed



end
