(* ===== verification/Webhook.thy ===== *)
theory Webhook
  imports Access
begin

text \<open>
  The admission webhooks: the mutating handler that records the requester
  (\<open>apis/webhooks/admission.go\<close>), the validation of service bindings
  (\<open>apis/binding/v1alpha1/servicebinding_webhook.go\<close>,
  \<open>apis/spec/v1beta1/servicebinding_webhook.go\<close>), the validation of workload mappings
  (\<open>apis/spec/v1beta1/clusterworkloadresourcemapping_webhook.go\<close>) and the rebinding that
  an update of a mapping triggers (\<open>apis/webhooks/validator.go\<close>).

  An error of a field is its message with the path of the field and the value; a list of
  errors is accepted when it is empty.
\<close>

section \<open>Validation of service bindings\<close>

definition nameAndSelector :: "string \<Rightarrow> label_selector option \<Rightarrow> go_error option" where
  "nameAndSelector name sel =
     (if name \<noteq> '''' \<and> (case sel of None \<Rightarrow> False | Some ls \<Rightarrow> ls_MatchLabels ls \<noteq> None)
      then Some (errNew ''name and selector MUST NOT be defined in the application reference'')
      else None)"

definition checkNameAndSelector :: "sbinding \<Rightarrow> go_error option" where
  "checkNameAndSelector sb =
     (case sb_Spec sb of
        CoreSpec s \<Rightarrow> nameAndSelector (ref_Name (ca_Ref (co_Application s))) (ca_LabelSelector (co_Application s))
      | SpecSpec s \<Rightarrow> nameAndSelector (wr_Name (sp_Workload s)) (wr_Selector (sp_Workload s)))"

definition binding_ValidateCreate :: "sbinding \<Rightarrow> go_error option" where
  "binding_ValidateCreate sb = checkNameAndSelector sb"

definition binding_ValidateUpdate :: "sbinding \<Rightarrow> sbinding \<Rightarrow> go_error option" where
  "binding_ValidateUpdate sb old =
     (case CanUpdateBinding sb old of
        Some err \<Rightarrow> Some err
      | None \<Rightarrow> checkNameAndSelector sb)"

section \<open>Validation of workload mappings\<close>

definition fieldErr :: "string \<Rightarrow> string \<Rightarrow> string \<Rightarrow> go_error" where
  "fieldErr msg path v = Errorf msg [JStr path, JStr v]"

definition child :: "string \<Rightarrow> string \<Rightarrow> string" where
  "child path name = path @ ''.'' @ name"

fun webhookVerify :: "string \<Rightarrow> jpnode \<Rightarrow> go_error list"
  and webhookVerifyAll :: "string \<Rightarrow> jpnode list \<Rightarrow> go_error list" where
  "webhookVerify path (NodeField f) = []"
| "webhookVerify path (NodeList ns) = webhookVerifyAll path ns"
| "webhookVerify path n = [fieldErr ''Invalid node type'' path '''']"
| "webhookVerifyAll path [] = []"
| "webhookVerifyAll path (n # ns) = webhookVerify path n @ webhookVerifyAll path ns"

definition webhookRestricted :: "jsonpath \<Rightarrow> string \<Rightarrow> string \<Rightarrow> go_error list" where
  "webhookRestricted jp fieldPath path =
     (case jp_Parse jp (braced path) of
        Inl _ \<Rightarrow> [fieldErr ''Unable to parse fixed JSONPath'' fieldPath path]
      | Inr root \<Rightarrow>
          if webhookVerify fieldPath root \<noteq> []
          then [fieldErr ''Invalid fixed JSONPath'' fieldPath path] else [])"

definition validateRestrictedPath :: "jsonpath \<Rightarrow> string \<Rightarrow> string \<Rightarrow> go_error list" where
  "validateRestrictedPath jp fieldPath v =
     (if v \<noteq> '''' then webhookRestricted jp fieldPath v else [])"

definition container_validate :: "jsonpath \<Rightarrow> string \<Rightarrow> mapping_container \<Rightarrow> go_error list" where
  "container_validate jp path c =
     validateRestrictedPath jp (child path ''name'') (mpc_Name c)
     @ validateRestrictedPath jp (child path ''env'') (mpc_Env c)
     @ validateRestrictedPath jp (child path ''volumeMounts'') (mpc_VolumeMounts c)
     @ (if mpc_Path c = '''' then [fieldErr ''field \"path\" required'' (child path ''path'') '''']
        else
          (case jp_Parse jp (braced (mpc_Path c)) of
             Inl _ \<Rightarrow> [fieldErr ''Invalid JSONPath'' (child path ''path'') (mpc_Path c)]
           | Inr _ \<Rightarrow> []))"

definition template_validate :: "jsonpath \<Rightarrow> string \<Rightarrow> mapping_template \<Rightarrow> go_error list" where
  "template_validate jp path t =
     concat (map (\<lambda>(i, c). container_validate jp (child path (''containers['' @ showNat i @ '']'')) c)
       (enumerate 0 (mpt_Containers t)))
     @ validateRestrictedPath jp (child path ''volumes'') (mpt_Volumes t)
     @ validateRestrictedPath jp (child path ''annotations'') (mpt_Annotations t)"

text \<open>
  Strings are UTF-8. \<open>strings.TrimSpace\<close> leaves nothing of a string of the space characters
  of Unicode, which have one, two or three bytes.
\<close>

definition isSpace :: "char \<Rightarrow> bool" where
  "isSpace c = (c \<in> set [CHR 0x09, CHR 0x0A, CHR 0x0B, CHR 0x0C, CHR 0x0D, CHR '' ''])"

definition spaces2 :: "string list" where
  "spaces2 = [[CHR 0xC2, CHR 0x85], [CHR 0xC2, CHR 0xA0]]"

definition spaces3 :: "string list" where
  "spaces3 =
     [CHR 0xE1, CHR 0x9A, CHR 0x80] # [CHR 0xE2, CHR 0x81, CHR 0x9F] # [CHR 0xE3, CHR 0x80, CHR 0x80]
     # map (\<lambda>c. [CHR 0xE2, CHR 0x80, c])
         [CHR 0x80, CHR 0x81, CHR 0x82, CHR 0x83, CHR 0x84, CHR 0x85, CHR 0x86, CHR 0x87, CHR 0x88,
          CHR 0x89, CHR 0x8A, CHR 0xA8, CHR 0xA9, CHR 0xAF]"

fun blank :: "string \<Rightarrow> bool" where
  "blank [] = True"
| "blank (c # s) =
     (if isSpace c then blank s
      else
        (case s of
           [] \<Rightarrow> False
         | d # s' \<Rightarrow>
             if [c, d] \<in> set spaces2 then blank s'
             else (case s' of [] \<Rightarrow> False | e # s'' \<Rightarrow> [c, d, e] \<in> set spaces3 \<and> blank s'')))"

fun versions_validate ::
  "jsonpath \<Rightarrow> nat \<Rightarrow> string list \<Rightarrow> mapping_template list \<Rightarrow> go_error list" where
  "versions_validate jp i seen [] = []"
| "versions_validate jp i seen (t # ts) =
     (let path = child ''spec'' (''versions['' @ showNat i @ '']'') in
      (if mpt_Version t = '''' then [fieldErr ''field \"version\" required'' (child path ''version'') '''']
       else if blank (mpt_Version t)
       then [fieldErr ''Whitespace-only version field forbidden'' (child path ''version'') (mpt_Version t)]
       else if mpt_Version t \<in> set seen then [fieldErr ''Duplicate value'' path (mpt_Version t)]
       else [])
      @ template_validate jp path t
      @ versions_validate jp (Suc i) (mpt_Version t # seen) ts)"

definition mapping_validate :: "jsonpath \<Rightarrow> mapping \<Rightarrow> go_error list" where
  "mapping_validate jp m = versions_validate jp 0 [] (mp_Versions m)"

definition AcceptsGVR :: "mapping \<Rightarrow> gvr \<Rightarrow> bool" where
  "AcceptsGVR m r =
     (mp_Name m = gvr_resource r @ ''.'' @ gvr_group r
      \<and> list_ex (\<lambda>t. mpt_Version t = gvr_version r \<or> mpt_Version t = ''*'') (mp_Versions m))"

section \<open>Rebinding\<close>

definition markBinding :: "'w env \<Rightarrow> mapping \<Rightarrow> fields \<Rightarrow> fields" where
  "markBinding e m u =
     SetAnnotations u (AList.update MappingAnnotationKey (env_MarshalMapping e m)
       (case GetAnnotations u of None \<Rightarrow> [] | Some anns \<Rightarrow> anns))"

definition workloadGVR :: "'w env \<Rightarrow> sbinding \<Rightarrow> gvr go" where
  "workloadGVR e sb =
     (let lift = (\<lambda>r. case r of Inl err \<Rightarrow> Err err | Inr g \<Rightarrow> Ok g) in
      case sb_Spec sb of
        SpecSpec s \<Rightarrow> lift (ResourceForKind e (workload_GroupVersionKind (sp_Workload s)))
      | CoreSpec s \<Rightarrow>
          let r = ca_Ref (co_Application s) in
          if ref_Kind r \<noteq> '''' then
            lift (ResourceForKind e \<lparr>gvk_group = ref_Group r, gvk_version = ref_Version r, gvk_kind = ref_Kind r\<rparr>)
          else
            (case ref_GroupVersionResource r of
               Inl _ \<Rightarrow> Panic ''nil pointer dereference''
             | Inr g \<Rightarrow> Ok g))"

fun markBindings ::
  "'w env \<Rightarrow> mapping \<Rightarrow> gvr \<Rightarrow> fields list \<Rightarrow> 'w \<Rightarrow> 'w \<times> unit go" where
  "markBindings e m gvr [] w = (w, Ok ())"
| "markBindings e m gvr (u # us) w =
     (case env_BindingFrom e u of
        Inl err \<Rightarrow> (w, Err err)
      | Inr sb \<Rightarrow>
          (case workloadGVR e sb of
             Err err \<Rightarrow> (w, Err err)
           | Panic s \<Rightarrow> (w, Panic s)
           | Ok g \<Rightarrow>
               if \<not> AcceptsGVR m g then markBindings e m gvr us w
               else
                 (case env_Update e gvr (om_Namespace (sb_Meta sb)) (markBinding e m u) w of
                    (Some err, w') \<Rightarrow> (w', Err err)
                  | (None, w') \<Rightarrow> markBindings e m gvr us w')))"

definition specBindingGVR :: gvr where
  "specBindingGVR =
     \<lparr>gvr_group = ''servicebinding.io'', gvr_version = ''v1beta1'', gvr_resource = ''servicebindings''\<rparr>"

definition coreBindingGVR :: gvr where
  "coreBindingGVR =
     \<lparr>gvr_group = ''binding.operators.coreos.com'', gvr_version = ''v1alpha1'',
      gvr_resource = ''servicebindings''\<rparr>"

definition Serialize :: "'w env \<Rightarrow> mapping \<Rightarrow> 'w \<Rightarrow> 'w \<times> unit go" where
  "Serialize e m w =
     (case env_List e w specBindingGVR '''' '''' of
        Inl err \<Rightarrow> (w, Err err)
      | Inr items \<Rightarrow>
          (case markBindings e m specBindingGVR items w of
             (w1, Ok _) \<Rightarrow>
               (case env_List e w1 coreBindingGVR '''' '''' of
                  Inl err \<Rightarrow> (w1, Err err)
                | Inr items1 \<Rightarrow> markBindings e m coreBindingGVR items1 w1)
           | r \<Rightarrow> r))"

definition mapping_ValidateCreate :: "'w env \<Rightarrow> mapping \<Rightarrow> go_error list" where
  "mapping_ValidateCreate e m = mapping_validate (env_jp e) m"

text \<open>\<open>Inl\<close> the errors of the validation, \<open>Inr\<close> the outcome of the rebinding.\<close>

definition mapping_ValidateUpdate ::
  "'w env \<Rightarrow> mapping \<Rightarrow> mapping \<Rightarrow> 'w \<Rightarrow> 'w \<times> (go_error list + unit go)" where
  "mapping_ValidateUpdate e old new w =
     (if mapping_ValidateCreate e new \<noteq> [] then (w, Inl (mapping_ValidateCreate e new))
      else (case Serialize e old w of (w', r) \<Rightarrow> (w', Inr r)))"

section \<open>The mutating webhook\<close>

record admission_request =
  rq_UserInfo :: userinfo
  rq_Operation :: string
  rq_Object :: "go_error + fields"

datatype admission_response =
    Allowed
  | Errored nat go_error
  | Patched fields

definition admission_Handle ::
  "'w env \<Rightarrow> string \<Rightarrow> admission_request \<Rightarrow> admission_response" where
  "admission_Handle e serviceAccountName req =
     (if ui_Username (rq_UserInfo req) = serviceAccountName then Allowed
      else
        (case rq_Object req of
           Inl err \<Rightarrow> Errored 400 err
         | Inr sb \<Rightarrow>
             if rq_Operation req = ''CREATE'' \<or> rq_Operation req = ''UPDATE''
             then Patched (SetRequester e sb (rq_UserInfo req))
             else Allowed))"

section \<open>Notions for the theorems\<close>

text \<open>The first template of a version, if any.\<close>

definition template_for :: "string \<Rightarrow> mapping_template list \<Rightarrow> mapping_template option" where
  "template_for v ts = find (\<lambda>t. mpt_Version t = v) ts"

text \<open>
  A parser of the simplest paths: names, each after a dot, as fields of a list. It accepts
  the paths of the default template.
\<close>

definition fieldsParser :: jsonpath where
  "fieldsParser =
     \<lparr>jp_Parse = (\<lambda>s. if HasPrefix s ''{.'' then
          Inr (NodeList [NodeList (map NodeField (Split (CHR ''.'') (butlast (drop 2 s))))])
        else Inl (errNew ''unexpected'')),
      jp_FindResults = (\<lambda>_ _. Inr [[]]), jp_PrintResults = (\<lambda>_. Inr [])\<rparr>"

definition cronMapping :: mapping where
  "cronMapping =
     \<lparr>mp_Name = ''cronjobs.batch'',
      mp_Versions = [\<lparr>mpt_Version = ''*'', mpt_Annotations = '''',
        mpt_Containers = [\<lparr>mpc_Path = ''.spec.jobTemplate'', mpc_Name = ''.name'', mpc_Env = '''', mpc_VolumeMounts = ''''\<rparr>],
        mpt_Volumes = ''.spec.jobTemplate.spec.volumes''\<rparr>]\<rparr>"

text \<open>The container that the path of an application adds to a template.\<close>

definition pathContainer :: "string \<Rightarrow> mapping_container" where
  "pathContainer containerPath =
     \<lparr>mpc_Path = ''.'' @ containerPath @ ''[*]'', mpc_Name = '''', mpc_Env = '''', mpc_VolumeMounts = ''''\<rparr>"

definition cronjobs :: gvr where
  "cronjobs = \<lparr>gvr_group = ''batch'', gvr_version = ''v1'', gvr_resource = ''cronjobs''\<rparr>"

text \<open>
  A cluster whose only mapping is the one above and whose only binding has a workload of
  that kind; user names are their own encoding.
\<close>

definition mappedCluster :: "unit env" where
  "mappedCluster = emptyCluster\<lparr>env_jp := fieldsParser,
     env_Get := (\<lambda>_ g ns name. if g = mappingGVR \<and> name = mp_Name cronMapping then Inr [] else Inl (StatusErr ''NotFound'' '''')),
     env_MappingFrom := (\<lambda>_. Inr cronMapping), env_UnmarshalMapping := (\<lambda>_. Inr cronMapping),
     env_UnmarshalUser := (\<lambda>s. Some \<lparr>ui_Username = s, ui_Groups = []\<rparr>),
     env_RESTMapping := (\<lambda>_. Inr cronjobs), env_BindingFrom := (\<lambda>_. Inr shopBinding),
     env_List := (\<lambda>_ g _ _. if g = coreBindingGVR then Inr [[(''metadata'', JObj [(''name'', JStr ''nightly'')])]] else Inr [])\<rparr>"

text \<open>The binding that an object holds concerns a workload of the mapping.\<close>

definition concerns :: "'w env \<Rightarrow> mapping \<Rightarrow> fields \<Rightarrow> bool" where
  "concerns e m u =
     (case env_BindingFrom e u of
        Inl _ \<Rightarrow> False
      | Inr sb \<Rightarrow> (case workloadGVR e sb of Ok g \<Rightarrow> AcceptsGVR m g | _ \<Rightarrow> False))"

definition bindingNs :: "'w env \<Rightarrow> fields \<Rightarrow> string" where
  "bindingNs e u = (case env_BindingFrom e u of Inl _ \<Rightarrow> '''' | Inr sb \<Rightarrow> om_Namespace (sb_Meta sb))"

section \<open>Accepted mappings\<close>

lemma webhookVerify_iff:
  "webhookVerify path n = [] \<longleftrightarrow> (\<exists>fs. verifyJsonPath n = Inr fs)"
  "webhookVerifyAll path ns = [] \<longleftrightarrow> (\<exists>fs. verifyJsonPaths ns = Inr fs)"
  by (induction path n and path ns rule: webhookVerify_webhookVerifyAll.induct) (auto split: sum.splits)

lemma validateRestrictedPath_iff:
  "validateRestrictedPath jp path v = [] \<longleftrightarrow> (\<exists>fs. constructRestrictedPath jp v d = Inr fs)"
  by (auto simp: validateRestrictedPath_def webhookRestricted_def constructRestrictedPath_def
      isValidRestrictedJsonPath_def webhookVerify_iff split: sum.splits)

lemma container_validate_loads:
  assumes "container_validate jp path c = []"
  shows "\<exists>wc. workloadContainer jp c = Inr wc"
proof -
  have v: "validateRestrictedPath jp (child path ''name'') (mpc_Name c) = []"
    "validateRestrictedPath jp (child path ''env'') (mpc_Env c) = []"
    "validateRestrictedPath jp (child path ''volumeMounts'') (mpc_VolumeMounts c) = []"
    using assms by (simp_all add: container_validate_def)
  obtain a b d where "constructRestrictedPath jp (mpc_Name c) [''name''] = Inr a"
    "constructRestrictedPath jp (mpc_Env c) [''env''] = Inr b"
    "constructRestrictedPath jp (mpc_VolumeMounts c) [''volumeMounts''] = Inr d"
    using v [THEN validateRestrictedPath_iff [THEN iffD1]] by blast
  moreover obtain root where "jp_Parse jp (braced (mpc_Path c)) = Inr root"
    using assms by (auto simp: container_validate_def split: if_splits sum.splits)
  ultimately show ?thesis by (simp add: workloadContainer_def)
qed

lemma workloadContainers_iff:
  "(\<exists>wcs. workloadContainers jp cs = Inr wcs) \<longleftrightarrow> (\<forall>c \<in> set cs. \<exists>wc. workloadContainer jp c = Inr wc)"
  by (induction cs) (auto split: sum.splits)

lemma FromTemplate_iff:
  "(\<exists>wm. FromWorkloadResourceMappingTemplate jp t = Inr wm) \<longleftrightarrow>
     (\<forall>c \<in> set (mpt_Containers t). \<exists>wc. workloadContainer jp c = Inr wc)
     \<and> (\<exists>fs. constructRestrictedPath jp (mpt_Volumes t) [''spec'', ''template'', ''spec'', ''volumes''] = Inr fs)"
  unfolding workloadContainers_iff [symmetric]
  by (auto simp: FromWorkloadResourceMappingTemplate_def split: sum.splits)

lemma template_validate_loads:
  assumes "template_validate jp path t = []"
  shows "\<exists>wm. FromWorkloadResourceMappingTemplate jp t = Inr wm"
proof -
  have "\<exists>wc. workloadContainer jp c = Inr wc" if c: "c \<in> set (mpt_Containers t)" for c
  proof -
    from c obtain i where "i < length (mpt_Containers t)" "c = mpt_Containers t ! i"
      by (auto simp: in_set_conv_nth)
    then have "(i, c) \<in> set (enumerate 0 (mpt_Containers t))" by (simp add: in_set_enumerate_eq)
    with assms show ?thesis
      by (auto simp: template_validate_def intro: container_validate_loads)
  qed
  then show ?thesis
    using assms validateRestrictedPath_iff [of jp "child path ''volumes''" "mpt_Volumes t"
        "[''spec'', ''template'', ''spec'', ''volumes'']"]
    by (auto simp: FromTemplate_iff template_validate_def)
qed

lemma versions_validateD:
  "versions_validate jp i seen ts = [] \<Longrightarrow>
     distinct (map mpt_Version ts) \<and> mpt_Version ` set ts \<inter> set seen = {}
     \<and> (\<forall>t \<in> set ts. \<not> blank (mpt_Version t) \<and> (\<exists>path. template_validate jp path t = []))"
proof (induction ts arbitrary: i seen)
  case (Cons t ts)
  from Cons.prems have rest: "versions_validate jp (Suc i) (mpt_Version t # seen) ts = []"
    and t: "\<not> blank (mpt_Version t)" "mpt_Version t \<notin> set seen" "\<exists>path. template_validate jp path t = []"
    by (auto simp: Let_def split: if_splits)
  from Cons.IH [OF rest] t show ?case by auto
qed simp

lemma mapping_validateD:
  assumes "mapping_validate jp m = []"
  shows "distinct (map mpt_Version (mp_Versions m))"
    and "t \<in> set (mp_Versions m) \<Longrightarrow> \<exists>wm. FromWorkloadResourceMappingTemplate jp t = Inr wm"
  using versions_validateD [of jp 0 "[]" "mp_Versions m"] assms
  by (auto simp: mapping_validate_def intro: template_validate_loads)

lemma pickTemplate_cases: "pickTemplate v ts d = d \<or> pickTemplate v ts d \<in> set ts"
  by (induction ts arbitrary: d) auto

lemma not_isl_iff: "\<not> isl x \<longleftrightarrow> (\<exists>y. x = Inr y)"
  by (cases x) auto

lemma workloadContainer_pathContainer:
  assumes "\<exists>root. jp_Parse jp (braced (''.'' @ p @ ''[*]'')) = Inr root"
  shows "\<exists>wc. workloadContainer jp (pathContainer p) = Inr wc"
  using assms by (auto simp: workloadContainer_def pathContainer_def constructRestrictedPath_def)

lemma addContainersPath_loads:
  assumes "\<exists>wm. FromWorkloadResourceMappingTemplate jp t = Inr wm"
    and "p \<noteq> '''' \<longrightarrow> (\<exists>root. jp_Parse jp (braced (''.'' @ p @ ''[*]'')) = Inr root)"
  shows "\<exists>wm. FromWorkloadResourceMappingTemplate jp (addContainersPath p t) = Inr wm"
proof (cases "p = ''''")
  case False
  with assms(2) have "\<exists>wc. workloadContainer jp (pathContainer p) = Inr wc"
    by (intro workloadContainer_pathContainer) simp
  with assms(1) show ?thesis
    by (auto simp: FromTemplate_iff addContainersPath_def Let_def pathContainer_def)
qed (use assms(1) in \<open>simp add: addContainersPath_def\<close>)

lemma default_containers_load:
  assumes "\<exists>wm. FromWorkloadResourceMappingTemplate jp t = Inr wm"
    and "\<exists>wm. FromWorkloadResourceMappingTemplate jp DefaultTemplate = Inr wm"
  shows "\<exists>wm. FromWorkloadResourceMappingTemplate jp
    (if mpt_Containers t = [] then t\<lparr>mpt_Containers := mpt_Containers DefaultTemplate\<rparr> else t) = Inr wm"
  using assms unfolding FromTemplate_iff by simp

lemma pickTemplate_distinct:
  "distinct (map mpt_Version ts) \<Longrightarrow> pickTemplate v ts d =
     (case template_for v ts of
        Some t \<Rightarrow> t
      | None \<Rightarrow> (case template_for ''*'' ts of Some t \<Rightarrow> t | None \<Rightarrow> d))"
proof (induction ts arbitrary: d)
  case (Cons t ts)
  have "template_for ''*'' ts = None" if "mpt_Version t = ''*''"
    using Cons.prems that by (force simp: template_for_def find_None_iff image_iff)
  with Cons show ?case by (auto simp: template_for_def split: option.splits)
qed (simp add: template_for_def)

text \<open>
  C22: A mapping that the webhook accepts can be used: whatever the version of the workload
  and whatever path of containers the application names, the template that the context picks
  from the mapping, completed with the default containers and the named path, is turned into
  a mapping of paths without an error, if the JSONPath parser accepts the default template
  and the named path.
\<close>

theorem accepted_mapping_works:
  assumes "mapping_validate (env_jp e) m = []" and "readMapping e c gvr = Inr (mp_Versions m)"
    and "canPerform e c mappingGVR (GroupResource_String gvr) '''' ''get''"
    and "\<exists>wm. FromWorkloadResourceMappingTemplate (env_jp e) DefaultTemplate = Inr wm"
    and "p \<noteq> '''' \<longrightarrow> (\<exists>root. jp_Parse (env_jp e) (braced (''.'' @ p @ ''[*]'')) = Inr root)"
  shows "\<exists>wm. WorkloadResourceTemplate e c gvr p = Inr wm"
proof -
  let ?t = "pickTemplate (gvr_version gvr) (mp_Versions m) DefaultTemplate"
  have "\<exists>wm. FromWorkloadResourceMappingTemplate (env_jp e) ?t = Inr wm"
    using pickTemplate_cases [of "gvr_version gvr" "mp_Versions m" DefaultTemplate]
      mapping_validateD(2) [OF assms(1)] assms(4) by metis
  from addContainersPath_loads [OF default_containers_load [OF this assms(4)] assms(5)] assms(2,3)
  show ?thesis by (simp add: WorkloadResourceTemplate_def Let_def)
qed

theorem accepted_mapping_works_witness:
  "\<exists>wm. WorkloadResourceTemplate mappedCluster (newContext () shopBinding False) cronjobs ''spec.more'' = Inr wm"
proof (rule accepted_mapping_works [where m = cronMapping])
  show "mapping_validate (env_jp mappedCluster) cronMapping = []" by code_simp
  show "readMapping mappedCluster (newContext () shopBinding False) cronjobs = Inr (mp_Versions cronMapping)"
    by code_simp
  show "canPerform mappedCluster (newContext () shopBinding False) mappingGVR (GroupResource_String cronjobs) '''' ''get''"
    by code_simp
  have "\<not> isl (FromWorkloadResourceMappingTemplate (env_jp mappedCluster) DefaultTemplate)" by code_simp
  then show "\<exists>wm. FromWorkloadResourceMappingTemplate (env_jp mappedCluster) DefaultTemplate = Inr wm"
    unfolding not_isl_iff by blast
  have "\<not> isl (jp_Parse (env_jp mappedCluster) (braced (''.'' @ ''spec.more'' @ ''[*]'')))" by code_simp
  then show "''spec.more'' \<noteq> '''' \<longrightarrow> (\<exists>root. jp_Parse (env_jp mappedCluster) (braced (''.'' @ ''spec.more'' @ ''[*]'')) = Inr root)"
    unfolding not_isl_iff by blast
qed

text \<open>
  The template of an accepted mapping is chosen by version: the one of the workload's
  version if there is one, else the wildcard, else the default, in whatever order the
  mapping lists them.
\<close>

theorem template_choice:
  assumes "mapping_validate jp m = []"
  shows "pickTemplate v (mp_Versions m) d =
    (case template_for v (mp_Versions m) of
       Some t \<Rightarrow> t
     | None \<Rightarrow> (case template_for ''*'' (mp_Versions m) of Some t \<Rightarrow> t | None \<Rightarrow> d))"
  by (rule pickTemplate_distinct) (rule mapping_validateD(1) [OF assms])

theorem template_choice_witness:
  "pickTemplate ''v1'' (mp_Versions cronMapping) DefaultTemplate = hd (mp_Versions cronMapping)"
proof -
  have "mapping_validate fieldsParser cronMapping = []" by code_simp
  from template_choice [OF this] show ?thesis by (simp add: template_for_def cronMapping_def)
qed

section \<open>Admission\<close>

text \<open>
  An update of a binding is accepted exactly when a binding that is ready keeps its
  specification and the workload is not selected by name and by label at once.
\<close>

theorem update_accepted:
  "binding_ValidateUpdate sb old = None \<longleftrightarrow>
     (if IsStatusConditionTrue (sb_Conditions sb) BindingReady then sb_Spec sb = sb_Spec old else True)
     \<and> (case sb_Spec sb of
          CoreSpec s \<Rightarrow> ref_Name (ca_Ref (co_Application s)) = ''''
            \<or> Option.bind (ca_LabelSelector (co_Application s)) ls_MatchLabels = None
        | SpecSpec s \<Rightarrow> wr_Name (sp_Workload s) = '''' \<or> Option.bind (wr_Selector (sp_Workload s)) ls_MatchLabels = None)"
  by (auto simp: binding_ValidateUpdate_def CanUpdateBinding_def checkNameAndSelector_def nameAndSelector_def
      split: binding_spec.splits option.splits)



section \<open>Rebinding after a change of a mapping\<close>

lemma logged_codecs [simp]:
  "env_BindingFrom (logged e) = env_BindingFrom e" "env_MarshalMapping (logged e) = env_MarshalMapping e"
  "env_RESTMapping (logged e) = env_RESTMapping e" "env_List (logged e) w = env_List e (fst w)"
  by (simp_all add: logged_def)

lemma ResourceForKind_logged: "ResourceForKind (logged e) = ResourceForKind e"
  by (rule ext) (simp add: ResourceForKind_def)

lemma workloadGVR_logged [simp]: "workloadGVR (logged e) sb = workloadGVR e sb"
  by (simp only: workloadGVR_def ResourceForKind_logged)

lemma markBinding_logged [simp]: "markBinding (logged e) m u = markBinding e m u"
  by (simp add: markBinding_def)

lemma markBindings_log:
  "markBindings (logged e) m gvr us w = (w', Ok ()) \<Longrightarrow>
     snd w' = snd w @ map (\<lambda>u. UpdateCall gvr (bindingNs e u) (markBinding e m u)) (filter (concerns e m) us)"
proof (induction us arbitrary: w)
  case (Cons u us)
  obtain sb g where u: "env_BindingFrom e u = Inr sb" "workloadGVR e sb = Ok g"
    using Cons.prems by (auto split: sum.splits go.splits)
  show ?case
  proof (cases "AcceptsGVR m g")
    case True
    with Cons.prems u obtain w1 where w1: "env_Update (logged e) gvr (om_Namespace (sb_Meta sb)) (markBinding e m u) w = (None, w1)"
      "markBindings (logged e) m gvr us w1 = (w', Ok ())"
      by (auto split: prod.splits option.splits)
    from Cons.IH [OF w1(2)] logged_writes(2) [OF w1(1)] u True show ?thesis
      by (simp add: concerns_def bindingNs_def)
  next
    case False
    with Cons.prems u Cons.IH show ?thesis by (simp add: concerns_def)
  qed
qed simp



text \<open>
  C24: A binding that was marked with the old mapping is unbound with that mapping, even
  though the cluster has the new one: the operator takes the annotation as a request to
  unbind and reads the mapping from it.
\<close>

theorem marked_binding_unbinds:
  assumes "\<And>v. map_of u ''metadata'' = Some v \<Longrightarrow> \<exists>m. v = JObj m"
    and "env_UnmarshalMapping e (env_MarshalMapping e m) = Inr m"
    and "GetAnnotations (markBinding e m u) = Some (om_Annotations (cx_Meta c))"
  shows "UnbindRequested c \<and> readMapping e c gvr = Inr (mp_Versions m)"
proof -
  let ?anns = "AList.update MappingAnnotationKey (env_MarshalMapping e m)
       (case GetAnnotations u of None \<Rightarrow> [] | Some anns \<Rightarrow> anns)"
  have "GetAnnotations (markBinding e m u) = Some ?anns"
    unfolding markBinding_def by (rule Get_SetAnnotations) (rule assms(1))
  with assms(3) have "om_Annotations (cx_Meta c) = ?anns" by simp
  then have "map_of (om_Annotations (cx_Meta c)) MappingAnnotationKey = Some (env_MarshalMapping e m)"
    by (simp add: update_conv')
  with assms(2) show ?thesis by (simp add: UnbindRequested_def readMapping_def)
qed

theorem marked_binding_unbinds_witness:
  "readMapping mappedCluster (newContext () (shopBinding\<lparr>sb_Meta := (sb_Meta shopBinding)
     \<lparr>om_Annotations := [(MappingAnnotationKey, ''cronjobs.batch'')]\<rparr>\<rparr>) False) cronjobs = Inr (mp_Versions cronMapping)"
proof -
  let ?c = "newContext () (shopBinding\<lparr>sb_Meta := (sb_Meta shopBinding)
     \<lparr>om_Annotations := [(MappingAnnotationKey, ''cronjobs.batch'')]\<rparr>\<rparr>) False"
  have "GetAnnotations (markBinding mappedCluster cronMapping []) = Some (om_Annotations (cx_Meta ?c))"
    "env_UnmarshalMapping mappedCluster (env_MarshalMapping mappedCluster cronMapping) = Inr cronMapping" by code_simp+
  with marked_binding_unbinds [of "[]" mappedCluster cronMapping ?c cronjobs] show ?thesis by simp
qed

text \<open>
  A mapping for a resource of the core group, such as the pods, is never found to be for a
  workload: the operator looks such a mapping up by the name of the resource alone, the
  webhook compares with a name that ends in a dot. The bindings of its workloads are not
  marked when it changes.
\<close>

lemma core_mapping_not_rebound:
  assumes "gvr_group r = ''''" and "mp_Name m = GroupResource_String r"
  shows "\<not> AcceptsGVR m r"
  using assms by (simp add: AcceptsGVR_def GroupResource_String_def)

end
