(* ===== verification/CrdController.thy ===== *)
theory CrdController
  imports Access
begin

text \<open>
  The reconciler of custom resource definitions, \<open>controllers/crd/crd_controller.go\<close>,
  which keeps the list of bindable kinds.

  \<open>crd_object\<close> holds the fields of a typed definition that the reconciler uses, with the
  rest of the object; the conversions between it and the unstructured object are the
  parameters \<open>from\<close> and \<open>to\<close>. The shared map of bindable kinds is a list of kinds without
  duplicates.
\<close>

record crd_object =
  co_name :: string
  co_Group :: string
  co_Kind :: string
  co_Versions :: "(string \<times> bool) list"
  co_Deleted :: bool
  co_Annotations :: "strmap option"
  co_Rest :: fields

definition crdGVR :: gvr where
  "crdGVR =
     \<lparr>gvr_group = ''apiextensions.k8s.io'', gvr_version = ''v1'', gvr_resource = ''customresourcedefinitions''\<rparr>"

definition bindableKindsGVR :: gvr where
  "bindableKindsGVR =
     \<lparr>gvr_group = ''binding.operators.coreos.com'', gvr_version = ''v1alpha1'', gvr_resource = ''bindablekinds''\<rparr>"

definition Store :: "gvk \<Rightarrow> gvk list \<Rightarrow> gvk list" where
  "Store k ks = (if k \<in> set ks then ks else ks @ [k])"

definition Delete :: "gvk \<Rightarrow> gvk list \<Rightarrow> gvk list" where
  "Delete k ks = filter (\<lambda>x. x \<noteq> k) ks"

definition fakeServiceContent :: "gvk \<Rightarrow> fields" where
  "fakeServiceContent k =
     [(''metadata'', JObj [(''name'', JStr ''s1'')]),
      (''apiVersion'', JStr (if gvk_group k = '''' then gvk_version k
                             else gvk_group k @ ''/'' @ gvk_version k)),
      (''kind'', JStr (gvk_kind k))]"

record 'w crd_state =
  cs_crd :: crd_object
  cs_kinds :: "gvk list"
  cs_toPersist :: bool
  cs_world :: 'w

text \<open>One served or unserved version of the definition.\<close>

definition crdVersion ::
  "'w env \<Rightarrow> (crd_object \<Rightarrow> go_error + fields) \<Rightarrow> string \<times> bool \<Rightarrow> 'w crd_state \<Rightarrow> 'w crd_state \<times> unit go" where
  "crdVersion e to v st =
     (case v of
        (version, served) \<Rightarrow>
          if \<not> served then (st, Ok ())
          else
            let gvk = mkgvk (co_Group (cs_crd st)) version (co_Kind (cs_crd st)) in
            if co_Deleted (cs_crd st) then
              (st\<lparr>cs_kinds := Delete gvk (cs_kinds st), cs_toPersist := True\<rparr>, Ok ())
            else
              (case service_Build e NewBuilder (fakeServiceContent gvk) [CrdReaderOption (to (cs_crd st))] of
                 Inl err \<Rightarrow> (st, Err err)
               | Inr s \<Rightarrow>
                   (case snd (service_IsBindable e (cs_world st) s) of
                      Err err \<Rightarrow> (st, Err err)
                    | Panic p \<Rightarrow> (st, Panic p)
                    | Ok True \<Rightarrow> (st\<lparr>cs_kinds := Store gvk (cs_kinds st), cs_toPersist := True\<rparr>, Ok ())
                    | Ok False \<Rightarrow>
                        (case registryGetAnnotations (env_registry e) gvk of
                           None \<Rightarrow> (st, Ok ())
                         | Some annotations \<Rightarrow>
                             let crd = (cs_crd st)\<lparr>co_Annotations :=
                                          MergeMaps (co_Annotations (cs_crd st)) (Some annotations)\<rparr>
                             in (case to crd of
                                   Inl err \<Rightarrow> (st\<lparr>cs_crd := crd\<rparr>, Err err)
                                 | Inr u \<Rightarrow>
                                     (case env_Update e crdGVR '''' u (cs_world st) of
                                        (Some err, w) \<Rightarrow> (st\<lparr>cs_crd := crd, cs_world := w\<rparr>, Err err)
                                      | (None, w) \<Rightarrow> (st\<lparr>cs_crd := crd, cs_world := w\<rparr>, Ok ())))))))"

fun crdVersions ::
  "'w env \<Rightarrow> (crd_object \<Rightarrow> go_error + fields) \<Rightarrow> (string \<times> bool) list \<Rightarrow> 'w crd_state \<Rightarrow> 'w crd_state \<times> unit go" where
  "crdVersions e to [] st = (st, Ok ())"
| "crdVersions e to (v # vs) st =
     (case crdVersion e to v st of
        (st', Ok _) \<Rightarrow> crdVersions e to vs st'
      | r \<Rightarrow> r)"

definition kindStatus :: "gvk \<Rightarrow> json" where
  "kindStatus k =
     JObj [(''group'', JStr (gvk_group k)), (''version'', JStr (gvk_version k)), (''kind'', JStr (gvk_kind k))]"

definition withKinds :: "gvk list \<Rightarrow> fields \<Rightarrow> fields" where
  "withKinds ks bk =
     (if ks = [] then AList.delete ''status'' bk
      else AList.update ''status'' (JArr (map kindStatus ks)) bk)"

definition persistKinds :: "'w env \<Rightarrow> gvk list \<Rightarrow> 'w \<Rightarrow> go_error option \<times> 'w" where
  "persistKinds e ks w =
     (let put = (\<lambda>bk. if GetUID bk = ''''
            then env_Create e bindableKindsGVR ''''
                   (withKinds ks (AList.update ''metadata'' (JObj [(''name'', JStr ''bindable-kinds'')]) bk)) w
            else env_Update e bindableKindsGVR '''' (withKinds ks bk) w)
      in case env_Get e w bindableKindsGVR '''' ''bindable-kinds'' of
           Inl err \<Rightarrow> if IsNotFound err then put [] else (Some err, w)
         | Inr bk \<Rightarrow> put bk)"

text \<open>The result carries no requeue; the error is the second component.\<close>

definition CrdReconcile ::
  "'w env \<Rightarrow> (fields \<Rightarrow> go_error + crd_object) \<Rightarrow> (crd_object \<Rightarrow> go_error + fields) \<Rightarrow> string
     \<Rightarrow> gvk list \<Rightarrow> 'w \<Rightarrow> gvk list \<times> go_error option \<times> 'w" where
  "CrdReconcile e from to name kinds w =
     (case (case env_Get e w crdGVR '''' name of Inl err \<Rightarrow> Inl err | Inr u \<Rightarrow> from u) of
        Inl err \<Rightarrow> if IsNotFound err then (kinds, None, w) else (kinds, Some err, w)
      | Inr crd \<Rightarrow>
          (case crdVersions e to (co_Versions crd)
                  \<lparr>cs_crd = crd, cs_kinds = kinds, cs_toPersist = False, cs_world = w\<rparr> of
             (st, Err err) \<Rightarrow> (cs_kinds st, Some err, cs_world st)
           | (st, Panic p) \<Rightarrow> (cs_kinds st, Some (Errorf ''panic occurred: %v'' [JStr p]), cs_world st)
           | (st, Ok _) \<Rightarrow>
               if \<not> cs_toPersist st then (cs_kinds st, None, cs_world st)
               else
                 (case persistKinds e (cs_kinds st) (cs_world st) of
                    (r, w') \<Rightarrow> (cs_kinds st, r, w'))))"

section \<open>Notions for the theorems\<close>

definition crdKind :: "crd_object \<Rightarrow> string \<Rightarrow> gvk" where
  "crdKind crd version = mkgvk (co_Group crd) version (co_Kind crd)"

definition servedKinds :: "crd_object \<Rightarrow> (string \<times> bool) list \<Rightarrow> gvk list" where
  "servedKinds crd vs = map (crdKind crd \<circ> fst) (filter snd vs)"

text \<open>The writes of the reconciler: definitions, and the list of bindable kinds with given kinds.\<close>

definition listsKinds :: "gvk list \<Rightarrow> fields \<Rightarrow> bool" where
  "listsKinds ks u = (map_of u ''status'' = (if ks = [] then None else Some (JArr (map kindStatus ks))))"

definition kinds_call :: "gvk list \<Rightarrow> call \<Rightarrow> bool" where
  "kinds_call ks k =
     (case k of
        CreateCall g ns u \<Rightarrow> g = bindableKindsGVR \<and> listsKinds ks u
      | UpdateCall g ns u \<Rightarrow> g = bindableKindsGVR \<and> listsKinds ks u
      | StatusCall g ns u \<Rightarrow> False)"

definition crd_call :: "call \<Rightarrow> bool" where
  "crd_call k = (case k of UpdateCall g ns u \<Rightarrow> g = crdGVR | _ \<Rightarrow> False)"

text \<open>A definition of databases that is being deleted, in a cluster that has it.\<close>

definition deletedCrd :: crd_object where
  "deletedCrd = \<lparr>co_name = ''dbs.db.io'', co_Group = ''db.io'', co_Kind = ''Db'',
     co_Versions = [(''v1'', True), (''v1alpha1'', False)], co_Deleted = True, co_Annotations = None, co_Rest = []\<rparr>"

definition crdCluster :: "unit env" where
  "crdCluster = emptyCluster\<lparr>env_Get := (\<lambda>_ g ns name. if g = crdGVR then Inr [] else Inl (StatusErr ''NotFound'' ''''))\<rparr>"

section \<open>The list of kinds\<close>

lemma crdVersion_object:
  assumes "crdVersion e to v st = (st', r)"
  shows "crdKind (cs_crd st') = crdKind (cs_crd st)" and "co_Deleted (cs_crd st') = co_Deleted (cs_crd st)"
  using assms
  by (auto simp: crdVersion_def crdKind_def fun_eq_iff Let_def
      split: prod.splits if_splits sum.splits go.splits bool.splits option.splits)

lemma crdVersion_deleted:
  "co_Deleted (cs_crd st) \<Longrightarrow> crdVersion e to v st =
     (if snd v then st\<lparr>cs_kinds := filter (\<lambda>k. k \<noteq> crdKind (cs_crd st) (fst v)) (cs_kinds st), cs_toPersist := True\<rparr>
      else st, Ok ())"
  by (cases v) (simp add: crdVersion_def crdKind_def Delete_def)

lemma crdVersion_live:
  "\<not> co_Deleted (cs_crd st) \<Longrightarrow> crdVersion e to v st = (st', r) \<Longrightarrow>
     cs_kinds st' = cs_kinds st \<or> (snd v \<and> cs_kinds st' = Store (crdKind (cs_crd st) (fst v)) (cs_kinds st))"
  by (auto simp: crdVersion_def crdKind_def Let_def
      split: prod.splits if_splits sum.splits go.splits bool.splits option.splits)

lemma crdVersions_deleted:
  "co_Deleted (cs_crd st) \<Longrightarrow> \<exists>st'. crdVersions e to vs st = (st', Ok ())
     \<and> cs_kinds st' = filter (\<lambda>k. k \<notin> set (servedKinds (cs_crd st) vs)) (cs_kinds st)"
proof (induction vs arbitrary: st)
  case (Cons v vs)
  define st1 where "st1 = fst (crdVersion e to v st)"
  from Cons.prems have v: "crdVersion e to v st = (st1, Ok ())" by (simp add: st1_def crdVersion_deleted)
  with Cons.prems crdVersion_object(2) [OF v] Cons.IH [of st1]
  obtain st' where "crdVersions e to vs st1 = (st', Ok ())"
    "cs_kinds st' = filter (\<lambda>k. k \<notin> set (servedKinds (cs_crd st1) vs)) (cs_kinds st1)" by auto
  with v Cons.prems show ?case
    by (auto simp: st1_def crdVersion_deleted servedKinds_def intro!: filter_cong)
qed (simp add: servedKinds_def)

lemma crdVersions_live:
  "\<not> co_Deleted (cs_crd st) \<Longrightarrow> crdVersions e to vs st = (st', r) \<Longrightarrow>
     \<exists>new. cs_kinds st' = cs_kinds st @ new \<and> distinct new \<and> set new \<inter> set (cs_kinds st) = {}
       \<and> set new \<subseteq> set (servedKinds (cs_crd st) vs)"
proof (induction vs arbitrary: st)
  case (Cons v vs)
  obtain st1 r1 where v: "crdVersion e to v st = (st1, r1)" by fastforce
  obtain new1 where new1: "cs_kinds st1 = cs_kinds st @ new1" "distinct new1" "set new1 \<inter> set (cs_kinds st) = {}"
    "set new1 \<subseteq> set (servedKinds (cs_crd st) [v])"
    using crdVersion_live [OF Cons.prems(1) v] by (auto simp: Store_def servedKinds_def split: if_splits)
  have obj: "servedKinds (cs_crd st1) vs = servedKinds (cs_crd st) vs" "co_Deleted (cs_crd st1) = co_Deleted (cs_crd st)"
    using crdVersion_object [OF v] by (simp_all add: servedKinds_def)
  have sub: "set (servedKinds (cs_crd st) [v]) \<union> set (servedKinds (cs_crd st) vs) = set (servedKinds (cs_crd st) (v # vs))"
    by (auto simp: servedKinds_def)
  show ?case
  proof (cases "r1 = Ok ()")
    case True
    with v Cons.prems(2) have "crdVersions e to vs st1 = (st', r)" by simp
    with Cons.IH [of st1] Cons.prems(1) obj obtain new2 where
      "cs_kinds st' = cs_kinds st1 @ new2" "distinct new2" "set new2 \<inter> set (cs_kinds st1) = {}"
      "set new2 \<subseteq> set (servedKinds (cs_crd st) vs)" by auto
    with new1 sub show ?thesis by (intro exI [of _ "new1 @ new2"]) auto
  next
    case False
    with v Cons.prems(2) have "st' = st1" by (auto split: go.splits)
    with new1 sub show ?thesis by (intro exI [of _ new1]) auto
  qed
qed (simp add: servedKinds_def)

section \<open>The writes\<close>

lemma crdVersion_log:
  "crdVersion (logged e) to v st = (st', r) \<Longrightarrow>
     \<exists>log. snd (cs_world st') = snd (cs_world st) @ log \<and> list_all crd_call log"
  by (auto simp: crdVersion_def Let_def crd_call_def dest!: logged_writes
      split: prod.splits if_splits sum.splits go.splits bool.splits option.splits)

lemma crdVersions_log:
  "crdVersions (logged e) to vs st = (st', r) \<Longrightarrow>
     \<exists>log. snd (cs_world st') = snd (cs_world st) @ log \<and> list_all crd_call log"
proof (induction vs arbitrary: st)
  case (Cons v vs)
  obtain st1 r1 where v: "crdVersion (logged e) to v st = (st1, r1)" by fastforce
  from crdVersion_log [OF v] obtain log1 where
    log1: "snd (cs_world st1) = snd (cs_world st) @ log1" "list_all crd_call log1" by blast
  show ?case
  proof (cases "r1 = Ok ()")
    case True
    with v Cons.prems have "crdVersions (logged e) to vs st1 = (st', r)" by simp
    from Cons.IH [OF this] log1 show ?thesis by (auto simp: list_all_append)
  next
    case False
    with v Cons.prems have "st' = st1" by (auto split: go.splits)
    with log1 show ?thesis by blast
  qed
qed simp

lemma listsKinds_withKinds: "listsKinds ks (withKinds ks bk)"
  by (simp add: listsKinds_def withKinds_def update_conv' delete_conv')

lemma persistKinds_log:
  "persistKinds (logged e) ks w = (r, w') \<Longrightarrow>
     \<exists>log. snd w' = snd w @ log \<and> list_all (kinds_call ks) log"
  by (auto simp: persistKinds_def Let_def kinds_call_def listsKinds_withKinds dest!: logged_writes
      split: sum.splits if_splits)

text \<open>
  C33: The list of bindable kinds after a reconciliation of a definition: it has no
  duplicates; if the definition is being deleted, exactly the kinds of its served versions
  are gone; otherwise all kinds stay and only kinds of its served versions are new. A kind
  that is no longer bindable stays in the list as long as its definition exists.
\<close>

theorem crd_kinds:
  assumes "env_Get e w crdGVR '''' name = Inr u" and "from u = Inr crd" and "distinct kinds"
    and "CrdReconcile e from to name kinds w = (kinds', r, w')"
  shows "distinct kinds' \<and>
    (if co_Deleted crd then kinds' = filter (\<lambda>k. k \<notin> set (servedKinds crd (co_Versions crd))) kinds
     else \<exists>new. kinds' = kinds @ new \<and> set new \<subseteq> set (servedKinds crd (co_Versions crd)))"
proof -
  let ?st = "\<lparr>cs_crd = crd, cs_kinds = kinds, cs_toPersist = False, cs_world = w\<rparr>"
  obtain st' res where st': "crdVersions e to (co_Versions crd) ?st = (st', res)" by fastforce
  with assms have kinds': "kinds' = cs_kinds st'"
    by (auto simp: CrdReconcile_def split: go.splits if_splits prod.splits)
  show ?thesis
  proof (cases "co_Deleted crd")
    case True
    with crdVersions_deleted [of ?st e to "co_Versions crd"] st' kinds' assms(3) show ?thesis by auto
  next
    case False
    with crdVersions_live [of ?st, OF _ st'] kinds' assms(3) show ?thesis by auto
  qed
qed

theorem crd_kinds_witness:
  "fst (CrdReconcile crdCluster (\<lambda>_. Inr deletedCrd) (\<lambda>_. Inr []) ''dbs.db.io''
      [mkgvk ''db.io'' ''v1'' ''Db'', mkgvk ''db.io'' ''v1'' ''Cache''] ()) = [mkgvk ''db.io'' ''v1'' ''Cache'']"
proof -
  let ?ks = "[mkgvk ''db.io'' ''v1'' ''Db'', mkgvk ''db.io'' ''v1'' ''Cache'']"
  let ?r = "CrdReconcile crdCluster (\<lambda>_. Inr deletedCrd) (\<lambda>_. Inr []) ''dbs.db.io'' ?ks ()"
  have "?r = (fst ?r, fst (snd ?r), snd (snd ?r))" by (simp only: prod.collapse)
  moreover have "env_Get crdCluster () crdGVR '''' ''dbs.db.io'' = Inr []" by (simp add: crdCluster_def)
  moreover have "distinct ?ks" by code_simp
  ultimately have "fst ?r = filter (\<lambda>k. k \<notin> set (servedKinds deletedCrd (co_Versions deletedCrd))) ?ks"
    using crd_kinds [of crdCluster "()" "''dbs.db.io''" "[]" "\<lambda>_. Inr deletedCrd" deletedCrd ?ks "\<lambda>_. Inr []"]
    by (simp add: deletedCrd_def)
  also have "\<dots> = [mkgvk ''db.io'' ''v1'' ''Cache'']" by code_simp
  finally show ?thesis .
qed

text \<open>
  Whatever the reconciler of definitions writes, besides the definition itself, is the
  object with the bindable kinds, and what it says of the kinds is the list after the
  reconciliation: the cluster and the operator never disagree after a write.
\<close>

theorem persisted_kinds:
  assumes "CrdReconcile (logged e) from to name kinds (w, []) = (kinds', r, (w', log))"
  shows "list_all (\<lambda>k. crd_call k \<or> kinds_call kinds' k) log"
proof (cases "case env_Get (logged e) (w, []) crdGVR '''' name of Inl err \<Rightarrow> Inl err | Inr u \<Rightarrow> from u")
  case (Inl err)
  with assms show ?thesis by (auto simp: CrdReconcile_def split: if_splits)
next
  case (Inr crd)
  let ?st = "\<lparr>cs_crd = crd, cs_kinds = kinds, cs_toPersist = False, cs_world = (w, [])\<rparr>"
  obtain st' res where st': "crdVersions (logged e) to (co_Versions crd) ?st = (st', res)" by fastforce
  obtain log1 where log1: "snd (cs_world st') = log1" "list_all crd_call log1"
    using crdVersions_log [OF st'] by auto
  obtain r2 w2 where w2: "persistKinds (logged e) (cs_kinds st') (cs_world st') = (r2, w2)" by (metis surj_pair)
  with persistKinds_log [OF w2] log1 obtain log2 where
    log2: "snd w2 = log1 @ log2" "list_all (kinds_call (cs_kinds st')) log2" by auto
  have "kinds' = cs_kinds st'" and "log = log1 \<or> log = log1 @ log2"
    using assms Inr st' log1(1) w2 log2(1) by (auto simp: CrdReconcile_def split: go.splits if_splits)
  with log1(2) log2(2) show ?thesis by (auto simp: list_all_iff)
qed

theorem persisted_kinds_witness:
  "\<exists>log. snd (snd (snd (CrdReconcile (logged crdCluster) (\<lambda>_. Inr deletedCrd) (\<lambda>_. Inr []) ''dbs.db.io''
      [mkgvk ''db.io'' ''v1'' ''Db'', mkgvk ''db.io'' ''v1'' ''Cache''] ((), [])))) = log
    \<and> log \<noteq> [] \<and> list_all (\<lambda>k. crd_call k \<or> kinds_call [mkgvk ''db.io'' ''v1'' ''Cache''] k) log"
proof -
  let ?r = "CrdReconcile (logged crdCluster) (\<lambda>_. Inr deletedCrd) (\<lambda>_. Inr []) ''dbs.db.io''
      [mkgvk ''db.io'' ''v1'' ''Db'', mkgvk ''db.io'' ''v1'' ''Cache''] ((), [])"
  have r: "?r = (fst ?r, fst (snd ?r), (fst (snd (snd ?r)), snd (snd (snd ?r))))" by (simp only: prod.collapse)
  have "fst ?r = [mkgvk ''db.io'' ''v1'' ''Cache'']" "snd (snd (snd ?r)) \<noteq> []" by code_simp+
  with persisted_kinds [OF r] show ?thesis by simp
qed

end
