(* ===== verification/Startup.thy ===== *)
theory Startup
  imports Controller Webhook CrdController
begin

text \<open>
  The start of the operator, \<open>main.go\<close>: flags and environment, the options of the manager, the
  account of the operator, and the controllers and webhooks that are registered with the
  manager, with their set-up functions in \<open>controllers/common.go\<close>,
  \<open>controllers/crd/crd_controller.go\<close>, \<open>apis/webhooks\<close> and the API packages.

  The libraries are the record \<open>libraries\<close>: the environment variables, the configuration of
  the client, the calls with which the clients and the manager are created, and the calls with
  which a controller, a webhook or a check is registered, each of which may be refused. A
  registration carries the functions that the manager calls later. The flags are given as
  they are after parsing; logging is left out.
\<close>

section \<open>Flags and options\<close>

record flags =
  fl_metricsAddr :: string
  fl_probeAddr :: string
  fl_enableLeaderElection :: bool
  fl_enableHTTP2 :: bool
  fl_MaxConcurrentReconciles :: int

text \<open>The values without a command line.\<close>

definition RegisterFlags :: int where
  "RegisterFlags = 1"

definition defaultFlags :: flags where
  "defaultFlags =
     \<lparr>fl_metricsAddr = '':8080'', fl_probeAddr = '':8081'', fl_enableLeaderElection = False,
      fl_enableHTTP2 = False, fl_MaxConcurrentReconciles = RegisterFlags\<rparr>"

record tls_config =
  tls_NextProtos :: "string list"

definition disableHTTP2 :: "tls_config \<Rightarrow> tls_config" where
  "disableHTTP2 c = c\<lparr>tls_NextProtos := [''http/1.1'']\<rparr>"

record manager_options =
  mo_WatchNamespace :: string
  mo_WebhookPort :: nat
  mo_WebhookTLSOpts :: "(tls_config \<Rightarrow> tls_config) list"
  mo_MetricsBindAddress :: string
  mo_MetricsTLSOpts :: "(tls_config \<Rightarrow> tls_config) list"
  mo_HealthProbeBindAddress :: string
  mo_LeaderElection :: bool
  mo_LeaderElectionID :: string

text \<open>The namespace to watch, the empty one standing for all, and the error if none is set.\<close>

definition getWatchNamespace :: "(string \<Rightarrow> string option) \<Rightarrow> string \<times> go_error option" where
  "getWatchNamespace LookupEnv =
     (case LookupEnv ''WATCH_NAMESPACE'' of
        None \<Rightarrow> ('''', Some (Errorf ''%s must be set'' [JStr ''WATCH_NAMESPACE'']))
      | Some ns \<Rightarrow> (ns, None))"

definition managerOptions :: "(string \<Rightarrow> string option) \<Rightarrow> flags \<Rightarrow> manager_options" where
  "managerOptions LookupEnv fl =
     (let tlsopts = (if fl_enableHTTP2 fl then [] else [disableHTTP2]) in
      \<lparr>mo_WatchNamespace = fst (getWatchNamespace LookupEnv), mo_WebhookPort = 9443,
       mo_WebhookTLSOpts = tlsopts, mo_MetricsBindAddress = fl_metricsAddr fl, mo_MetricsTLSOpts = tlsopts,
       mo_HealthProbeBindAddress = fl_probeAddr fl, mo_LeaderElection = fl_enableLeaderElection fl,
       mo_LeaderElectionID = ''8fa65150.coreos.com''\<rparr>)"

section \<open>Registrations\<close>

datatype 'w registration =
    BindingController "'w controller"
  | DefinitionController "string \<Rightarrow> gvk list \<Rightarrow> 'w \<Rightarrow> gvk list \<times> go_error option \<times> 'w"
  | MutatingWebhook string "admission_request \<Rightarrow> admission_response"
  | BindingWebhook gvr "sbinding \<Rightarrow> go_error option" "sbinding \<Rightarrow> sbinding \<Rightarrow> go_error option"
      "sbinding \<Rightarrow> go_error option"
  | MappingWebhook "mapping \<Rightarrow> go_error list" "mapping \<Rightarrow> mapping \<Rightarrow> 'w \<Rightarrow> 'w \<times> (go_error list + unit go)"
      "mapping \<Rightarrow> go_error list"
  | HealthzCheck string
  | ReadyzCheck string

record 'w libraries =
  lb_LookupEnv :: "string \<Rightarrow> string option"
  lb_GetConfig :: "go_error + rest_config"
  lb_auth :: auth_env
  lb_clients :: clients
  lb_NewManager :: "manager_options \<Rightarrow> go_error option"
  lb_Register :: "'w registration list \<Rightarrow> 'w registration \<Rightarrow> go_error option"
  lb_Start :: "'w registration list \<Rightarrow> go_error option"
  lb_CrdFrom :: "fields \<Rightarrow> go_error + crd_object"
  lb_CrdTo :: "crd_object \<Rightarrow> go_error + fields"

definition binding_ValidateDelete :: "sbinding \<Rightarrow> go_error option" where
  "binding_ValidateDelete sb = None"

definition mapping_ValidateDelete :: "mapping \<Rightarrow> go_error list" where
  "mapping_ValidateDelete m = []"

definition SetupWebhookWithManager :: "gvr \<Rightarrow> 'w registration" where
  "SetupWebhookWithManager g = BindingWebhook g binding_ValidateCreate binding_ValidateUpdate binding_ValidateDelete"

definition webhooks_SetupWithManager :: "'w env \<Rightarrow> string \<Rightarrow> 'w registration" where
  "webhooks_SetupWithManager e serviceAccountName =
     MutatingWebhook ''/mutate-servicebinding'' (admission_Handle e serviceAccountName)"

definition NewMappingValidator :: "'w env \<Rightarrow> clients \<Rightarrow> rest_config \<Rightarrow> go_error + 'w registration" where
  "NewMappingValidator e cl conf =
     (case cl_NewDynamic cl conf of
        Some err \<Rightarrow> Inl err
      | None \<Rightarrow> Inr (MappingWebhook (mapping_ValidateCreate e) (mapping_ValidateUpdate e) mapping_ValidateDelete))"

definition crd_SetupWithManager ::
  "'w env \<Rightarrow> clients \<Rightarrow> (fields \<Rightarrow> go_error + crd_object) \<Rightarrow> (crd_object \<Rightarrow> go_error + fields) \<Rightarrow> rest_config
     \<Rightarrow> go_error + 'w registration" where
  "crd_SetupWithManager e cl from to conf =
     (case cl_NewDynamic cl conf of
        Some err \<Rightarrow> Inl err
      | None \<Rightarrow> Inr (DefinitionController (CrdReconcile e from to)))"

section \<open>The program\<close>

text \<open>The program ends with an exit code and the message it logs, or after the manager has run.\<close>

datatype 'w program_end = Exit nat string | Ran manager_options "'w registration list"

definition orExit :: "go_error option \<Rightarrow> string \<Rightarrow> 'w program_end \<Rightarrow> 'w program_end" where
  "orExit err msg rest = (case err of Some _ \<Rightarrow> Exit 1 msg | None \<Rightarrow> rest)"

text \<open>One registration after the others; its set-up may have failed already.\<close>

definition register ::
  "'w libraries \<Rightarrow> string \<Rightarrow> go_error + 'w registration \<Rightarrow> 'w registration list
     \<Rightarrow> ('w registration list \<Rightarrow> 'w program_end) \<Rightarrow> 'w program_end" where
  "register lb msg r regs rest =
     (case r of
        Inl _ \<Rightarrow> Exit 1 msg
      | Inr reg \<Rightarrow> orExit (lb_Register lb regs reg) msg (rest (regs @ [reg])))"

definition main :: "'w libraries \<Rightarrow> 'w env \<Rightarrow> flags \<Rightarrow> 'w program_end" where
  "main lb e fl =
     (case lb_GetConfig lb of
        Inl _ \<Rightarrow> Exit 1 ''unable to get kubeconfig''
      | Inr conf \<Rightarrow>
          let opts = managerOptions (lb_LookupEnv lb) fl; cl = lb_clients lb; k = fl_MaxConcurrentReconciles fl in
          orExit (lb_NewManager lb opts) ''unable to start manager''
          (case WhoAmI (lb_auth lb) conf of
             Inl _ \<Rightarrow> Exit 1 ''cannot detect service account name''
           | Inr serviceAccountName \<Rightarrow>
               register lb ''unable to create controller''
                 (map_sum id BindingController (SetupWithManager e conf k (binding_New e cl))) [] (\<lambda>r1.
               register lb ''unable to create webhook'' (Inr (SetupWebhookWithManager coreBindingGVR)) r1 (\<lambda>r2.
               register lb ''unable to create controller''
                 (map_sum id BindingController (SetupWithManager e conf k (spec_New e cl))) r2 (\<lambda>r3.
               let r4 = r3 @ [webhooks_SetupWithManager e serviceAccountName] in
               register lb ''unable to create webhook'' (Inr (SetupWebhookWithManager specBindingGVR)) r4 (\<lambda>r5.
               (case NewMappingValidator e cl conf of
                  Inl _ \<Rightarrow> Exit 1 ''unable to initialize webhook''
                | Inr v \<Rightarrow> register lb ''unable to create webhook'' (Inr v) r5 (\<lambda>r6.
               register lb ''unable to create controller''
                 (crd_SetupWithManager e cl (lb_CrdFrom lb) (lb_CrdTo lb) conf) r6 (\<lambda>r7.
               register lb ''unable to set up health check'' (Inr (HealthzCheck ''health'')) r7 (\<lambda>r8.
               register lb ''unable to set up ready check'' (Inr (ReadyzCheck ''check'')) r8 (\<lambda>r9.
               orExit (lb_Start lb r9) ''problem running manager'' (Ran opts r9))))))))))))"

section \<open>Notions for the theorems\<close>

definition operatorController ::
  "'w env \<Rightarrow> gvr \<Rightarrow> ('w \<Rightarrow> sbinding \<Rightarrow> 'w process_result) \<Rightarrow> int \<Rightarrow> 'w controller" where
  "operatorController e g process k =
     \<lparr>ct_For = g, ct_EventFilter = predicate_Or [GenerationChangedPredicate, AnnotationChangedPredicate],
      ct_MaxConcurrentReconciles = k, ct_Do = Some (Reconcile e g process)\<rparr>"

text \<open>Libraries that refuse nothing, for an operator with a token.\<close>

definition willingLibraries :: "unit libraries" where
  "willingLibraries =
     \<lparr>lb_LookupEnv = (\<lambda>_. None), lb_GetConfig = Inr tokenConfig, lb_auth = tokenClient ''system:serviceaccount:operators:sbo'',
      lb_clients = \<lparr>cl_NewDynamic = (\<lambda>_. None), cl_NewAuthorization = (\<lambda>_. None)\<rparr>, lb_NewManager = (\<lambda>_. None),
      lb_Register = (\<lambda>_ _. None), lb_Start = (\<lambda>_. None), lb_CrdFrom = (\<lambda>_. Inl (errNew ''no codec'')),
      lb_CrdTo = (\<lambda>_. Inl (errNew ''no codec''))\<rparr>"

definition willingRun :: "unit program_end" where
  "willingRun = main willingLibraries emptyCluster defaultFlags"

section \<open>What runs\<close>

lemma orExit_Ran [simp]: "orExit err msg rest = Ran opts regs \<longleftrightarrow> err = None \<and> rest = Ran opts regs"
  by (simp add: orExit_def split: option.splits)

lemma register_Ran:
  "register lb msg r rs rest = Ran opts regs \<longleftrightarrow>
     (\<exists>reg. r = Inr reg \<and> lb_Register lb rs reg = None \<and> rest (rs @ [reg]) = Ran opts regs)"
  by (auto simp: register_def split: sum.splits)

lemma SetupWithManager_eq:
  "SetupWithManager e conf k (binding_New e cl) = Inr ct \<Longrightarrow> ct = operatorController e coreBindingGVR (DefaultBuilder e) k"
  "SetupWithManager e conf k (spec_New e cl) = Inr ct \<Longrightarrow> ct = operatorController e specBindingGVR (SpecBuilder e) k"
  by (auto simp: SetupWithManager_def Let_def operatorController_def coreBindingGVR_def specBindingGVR_def
      dest!: newPipeline_DefaultBuilder newPipeline_SpecBuilder split: sum.splits) (simp_all add: binding_New_def spec_New_def)


lemma willingRun_runs: "\<exists>opts regs. willingRun = Ran opts regs"
proof -
  have "WhoAmI (tokenClient ''system:serviceaccount:operators:sbo'') tokenConfig = Inr ''system:serviceaccount:operators:sbo''"
    by code_simp
  then show ?thesis
    by (simp add: willingRun_def main_def willingLibraries_def Let_def register_def orExit_def NewMappingValidator_def
        crd_SetupWithManager_def SetupWithManager_def binding_New_def spec_New_def newPipeline_def)
qed


text \<open>
  Unless the flag asks for it, neither the server of the webhooks nor the one of the
  metrics offers HTTP/2: whatever their configuration was, the options leave HTTP/1.1 as
  the only protocol. With the flag they leave the configuration as it was.
\<close>

theorem protocols_offered:
  assumes "main lb e fl = Ran opts regs"
  shows "tls_NextProtos (fold (\<lambda>f. f) (mo_WebhookTLSOpts opts) c) = (if fl_enableHTTP2 fl then tls_NextProtos c else [''http/1.1''])
    \<and> tls_NextProtos (fold (\<lambda>f. f) (mo_MetricsTLSOpts opts) c) = (if fl_enableHTTP2 fl then tls_NextProtos c else [''http/1.1''])"
proof -
  have "opts = managerOptions (lb_LookupEnv lb) fl"
    using assms by (auto simp: main_def register_Ran Let_def NewMappingValidator_def split: sum.splits option.splits)
  then show ?thesis by (simp add: managerOptions_def disableHTTP2_def Let_def)
qed

theorem protocols_offered_witness:
  "\<exists>opts regs. willingRun = Ran opts regs
    \<and> tls_NextProtos (fold (\<lambda>f. f) (mo_WebhookTLSOpts opts) \<lparr>tls_NextProtos = [''h2'', ''http/1.1'']\<rparr>) = [''http/1.1'']"
proof -
  obtain opts regs where r: "willingRun = Ran opts regs" using willingRun_runs by blast
  with protocols_offered [OF r [unfolded willingRun_def]] show ?thesis by (auto simp: defaultFlags_def)
qed

end
