(* ===== verification/Secrets.thy ===== *)
theory Secrets
  imports Access
begin

text \<open>
  The binding secret: which data it holds, how it is named and when it is written
  (\<open>pkg/reconcile/pipeline/secretbackedbindings.go\<close> and the part on secrets of
  \<open>pkg/reconcile/pipeline/context/impl.go\<close>). The reference for the data is
  \<open>lastValue\<close>: an item counts unless a later item has its name.
\<close>

section \<open>Notions for the theorems\<close>

definition lastValue :: "item list \<Rightarrow> string \<Rightarrow> string option" where
  "lastValue is k = map_option (\<lambda>i. fmt_v (it_Value i)) (find (\<lambda>i. it_Name i = k) (rev is))"

text \<open>The data of a secret as the API server returns it, and the items it stands for.\<close>

definition encoded :: "strmap \<Rightarrow> strmap" where
  "encoded data = map (map_prod id EncodeToString) data"

definition plainItems :: "nat option \<Rightarrow> strmap \<Rightarrow> item list" where
  "plainItems src data = map (\<lambda>(k, v). \<lparr>it_Name = k, it_Value = JStr v, it_Source = src\<rparr>) data"

definition hexDigits :: string where
  "hexDigits = ''0123456789abcdef''"

text \<open>All secrets of the binding can be read.\<close>

definition readable :: "'w ctx \<Rightarrow> bool" where
  "readable c = list_all (\<lambda>b. \<not> isl (snd (Items b))) (cx_bindings c)"

definition secret_call :: "fields \<Rightarrow> string \<Rightarrow> call \<Rightarrow> bool" where
  "secret_call u ns k = (k = CreateCall (coreGVR ''secrets'') ns u \<or> k = UpdateCall (coreGVR ''secrets'') ns u)"

text \<open>A context with one item, and a secret with an item that is not encoded properly.\<close>

definition itemContext :: "'w \<Rightarrow> 'w ctx" where
  "itemContext w = AddBindingItem \<lparr>it_Name = ''port'', it_Value = JStr ''5432'', it_Source = None\<rparr>
     (newContext w shopBinding False)"

definition brokenSecret :: secret_bindings where
  "brokenSecret = \<lparr>sbk_Service = None,
     sbk_Secret = [(''data'', JObj [(''user'', JStr (EncodeToString ''joe'')), (''password'', JStr ''?'')])],
     sbk_items = None\<rparr>"

section \<open>The data\<close>

lemma lastValue_append:
  "lastValue (is @ js) k = (case lastValue js k of None \<Rightarrow> lastValue is k | Some v \<Rightarrow> Some v)"
proof -
  have "find P (xs @ ys) = (case find P xs of None \<Rightarrow> find P ys | Some x \<Rightarrow> Some x)" for P and xs ys :: "item list"
    by (induction xs) auto
  then show ?thesis by (auto simp: lastValue_def split: option.splits)
qed

lemma lastValue_Nil [simp]: "lastValue [] k = None"
  by (simp add: lastValue_def)

lemma map_of_AsMap_fold:
  "map_of (fold (\<lambda>i m. AList.update (it_Name i) (fmt_v (it_Value i)) m) is d) k
     = (case lastValue is k of None \<Rightarrow> map_of d k | Some v \<Rightarrow> Some v)"
proof (induction "is" arbitrary: d)
  case (Cons i "is")
  have "lastValue (i # is) k = (case lastValue is k of None \<Rightarrow> lastValue [i] k | Some v \<Rightarrow> Some v)"
    using lastValue_append [of "[i]" "is"] by simp
  with Cons show ?case by (auto simp: update_conv' lastValue_def split: option.splits)
qed simp

lemma map_of_AsMap: "map_of (AsMap is) k = lastValue is k"
  by (simp add: AsMap_def map_of_AsMap_fold split: option.splits)

lemma distinct_AsMap: "distinct (map fst (AsMap is))"
proof -
  have "distinct (map fst d) \<Longrightarrow>
      distinct (map fst (fold (\<lambda>i m. AList.update (it_Name i) (fmt_v (it_Value i)) m) is d))" for d :: strmap
    by (induction "is" arbitrary: d) (auto simp: distinct_update)
  then show ?thesis by (simp add: AsMap_def)
qed

lemma map_of_mergeInto:
  "map_of (mergeInto d (AsMap is)) k = (case lastValue is k of None \<Rightarrow> map_of d k | Some v \<Rightarrow> Some v)"
  using MergeMaps_lookup [OF distinct_AsMap [of "is"], of d k] by (auto simp: mergeInto_def map_of_AsMap)

lemma distinct_mergeInto: "distinct (map fst d) \<Longrightarrow> distinct (map fst (mergeInto d s))"
  by (simp add: mergeInto_def MergeMaps_def distinct_fold_update)

lemma map_of_merge_bindings:
  "map_of (foldl (\<lambda>m b. case snd (Items b) of Inl _ \<Rightarrow> m | Inr is \<Rightarrow> mergeInto m (AsMap is)) d bs) k
     = (case lastValue (concat (map itemsOf bs)) k of None \<Rightarrow> map_of d k | Some v \<Rightarrow> Some v)"
  by (induction bs arbitrary: d)
    (auto simp: itemsOf_def map_of_mergeInto lastValue_append split: sum.splits option.splits)

lemma distinct_merge_bindings:
  "distinct (map fst d) \<Longrightarrow>
     distinct (map fst (foldl (\<lambda>m b. case snd (Items b) of Inl _ \<Rightarrow> m | Inr is \<Rightarrow> mergeInto m (AsMap is)) d bs))"
  by (induction bs arbitrary: d) (auto simp: distinct_mergeInto split: sum.splits)

lemma bindingItemMap_lookup:
  "map_of (snd (bindingItemMap c)) = lastValue (snd (BindingItems c))"
  "distinct (map fst (snd (bindingItemMap c)))"
  by (auto simp: fun_eq_iff bindingItemMap_def BindingItems_def Let_def map_of_mergeInto map_of_merge_bindings
      lastValue_append distinct_mergeInto distinct_merge_bindings split: option.splits)

text \<open>
  C29: The data of the binding secret is what a lookup from the end of all binding items
  finds: the items of the bindings in their order, then the items of the context. Each key
  occurs once.
\<close>

theorem secret_data:
  "map_of (snd (bindingItemMap c)) = lastValue (snd (BindingItems c)) \<and> distinct (map fst (snd (bindingItemMap c)))"
  by (simp add: bindingItemMap_lookup)

section \<open>The name\<close>

lemma hashedName_cong:
  assumes "map_of d = map_of d'" and "distinct (map fst d)" and "distinct (map fst d')"
  shows "hashedName n d = hashedName n d'"
proof -
  have "set (map fst d) = set (map fst d')"
    using assms(1) by (metis dom_map_of_conv_image_fst list.set_map)
  with assms(2,3) have "sort (map fst d) = sort (map fst d')"
    by (intro sorted_distinct_set_unique) simp_all
  with assms(1) show ?thesis by (simp add: hashedName_def)
qed

lemma bigEndian_bytes: "x \<in> set (bigEndian k n) \<Longrightarrow> x < 256"
  by (induction k arbitrary: n) auto

lemma hexDigit_hex: "n < 16 \<Longrightarrow> hexDigit n \<in> set hexDigits"
  unfolding hexDigit_def hexDigits_def by (rule nth_mem) simp

lemma hexEncode_hex: "list_all (\<lambda>b. b < 256) bs \<Longrightarrow> set (hexEncode bs) \<subseteq> set hexDigits"
proof (induction bs)
  case (Cons b bs)
  then have "b div 16 < 16" by (simp; linarith)
  with Cons show ?case by (simp add: hexEncode_def hexDigit_hex)
qed (simp add: hexEncode_def)

lemma sha256_sum_bytes: "list_all (\<lambda>b. b < 256) (sha256_sum s)"
  by (auto simp: sha256_sum_def Let_def list_all_iff dest: bigEndian_bytes)

text \<open>
  The name of a binding secret is the name of the binding, a dash and eight lower-case
  hexadecimal digits, whatever the data: it is a valid name of a secret if the name of the
  binding is one that is short enough.
\<close>

theorem secret_name_shape:
  "\<exists>h. hashedName n data = n @ ''-'' @ h \<and> length h = 8 \<and> set h \<subseteq> set hexDigits"
proof -
  have "length (take 8 (hexEncode (sha256_sum s))) = 8" for s
    by (simp add: length_hexEncode length_sha256_sum)
  moreover have "set (take 8 (hexEncode (sha256_sum s))) \<subseteq> set hexDigits" for s
    using hexEncode_hex [OF sha256_sum_bytes [of s]] set_take_subset by fast
  ultimately show ?thesis unfolding hashedName_def by blast
qed

text \<open>
  Two reconciliations that collect the same data choose the same secret, whatever the
  order in which the data was collected: the name depends on the last value of every item
  only.
\<close>

theorem secret_name_deterministic:
  assumes "lastValue (snd (BindingItems c)) = lastValue (snd (BindingItems d))"
  shows "hashedName n (snd (bindingItemMap c)) = hashedName n (snd (bindingItemMap d))"
proof (rule hashedName_cong)
  from assms show "map_of (snd (bindingItemMap c)) = map_of (snd (bindingItemMap d))"
    by (simp add: bindingItemMap_lookup)
qed (simp_all add: bindingItemMap_lookup)

theorem secret_name_deterministic_witness:
  "hashedName ''shop'' (snd (bindingItemMap (AddBindingItem \<lparr>it_Name = ''host'', it_Value = JStr ''db'', it_Source = None\<rparr> (itemContext ()))))
    = hashedName ''shop'' (snd (bindingItemMap (itemContext ()\<lparr>cx_bindingItems :=
        \<lparr>it_Name = ''host'', it_Value = JStr ''db'', it_Source = None\<rparr> # cx_bindingItems (itemContext ())\<rparr>)))"
  by (rule secret_name_deterministic)
    (auto simp: fun_eq_iff lastValue_def BindingItems_def itemContext_def AddBindingItem_def newContext_def)

section \<open>The items of a secret\<close>

lemma decodeItems_encoded:
  "decodeItems src (encoded data @ rest) acc =
     (if data = [] then decodeItems src rest acc
      else decodeItems src rest (Some ((case acc of None \<Rightarrow> [] | Some is \<Rightarrow> is) @ plainItems src data)))"
  by (induction data arbitrary: acc) (auto simp: encoded_def plainItems_def DecodeString_EncodeToString)

text \<open>
  The items of a secret are its data, decoded: for whatever strings were encoded into
  the secret by the API server, reading gives those strings, under their keys and in order,
  and reading again gives the same.
\<close>

theorem secret_items:
  assumes "NestedStringMap (sbk_Secret b) [''data''] = Inr (Some (encoded data))" and "sbk_items b = None"
  shows "snd (Items b) = Inr (plainItems (sbk_Service b) data) \<and> snd (Items (fst (Items b))) = snd (Items b)"
  using assms decodeItems_encoded [of "sbk_Service b" data "[]" None]
  by (cases data) (auto simp: Items_def encoded_def plainItems_def)

theorem secret_items_witness:
  "snd (Items (brokenSecret\<lparr>sbk_Secret := [(''data'', JObj [(''user'', JStr (EncodeToString ''joe''))])]\<rparr>))
    = Inr [\<lparr>it_Name = ''user'', it_Value = JStr ''joe'', it_Source = None\<rparr>]"
proof -
  let ?b = "brokenSecret\<lparr>sbk_Secret := [(''data'', JObj [(''user'', JStr (EncodeToString ''joe''))])]\<rparr>"
  have "NestedStringMap (sbk_Secret ?b) [''data''] = Inr (Some (encoded [(''user'', ''joe'')]))" by code_simp
  moreover have "sbk_items ?b = None" by code_simp
  ultimately show ?thesis using secret_items [of ?b "[(''user'', ''joe'')]"]
    by (simp add: plainItems_def brokenSecret_def)
qed

text \<open>
  C39: The error for a secret with a value that is not base64 is reported once only: the
  items before that value are kept, and the next reading returns them as if they were all.
\<close>

theorem broken_secret_read_twice:
  assumes "NestedStringMap (sbk_Secret b) [''data''] = Inr (Some (encoded data @ (k, v) # rest))"
    and "DecodeString v = Inl err" and "data \<noteq> []" and "sbk_items b = None"
  shows "snd (Items b) = Inl err \<and> snd (Items (fst (Items b))) = Inr (plainItems (sbk_Service b) data)"
  using assms decodeItems_encoded [of "sbk_Service b" data "(k, v) # rest" None]
  by (auto simp: Items_def)

theorem broken_secret_read_twice_witness:
  "isl (snd (Items brokenSecret))
    \<and> snd (Items (fst (Items brokenSecret))) = Inr [\<lparr>it_Name = ''user'', it_Value = JStr ''joe'', it_Source = None\<rparr>]"
proof -
  have "NestedStringMap (sbk_Secret brokenSecret) [''data'']
      = Inr (Some (encoded [(''user'', ''joe'')] @ (''password'', ''?'') # []))" by code_simp
  moreover have "DecodeString ''?'' = Inl (errNew ''illegal base64 data at input byte'')" by code_simp
  ultimately show ?thesis using broken_secret_read_twice [of brokenSecret "[(''user'', ''joe'')]"]
    by (simp add: plainItems_def brokenSecret_def)
qed

section \<open>Writing the secret\<close>

lemma Items_again: "\<not> isl (snd (Items b)) \<Longrightarrow> Items (fst (Items b)) = Items b"
  by (auto simp: Items_def split: option.splits sum.splits prod.splits)

lemma Source_loaded: "Source (fst (Items b)) = Some x \<Longrightarrow> Source b = Some x"
  by (auto simp: Items_def Source_def split: option.splits sum.splits prod.splits if_splits)

lemma loadBindings_fields [simp]:
  "cx_bindingItems (loadBindings c) = cx_bindingItems c" "cx_sb (loadBindings c) = cx_sb c"
  "world (loadBindings c) = world c" "cx_bindings (loadBindings c) = map (\<lambda>b. fst (Items b)) (cx_bindings c)"
  "UnbindRequested (loadBindings c) = UnbindRequested c"
  by (simp_all add: loadBindings_def UnbindRequested_def IsRemoved_def)

lemma fst_bindingItemMap [simp]: "fst (bindingItemMap c) = loadBindings c"
  by (simp add: bindingItemMap_def Let_def)

lemma merge_bindings_loaded:
  "list_all (\<lambda>b. \<not> isl (snd (Items b))) bs \<Longrightarrow>
     foldl (\<lambda>m b. case snd (Items b) of Inl _ \<Rightarrow> m | Inr is \<Rightarrow> mergeInto m (AsMap is)) d (map (\<lambda>b. fst (Items b)) bs)
       = foldl (\<lambda>m b. case snd (Items b) of Inl _ \<Rightarrow> m | Inr is \<Rightarrow> mergeInto m (AsMap is)) d bs"
  by (induction bs arbitrary: d) (simp_all add: Items_again)

lemma bindingItemMap_loaded:
  "readable c \<Longrightarrow> snd (bindingItemMap (loadBindings c)) = snd (bindingItemMap c)"
  by (simp add: bindingItemMap_def readable_def merge_bindings_loaded Let_def)

lemma bindingSecretName_hashed:
  assumes "\<not> UnbindRequested c" and "\<not> snd (snd (bindingSecretName c))"
  shows "bindingSecretName c = (loadBindings c, hashedName (om_Name (cx_Meta c)) (snd (bindingItemMap c)), False)"
proof -
  have "(let (c', data) = bindingItemMap c in (c', hashedName n data, False))
      = (loadBindings c, hashedName n (snd (bindingItemMap c)), False)" for n
    by (simp add: Let_def split_def)
  with assms show ?thesis
    by (auto simp: bindingSecretName_def split: list.splits option.splits prod.splits if_splits)
qed

lemma bindingSecretName_loaded:
  assumes "\<not> UnbindRequested c" and "\<not> snd (snd (bindingSecretName c))"
  shows "\<not> snd (snd (bindingSecretName (loadBindings c)))"
  using assms
  by (auto simp: bindingSecretName_def Let_def split_def dest: Source_loaded
      split: list.splits option.splits prod.splits if_splits)

lemma BindingSecretName_cong:
  assumes "cx_bindings d = cx_bindings c" "cx_bindingItems d = cx_bindingItems c" "cx_Meta d = cx_Meta c"
  shows "snd (BindingSecretName d) = (if UnbindRequested c then statusSecretName d else snd (BindingSecretName c))"
proof -
  have "snd (bindingItemMap d) = snd (bindingItemMap c)" using assms by (simp add: bindingItemMap_def Let_def)
  moreover have "UnbindRequested d = UnbindRequested c" using assms by (simp add: UnbindRequested_def IsRemoved_def)
  ultimately show ?thesis using assms
    by (auto simp: BindingSecretName_def bindingSecretName_def Let_def split_def
        split: list.splits option.splits)
qed

lemma bindingSecretName_exists:
  "\<not> UnbindRequested c \<Longrightarrow> snd (snd (bindingSecretName c)) \<Longrightarrow>
     bindingSecretName c = (c, snd (BindingSecretName c), True)"
  by (auto simp: BindingSecretName_def bindingSecretName_def Let_def split_def
      split: list.splits option.splits prod.splits if_splits)

lemma hashedName_nonempty: "hashedName n d \<noteq> []"
  by (simp add: hashedName_def)

lemma persistSecret_new:
  assumes "persistSecret (logged e) c = (c', name, None)" and "\<not> UnbindRequested c"
    and "\<not> snd (snd (bindingSecretName c))" and "snd (bindingItemMap c) \<noteq> []" and "readable c"
  shows "name = snd (BindingSecretName c)"
    and "c' = (loadBindings (loadBindings c))\<lparr>world := world c'\<rparr>"
    and "\<exists>k. snd (world c') = snd (world c) @ [k]
      \<and> secret_call (secretObject (cx_sb c) name (snd (bindingItemMap c))) (om_Namespace (cx_Meta c)) k"
proof -
  note n = bindingSecretName_hashed [OF assms(2,3)]
  obtain d2 data where d: "bindingItemMap (loadBindings c) = (d2, data)" by fastforce
  then have d2: "d2 = loadBindings (loadBindings c)" "data = snd (bindingItemMap c)"
    using bindingItemMap_loaded [OF assms(5)] fst_bindingItemMap [of "loadBindings c"] by simp_all
  show "name = snd (BindingSecretName c)" "c' = (loadBindings (loadBindings c))\<lparr>world := world c'\<rparr>"
    using assms(1,4) n d d2
    by (auto simp: persistSecret_def BindingSecretName_def Let_def split: sum.splits prod.splits if_splits)
  show "\<exists>k. snd (world c') = snd (world c) @ [k]
      \<and> secret_call (secretObject (cx_sb c) name (snd (bindingItemMap c))) (om_Namespace (cx_Meta c)) k"
    using assms(1,4) n d d2
    by (auto simp: persistSecret_def secret_call_def Let_def dest!: logged_writes
        split: sum.splits prod.splits if_splits)
qed

lemma loadBindings_twice: "readable c \<Longrightarrow> loadBindings (loadBindings c) = loadBindings c"
  by (simp add: loadBindings_def readable_def list_all_iff Items_again)

lemma PersistSecret_result:
  assumes "PersistSecret (logged e) c = (c', None)" and "\<not> UnbindRequested c" and "readable c"
    and "snd (BindingSecretName c) \<noteq> ''''"
    and "snd (snd (bindingSecretName c)) \<or> snd (bindingItemMap c) \<noteq> []"
  shows "sb_SecretName (cx_sb c') = Some (snd (BindingSecretName c')) \<and>
    (if snd (snd (bindingSecretName c)) then snd (world c') = snd (world c)
     else \<exists>k. snd (world c') = snd (world c) @ [k]
       \<and> secret_call (secretObject (cx_sb c) (snd (BindingSecretName c')) (snd (bindingItemMap c)))
           (om_Namespace (cx_Meta c)) k)"
proof (cases "snd (snd (bindingSecretName c))")
  case True
  note n = bindingSecretName_exists [OF assms(2) True]
  with assms(1,4) have "c' = setStatusSecretName (snd (BindingSecretName c)) c"
    by (simp add: PersistSecret_def persistSecret_def split: if_splits)
  with True assms(2) BindingSecretName_cong [of c' c] show ?thesis by (simp add: setStatusSecretName_def)
next
  case False
  with assms(5) have data: "snd (bindingItemMap c) \<noteq> []" by simp
  obtain c1 name r where p: "persistSecret (logged e) c = (c1, name, r)" using prod_cases3 by blast
  with assms(1) have r: "r = None" and c': "c' = (if name \<noteq> '''' then setStatusSecretName name c1 else c1)"
    by (auto simp: PersistSecret_def split: option.splits)
  note new = persistSecret_new [OF p [unfolded r] assms(2) False data assms(3)]
  from new(3) obtain k where k: "snd (world c1) = snd (world c) @ [k]"
    "secret_call (secretObject (cx_sb c) name (snd (bindingItemMap c))) (om_Namespace (cx_Meta c)) k" by blast
  obtain w where c1: "c1 = (loadBindings c)\<lparr>world := w\<rparr>"
    using new(2) unfolding loadBindings_twice [OF assms(3)] by blast
  have l: "\<not> UnbindRequested (loadBindings c)" using assms(2) by simp
  have "snd (BindingSecretName (loadBindings c)) = snd (BindingSecretName c)"
    using bindingSecretName_hashed [OF assms(2) False] bindingItemMap_loaded [OF assms(3)]
      bindingSecretName_hashed [OF l bindingSecretName_loaded [OF assms(2) False]]
    by (simp add: BindingSecretName_def)
  with c1 c' new(1) assms(4) l BindingSecretName_cong [of c' "loadBindings c"]
  have "snd (BindingSecretName c') = name" by (simp add: setStatusSecretName_def)
  with c1 c' k new(1) assms(4) False show ?thesis by (auto simp: setStatusSecretName_def)
qed

text \<open>
  C5: After the binding data was persisted, the status of the binding names the secret that
  the later handlers project. If it is a secret of the service itself, nothing was written.
  Otherwise there was exactly one write, which creates or updates the secret of that name
  in the namespace of the binding, owned by the binding and with exactly the binding data.
\<close>

theorem secret_persisted:
  assumes "PersistSecret (logged e) c = (c', None)" and "\<not> UnbindRequested c" and "readable c"
    and "snd (BindingSecretName c) \<noteq> ''''"
    and "snd (snd (bindingSecretName c)) \<or> snd (bindingItemMap c) \<noteq> []"
  shows "sb_SecretName (cx_sb c') = Some (snd (BindingSecretName c')) \<and>
    (if snd (snd (bindingSecretName c)) then snd (world c') = snd (world c)
     else \<exists>k. snd (world c') = snd (world c) @ [k]
       \<and> secret_call (secretObject (cx_sb c) (snd (BindingSecretName c')) (snd (bindingItemMap c)))
           (om_Namespace (cx_Meta c)) k)"
  by (rule PersistSecret_result [OF assms])

theorem secret_persisted_witness:
  "\<exists>k name. snd (world (fst (PersistSecret (logged emptyCluster) (itemContext ((), []))))) = [k]
    \<and> secret_call (secretObject shopBinding name [(''port'', ''5432'')]) ''shop'' k"
proof -
  let ?c = "itemContext ((), [] :: call list)"
  have c: "\<not> UnbindRequested ?c" "readable ?c"
    "snd (bindingItemMap ?c) = [(''port'', ''5432'')]" "cx_sb ?c = shopBinding" "world ?c = ((), [])"
    by code_simp+
  have f: "\<not> snd (snd (bindingSecretName ?c))"
    using c(1) by (simp add: bindingSecretName_def itemContext_def AddBindingItem_def newContext_def split_def)
  have "snd (PersistSecret (logged emptyCluster) ?c) = None"
    using bindingSecretName_hashed [OF c(1) f] bindingItemMap_loaded [OF c(2)] c(3)
    by (simp add: PersistSecret_def persistSecret_def split_def logged_def emptyCluster_def Let_def IsNotFound_def)
  then have p: "PersistSecret (logged emptyCluster) ?c = (fst (PersistSecret (logged emptyCluster) ?c), None)"
    by (metis prod.collapse)
  have "snd (BindingSecretName ?c) \<noteq> ''''"
    using bindingSecretName_hashed [OF c(1) f] by (simp add: BindingSecretName_def hashedName_nonempty)
  from secret_persisted [OF p c(1,2) this] f c(3-5) show ?thesis by (auto simp: shopBinding_def)
qed

end
