(* ===== verification/Projection.thy ===== *)
theory Projection
  imports Project
begin

text \<open>
  What the projection of a binding does to the containers of an application, on the
  definitions of \<open>handler/project/impl.go\<close>: the effect of each handler on one container,
  its independence of the other containers, and the round trip of binding and unbinding.
\<close>

section \<open>Containers in an application\<close>

definition holds_at :: "application \<Rightarrow> loc \<Rightarrow> fields \<Rightarrow> bool" where
  "holds_at a l d = (get_at l (JObj (resourceOf a)) = Some (JObj d))"

text \<open>The containers stand apart: no location leads through another.\<close>

fun apart :: "meta_container list \<Rightarrow> bool" where
  "apart [] = True"
| "apart (c # cs) = (list_all (\<lambda>c'. forks (mc_Data c) (mc_Data c')) cs \<and> apart cs)"

text \<open>
  The same value at a location, and the same answer to whether a slice can be assigned
  there. A change of an application that is invisible at the locations that fork off \<open>l\<close>.
\<close>

definition same_at :: "loc \<Rightarrow> application \<Rightarrow> application \<Rightarrow> bool" where
  "same_at l a a' =
     (get_at l (JObj (resourceOf a')) = get_at l (JObj (resourceOf a))
      \<and> (\<forall>path. l = map Key path \<longrightarrow>
            (putSlice path [] (resourceOf a') = None \<longleftrightarrow> putSlice path [] (resourceOf a) = None)))"

definition only_at :: "loc \<Rightarrow> application \<Rightarrow> application \<Rightarrow> bool" where
  "only_at l a a' = (\<forall>q. forks l q \<longrightarrow> same_at q a a')"

text \<open>The effect of each handler on the data of one container.\<close>

definition files_effect :: "converter \<Rightarrow> string \<Rightarrow> meta_container \<Rightarrow> fields \<Rightarrow> fields \<Rightarrow> bool" where
  "files_effect conv n c d d' =
     (container_ok conv c d' \<and> env_slice conv c d' = withRoot conv (env_slice conv c d)
      \<and> from_slice conv c d' = from_slice conv c d
      \<and> mount_slice conv c d' =
          upsert (mount_named n)
            (VolumeMount_ToUnstructured n (pathJoin (rootOf conv (env_slice conv c d)) n)) (mount_slice conv c d))"

definition env_effect ::
  "converter \<Rightarrow> bool \<Rightarrow> string \<Rightarrow> env_var list \<Rightarrow> meta_container \<Rightarrow> fields \<Rightarrow> fields \<Rightarrow> bool" where
  "env_effect conv asFiles secret vars c d d' =
     (container_ok conv c d'
      \<and> env_slice conv c d' = drop_envs (map ev_Name vars) (env_slice conv c d) @ map EnvVar_ToUnstructured vars
      \<and> from_slice conv c d' =
          (if asFiles then from_slice conv c d
           else remove_first (from_secret secret) (from_slice conv c d) @ [EnvFromSource_ToUnstructured secret])
      \<and> mount_slice conv c d' = mount_slice conv c d)"

definition unbind_effect ::
  "converter \<Rightarrow> string \<Rightarrow> string \<Rightarrow> (string \<times> string) list \<Rightarrow> meta_container \<Rightarrow> fields \<Rightarrow> fields \<Rightarrow> bool" where
  "unbind_effect conv n secret evs c d d' =
     (container_ok conv c d'
      \<and> env_slice conv c d' = drop_envs (map snd evs) (env_slice conv c d)
      \<and> from_slice conv c d' = remove_first (from_secret secret) (from_slice conv c d)
      \<and> mount_slice conv c d' = remove_first (mount_named n) (mount_slice conv c d))"

text \<open>The data of a container, and the applications whose pods the handlers can edit.\<close>

definition dataAt :: "application \<Rightarrow> meta_container \<Rightarrow> fields" where
  "dataAt a c = (case get_at (mc_Data c) (JObj (resourceOf a)) of Some (JObj d) \<Rightarrow> d | _ \<Rightarrow> [])"

definition containerAt :: "converter \<Rightarrow> application \<Rightarrow> meta_container \<Rightarrow> bool" where
  "containerAt conv a c =
     (case get_at (mc_Data c) (JObj (resourceOf a)) of Some (JObj d) \<Rightarrow> container_ok conv c d | _ \<Rightarrow> False)"

definition projectable :: "converter \<Rightarrow> meta_pod_spec \<Rightarrow> application \<Rightarrow> bool" where
  "projectable conv pods a =
     (apart (mp_Containers pods) \<and> editable conv VolumeK (mp_Volume pods) (resourceOf a)
      \<and> list_all (\<lambda>c. containerAt conv a c \<and> forks (mc_Data c) (map Key (mp_Volume pods)))
          (mp_Containers pods))"

abbreviation volumes_of :: "converter \<Rightarrow> meta_pod_spec \<Rightarrow> application \<Rightarrow> fields list" where
  "volumes_of conv pods a \<equiv> slice_of conv VolumeK (mp_Volume pods) (resourceOf a)"

text \<open>No change at the locations that fork off the volumes and the containers.\<close>

definition only_pods :: "meta_pod_spec \<Rightarrow> application \<Rightarrow> application \<Rightarrow> bool" where
  "only_pods pods a a' =
     (\<forall>l. forks (map Key (mp_Volume pods)) l \<and> (\<forall>c \<in> set (mp_Containers pods). forks (mc_Data c) l)
        \<longrightarrow> same_at l a a')"

definition slicesAt :: "converter \<Rightarrow> application \<Rightarrow> meta_container \<Rightarrow> fields list \<times> fields list \<times> fields list" where
  "slicesAt conv a c =
     (env_slice conv c (dataAt a c), from_slice conv c (dataAt a c), mount_slice conv c (dataAt a c))"

text \<open>No volume, mount or secret reference of the binding is there yet.\<close>

definition unbound :: "converter \<Rightarrow> string \<Rightarrow> string \<Rightarrow> meta_pod_spec \<Rightarrow> application \<Rightarrow> bool" where
  "unbound conv n s pods a =
     (\<not> list_ex (volume_named n) (volumes_of conv pods a)
      \<and> list_all (\<lambda>c. \<not> list_ex (from_secret s) (from_slice conv c (dataAt a c))
          \<and> \<not> list_ex (mount_named n) (mount_slice conv c (dataAt a c))) (mp_Containers pods))"

text \<open>No container has two variables of one of these names or two references to the secret.\<close>

definition single_envs ::
  "converter \<Rightarrow> string \<Rightarrow> env_var list \<Rightarrow> meta_pod_spec \<Rightarrow> application \<Rightarrow> bool" where
  "single_envs conv s vars pods a =
     list_all (\<lambda>c. list_all (\<lambda>v. length (filter (env_named (ev_Name v)) (env_slice conv c (dataAt a c))) \<le> 1) vars
         \<and> length (filter (from_secret s) (from_slice conv c (dataAt a c))) \<le> 1)
       (mp_Containers pods)"

text \<open>A deployment with two containers, on which the properties are applied.\<close>

definition webApp :: application where
  "webApp =
     \<lparr>app_gvr = \<lparr>gvr_group = ''apps'', gvr_version = ''v1'', gvr_resource = ''deployments''\<rparr>,
      app_persistedResource =
        [(''kind'', JStr ''Deployment''),
         (''spec'', JObj [(''template'', JObj [(''spec'', JObj [(''containers'', JArr
            [JObj [(''name'', JStr ''web''),
                   (''env'', JArr [JObj [(''name'', JStr ''PORT''), (''value'', JStr ''80'')]])],
             JObj [(''name'', JStr ''log'')]])])])])],
      app_resource = None, app_bindingPath = None, app_bindableContainerNames = [],
      app_resourceMapping = \<lparr>wm_Containers = [], wm_Volume = []\<rparr>\<rparr>"

definition webContainer :: "nat \<Rightarrow> meta_container" where
  "webContainer i =
     \<lparr>mc_Name = ''web'', mc_Env = [''env''], mc_EnvFrom = [''envFrom''], mc_VolumeMount = [''volumeMounts''],
      mc_Data = [Key ''spec'', Key ''template'', Key ''spec'', Key ''containers'', Idx i]\<rparr>"

definition webPods :: meta_pod_spec where
  "webPods =
     \<lparr>mp_Containers = [webContainer 0, webContainer 1],
      mp_Volume = [''spec'', ''template'', ''spec'', ''volumes'']\<rparr>"

section \<open>Slices seen from other locations\<close>

lemma putSlice_upd_fork:
  "forks l (map Key path) \<Longrightarrow>
     putSlice path rs (fields_of (upd_obj_at l f (JObj d))) = None \<longleftrightarrow> putSlice path rs d = None"
proof (induction path arbitrary: l d)
  case (Cons p ps)
  then obtain s l' where l: "l = s # l'" by (cases l) auto
  show ?case
  proof (cases "s = Key p")
    case True
    then have fork: "forks l' (map Key ps)" using Cons.prems l by simp
    show ?thesis
    proof (cases "map_of d p")
      case (Some j)
      show ?thesis
      proof (cases "\<exists>m. j = JObj m")
        case obj: True
        then obtain m m' where "j = JObj m" and m': "upd_obj_at l' f (JObj m) = JObj m'"
          using upd_obj_at_JObj by blast
        with Cons.IH [OF fork, of m] True l Some show ?thesis
          by (simp add: putSlice_Cons_None fields_of_def update_conv')
      next
        case False
        then have "\<forall>m. upd_obj_at l' f j \<noteq> JObj m"
          by (cases l'; cases "hd l'"; cases j) auto
        with False True l Some show ?thesis
          by (auto simp: putSlice_Cons_None fields_of_def update_conv' split: json.splits)
      qed
    qed (simp add: l True fields_of_def)
  next
    case False
    then show ?thesis
      using l by (cases s) (auto simp: putSlice_Cons_None fields_of_def update_conv' split: option.splits)
  qed
qed (cases l; simp)

lemma touches_frame:
  assumes "touches path d d'" and "forks (map Key path) l"
  shows "get_at l (JObj d') = get_at l (JObj d)"
  using assms
proof (induction rule: touches.induct)
  case (put d d' rs d'')
  from put.prems obtain r a b p' q' where *: "map Key path = r @ a # p'" "l = r @ b # q'" "a \<noteq> b"
    by (rule forksE)
  then obtain r' a' p'' where "path = r' @ a' # p''" "r = map Key r'" "a = Key a'"
    by (auto simp: map_eq_append_conv)
  with put * show ?case
    using setSlice_frame [of d' rs path d'' r' a' p'' b q'] by (simp add: setSlice_iff)
qed simp

lemma putSlice_walk: "putSlice path rs m \<noteq> None \<Longrightarrow> nestedWalk d (JObj m) path \<noteq> Inl e"
proof (induction path arbitrary: m d)
  case (Cons p ps)
  then show ?case by (auto simp: putSlice_Cons_None split: option.splits json.splits)
qed simp

lemma editable_iff:
  "editable conv k path d \<longleftrightarrow> putSlice path [] d \<noteq> None \<and>
     (\<forall>w. get_at (map Key path) (JObj d) = Some w \<longrightarrow>
        (\<exists>rs. NestedResources conv k d path = Inr (Some rs)))"
proof (cases "NestedFieldNoCopy d path")
  case (Inl e)
  then show ?thesis
    using putSlice_walk [of path "[]" d "[]" e] by (auto simp: editable_def NestedFieldNoCopy_def)
next
  case (Inr r)
  then show ?thesis
    by (cases r) (auto simp: editable_def NestedField_Some_iff [symmetric] NestedResources_def
        map_sum_def split: json.splits sum.splits)
qed
section \<open>Editing at a location\<close>

lemma same_at_refl [simp]: "same_at l a a"
  by (simp add: same_at_def)

lemma only_at_refl [simp]: "only_at l a a"
  by (simp add: only_at_def same_at_def)

lemma only_at_trans: "only_at l a b \<Longrightarrow> only_at l b c \<Longrightarrow> only_at l a c"
  by (simp add: only_at_def same_at_def)

lemma same_at_holds: "same_at l a a' \<Longrightarrow> holds_at a' l d \<longleftrightarrow> holds_at a l d"
  by (simp add: same_at_def holds_at_def)

lemma only_at_holds:
  "only_at l a a' \<Longrightarrow> forks l l' \<Longrightarrow> holds_at a' l' d \<longleftrightarrow> holds_at a l' d"
  by (simp add: only_at_def same_at_holds)

lemma editAt_run:
  assumes "holds_at a l d" and "f d = (d', r)"
  obtains a' where "editAt l f a = (a', r)" "holds_at a' l d'" "only_at l a a'"
proof
  let ?a' = "a\<lparr>app_resource := Some (fields_of (upd_obj_at l (\<lambda>_. d') (JObj (resourceOf a))))\<rparr>"
  have res': "resourceOf ?a' = fields_of (upd_obj_at l (\<lambda>_. d') (JObj (resourceOf a)))"
    by (simp add: resourceOf_def)
  then have res: "JObj (resourceOf ?a') = upd_obj_at l (\<lambda>_. d') (JObj (resourceOf a))"
    by simp
  show "editAt l f a = (?a', r)" using assms by (simp add: editAt_def holds_at_def)
  show "holds_at ?a' l d'" using assms(1) by (simp only: holds_at_def res get_at_upd_same)
  show "only_at l a ?a'" unfolding only_at_def same_at_def res
    by (auto simp: get_at_upd_fork res' putSlice_upd_fork)
qed

lemma editAt_edited:
  assumes "holds_at a l d" and "edited conv k path d rs (f d)"
  obtains a' d' where "editAt l f a = (a', Ok ())" "holds_at a' l d'" "only_at l a a'"
    "editable conv k path d'" "slice_of conv k path d' = rs" "touches path d d'"
proof -
  from assms(2) obtain d' where d': "f d = (d', Ok ())" "editable conv k path d'"
    "slice_of conv k path d' = rs" "touches path d d'" by (rule editedE)
  from assms(1) d'(1) obtain a' where "editAt l f a = (a', Ok ())" "holds_at a' l d'" "only_at l a a'"
    by (rule editAt_run)
  with d' show thesis by (intro that)
qed

lemma NestedResources_same:
  "get_at (map Key path) (JObj d) = get_at (map Key path) (JObj d') \<Longrightarrow>
     NestedResources conv k d path = Inr (Some rs) \<longleftrightarrow> NestedResources conv k d' path = Inr (Some rs)"
proof -
  have *: "NestedResources conv k e path = Inr (Some rs) \<longleftrightarrow>
      (\<exists>w. NestedFieldNoCopy e path = Inr (Some w) \<and>
         (case w of JMaps ms \<Rightarrow> convMaps conv k ms = Inr rs | JArr js \<Rightarrow> convSlice conv k js = Inr rs | _ \<Rightarrow> False))" for e
    by (auto simp: NestedResources_def map_sum_def split: sum.splits option.splits json.splits)
  assume "get_at (map Key path) (JObj d) = get_at (map Key path) (JObj d')"
  then show ?thesis by (simp add: * NestedField_Some_iff)
qed

lemma slice_of_same:
  assumes "\<And>rs. NestedResources conv k d path = Inr (Some rs) \<longleftrightarrow> NestedResources conv k d' path = Inr (Some rs)"
  shows "slice_of conv k path d = slice_of conv k path d'"
proof (cases "\<exists>rs. NestedResources conv k d path = Inr (Some rs)")
  case True
  then obtain rs where "NestedResources conv k d path = Inr (Some rs)" by blast
  moreover from this have "NestedResources conv k d' path = Inr (Some rs)" using assms by blast
  ultimately show ?thesis by (simp add: slice_of_def)
next
  case False
  then have "slice_of conv k path d = []" and "slice_of conv k path d' = []"
    using assms by (auto simp: slice_of_def split: sum.splits option.splits)
  then show ?thesis by simp
qed

lemma same_at_slice:
  assumes "same_at (map Key path) a a'"
  shows "editable conv k path (resourceOf a') \<longleftrightarrow> editable conv k path (resourceOf a)"
    and "slice_of conv k path (resourceOf a') = slice_of conv k path (resourceOf a)"
proof -
  have eq: "get_at (map Key path) (JObj (resourceOf a')) = get_at (map Key path) (JObj (resourceOf a))"
    using assms by (simp add: same_at_def)
  from NestedResources_same [OF eq, of conv k] eq assms
  show "editable conv k path (resourceOf a') \<longleftrightarrow> editable conv k path (resourceOf a)"
    by (simp add: editable_iff same_at_def)
  show "slice_of conv k path (resourceOf a') = slice_of conv k path (resourceOf a)"
    by (rule slice_of_same) (rule NestedResources_same [OF eq])
qed

lemma forks_map_Key [simp]: "forks (map Key p) (map Key q) \<longleftrightarrow> forks p q"
  by (induction p q rule: forks.induct) auto

lemma dataAt_holds [simp]: "holds_at a (mc_Data c) d \<Longrightarrow> dataAt a c = d"
  by (simp add: dataAt_def holds_at_def)

lemma containerAt_iff:
  "containerAt conv a c \<longleftrightarrow> holds_at a (mc_Data c) (dataAt a c) \<and> container_ok conv c (dataAt a c)"
  by (auto simp: containerAt_def dataAt_def holds_at_def split: option.splits json.splits)

lemma touches_putSlice:
  "touches p d d' \<Longrightarrow> forks p q \<Longrightarrow> putSlice q us d' = None \<longleftrightarrow> putSlice q us d = None"
  by (induction rule: touches.induct) (simp_all add: putSlice_fork(2))

lemma editAt_volumes:
  assumes "edited conv k path (resourceOf a) rs (f (resourceOf a))"
  obtains a' where "editAt [] f a = (a', Ok ())" "editable conv k path (resourceOf a')"
    "slice_of conv k path (resourceOf a') = rs" "\<And>l. forks (map Key path) l \<Longrightarrow> same_at l a a'"
proof -
  have "holds_at a [] (resourceOf a)" by (simp add: holds_at_def)
  then obtain a' d' where a': "editAt [] f a = (a', Ok ())" "holds_at a' [] d'"
    "editable conv k path d'" "slice_of conv k path d' = rs" "touches path (resourceOf a) d'"
    using assms by (rule editAt_edited)
  have d': "d' = resourceOf a'" using a'(2) by (simp add: holds_at_def)
  have "same_at l a a'" if l: "forks (map Key path) l" for l
  proof -
    have "putSlice q [] (resourceOf a') = None \<longleftrightarrow> putSlice q [] (resourceOf a) = None"
      if "l = map Key q" for q
      using touches_putSlice [OF a'(5)] l that d' by simp
    with touches_frame [OF a'(5) l] d' show ?thesis by (simp add: same_at_def)
  qed
  with a'(1,3,4) show thesis by (intro that) (simp_all only: d')
qed

section \<open>The effect of the handlers on one container\<close>

lemma fileContainer_effect:
  assumes "reads_back conv" and "holds_at a (mc_Data c) d" and "container_ok conv c d"
  shows "\<exists>a' d'. fileContainer conv n c a = (a', Ok ()) \<and> holds_at a' (mc_Data c) d'
    \<and> only_at (mc_Data c) a a' \<and> files_effect conv n c d d'"
proof -
  let ?p = "pathJoin (rootOf conv (env_slice conv c d)) n"
  have "editable conv EnvVarK (mc_Env c) d" using assms(3) by (simp add: container_ok_def)
  with assms(1) obtain d1 where d1: "MountPath conv c n d = (d1, Ok ?p)"
    "editable conv EnvVarK (mc_Env c) d1" "env_slice conv c d1 = withRoot conv (env_slice conv c d)"
    and t1: "touches (mc_Env c) d d1"
    by (rule MountPath_edited)
  have ok1: "container_ok conv c d1" using assms(3) t1 d1(2) by (auto intro: touches_container_ok)
  obtain a1 where a1: "editAt (mc_Data c) (MountPath conv c n) a = (a1, Ok ?p)"
    "holds_at a1 (mc_Data c) d1" "only_at (mc_Data c) a a1"
    by (rule editAt_run [where f = "MountPath conv c n", OF assms(2) d1(1)])
  have "editable conv VolumeMountK (mc_VolumeMount c) d1" using ok1 by (simp add: container_ok_def)
  from AddVolumeMount_edited [OF assms(1) this, of n ?p]
  obtain a2 d2 where a2: "editAt (mc_Data c) (AddVolumeMount conv c n ?p) a1 = (a2, Ok ())"
    "holds_at a2 (mc_Data c) d2" "only_at (mc_Data c) a1 a2"
    and d2: "editable conv VolumeMountK (mc_VolumeMount c) d2"
      "mount_slice conv c d2 = upsert (mount_named n) (VolumeMount_ToUnstructured n ?p) (mount_slice conv c d1)"
    and t2: "touches (mc_VolumeMount c) d1 d2"
    by (rule editAt_edited [where f = "AddVolumeMount conv c n ?p", OF a1(2)])
  have "files_effect conv n c d d2"
    using touches_env [OF assms(3) t1] touches_mount [OF ok1 t2] d1(3) d2 ok1 t2
    by (auto simp: files_effect_def intro: touches_container_ok)
  with a1 a2 show ?thesis
    by (auto simp: fileContainer_def andThen_def intro: only_at_trans)
qed

lemma AddEnvVars_effect:
  assumes "reads_back conv" and "holds_at a (mc_Data c) d" and "container_ok conv c d"
  obtains a' d' where "editAt (mc_Data c) (AddEnvVars conv c vars) a = (a', Ok ())"
    "holds_at a' (mc_Data c) d'" "only_at (mc_Data c) a a'" "env_effect conv True s vars c d d'"
proof -
  have "editable conv EnvVarK (mc_Env c) d" using assms(3) by (simp add: container_ok_def)
  from AddEnvVars_edited [OF assms(1) this, of vars]
  obtain a' d' where a': "editAt (mc_Data c) (AddEnvVars conv c vars) a = (a', Ok ())"
    "holds_at a' (mc_Data c) d'" "only_at (mc_Data c) a a'"
    and d': "editable conv EnvVarK (mc_Env c) d'"
      "env_slice conv c d' = drop_envs (map ev_Name vars) (env_slice conv c d) @ map EnvVar_ToUnstructured vars"
    and t: "touches (mc_Env c) d d'"
    by (rule editAt_edited [where f = "AddEnvVars conv c vars", OF assms(2)])
  have "env_effect conv True s vars c d d'"
    using touches_env [OF assms(3) t] d' t assms(3)
    by (auto simp: env_effect_def intro: touches_container_ok)
  with a' show thesis by (intro that)
qed

lemma envContainer_effect:
  assumes "reads_back conv" and "holds_at a (mc_Data c) d" and "container_ok conv c d"
  shows "\<exists>a' d'. envContainer conv asFiles secret vars c a = (a', Ok ()) \<and> holds_at a' (mc_Data c) d'
    \<and> only_at (mc_Data c) a a' \<and> env_effect conv asFiles secret vars c d d'"
proof (cases asFiles)
  case True
  then show ?thesis
    by (simp add: envContainer_def andThen_def) (meson AddEnvVars_effect [OF assms])
next
  case False
  have "editable conv EnvFromSourceK (mc_EnvFrom c) d" using assms(3) by (simp add: container_ok_def)
  from AddEnvFromVar_edited [OF assms(1) this, of secret]
  obtain a1 d1 where a1: "editAt (mc_Data c) (AddEnvFromVar conv c secret) a = (a1, Ok ())"
    "holds_at a1 (mc_Data c) d1" "only_at (mc_Data c) a a1"
    and d1: "editable conv EnvFromSourceK (mc_EnvFrom c) d1"
      "from_slice conv c d1 = remove_first (from_secret secret) (from_slice conv c d)
         @ [EnvFromSource_ToUnstructured secret]"
    and t1: "touches (mc_EnvFrom c) d d1"
    by (rule editAt_edited [where f = "AddEnvFromVar conv c secret", OF assms(2)])
  have ok1: "container_ok conv c d1" using assms(3) t1 d1(1) by (auto intro: touches_container_ok)
  obtain a2 d2 where a2: "editAt (mc_Data c) (AddEnvVars conv c vars) a1 = (a2, Ok ())"
    "holds_at a2 (mc_Data c) d2" "only_at (mc_Data c) a1 a2" "env_effect conv True secret vars c d1 d2"
    by (rule AddEnvVars_effect [OF assms(1) a1(2) ok1])
  have "env_effect conv asFiles secret vars c d d2"
    using a2(4) False d1(2) touches_envFrom [OF assms(3) t1] by (simp add: env_effect_def)
  with False a1 a2 show ?thesis
    by (auto simp: envContainer_def andThen_def intro: only_at_trans)
qed

lemma removeKeys_effect:
  assumes "holds_at a (mc_Data c) d" and "container_ok conv c d"
  shows "\<exists>a' d'. forAll (\<lambda>(var, key). editAt (mc_Data c) (RemoveEnvVars conv c key)) evs a = (a', Ok ())
    \<and> holds_at a' (mc_Data c) d' \<and> only_at (mc_Data c) a a' \<and> container_ok conv c d'
    \<and> env_slice conv c d' = drop_envs (map snd evs) (env_slice conv c d)
    \<and> from_slice conv c d' = from_slice conv c d \<and> mount_slice conv c d' = mount_slice conv c d"
  using assms
proof (induction evs arbitrary: a d)
  case Nil
  then show ?case by (auto simp: drop_envs_def)
next
  case (Cons ev evs)
  obtain var key where ev: "ev = (var, key)" by (cases ev)
  have "editable conv EnvVarK (mc_Env c) d" using Cons.prems(2) by (simp add: container_ok_def)
  from RemoveEnvVars_edited [OF this, of key]
  obtain a1 d1 where a1: "editAt (mc_Data c) (RemoveEnvVars conv c key) a = (a1, Ok ())"
    "holds_at a1 (mc_Data c) d1" "only_at (mc_Data c) a a1"
    and d1: "editable conv EnvVarK (mc_Env c) d1"
      "env_slice conv c d1 = remove_first (env_named key) (env_slice conv c d)"
    and t1: "touches (mc_Env c) d d1"
    by (rule editAt_edited [where f = "RemoveEnvVars conv c key", OF Cons.prems(1)])
  have ok1: "container_ok conv c d1" using Cons.prems(2) t1 d1(1) by (auto intro: touches_container_ok)
  from Cons.IH [OF a1(2) ok1] touches_env [OF Cons.prems(2) t1] a1 d1(2) show ?case
    by (auto simp: ev andThen_def drop_envs_def intro: only_at_trans)
qed

lemma unbindContainer_effect:
  assumes "holds_at a (mc_Data c) d" and "container_ok conv c d"
  shows "\<exists>a' d'. unbindContainer conv n secret evs c a = (a', Ok ()) \<and> holds_at a' (mc_Data c) d'
    \<and> only_at (mc_Data c) a a' \<and> unbind_effect conv n secret evs c d d'"
proof -
  from removeKeys_effect [OF assms, of evs]
  obtain a1 d1 where a1: "forAll (\<lambda>(var, key). editAt (mc_Data c) (RemoveEnvVars conv c key)) evs a = (a1, Ok ())"
    "holds_at a1 (mc_Data c) d1" "only_at (mc_Data c) a a1" and ok1: "container_ok conv c d1"
    and d1: "env_slice conv c d1 = drop_envs (map snd evs) (env_slice conv c d)"
      "from_slice conv c d1 = from_slice conv c d" "mount_slice conv c d1 = mount_slice conv c d"
    by blast
  have "editable conv EnvFromSourceK (mc_EnvFrom c) d1" using ok1 by (simp add: container_ok_def)
  from RemoveEnvFromVars_edited [OF this, of secret]
  obtain a2 d2 where a2: "editAt (mc_Data c) (RemoveEnvFromVars conv c secret) a1 = (a2, Ok ())"
    "holds_at a2 (mc_Data c) d2" "only_at (mc_Data c) a1 a2"
    and d2: "editable conv EnvFromSourceK (mc_EnvFrom c) d2"
      "from_slice conv c d2 = remove_first (from_secret secret) (from_slice conv c d1)"
    and t2: "touches (mc_EnvFrom c) d1 d2"
    by (rule editAt_edited [where f = "RemoveEnvFromVars conv c secret", OF a1(2)])
  have ok2: "container_ok conv c d2" using ok1 t2 d2(1) by (auto intro: touches_container_ok)
  have "editable conv VolumeMountK (mc_VolumeMount c) d2" using ok2 by (simp add: container_ok_def)
  from RemoveVolumeMount_edited [OF this, of n]
  obtain a3 d3 where a3: "editAt (mc_Data c) (RemoveVolumeMount conv c n) a2 = (a3, Ok ())"
    "holds_at a3 (mc_Data c) d3" "only_at (mc_Data c) a2 a3"
    and d3: "editable conv VolumeMountK (mc_VolumeMount c) d3"
      "mount_slice conv c d3 = remove_first (mount_named n) (mount_slice conv c d2)"
    and t3: "touches (mc_VolumeMount c) d2 d3"
    by (rule editAt_edited [where f = "RemoveVolumeMount conv c n", OF a2(2)])
  have "unbind_effect conv n secret evs c d d3"
    using d1 d2(2) d3 touches_envFrom [OF ok1 t2] touches_mount [OF ok2 t3] ok2 t3
    by (auto simp: unbind_effect_def intro: touches_container_ok)
  moreover have "only_at (mc_Data c) a a3" using a1(3) a2(3) a3(3) by (blast intro: only_at_trans)
  ultimately show ?thesis using a1(1) a2(1) a3(1,2)
    by (auto simp: unbindContainer_def andThen_def)
qed

section \<open>All the containers of an application\<close>

text \<open>
  What the loops over containers rely on: an edit that succeeds on one container has its
  effect there and is invisible at the other containers.
\<close>

locale container_edit =
  fixes edit :: "meta_container \<Rightarrow> application \<Rightarrow> application \<times> unit go"
    and ready :: "meta_container \<Rightarrow> fields \<Rightarrow> bool"
    and effect :: "meta_container \<Rightarrow> fields \<Rightarrow> fields \<Rightarrow> bool"
  assumes edit_effect: "holds_at a (mc_Data c) d \<Longrightarrow> ready c d \<Longrightarrow>
    \<exists>a' d'. edit c a = (a', Ok ()) \<and> holds_at a' (mc_Data c) d'
      \<and> only_at (mc_Data c) a a' \<and> effect c d d'"
begin

lemma forAll_effect:
  assumes "apart cs" and "\<And>c. c \<in> set cs \<Longrightarrow> holds_at a (mc_Data c) (data c) \<and> ready c (data c)"
  shows "\<exists>a'. forAll edit cs a = (a', Ok ())
    \<and> (\<forall>c \<in> set cs. \<exists>d'. holds_at a' (mc_Data c) d' \<and> effect c (data c) d')
    \<and> (\<forall>l. (\<forall>c \<in> set cs. forks (mc_Data c) l) \<longrightarrow> same_at l a a')"
  using assms
proof (induction cs arbitrary: a)
  case (Cons c cs)
  from Cons.prems(2) [of c] edit_effect obtain a1 d1 where a1: "edit c a = (a1, Ok ())"
    "holds_at a1 (mc_Data c) d1" "only_at (mc_Data c) a a1" "effect c (data c) d1"
    by fastforce
  have forks: "forks (mc_Data c) (mc_Data c')" if "c' \<in> set cs" for c'
    using Cons.prems(1) that by (simp add: list_all_iff)
  have "holds_at a1 (mc_Data c') (data c') \<and> ready c' (data c')" if "c' \<in> set cs" for c'
    using Cons.prems(2) [of c'] only_at_holds [OF a1(3) forks [OF that]] that by simp
  from Cons.IH [OF _ this] Cons.prems(1) obtain a' where a': "forAll edit cs a1 = (a', Ok ())"
    "\<forall>c \<in> set cs. \<exists>d'. holds_at a' (mc_Data c) d' \<and> effect c (data c) d'"
    "\<forall>l. (\<forall>c \<in> set cs. forks (mc_Data c) l) \<longrightarrow> same_at l a1 a'"
    by auto
  have "holds_at a' (mc_Data c) d1"
    using a'(3) a1(2) forks same_at_holds [of "mc_Data c" a1 a'] forks_sym by blast
  moreover have "same_at l a a'" if "forks (mc_Data c) l" "\<forall>c \<in> set cs. forks (mc_Data c) l" for l
    using a'(3) a1(3) that by (auto simp: only_at_def same_at_def)
  ultimately show ?case using a1 a'
    by (auto simp: andThen_def)
qed simp

lemma containers_effect:
  assumes "apart cs" and "\<And>c. c \<in> set cs \<Longrightarrow> holds_at a (mc_Data c) (dataAt a c) \<and> ready c (dataAt a c)"
  obtains a' where "forAll edit cs a = (a', Ok ())"
    "\<And>c. c \<in> set cs \<Longrightarrow> holds_at a' (mc_Data c) (dataAt a' c) \<and> effect c (dataAt a c) (dataAt a' c)"
    "\<And>l. (\<forall>c \<in> set cs. forks (mc_Data c) l) \<Longrightarrow> same_at l a a'"
proof -
  from forAll_effect [OF assms] obtain a' where a': "forAll edit cs a = (a', Ok ())"
    "\<And>c. c \<in> set cs \<Longrightarrow> \<exists>d'. holds_at a' (mc_Data c) d' \<and> effect c (dataAt a c) d'"
    "\<And>l. (\<forall>c \<in> set cs. forks (mc_Data c) l) \<Longrightarrow> same_at l a a'"
    by blast
  show thesis by (rule that [OF a'(1) _ a'(3)]) (use a'(2) dataAt_holds in fastforce)+
qed

lemma pods_effect:
  assumes "apart cs"
    and "\<And>c. c \<in> set cs \<Longrightarrow> forks (mc_Data c) (map Key vp)
      \<and> holds_at a (mc_Data c) (dataAt a c) \<and> ready c (dataAt a c)"
    and "edited conv VolumeK vp (resourceOf a) rs (f (resourceOf a))"
  obtains a' where "andThen (editAt [] f) (\<lambda>_. forAll edit cs) a = (a', Ok ())"
    "editable conv VolumeK vp (resourceOf a')" "slice_of conv VolumeK vp (resourceOf a') = rs"
    "\<And>c. c \<in> set cs \<Longrightarrow> holds_at a' (mc_Data c) (dataAt a' c) \<and> effect c (dataAt a c) (dataAt a' c)"
    "\<And>l. forks (map Key vp) l \<Longrightarrow> (\<forall>c \<in> set cs. forks (mc_Data c) l) \<Longrightarrow> same_at l a a'"
proof -
  obtain a1 where a1: "editAt [] f a = (a1, Ok ())" "editable conv VolumeK vp (resourceOf a1)"
    "slice_of conv VolumeK vp (resourceOf a1) = rs" "\<And>l. forks (map Key vp) l \<Longrightarrow> same_at l a a1"
    by (rule editAt_volumes [where f = f, OF assms(3)]) blast
  have same: "holds_at a1 (mc_Data c) (dataAt a c)" "dataAt a1 c = dataAt a c" if "c \<in> set cs" for c
    using a1(4) [of "mc_Data c"] assms(2) [OF that] same_at_holds forks_sym dataAt_holds by metis+
  have ready: "holds_at a1 (mc_Data c) (dataAt a1 c) \<and> ready c (dataAt a1 c)" if "c \<in> set cs" for c
    using assms(2) [OF that] same [OF that] by simp
  obtain a' where a': "forAll edit cs a1 = (a', Ok ())"
    "\<And>c. c \<in> set cs \<Longrightarrow> holds_at a' (mc_Data c) (dataAt a' c) \<and> effect c (dataAt a1 c) (dataAt a' c)"
    "\<And>l. (\<forall>c \<in> set cs. forks (mc_Data c) l) \<Longrightarrow> same_at l a1 a'"
    by (rule containers_effect [OF assms(1) ready]) auto
  have vol: "same_at (map Key vp) a1 a'" using a'(3) assms(2) by blast
  show thesis
  proof (rule that [of a'])
    show "andThen (editAt [] f) (\<lambda>_. forAll edit cs) a = (a', Ok ())"
      using a1(1) a'(1) by (simp add: andThen_def)
    show "editable conv VolumeK vp (resourceOf a')" "slice_of conv VolumeK vp (resourceOf a') = rs"
      using a1(2,3) same_at_slice [OF vol] by auto
    show "same_at l a a'" if "forks (map Key vp) l" "\<forall>c \<in> set cs. forks (mc_Data c) l" for l
      using a1(4) [OF that(1)] a'(3) [OF that(2)] by (simp add: same_at_def)
  qed (use a'(2) same(2) in auto)
qed

end

interpretation files: container_edit
  "fileContainer conv n"
  "\<lambda>c d. reads_back conv \<and> container_ok conv c d"
  "files_effect conv n"
  for conv n
  by unfold_locales (use fileContainer_effect in blast)

interpretation envs: container_edit
  "envContainer conv asFiles secret vars"
  "\<lambda>c d. reads_back conv \<and> container_ok conv c d"
  "env_effect conv asFiles secret vars"
  for conv asFiles secret vars
  by unfold_locales (use envContainer_effect in blast)

interpretation unbind: container_edit
  "unbindContainer conv n secret evs"
  "container_ok conv"
  "unbind_effect conv n secret evs"
  for conv n secret evs
  by unfold_locales (use unbindContainer_effect in blast)

section \<open>The effect of the handlers on an application\<close>

lemma projectableD:
  assumes "projectable conv pods a"
  shows "apart (mp_Containers pods)" "editable conv VolumeK (mp_Volume pods) (resourceOf a)"
    "\<And>c. c \<in> set (mp_Containers pods) \<Longrightarrow> forks (mc_Data c) (map Key (mp_Volume pods))
      \<and> holds_at a (mc_Data c) (dataAt a c) \<and> container_ok conv c (dataAt a c)"
  using assms by (auto simp: projectable_def list_all_iff containerAt_iff)

lemma projectableI:
  assumes "projectable conv pods a" and "editable conv VolumeK (mp_Volume pods) (resourceOf a')"
    and "\<And>c. c \<in> set (mp_Containers pods) \<Longrightarrow>
      holds_at a' (mc_Data c) (dataAt a' c) \<and> container_ok conv c (dataAt a' c)"
  shows "projectable conv pods a'"
  using assms by (auto simp: projectable_def list_all_iff containerAt_iff)

lemma fileApplication_effect:
  assumes "reads_back conv" and "projectable conv pods a"
  obtains a' where "fileApplication conv n s pods a = (a', Ok ())" "projectable conv pods a'"
    "volumes_of conv pods a' = upsert (volume_named n) (Volume_ToUnstructured n s) (volumes_of conv pods a)"
    "\<And>c. c \<in> set (mp_Containers pods) \<Longrightarrow> files_effect conv n c (dataAt a c) (dataAt a' c)"
    "only_pods pods a a'"
proof -
  note p = projectableD [OF assms(2)]
  obtain a' where a': "fileApplication conv n s pods a = (a', Ok ())"
    "editable conv VolumeK (mp_Volume pods) (resourceOf a')"
    "volumes_of conv pods a' = upsert (volume_named n) (Volume_ToUnstructured n s) (volumes_of conv pods a)"
    "\<And>c. c \<in> set (mp_Containers pods) \<Longrightarrow>
       holds_at a' (mc_Data c) (dataAt a' c) \<and> files_effect conv n c (dataAt a c) (dataAt a' c)"
    "\<And>l. forks (map Key (mp_Volume pods)) l \<Longrightarrow> (\<forall>c \<in> set (mp_Containers pods). forks (mc_Data c) l)
       \<Longrightarrow> same_at l a a'"
    unfolding fileApplication_def
    by (rule files.pods_effect [where f = "AddVolume conv pods n s", OF p(1) _ AddVolume_edited [OF assms(1) p(2)]]) (use assms(1) p(3) in auto)
  have "projectable conv pods a'"
    by (rule projectableI [OF assms(2) a'(2)]) (use a'(4) in \<open>auto simp: files_effect_def\<close>)
  with a' show thesis by (intro that) (auto simp: only_pods_def)
qed

lemma envApplication_effect:
  assumes "reads_back conv" and "projectable conv pods a"
  obtains a' where "envApplication conv asFiles s vars pods a = (a', Ok ())" "projectable conv pods a'"
    "volumes_of conv pods a' = volumes_of conv pods a"
    "\<And>c. c \<in> set (mp_Containers pods) \<Longrightarrow> env_effect conv asFiles s vars c (dataAt a c) (dataAt a' c)"
    "only_pods pods a a'"
proof -
  note p = projectableD [OF assms(2)]
  obtain a' where a': "envApplication conv asFiles s vars pods a = (a', Ok ())"
    "\<And>c. c \<in> set (mp_Containers pods) \<Longrightarrow>
       holds_at a' (mc_Data c) (dataAt a' c) \<and> env_effect conv asFiles s vars c (dataAt a c) (dataAt a' c)"
    "\<And>l. (\<forall>c \<in> set (mp_Containers pods). forks (mc_Data c) l) \<Longrightarrow> same_at l a a'"
    unfolding envApplication_def
    by (rule envs.containers_effect [OF p(1)]) (use assms(1) p(3) in auto)
  have vol: "same_at (map Key (mp_Volume pods)) a a'" using a'(3) p(3) by blast
  have "projectable conv pods a'"
    by (rule projectableI [OF assms(2)])
      (use a'(2) p(2) same_at_slice [OF vol] in \<open>auto simp: env_effect_def\<close>)
  then show thesis
    by (rule that [OF a'(1) _ same_at_slice(2) [OF vol]]) (use a'(2,3) in \<open>auto simp: only_pods_def\<close>)
qed

lemma unbindPods_effect:
  assumes "projectable conv pods a"
  obtains a' where "unbindPods conv n s evs pods a = (a', Ok ())" "projectable conv pods a'"
    "volumes_of conv pods a' = remove_first (volume_named n) (volumes_of conv pods a)"
    "\<And>c. c \<in> set (mp_Containers pods) \<Longrightarrow> unbind_effect conv n s evs c (dataAt a c) (dataAt a' c)"
    "only_pods pods a a'"
proof -
  note p = projectableD [OF assms]
  obtain a' where a': "unbindPods conv n s evs pods a = (a', Ok ())"
    "editable conv VolumeK (mp_Volume pods) (resourceOf a')"
    "volumes_of conv pods a' = remove_first (volume_named n) (volumes_of conv pods a)"
    "\<And>c. c \<in> set (mp_Containers pods) \<Longrightarrow>
       holds_at a' (mc_Data c) (dataAt a' c) \<and> unbind_effect conv n s evs c (dataAt a c) (dataAt a' c)"
    "\<And>l. forks (map Key (mp_Volume pods)) l \<Longrightarrow> (\<forall>c \<in> set (mp_Containers pods). forks (mc_Data c) l)
       \<Longrightarrow> same_at l a a'"
    unfolding unbindPods_def
    by (rule unbind.pods_effect [where f = "RemoveVolume conv pods n", OF p(1) _ RemoveVolume_edited [OF p(2)]]) (use p(3) in auto)
  have "projectable conv pods a'"
    by (rule projectableI [OF assms a'(2)]) (use a'(4) in \<open>auto simp: unbind_effect_def\<close>)
  with a' show thesis by (intro that) (auto simp: only_pods_def)
qed


section \<open>Binding again and unbinding\<close>

lemma mem_drop_envs: "m \<in> set rs \<Longrightarrow> \<forall>n \<in> set ns. \<not> env_named n m \<Longrightarrow> m \<in> set (drop_envs ns rs)"
proof (induction ns arbitrary: rs)
  case (Cons n ns)
  have "x \<in> set (remove_first P xs)" if "x \<in> set xs" "\<not> P x" for P x and xs :: "fields list"
    using that by (induction xs) auto
  then have "m \<in> set (remove_first (env_named n) rs)" using Cons.prems by simp
  with Cons show ?case by (simp add: drop_envs_def)
qed (simp add: drop_envs_def)

lemma set_drop_envs: "set (drop_envs ns rs) \<subseteq> set rs"
  unfolding drop_envs_def
  by (induction ns arbitrary: rs) (auto dest: set_remove_first_subset [THEN subsetD])

lemma remove_first_only: "length (filter P xs) \<le> 1 \<Longrightarrow> \<not> list_ex P (remove_first P xs)"
  using length_filter_remove_first [of P xs] by (auto simp: list_ex_iff filter_empty_conv)

lemma drop_envs_none:
  "n \<in> set ns \<Longrightarrow> length (filter (env_named n) rs) \<le> 1 \<Longrightarrow> \<not> list_ex (env_named n) (drop_envs ns rs)"
proof (induction ns arbitrary: rs)
  case (Cons k ns)
  let ?rs = "remove_first (env_named k) rs"
  show ?case
  proof (cases "n = k")
    case True
    have "\<not> list_ex (env_named k) ?rs" using Cons.prems True by (intro remove_first_only) simp
    with True set_drop_envs [of ns ?rs] show ?thesis by (auto simp: drop_envs_def list_ex_iff)
  next
    case False
    have "length (filter P (remove_first Q xs)) \<le> length (filter P xs)" for P Q and xs :: "fields list"
      by (induction xs) auto
    then have "length (filter (env_named n) ?rs) \<le> 1" using Cons.prems(2) by (rule le_trans)
    with Cons.IH Cons.prems(1) False show ?thesis by (simp add: drop_envs_def)
  qed
qed simp

lemma env_named_ToUnstructured [simp]: "env_named n (EnvVar_ToUnstructured v) \<longleftrightarrow> ev_Name v = n"
  by (simp add: named_def NestedString_singleton EnvVar_ToUnstructured_def)

lemma drop_envs_append:
  "\<forall>n \<in> set ns. \<not> list_ex (env_named n) xs \<Longrightarrow> drop_envs ns (xs @ ys) = xs @ drop_envs ns ys"
  unfolding drop_envs_def by (induction ns arbitrary: ys) (auto simp: remove_first_append)

lemma drop_envs_all: "drop_envs (map ev_Name vs) (map EnvVar_ToUnstructured vs) = []"
  by (induction vs) (auto simp: drop_envs_def)

lemma drop_envs_again:
  assumes "\<And>v. v \<in> set vs \<Longrightarrow> length (filter (env_named (ev_Name v)) rs) \<le> 1"
  shows "drop_envs (map ev_Name vs) (drop_envs (map ev_Name vs) rs @ map EnvVar_ToUnstructured vs)
    = drop_envs (map ev_Name vs) rs"
  using assms by (subst drop_envs_append) (auto simp: drop_envs_all drop_envs_none)

lemma remove_first_added: "\<not> list_ex P xs \<Longrightarrow> P u \<Longrightarrow> remove_first P (upsert P u xs) = xs"
  by (simp add: remove_first_append)

lemma own_names [simp]:
  "decoded ''name'' (VolumeMount_ToUnstructured n p) = n"
  "map_of (Volume_ToUnstructured n s) ''name'' = Some (JStr n)"
  "s \<noteq> '''' \<Longrightarrow> from_secret s (EnvFromSource_ToUnstructured s)"
  by (auto simp: decoded_def VolumeMount_ToUnstructured_def Volume_ToUnstructured_def
      EnvFromSource_ToUnstructured_def omitempty_def named_def NestedString_Some_iff)

lemma webApp_projectable: "projectable nameConv webPods webApp"
  by code_simp



text \<open>
  C17: Projecting the same binding as files a second time changes no slice: the volumes, and
  the environment, the secret references and the mounts of every container stay.
\<close>

theorem rebind_files:
  assumes "reads_back conv" and "projectable conv pods a"
  shows "\<exists>a1 a2. fileApplication conv n s pods a = (a1, Ok ())
    \<and> fileApplication conv n s pods a1 = (a2, Ok ())
    \<and> volumes_of conv pods a2 = volumes_of conv pods a1
    \<and> (\<forall>c \<in> set (mp_Containers pods). slicesAt conv a2 c = slicesAt conv a1 c)"
proof -
  obtain a1 where a1: "fileApplication conv n s pods a = (a1, Ok ())" "projectable conv pods a1"
    "volumes_of conv pods a1 = upsert (volume_named n) (Volume_ToUnstructured n s) (volumes_of conv pods a)"
    "\<And>c. c \<in> set (mp_Containers pods) \<Longrightarrow> files_effect conv n c (dataAt a c) (dataAt a1 c)"
    by (rule fileApplication_effect [OF assms]) blast
  obtain a2 where a2: "fileApplication conv n s pods a1 = (a2, Ok ())"
    "volumes_of conv pods a2 = upsert (volume_named n) (Volume_ToUnstructured n s) (volumes_of conv pods a1)"
    "\<And>c. c \<in> set (mp_Containers pods) \<Longrightarrow> files_effect conv n c (dataAt a1 c) (dataAt a2 c)"
    by (rule fileApplication_effect [OF assms(1) a1(2)]) blast
  have "volumes_of conv pods a2 = volumes_of conv pods a1"
    unfolding a2(2) a1(3) by (rule upsert_idem) simp
  moreover have "slicesAt conv a2 c = slicesAt conv a1 c" if "c \<in> set (mp_Containers pods)" for c
    using a1(4) [OF that] a2(3) [OF that] assms(1)
    by (simp add: slicesAt_def files_effect_def withRoot_idem rootOf_withRoot upsert_idem)
  ultimately show ?thesis using a1(1) a2(1) by blast
qed

theorem rebind_files_witness:
  "\<exists>a1 a2. fileApplication nameConv ''db'' ''db-secret'' webPods webApp = (a1, Ok ())
    \<and> fileApplication nameConv ''db'' ''db-secret'' webPods a1 = (a2, Ok ())
    \<and> volumes_of nameConv webPods a2 = volumes_of nameConv webPods a1"
  using rebind_files [OF nameConv_reads_back webApp_projectable, of "''db''" "''db-secret''"] by blast

text \<open>
  Projecting the same binding into the environment a second time changes no slice, in
  containers that do not have two variables of a name that is injected or two references
  to the secret.
\<close>

theorem rebind_env:
  assumes "reads_back conv" and "projectable conv pods a" and "single_envs conv s vars pods a" and "s \<noteq> ''''"
  shows "\<exists>a1 a2. envApplication conv asFiles s vars pods a = (a1, Ok ())
    \<and> envApplication conv asFiles s vars pods a1 = (a2, Ok ())
    \<and> volumes_of conv pods a2 = volumes_of conv pods a1
    \<and> (\<forall>c \<in> set (mp_Containers pods). slicesAt conv a2 c = slicesAt conv a1 c)"
proof -
  obtain a1 where a1: "envApplication conv asFiles s vars pods a = (a1, Ok ())" "projectable conv pods a1"
    "\<And>c. c \<in> set (mp_Containers pods) \<Longrightarrow> env_effect conv asFiles s vars c (dataAt a c) (dataAt a1 c)"
    by (rule envApplication_effect [OF assms(1,2)]) blast
  obtain a2 where a2: "envApplication conv asFiles s vars pods a1 = (a2, Ok ())"
    "volumes_of conv pods a2 = volumes_of conv pods a1"
    "\<And>c. c \<in> set (mp_Containers pods) \<Longrightarrow> env_effect conv asFiles s vars c (dataAt a1 c) (dataAt a2 c)"
    by (rule envApplication_effect [OF assms(1) a1(2)]) blast
  have "slicesAt conv a2 c = slicesAt conv a1 c" if c: "c \<in> set (mp_Containers pods)" for c
  proof -
    have "\<not> list_ex (from_secret s) (remove_first (from_secret s) (from_slice conv c (dataAt a c)))"
      using assms(3) c by (intro remove_first_only) (auto simp: single_envs_def list_all_iff)
    moreover have "drop_envs (map ev_Name vars)
        (drop_envs (map ev_Name vars) (env_slice conv c (dataAt a c)) @ map EnvVar_ToUnstructured vars)
      = drop_envs (map ev_Name vars) (env_slice conv c (dataAt a c))"
      using assms(3) c by (intro drop_envs_again) (auto simp: single_envs_def list_all_iff)
    ultimately show ?thesis using a1(3) [OF c] a2(3) [OF c] assms(4)
      by (simp add: slicesAt_def env_effect_def remove_first_append)
  qed
  with a1(1) a2(1,2) show ?thesis by blast
qed

theorem rebind_env_witness:
  "\<exists>a1 a2. envApplication nameConv False ''db-secret''
        (envVarsFor ''db-secret'' [(''DB_USER'', ''username'')]) webPods webApp = (a1, Ok ())
    \<and> envApplication nameConv False ''db-secret''
        (envVarsFor ''db-secret'' [(''DB_USER'', ''username'')]) webPods a1 = (a2, Ok ())
    \<and> (\<forall>c \<in> set (mp_Containers webPods). slicesAt nameConv a2 c = slicesAt nameConv a1 c)"
proof -
  have "single_envs nameConv ''db-secret'' (envVarsFor ''db-secret'' [(''DB_USER'', ''username'')]) webPods webApp"
    by code_simp
  from rebind_env [OF nameConv_reads_back webApp_projectable this] show ?thesis by fastforce
qed

text \<open>
  C3: Unbinding takes back what projecting files put in: in an application that had nothing
  of the binding, the volumes, the mounts and the secret references are as before, and the
  environment differs at most by \<open>SERVICE_BINDING_ROOT\<close>.
\<close>

theorem unbind_restores_files:
  assumes "reads_back conv" and "projectable conv pods a" and "unbound conv n s pods a"
  shows "\<exists>a1 a2. fileApplication conv n s pods a = (a1, Ok ()) \<and> unbindPods conv n s [] pods a1 = (a2, Ok ())
    \<and> volumes_of conv pods a2 = volumes_of conv pods a
    \<and> (\<forall>c \<in> set (mp_Containers pods). slicesAt conv a2 c =
        (withRoot conv (env_slice conv c (dataAt a c)), from_slice conv c (dataAt a c), mount_slice conv c (dataAt a c)))
    \<and> only_pods pods a a2"
proof -
  obtain a1 where a1: "fileApplication conv n s pods a = (a1, Ok ())" "projectable conv pods a1"
    "volumes_of conv pods a1 = upsert (volume_named n) (Volume_ToUnstructured n s) (volumes_of conv pods a)"
    "\<And>c. c \<in> set (mp_Containers pods) \<Longrightarrow> files_effect conv n c (dataAt a c) (dataAt a1 c)"
    "only_pods pods a a1"
    by (rule fileApplication_effect [OF assms(1,2)]) blast
  obtain a2 where a2: "unbindPods conv n s [] pods a1 = (a2, Ok ())"
    "volumes_of conv pods a2 = remove_first (volume_named n) (volumes_of conv pods a1)"
    "\<And>c. c \<in> set (mp_Containers pods) \<Longrightarrow> unbind_effect conv n s [] c (dataAt a1 c) (dataAt a2 c)"
    "only_pods pods a1 a2"
    by (rule unbindPods_effect [OF a1(2)]) blast
  have "volumes_of conv pods a2 = volumes_of conv pods a"
    unfolding a2(2) a1(3) using assms(3) by (intro remove_first_added) (auto simp: unbound_def)
  moreover have "slicesAt conv a2 c =
      (withRoot conv (env_slice conv c (dataAt a c)), from_slice conv c (dataAt a c), mount_slice conv c (dataAt a c))"
    if c: "c \<in> set (mp_Containers pods)" for c
    using a1(4) [OF c] a2(3) [OF c] assms(3) c
    by (auto simp: slicesAt_def files_effect_def unbind_effect_def unbound_def list_all_iff
        drop_envs_def remove_first_append simp del: upsert_found)
  moreover have "only_pods pods a a2" using a1(5) a2(4) by (simp add: only_pods_def same_at_def)
  ultimately show ?thesis using a1(1) a2(1) by blast
qed

theorem unbind_restores_files_witness:
  "\<exists>a1 a2. fileApplication nameConv ''db'' ''db-secret'' webPods webApp = (a1, Ok ())
    \<and> unbindPods nameConv ''db'' ''db-secret'' [] webPods a1 = (a2, Ok ())
    \<and> volumes_of nameConv webPods a2 = []"
proof -
  have "unbound nameConv ''db'' ''db-secret'' webPods webApp" and "volumes_of nameConv webPods webApp = []"
    by code_simp+
  with unbind_restores_files [OF nameConv_reads_back webApp_projectable this(1)] show ?thesis by auto
qed



text \<open>
  C34: Unbinding looks for the environment variables under the keys of the secret instead
  of their names: a variable whose name is not one of the keys is injected into every
  container and is still there after unbinding.
\<close>

theorem unbind_leaves_env:
  assumes "reads_back conv" and "projectable conv pods a"
    and "(var, key) \<in> set evs" and "var \<notin> set (map snd evs)"
  shows "\<exists>a1 a2. envApplication conv asFiles s (envVarsFor s evs) pods a = (a1, Ok ())
    \<and> unbindPods conv n s evs pods a1 = (a2, Ok ())
    \<and> (\<forall>c \<in> set (mp_Containers pods). list_ex (env_named var) (env_slice conv c (dataAt a2 c)))"
proof -
  let ?v = "\<lparr>ev_Name = var, ev_Value = '''', ev_SecretKeyRef = Some (s, key)\<rparr>"
  obtain a1 where a1: "envApplication conv asFiles s (envVarsFor s evs) pods a = (a1, Ok ())"
    "projectable conv pods a1"
    "\<And>c. c \<in> set (mp_Containers pods) \<Longrightarrow> env_effect conv asFiles s (envVarsFor s evs) c (dataAt a c) (dataAt a1 c)"
    by (rule envApplication_effect [OF assms(1,2)]) blast
  obtain a2 where a2: "unbindPods conv n s evs pods a1 = (a2, Ok ())"
    "\<And>c. c \<in> set (mp_Containers pods) \<Longrightarrow> unbind_effect conv n s evs c (dataAt a1 c) (dataAt a2 c)"
    by (rule unbindPods_effect [OF a1(2)]) blast
  have "list_ex (env_named var) (env_slice conv c (dataAt a2 c))" if c: "c \<in> set (mp_Containers pods)" for c
  proof -
    have "?v \<in> set (envVarsFor s evs)" using assms(3) by (force simp: envVarsFor_def)
    then have "EnvVar_ToUnstructured ?v \<in> set (env_slice conv c (dataAt a1 c))"
      using a1(3) [OF c] by (auto simp: env_effect_def)
    then have "EnvVar_ToUnstructured ?v \<in> set (env_slice conv c (dataAt a2 c))"
      using a2(2) [OF c] assms(4) by (auto simp: unbind_effect_def intro!: mem_drop_envs)
    then show ?thesis by (force simp: list_ex_iff)
  qed
  with a1(1) a2(1) show ?thesis by blast
qed

theorem unbind_leaves_env_witness:
  "\<exists>a1 a2. envApplication nameConv True ''db-secret''
        (envVarsFor ''db-secret'' [(''DB_USER'', ''username'')]) webPods webApp = (a1, Ok ())
    \<and> unbindPods nameConv ''db'' ''db-secret'' [(''DB_USER'', ''username'')] webPods a1 = (a2, Ok ())
    \<and> (\<forall>c \<in> set (mp_Containers webPods). list_ex (env_named ''DB_USER'') (env_slice nameConv c (dataAt a2 c)))"
  by (rule unbind_leaves_env [OF nameConv_reads_back webApp_projectable]) auto

end
