(* ===== verification/Delivery.thy ===== *)
theory Delivery
  imports Access Projection
begin

text \<open>
  The handlers as a whole: what a handler that went through has done to every application
  of the binding, and what the reconciler does with the finalizer and with errors
  (\<open>handler/project/impl.go\<close>, \<open>builder/pipeline.go\<close>, \<open>controllers/common.go\<close>).
\<close>

section \<open>Notions for the theorems\<close>

text \<open>The containers of an application are found and can be edited.\<close>

definition bindable :: "jsonpath \<Rightarrow> converter \<Rightarrow> application \<Rightarrow> bool" where
  "bindable jp conv a = (case snd (BindablePods jp a) of Ok pods \<Rightarrow> projectable conv pods a | _ \<Rightarrow> False)"

text \<open>What a handler has done to an application with these pods.\<close>

definition files_done :: "converter \<Rightarrow> string \<Rightarrow> string \<Rightarrow> meta_pod_spec \<Rightarrow> application \<Rightarrow> application \<Rightarrow> bool" where
  "files_done conv n s pods a a' =
     (volumes_of conv pods a' = upsert (volume_named n) (Volume_ToUnstructured n s) (volumes_of conv pods a)
      \<and> (\<forall>mc \<in> set (mp_Containers pods). files_effect conv n mc (dataAt a mc) (dataAt a' mc)) \<and> only_pods pods a a')"

definition env_done ::
  "converter \<Rightarrow> bool \<Rightarrow> string \<Rightarrow> env_var list \<Rightarrow> meta_pod_spec \<Rightarrow> application \<Rightarrow> application \<Rightarrow> bool" where
  "env_done conv asFiles s vars pods a a' =
     (volumes_of conv pods a' = volumes_of conv pods a
      \<and> (\<forall>mc \<in> set (mp_Containers pods). env_effect conv asFiles s vars mc (dataAt a mc) (dataAt a' mc))
      \<and> only_pods pods a a')"

definition unbind_done ::
  "converter \<Rightarrow> string \<Rightarrow> string \<Rightarrow> (string \<times> string) list \<Rightarrow> meta_pod_spec \<Rightarrow> application \<Rightarrow> application \<Rightarrow> bool" where
  "unbind_done conv n s evs pods a a' =
     (volumes_of conv pods a' = remove_first (volume_named n) (volumes_of conv pods a)
      \<and> (\<forall>mc \<in> set (mp_Containers pods). unbind_effect conv n s evs mc (dataAt a mc) (dataAt a' mc))
      \<and> only_pods pods a a')"

text \<open>
  \<open>projected jp done c d\<close>: the applications of the context \<open>d\<close> are, in their order, those
  of \<open>c\<close> with the effect \<open>done\<close> on the containers that were found in them; the rest of the
  flow is as it was.
\<close>

definition projected ::
  "jsonpath \<Rightarrow> (meta_pod_spec \<Rightarrow> application \<Rightarrow> application \<Rightarrow> bool) \<Rightarrow> 'w ctx \<Rightarrow> 'w ctx \<Rightarrow> bool" where
  "projected jp effect c d =
     list_all2 (\<lambda>a a'. \<exists>pods. snd (BindablePods jp a) = Ok pods \<and> effect pods a a')
       (cx_applications c) (cx_applications d)"

text \<open>A binding that is processed: it has the finalizer, or it is being deleted.\<close>

definition guarded :: "sbinding \<Rightarrow> bool" where
  "guarded sb = (om_Deleted (sb_Meta sb) \<or> finalizerName \<in> set (om_Finalizers (sb_Meta sb)))"

definition deleted :: "sbinding \<Rightarrow> sbinding" where
  "deleted sb = sb\<lparr>sb_Meta := (sb_Meta sb)\<lparr>om_Deleted := True, om_Finalizers := [''other'', finalizerName]\<rparr>\<rparr>"

text \<open>A cluster that holds one binding and cannot be asked for anything else.\<close>

definition failingCluster :: "sbinding \<Rightarrow> unit env" where
  "failingCluster sb = emptyCluster\<lparr>env_BindingFrom := (\<lambda>_. Inr sb),
     env_Get := (\<lambda>_ g ns name. if g = bindingGVR sb then Inr [] else Inl (StatusErr ''InternalError'' ''''))\<rparr>"

text \<open>A parser that finds the two containers of the deployment above.\<close>

definition webPaths :: jsonpath where
  "webPaths =
     \<lparr>jp_Parse = (\<lambda>_. Inl (errNew ''no parser'')),
      jp_FindResults = (\<lambda>_ d. case get_at [Key ''spec'', Key ''template'', Key ''spec'', Key ''containers''] (JObj d) of
         None \<Rightarrow> Inl (errNew ''not found'')
       | Some v \<Rightarrow> Inr [[RRef [Key ''spec'', Key ''template'', Key ''spec'', Key ''containers''] v]]),
      jp_PrintResults = (\<lambda>_. Inl (errNew ''no parser''))\<rparr>"

definition webCluster :: "unit env" where
  "webCluster = emptyCluster\<lparr>env_jp := webPaths\<rparr>"

definition webMapping :: workload_mapping where
  "webMapping =
     \<lparr>wm_Containers = [\<lparr>wc_Path = ''.spec.template.spec.containers'', wc_Name = [''name''], wc_Env = [''env''], wc_EnvFrom = [''envFrom''],
        wc_VolumeMounts = [''volumeMounts'']\<rparr>],
      wm_Volume = [''spec'', ''template'', ''spec'', ''volumes'']\<rparr>"

definition webContext :: "unit ctx" where
  "webContext = (newContext () shopBinding False)
     \<lparr>cx_applications := [SetMapping webMapping webApp], cx_bindingItems := [\<lparr>it_Name = ''port'', it_Value = JStr ''5432'', it_Source = None\<rparr>]\<rparr>"

definition envBinding :: sbinding where
  "envBinding = shopBinding\<lparr>sb_Spec :=
     (case sb_Spec shopBinding of CoreSpec s \<Rightarrow> CoreSpec (s\<lparr>co_BindAsFiles := False\<rparr>) | SpecSpec s \<Rightarrow> SpecSpec s)\<rparr>"

section \<open>Every application is projected\<close>

lemma forEach_append:
  "forEach body (xs @ ys) c =
     (case forEach body xs c of (c', Continue) \<Rightarrow> forEach body ys c' | r \<Rightarrow> r)"
  by (induction xs arbitrary: c) (auto split: prod.splits flow.splits)

lemma forEach_edits:
  assumes "\<And>i. i < length (cx_applications c) \<Longrightarrow> \<exists>a. Q (cx_applications c ! i) a
      \<and> (\<forall>d. cx_applications d ! i = cx_applications c ! i \<longrightarrow> body i d = (setApplication i a d, Continue))"
    and "n \<le> length (cx_applications c)"
  shows "\<exists>as. length as = n \<and> list_all2 Q (take n (cx_applications c)) as
    \<and> forEach body [0..<n] c = (c\<lparr>cx_applications := as @ drop n (cx_applications c)\<rparr>, Continue)"
  using assms(2)
proof (induction n)
  case (Suc n)
  then obtain as where as: "length as = n" "list_all2 Q (take n (cx_applications c)) as"
    "forEach body [0..<n] c = (c\<lparr>cx_applications := as @ drop n (cx_applications c)\<rparr>, Continue)" by auto
  let ?c = "c\<lparr>cx_applications := as @ drop n (cx_applications c)\<rparr>"
  obtain a where a: "Q (cx_applications c ! n) a"
    "cx_applications ?c ! n = cx_applications c ! n \<longrightarrow> body n ?c = (setApplication n a ?c, Continue)"
    using assms(1) [of n] Suc.prems by auto
  have "cx_applications ?c ! n = cx_applications c ! n" using as(1) Suc.prems by (simp add: nth_append)
  with a(2) have "body n ?c = (setApplication n a ?c, Continue)" by simp
  moreover have "setApplication n a ?c = c\<lparr>cx_applications := (as @ [a]) @ drop (Suc n) (cx_applications c)\<rparr>"
    using as(1) Suc.prems by (simp add: setApplication_def list_update_append Cons_nth_drop_Suc [symmetric])
  moreover have "list_all2 Q (take (Suc n) (cx_applications c)) (as @ [a])"
    using as(2) a(1) Suc.prems by (simp add: take_Suc_conv_app_nth list_all2_appendI)
  ultimately show ?case
    using as(1,3) by (intro exI [of _ "as @ [a]"]) (simp add: forEach_append)
qed simp

lemma Resource_views [simp]:
  "projectable conv pods (Resource a) = projectable conv pods a" "dataAt (Resource a) mc = dataAt a mc"
  "only_pods pods (Resource a) a' = only_pods pods a a'"
  by (simp_all add: projectable_def containerAt_def dataAt_def only_pods_def same_at_def)

lemma bindable_pods:
  assumes "bindable jp conv a"
  obtains pods where "BindablePods jp a = (Resource a, Ok pods)" "projectable conv pods (Resource a)"
  using assms by (auto simp: bindable_def BindablePods_def split: go.splits)

lemma withPods_step:
  assumes "bindable (env_jp e) conv a"
    and "\<And>pods. projectable conv pods (Resource a) \<Longrightarrow> \<exists>a'. f pods (Resource a) = (a', Ok ()) \<and> effect pods a a'"
  shows "\<exists>a'. (\<exists>pods. snd (BindablePods (env_jp e) a) = Ok pods \<and> effect pods a a')
    \<and> (\<forall>d. cx_applications d ! i = a \<longrightarrow> withPods e f i d = (setApplication i a' d, Continue))"
proof -
  obtain pods where p: "BindablePods (env_jp e) a = (Resource a, Ok pods)" "projectable conv pods (Resource a)"
    by (rule bindable_pods [OF assms(1)])
  with assms(2) obtain a' where "f pods (Resource a) = (a', Ok ())" "effect pods a a'" by blast
  with p(1) show ?thesis by (intro exI [of _ a']) (simp add: withPods_def settle_def)
qed

lemma applications_loaded: "cx_applications c \<noteq> [] \<Longrightarrow> applications e c = (c, [0..<length (cx_applications c)])"
  by (simp add: applications_def Applications_def)

lemma handler_projects:
  assumes "list_all (bindable (env_jp e) conv) (cx_applications c)"
    and "\<And>a pods. projectable conv pods (Resource a) \<Longrightarrow> \<exists>a'. f pods (Resource a) = (a', Ok ()) \<and> effect pods a a'"
  shows "\<exists>as. finish (forEach (withPods e f) [0..<length (cx_applications c)] c)
      = (c\<lparr>cx_applications := as\<rparr>, None) \<and> projected (env_jp e) effect c (c\<lparr>cx_applications := as\<rparr>)"
proof -
  have "\<exists>as. length as = length (cx_applications c)
    \<and> list_all2 (\<lambda>a a'. \<exists>pods. snd (BindablePods (env_jp e) a) = Ok pods \<and> effect pods a a') (cx_applications c) as
    \<and> forEach (withPods e f) [0..<length (cx_applications c)] c = (c\<lparr>cx_applications := as\<rparr>, Continue)"
    using forEach_edits [where n = "length (cx_applications c)" and c = c and body = "withPods e f",
        OF withPods_step [of e conv _ f effect, OF _ assms(2)]] assms(1)
    by (simp add: list_all_length)
  then show ?thesis by (auto simp: projected_def finish_def)
qed

lemma BindingSecretName_ctx: "fst (BindingSecretName c) = c\<lparr>cx_bindings := cx_bindings (fst (BindingSecretName c))\<rparr>"
  by (auto simp: BindingSecretName_def bindingSecretName_def bindingItemMap_def loadBindings_def Let_def
      split: prod.splits list.splits option.splits if_splits)

lemma BindingSecretName_result:
  obtains bs where "BindingSecretName c = (c\<lparr>cx_bindings := bs\<rparr>, snd (BindingSecretName c))"
  using BindingSecretName_ctx [of c] by (metis prod.collapse)

lemma bindings_views [simp]:
  "BindAsFiles (c\<lparr>cx_bindings := bs\<rparr>) = BindAsFiles c" "EnvBindings (c\<lparr>cx_bindings := bs\<rparr>) = EnvBindings c"
  "BindingName (c\<lparr>cx_bindings := bs\<rparr>) = BindingName c"
  "projected jp effect (c\<lparr>cx_bindings := bs\<rparr>) d = projected jp effect c d"
  by (simp_all add: BindAsFiles_def EnvBindings_def BindingName_def bindingImpl_BindingName_def specImpl_BindingName_def projected_def split: binding_spec.splits)

lemma BindingsAsFiles_result:
  assumes "reads_back (env_conv e)" and "BindAsFiles c" and "cx_applications c \<noteq> []"
    and "list_all (bindable (env_jp e) (env_conv e)) (cx_applications c)"
  obtains bs as where "BindingsAsFiles e c = (c\<lparr>cx_bindings := bs, cx_applications := as\<rparr>, None)"
    "projected (env_jp e) (files_done (env_conv e) (BindingName c) (snd (BindingSecretName c))) c
      (c\<lparr>cx_bindings := bs, cx_applications := as\<rparr>)"
proof -
  let ?n = "BindingName c" and ?s = "snd (BindingSecretName c)"
  obtain bs where bs: "BindingSecretName c = (c\<lparr>cx_bindings := bs\<rparr>, ?s)" by (rule BindingSecretName_result)
  have "\<exists>a'. fileApplication (env_conv e) ?n ?s pods (Resource a) = (a', Ok ()) \<and> files_done (env_conv e) ?n ?s pods a a'"
    if "projectable (env_conv e) pods (Resource a)" for a pods
    by (rule fileApplication_effect [OF assms(1) that, of ?n ?s]) (auto simp: files_done_def)
  from handler_projects [of e "env_conv e" "c\<lparr>cx_bindings := bs\<rparr>" "fileApplication (env_conv e) ?n ?s", OF _ this] assms(2-4) that
  show thesis by (subst (asm) BindingsAsFiles_def, subst (asm) bs) (auto simp: applications_loaded)
qed

lemma BindingsAsEnv_result:
  assumes "reads_back (env_conv e)" and "\<not> (BindAsFiles c \<and> EnvBindings c = [])" and "cx_applications c \<noteq> []"
    and "list_all (bindable (env_jp e) (env_conv e)) (cx_applications c)"
  obtains bs as where "BindingsAsEnv e c = (c\<lparr>cx_bindings := bs, cx_applications := as\<rparr>, None)"
    "projected (env_jp e) (env_done (env_conv e) (BindAsFiles c) (snd (BindingSecretName c))
        (envVarsFor (snd (BindingSecretName c)) (EnvBindings c))) c (c\<lparr>cx_bindings := bs, cx_applications := as\<rparr>)"
proof -
  let ?s = "snd (BindingSecretName c)" and ?vs = "envVarsFor (snd (BindingSecretName c)) (EnvBindings c)"
  obtain bs where bs: "BindingSecretName c = (c\<lparr>cx_bindings := bs\<rparr>, ?s)" by (rule BindingSecretName_result)
  have "\<exists>a'. envApplication (env_conv e) (BindAsFiles c) ?s ?vs pods (Resource a) = (a', Ok ())
      \<and> env_done (env_conv e) (BindAsFiles c) ?s ?vs pods a a'"
    if "projectable (env_conv e) pods (Resource a)" for a pods
    by (rule envApplication_effect [OF assms(1) that, of "BindAsFiles c" ?s ?vs]) (auto simp: env_done_def)
  from handler_projects [of e "env_conv e" "c\<lparr>cx_bindings := bs\<rparr>" "envApplication (env_conv e) (BindAsFiles c) ?s ?vs", OF _ this]
    assms(2-4) that
  show thesis by (subst (asm) BindingsAsEnv_def, subst (asm) bs) (auto simp: applications_loaded)
qed


lemma web_bindable:
  "reads_back (env_conv webCluster)" "cx_applications webContext \<noteq> []"
  "list_all (bindable (env_jp webCluster) (env_conv webCluster)) (cx_applications webContext)"
proof -
  show "reads_back (env_conv webCluster)" using nameConv_reads_back by (simp add: webCluster_def emptyCluster_def)
  show "cx_applications webContext \<noteq> []" "list_all (bindable (env_jp webCluster) (env_conv webCluster)) (cx_applications webContext)"
    by code_simp+
qed




section \<open>Unbinding\<close>

lemma unbind_step:
  assumes "bindable (env_jp e) (env_conv e) a"
  shows "\<exists>a'. (\<exists>pods. snd (BindablePods (env_jp e) a) = Ok pods \<and> unbind_done (env_conv e) n s evs pods a a')
    \<and> (\<forall>d. cx_applications d ! i = a \<longrightarrow> unbindApplication e n s evs i d = (setApplication i a' d, Continue))"
proof -
  obtain pods where p: "BindablePods (env_jp e) a = (Resource a, Ok pods)" "projectable (env_conv e) pods (Resource a)"
    by (rule bindable_pods [OF assms])
  obtain a' where "unbindPods (env_conv e) n s evs pods (Resource a) = (a', Ok ())" "unbind_done (env_conv e) n s evs pods a a'"
    by (rule unbindPods_effect [OF p(2), of n s evs]) (auto simp: unbind_done_def)
  with p(1) show ?thesis by (intro exI [of _ a']) (simp add: unbindApplication_def settle_def)
qed

lemma CleanAnnotations_result:
  "CleanAnnotations c = (d, b) \<Longrightarrow>
     map_of (om_Annotations (cx_Meta d)) MappingAnnotationKey = None \<and> cx_applications d = cx_applications c
     \<and> cx_retry d = cx_retry c \<and> cx_err d = cx_err c
     \<and> b = (map_of (om_Annotations (cx_Meta c)) MappingAnnotationKey \<noteq> None)"
  by (auto simp: CleanAnnotations_def delete_conv' split: if_splits)

lemma Unbind_result:
  assumes "UnbindRequested c" and "statusSecretName c \<noteq> ''''" and "Applications e c = (c1, None)" and "cx_applications c1 \<noteq> []"
    and "list_all (bindable (env_jp e) (env_conv e)) (cx_applications c1)" and "cx_sb c1 = cx_sb c"
  obtains as d b where "Unbind e c = (if b then RetryProcessing None d else StopProcessing d, None)"
    "CleanAnnotations (c1\<lparr>cx_applications := as\<rparr>) = (d, b)"
    "projected (env_jp e) (unbind_done (env_conv e) (BindingName c) (statusSecretName c) (EnvBindings c)) c1 (c1\<lparr>cx_applications := as\<rparr>)"
proof -
  let ?n = "BindingName c" and ?s = "statusSecretName c" and ?evs = "EnvBindings c" and ?k = "length (cx_applications c1)"
  have views: "BindingName c1 = ?n" "EnvBindings c1 = ?evs" "UnbindRequested c1" "statusSecretName c1 = ?s"
    using assms(1,6) by (auto simp: BindingName_def bindingImpl_BindingName_def specImpl_BindingName_def EnvBindings_def
        UnbindRequested_def IsRemoved_def statusSecretName_def split: binding_spec.splits)
  have s: "BindingSecretName c1 = (c1, ?s)" using views(3,4) by (simp add: BindingSecretName_def bindingSecretName_def)
  obtain as where as: "forEach (unbindApplication e ?n ?s ?evs) [0..<?k] c1 = (c1\<lparr>cx_applications := as\<rparr>, Continue)"
    "projected (env_jp e) (unbind_done (env_conv e) ?n ?s ?evs) c1 (c1\<lparr>cx_applications := as\<rparr>)"
    using forEach_edits [where n = ?k and c = c1 and body = "unbindApplication e ?n ?s ?evs", OF unbind_step] assms(5)
    by (auto simp: list_all_length projected_def)
  obtain d b where d: "CleanAnnotations (c1\<lparr>cx_applications := as\<rparr>) = (d, b)" by fastforce
  have "Unbind e c = (if b then RetryProcessing None d else StopProcessing d, None)"
    using assms(1-4) s as(1) d views by (simp add: Unbind_def)
  from this d as(2) show thesis by (rule that)
qed



lemma runHandlers_stops:
  "fs_Stop (FlowStatus (invokeHandler h c)) \<Longrightarrow>
     runHandlers (h # hs) st c = (invokeHandler h c, FlowStatus (invokeHandler h c))"
  by (simp add: Let_def)

text \<open>What adding an application does not change, the search for applications does not change.\<close>

lemma labelledItems_frame:
  assumes "\<And>a c. f (AddApplication a c) = f c"
  shows "f (fst (labelledItems e g mk us c)) = f c"
  by (induction us arbitrary: c) (simp_all add: Let_def assms)

lemma Applications_frame:
  assumes add: "\<And>a c. f (AddApplication a c) = f c"
  shows "f (fst (Applications e c)) = f c"
proof -
  have n: "f (fst (namedApplication e g n mk c)) = f c" for g n mk c
    by (simp add: namedApplication_def add Let_def split: sum.splits)
  have l: "f (fst (labelledApplications e g sel mk c)) = f c" for g sel mk c
    by (simp add: labelledApplications_def labelledItems_frame [of f, OF add] Let_def split: option.splits sum.splits)
  have "f (fst (findApplications e g p n sel mk c)) = f c" for g p n sel mk
  proof (cases g)
    case (Inr r)
    show ?thesis
    proof (cases "WorkloadResourceTemplate e c r p")
      case wm: (Inr wm)
      obtain c1 x where c1: "namedApplication e r n (mk r wm) c = (c1, x)" by fastforce
      with n [of r n "mk r wm" c] Inr wm l [of r sel "mk r wm" c1] show ?thesis
        by (cases x) (simp_all add: findApplications_def)
    qed (simp add: findApplications_def Inr)
  qed (simp add: findApplications_def)
  then show ?thesis
    by (simp add: Applications_def coreApplications_def specApplications_def split: binding_spec.splits)
qed



section \<open>The finalizer\<close>

lemma Update_log: "snd (snd (env_Update (logged e) g ns u w)) = snd w @ [UpdateCall g ns u]"
  by (simp add: logged_def)

lemma ensureFinalizer_guarded:
  "ensureFinalizer e sb w = (sb1, None, w1) \<Longrightarrow> guarded sb1"
  by (auto simp: ensureFinalizer_def guarded_def HasDeletionTimestamp_def MaybeAddFinalizer_def refreshed_def Let_def
      split: if_splits prod.splits option.splits)



text \<open>
  C20: The finalizer is taken off a binding exactly when it is being deleted and was
  processed without an error and without a retry. That is the last write of the
  reconciliation, and it keeps the other finalizers; in any other case nothing is written
  after the processing.
\<close>

theorem finalizer_released:
  assumes "getBinding (logged e) g ns n (w, []) = Inr sb" and "ensureFinalizer (logged e) sb (w, []) = (sb1, None, w1)"
    and "process w1 sb1 = p" and "finalizerName \<in> set (om_Finalizers (sb_Meta (pr_sb p)))"
    and "env_BindingTo e ((pr_sb p)\<lparr>sb_Meta := (sb_Meta (pr_sb p))
          \<lparr>om_Finalizers := remove_first (\<lambda>f. f = finalizerName) (om_Finalizers (sb_Meta (pr_sb p)))\<rparr>\<rparr>) = Inr u"
  shows "snd (snd (snd (Reconcile (logged e) g process ns n (w, []))))
    = snd (pr_world p) @ (if om_Deleted (sb_Meta (pr_sb p)) \<and> pr_Err p = None \<and> \<not> pr_Retry p
        then [UpdateCall (bindingGVR (pr_sb p)) (om_Namespace (sb_Meta (pr_sb p))) u] else [])"
proof -
  let ?sb = "(pr_sb p)\<lparr>sb_Meta := (sb_Meta (pr_sb p))
          \<lparr>om_Finalizers := remove_first (\<lambda>f. f = finalizerName) (om_Finalizers (sb_Meta (pr_sb p)))\<rparr>\<rparr>"
  have g: "bindingGVR ?sb = bindingGVR (pr_sb p)" by (simp add: bindingGVR_def)
  have "snd (snd (releaseFinalizer (logged e) (pr_sb p) (pr_world p)))
      = snd (pr_world p) @ (if om_Deleted (sb_Meta (pr_sb p))
          then [UpdateCall (bindingGVR (pr_sb p)) (om_Namespace (sb_Meta (pr_sb p))) u] else [])"
    using assms(4,5) g
    by (simp add: releaseFinalizer_def HasDeletionTimestamp_def MaybeRemoveFinalizer_def updateBinding_def Update_log)
  with assms(1-3) show ?thesis
    by (auto simp: Reconcile_def Let_def split: prod.splits option.splits)
qed

theorem finalizer_released_witness:
  "last (snd (snd (snd (Reconcile (logged (failingCluster (deleted shopBinding))) (bindingGVR shopBinding)
      (DefaultBuilder (logged (failingCluster (deleted shopBinding)))) ''shop'' ''shop-db'' ((), [])))))
    = UpdateCall (bindingGVR shopBinding) ''shop'' []"
proof -
  let ?sb = "deleted shopBinding"
  let ?e = "failingCluster ?sb"
  let ?p = "DefaultBuilder (logged ?e) ((), []) ?sb"
  have "getBinding (logged ?e) (bindingGVR shopBinding) ''shop'' ''shop-db'' ((), []) = Inr ?sb"
    "ensureFinalizer (logged ?e) ?sb ((), []) = (?sb, None, ((), []))"
    "finalizerName \<in> set (om_Finalizers (sb_Meta (pr_sb ?p)))"
    "om_Deleted (sb_Meta (pr_sb ?p)) \<and> pr_Err ?p = None \<and> \<not> pr_Retry ?p"
    "bindingGVR (pr_sb ?p) = bindingGVR shopBinding" "om_Namespace (sb_Meta (pr_sb ?p)) = ''shop''"
    by code_simp+
  moreover have "env_BindingTo ?e sb = Inr []" for sb by (simp add: failingCluster_def emptyCluster_def)
  ultimately show ?thesis
    using finalizer_released [of ?e "bindingGVR shopBinding" "''shop''" "''shop-db''" "()" ?sb ?sb "((), [])"
        "DefaultBuilder (logged ?e)" ?p "[]"] by simp
qed

end
