(* ===== verification/Server.thy ===== *)
theory Server
  imports Delivery "HOL-Library.Countable"
begin

text \<open>
  The API server as far as one stored binding is concerned.

  Its contract \<open>api_server\<close>: it answers a read with the stored object; it refuses a write of
  an object with an old version; a write of the status takes the status only, a write of the
  object everything but the status; the version changes exactly if the object does; an object
  that is being deleted goes away with its last finalizer; writes to other resources
  do not touch it.

  The contract can be met: \<open>serving\<close> is a server that stores the binding, with the
  documents of bindings encoded by a numbering of all bindings.
\<close>

section \<open>The stored binding\<close>

definition version :: "sbinding \<Rightarrow> string" where
  "version sb = om_ResourceVersion (sb_Meta sb)"

definition versioned :: "string \<Rightarrow> sbinding \<Rightarrow> sbinding" where
  "versioned v sb = sb\<lparr>sb_Meta := (sb_Meta sb)\<lparr>om_ResourceVersion := v\<rparr>\<rparr>"

text \<open>The second binding with the status of the first.\<close>

definition withStatus :: "sbinding \<Rightarrow> sbinding \<Rightarrow> sbinding" where
  "withStatus s sb =
     sb\<lparr>sb_Conditions := sb_Conditions s, sb_SecretName := sb_SecretName s,
        sb_ObservedGeneration := sb_ObservedGeneration s\<rparr>"

definition isKey :: "gvr \<Rightarrow> string \<Rightarrow> string \<Rightarrow> sbinding \<Rightarrow> bool" where
  "isKey g ns n sb \<longleftrightarrow> bindingGVR sb = g \<and> om_Namespace (sb_Meta sb) = ns \<and> om_Name (sb_Meta sb) = n"

definition isConflict :: "go_error \<Rightarrow> bool" where
  "isConflict err = (case err of StatusErr r m \<Rightarrow> r = ''Conflict'' | _ \<Rightarrow> False)"

definition reads_stored :: "'w env \<Rightarrow> gvr \<Rightarrow> string \<Rightarrow> string \<Rightarrow> ('w \<Rightarrow> sbinding option) \<Rightarrow> bool" where
  "reads_stored e g ns n stored \<longleftrightarrow>
     (\<forall>w sb. stored w = Some sb \<longrightarrow> getBinding e g ns n w = Inr sb)
     \<and> (\<forall>sb. \<exists>u. env_BindingTo e sb = Inr u \<and> env_BindingFrom e u = Inr sb)"

definition takes_status :: "'w env \<Rightarrow> gvr \<Rightarrow> string \<Rightarrow> string \<Rightarrow> ('w \<Rightarrow> sbinding option) \<Rightarrow> bool" where
  "takes_status e g ns n stored \<longleftrightarrow>
     (\<forall>w sb u new r w'. stored w = Some sb \<longrightarrow> env_BindingFrom e u = Inr new \<longrightarrow> isKey g ns n new \<longrightarrow>
        env_UpdateStatus e g ns u w = (r, w') \<longrightarrow>
        (if version new \<noteq> version sb then (\<exists>err. r = Some err \<and> isConflict err) \<and> stored w' = Some sb
         else r = None
           \<and> (\<exists>v. stored w' = Some (versioned v (withStatus new sb)) \<and> (v = version sb \<longleftrightarrow> withStatus new sb = sb))))"

definition takes_object :: "'w env \<Rightarrow> gvr \<Rightarrow> string \<Rightarrow> string \<Rightarrow> ('w \<Rightarrow> sbinding option) \<Rightarrow> bool" where
  "takes_object e g ns n stored \<longleftrightarrow>
     (\<forall>w sb u new r w'. stored w = Some sb \<longrightarrow> env_BindingFrom e u = Inr new \<longrightarrow> isKey g ns n new \<longrightarrow>
        sb_Spec new = sb_Spec sb \<longrightarrow> om_Deleted (sb_Meta new) = om_Deleted (sb_Meta sb) \<longrightarrow>
        env_Update e g ns u w = (r, w') \<longrightarrow>
        (if version new \<noteq> version sb then (\<exists>err. r = Some err \<and> isConflict err) \<and> stored w' = Some sb
         else r = None
           \<and> (if om_Deleted (sb_Meta sb) \<and> om_Finalizers (sb_Meta new) = [] then stored w' = None
              else \<exists>v. stored w' = Some (versioned v (withStatus sb new)) \<and> (v = version sb \<longleftrightarrow> withStatus sb new = sb))))"

definition leaves_stored :: "'w env \<Rightarrow> gvr \<Rightarrow> ('w \<Rightarrow> sbinding option) \<Rightarrow> bool" where
  "leaves_stored e g stored \<longleftrightarrow>
     (\<forall>g' ns u w. g' \<noteq> g \<longrightarrow> stored (snd (env_Update e g' ns u w)) = stored w)"

definition api_server :: "'w env \<Rightarrow> gvr \<Rightarrow> string \<Rightarrow> string \<Rightarrow> ('w \<Rightarrow> sbinding option) \<Rightarrow> bool" where
  "api_server e g ns n stored \<longleftrightarrow>
     reads_stored e g ns n stored \<and> takes_status e g ns n stored \<and> takes_object e g ns n stored
     \<and> leaves_stored e g stored"

section \<open>A server\<close>

text \<open>Bindings can be numbered, so that a document can carry any of them.\<close>

instance json :: countable by countable_datatype
instance go_error :: countable by countable_datatype

instance object_meta_ext :: (countable) countable
  by (rule countable_classI [of "\<lambda>r. to_nat (om_Name r, om_Namespace r, om_UID r, om_Annotations r, om_Finalizers r, om_Deleted r,
      om_Generation r, om_ResourceVersion r, object_meta.more r)"])
    (simp add: object_meta.equality)

instance condition_ext :: (countable) countable
  by (rule countable_classI [of "\<lambda>r. to_nat (cn_Type r, cn_Status r, cn_Reason r, cn_Message r, condition.more r)"])
    (simp add: condition.equality)

instance ref_ext :: (countable) countable
  by (rule countable_classI [of "\<lambda>r. to_nat (ref_Group r, ref_Version r, ref_Kind r, ref_Resource r, ref_Name r, ref.more r)"])
    (simp add: ref.equality)

instance label_selector_ext :: (countable) countable
  by (rule countable_classI [of "\<lambda>r. to_nat (ls_MatchLabels r, label_selector.more r)"])
    (simp add: label_selector.equality)

instance core_service_ext :: (countable) countable
  by (rule countable_classI [of "\<lambda>r. to_nat (cs_Ref r, cs_Namespace r, cs_Id r, core_service.more r)"])
    (simp add: core_service.equality)

instance core_application_ext :: (countable) countable
  by (rule countable_classI [of "\<lambda>r. to_nat (ca_Ref r, ca_LabelSelector r, ca_BindingPath r, core_application.more r)"])
    (simp add: core_application.equality)

instance core_spec_ext :: (countable) countable
  by (rule countable_classI [of "\<lambda>r. to_nat (co_Name r, co_NamingStrategy r, co_Mappings r, co_Services r, co_Application r,
      co_DetectBindingResources r, co_BindAsFiles r, core_spec.more r)"])
    (simp add: core_spec.equality)

instance workload_ref_ext :: (countable) countable
  by (rule countable_classI [of "\<lambda>r. to_nat (wr_APIVersion r, wr_Kind r, wr_Name r, wr_Selector r, wr_Containers r, workload_ref.more
      r)"])
    (simp add: workload_ref.equality)

instance service_ref_ext :: (countable) countable
  by (rule countable_classI [of "\<lambda>r. to_nat (sr_APIVersion r, sr_Kind r, sr_Name r, service_ref.more r)"])
    (simp add: service_ref.equality)

instance spec_spec_ext :: (countable) countable
  by (rule countable_classI [of "\<lambda>r. to_nat (sp_Name r, sp_Type r, sp_Provider r, sp_Workload r, sp_Service r, sp_Env r,
      spec_spec.more r)"])
    (simp add: spec_spec.equality)

instance binding_spec :: countable by countable_datatype

instance sbinding_ext :: (countable) countable
  by (rule countable_classI [of "\<lambda>r. to_nat (sb_Kind r, sb_APIVersion r, sb_Meta r, sb_Spec r, sb_Conditions r, sb_SecretName r,
      sb_ObservedGeneration r, sbinding.more r)"])
    (simp add: sbinding.equality)

definition encodeBinding :: "sbinding \<Rightarrow> fields" where
  "encodeBinding sb = [(replicate (to_nat sb) (CHR ''1''), JNull)]"

definition decodeBinding :: "fields \<Rightarrow> go_error + sbinding" where
  "decodeBinding u = (case u of [(s, JNull)] \<Rightarrow> Inr (from_nat (length s)) | _ \<Rightarrow> Inl (errNew ''no binding''))"

definition stores :: "sbinding \<Rightarrow> sbinding \<Rightarrow> sbinding" where
  "stores sb new = (if new = sb then sb else versioned (CHR ''1'' # version sb) new)"

definition conflict :: go_error where
  "conflict = StatusErr ''Conflict'' ''the object has been modified''"

text \<open>
  The server for the binding of a resource, a namespace and a name. Its state is the stored
  binding; everything else is answered by a given environment.
\<close>

definition serving :: "unit env \<Rightarrow> gvr \<Rightarrow> string \<Rightarrow> string \<Rightarrow> sbinding option env" where
  "serving b g ns n =
     \<lparr>env_jp = env_jp b, env_conv = env_conv b,
      env_Get = (\<lambda>w g' ns' n'. if g' = g \<and> ns' = ns \<and> n' = n
        then (case w of None \<Rightarrow> Inl (StatusErr ''NotFound'' '''') | Some sb \<Rightarrow> Inr (encodeBinding sb))
        else env_Get b () g' ns' n'),
      env_List = (\<lambda>_. env_List b ()), env_Create = (\<lambda>_ _ _ w. (None, w)),
      env_Update = (\<lambda>g' ns' u w. case (w, decodeBinding u) of
          (Some sb, Inr new) \<Rightarrow>
            if g' \<noteq> g \<or> ns' \<noteq> ns \<or> \<not> isKey g ns n new then (None, w)
            else if version new \<noteq> version sb then (Some conflict, w)
            else if om_Deleted (sb_Meta sb) \<and> om_Finalizers (sb_Meta new) = [] then (None, None)
            else (None, Some (stores sb (withStatus sb new)))
        | _ \<Rightarrow> (None, w)),
      env_UpdateStatus = (\<lambda>g' ns' u w. case (w, decodeBinding u) of
          (Some sb, Inr new) \<Rightarrow>
            if g' \<noteq> g \<or> ns' \<noteq> ns \<or> \<not> isKey g ns n new then (None, w)
            else if version new \<noteq> version sb then (Some conflict, w)
            else (None, Some (stores sb (withStatus new sb)))
        | _ \<Rightarrow> (None, w)),
      env_Version = (\<lambda>w _ _ _. case w of None \<Rightarrow> '''' | Some sb \<Rightarrow> version sb),
      env_Review = (\<lambda>_. env_Review b ()), env_RESTMapping = env_RESTMapping b,
      env_UnmarshalUser = env_UnmarshalUser b, env_MarshalUser = env_MarshalUser b,
      env_UnmarshalMapping = env_UnmarshalMapping b, env_MarshalMapping = env_MarshalMapping b,
      env_MappingFrom = env_MappingFrom b, env_BindingTo = (\<lambda>sb. Inr (encodeBinding sb)),
      env_BindingFrom = decodeBinding, env_registry = env_registry b,
      env_HtmlTemplate = env_HtmlTemplate b, env_TextTemplate = env_TextTemplate b\<rparr>"

section \<open>The parts of a stored binding\<close>

lemma withStatus_simps [simp]:
  "withStatus s (withStatus t sb) = withStatus s sb" "withStatus sb sb = sb"
  "sb_Spec (withStatus s sb) = sb_Spec sb" "sb_Meta (withStatus s sb) = sb_Meta sb"
  by (simp_all add: withStatus_def)

lemma versioned_simps [simp]:
  "version (versioned v sb) = v" "versioned v (versioned v' sb) = versioned v sb"
  "sb_Spec (versioned v sb) = sb_Spec sb" "sb_Conditions (versioned v sb) = sb_Conditions sb"
  "om_Deleted (sb_Meta (versioned v sb)) = om_Deleted (sb_Meta sb)"
  "om_Finalizers (sb_Meta (versioned v sb)) = om_Finalizers (sb_Meta sb)"
  "om_UID (sb_Meta (versioned v sb)) = om_UID (sb_Meta sb)"
  "isKey g ns n (versioned v sb) = isKey g ns n sb"
  by (simp_all add: versioned_def version_def isKey_def bindingGVR_def)

lemma versioned_same: "versioned (version sb) sb = sb"
  by (simp add: versioned_def version_def)

section \<open>The server meets the contract\<close>

lemma decode_encode [simp]: "decodeBinding (encodeBinding sb) = Inr sb"
  by (simp add: decodeBinding_def encodeBinding_def)

lemma stores_version: "\<exists>v. stores sb new = versioned v new \<and> (v = version sb \<longleftrightarrow> new = sb)"
  by (cases "new = sb") (auto simp: stores_def versioned_same intro: exI [of _ "version sb"] exI [of _ "CHR ''1'' # version sb"])

lemma isConflict_conflict [simp]: "isConflict conflict"
  by (simp add: isConflict_def conflict_def)

theorem serving_api_server: "api_server (serving b g ns n) g ns n (\<lambda>w. w)"
proof -
  have "reads_stored (serving b g ns n) g ns n (\<lambda>w. w)"
    by (auto simp: reads_stored_def getBinding_def serving_def)
  moreover have "takes_status (serving b g ns n) g ns n (\<lambda>w. w)"
    using stores_version by (auto simp: takes_status_def serving_def split: if_splits)
  moreover have "takes_object (serving b g ns n) g ns n (\<lambda>w. w)"
    using stores_version by (auto simp: takes_object_def serving_def split: if_splits)
  moreover have "leaves_stored (serving b g ns n) g (\<lambda>w. w)"
    by (auto simp: leaves_stored_def serving_def split: option.splits sum.splits)
  ultimately show ?thesis by (simp add: api_server_def)
qed

end
