(* ===== verification/Lifecycle.thy ===== *)
theory Lifecycle
  imports Controller Webhook Server
begin

text \<open>
  Service bindings over many reconciliations: what the work queue, the reconciler, the
  pipeline and the API server do together. The API server is known by its contract
  \<open>api_server\<close>; the witnesses run on the server of \<open>Server\<close>.
\<close>

section \<open>Marked and released bindings\<close>

text \<open>A binding that the change of a mapping has marked, and the binding without the mark.\<close>

definition marked :: "sbinding \<Rightarrow> bool" where
  "marked sb \<longleftrightarrow> map_of (om_Annotations (sb_Meta sb)) MappingAnnotationKey \<noteq> None"

definition unmarked :: "sbinding \<Rightarrow> sbinding" where
  "unmarked sb = sb\<lparr>sb_Meta := (sb_Meta sb)\<lparr>om_Annotations :=
     AList.delete MappingAnnotationKey (om_Annotations (sb_Meta sb))\<rparr>\<rparr>"

text \<open>The status names no secret: the binding was not bound yet.\<close>

definition secretless :: "sbinding \<Rightarrow> bool" where
  "secretless sb \<longleftrightarrow> (case sb_SecretName sb of None \<Rightarrow> True | Some n \<Rightarrow> n = '''')"

text \<open>The binding is gone, or the operator holds it no longer.\<close>

definition released :: "sbinding option \<Rightarrow> bool" where
  "released s = (case s of None \<Rightarrow> True | Some sb \<Rightarrow> finalizerName \<notin> set (om_Finalizers (sb_Meta sb)))"

text \<open>The controller of a binding runs the pipeline of its API, on a context of its kind.\<close>

definition pipelineFor :: "'w env \<Rightarrow> binding_spec \<Rightarrow> 'w \<Rightarrow> sbinding \<Rightarrow> 'w process_result" where
  "pipelineFor e spec = (case spec of CoreSpec _ \<Rightarrow> DefaultBuilder e | SpecSpec _ \<Rightarrow> SpecBuilder e)"

definition contextFor :: "'w \<Rightarrow> sbinding \<Rightarrow> 'w ctx" where
  "contextFor w sb = (case sb_Spec sb of CoreSpec _ \<Rightarrow> projr (Provider w sb) | SpecSpec _ \<Rightarrow> projr (SpecProvider w sb))"

text \<open>A binding of the specification API is marked with the generation that was seen.\<close>

definition observed :: "sbinding \<Rightarrow> sbinding" where
  "observed sb =
     (case sb_Spec sb of
        CoreSpec _ \<Rightarrow> sb
      | SpecSpec _ \<Rightarrow> if om_Generation (sb_Meta sb) = 0 then sb else sb\<lparr>sb_ObservedGeneration := om_Generation (sb_Meta sb)\<rparr>)"

text \<open>
  Unbinding goes through: the handler reports no error and the API server accepts the
  workloads, which are not bindings themselves.
\<close>

definition unbinds :: "'w env \<Rightarrow> gvr \<Rightarrow> 'w \<Rightarrow> sbinding \<Rightarrow> bool" where
  "unbinds e g w sb =
     (case Unbind e (contextFor w sb) of
        (d, Some _) \<Rightarrow> False
      | (d, None) \<Rightarrow>
          cx_err d = None \<and> list_all (\<lambda>a. app_gvr a \<noteq> g) (cx_applications d)
          \<and> snd (updateApplications e (cx_applications d) d) = None)"

text \<open>Unbinding takes the mark off the binding and asks for another run.\<close>

definition cleans :: "'w env \<Rightarrow> 'w \<Rightarrow> sbinding \<Rightarrow> bool" where
  "cleans e w sb = cx_retry (fst (Unbind e (contextFor w sb)))"

text \<open>The condition that a run without an error reports, and the status after such a run.\<close>

definition readyCond :: condition where
  "readyCond = withReason ''ApplicationsBound'' (withBindingReady Conditions)"

definition ready :: "sbinding \<Rightarrow> sbinding" where
  "ready sb = (observed sb)\<lparr>sb_Conditions := SetStatusCondition (sb_Conditions sb) readyCond\<rparr>"

text \<open>The binding after an unbinding that went through.\<close>

definition unbound :: "'w env \<Rightarrow> 'w \<Rightarrow> sbinding \<Rightarrow> sbinding" where
  "unbound e w sb = (if cleans e w sb then unmarked sb else sb)"

text \<open>
  A binding in the operator's care: it holds the finalizer, and unbinding goes through in
  every state of the cluster in which the binding has this specification and secret.
\<close>

definition in_care :: "'w env \<Rightarrow> gvr \<Rightarrow> string \<Rightarrow> string \<Rightarrow> ('w \<Rightarrow> sbinding option) \<Rightarrow> sbinding \<Rightarrow> bool" where
  "in_care e g ns n stored sb \<longleftrightarrow>
     isKey g ns n sb \<and> om_UID (sb_Meta sb) \<noteq> ''''
     \<and> finalizerName \<in> set (om_Finalizers (sb_Meta sb)) \<and> distinct (om_Finalizers (sb_Meta sb))
     \<and> (\<forall>w sb'. stored w = Some sb' \<longrightarrow> sb_Spec sb' = sb_Spec sb \<longrightarrow> sb_SecretName sb' = sb_SecretName sb \<longrightarrow> unbinds e g w sb')"

text \<open>The state after a number of runs, if the request was put back after each of them.\<close>

fun requeued :: "('w \<Rightarrow> reconcile_result \<times> go_error option \<times> 'w) \<Rightarrow> nat \<Rightarrow> 'w \<Rightarrow> 'w option" where
  "requeued rec 0 w = Some w"
| "requeued rec (Suc k) w =
     (case rec w of
        (result, err, w') \<Rightarrow> if reconcileHandler result err = Forget then None else requeued rec k w')"

text \<open>
  A cluster with a deployment, whose containers are found by the paths of the default
  template, and a server for a binding in it. Every mark names a mapping without templates.
\<close>

definition shopPaths :: jsonpath where
  "shopPaths = webPaths\<lparr>jp_Parse := jp_Parse fieldsParser,
     jp_FindResults := (\<lambda>p. if HasPrefix p ''{.spec.template.spec.initContainers'' then (\<lambda>_. Inr [[]])
       else jp_FindResults webPaths p)\<rparr>"

definition shopCluster :: "unit env" where
  "shopCluster = emptyCluster\<lparr>env_jp := shopPaths,
     env_Get := (\<lambda>_ g ns n. if g = app_gvr webApp then Inr (app_persistedResource webApp) else Inl (StatusErr ''NotFound'' '''')),
     env_UnmarshalMapping := (\<lambda>_. Inr \<lparr>mp_Name = ''deployments.apps'', mp_Versions = []\<rparr>)\<rparr>"

definition shopServer :: "sbinding option env" where
  "shopServer = serving shopCluster coreBindingGVR ''shop'' ''shop-db''"

definition shopApp :: application where
  "shopApp = webApp\<lparr>app_resourceMapping :=
     (case FromWorkloadResourceMappingTemplate shopPaths DefaultTemplate of Inl _ \<Rightarrow> app_resourceMapping webApp | Inr m \<Rightarrow> m)\<rparr>"

definition heldBinding :: "strmap \<Rightarrow> string option \<Rightarrow> bool \<Rightarrow> sbinding" where
  "heldBinding anns secret del = shopBinding\<lparr>sb_Meta := (sb_Meta shopBinding)
     \<lparr>om_Annotations := anns, om_Finalizers := [finalizerName], om_Deleted := del\<rparr>, sb_SecretName := secret\<rparr>"

section \<open>One unbinding\<close>

lemma unbindApplication_flow:
  "unbindApplication e n s evs i c = (d, f) \<Longrightarrow>
     (case f of Continue \<Rightarrow> \<exists>as. d = c\<lparr>cx_applications := as\<rparr> | Return \<Rightarrow> cx_err d \<noteq> None | Crash p \<Rightarrow> True)"
  by (auto simp: unbindApplication_def settle_def setApplication_def stop_def SetCondition_def Error_def
      split: prod.splits go.splits flow.splits)

lemma forEach_unbind:
  "forEach (unbindApplication e n s evs) is c = (d, f) \<Longrightarrow>
     (case f of Continue \<Rightarrow> \<exists>as. d = c\<lparr>cx_applications := as\<rparr> | Return \<Rightarrow> cx_err d \<noteq> None | Crash p \<Rightarrow> True)"
proof (induction "is" arbitrary: c)
  case Nil
  then show ?case by (auto intro: exI [of _ "cx_applications c"])
next
  case (Cons i "is")
  obtain c1 f1 where c1: "unbindApplication e n s evs i c = (c1, f1)" by fastforce
  note step = unbindApplication_flow [OF c1]
  show ?case
  proof (cases f1)
    case Continue
    with step obtain as where as: "c1 = c\<lparr>cx_applications := as\<rparr>" by auto
    from Cons.prems c1 Continue have "forEach (unbindApplication e n s evs) is c1 = (d, f)" by simp
    from Cons.IH [OF this] show ?thesis by (auto simp: as split: flow.splits)
  qed (use Cons.prems c1 step in auto)
qed

text \<open>Nothing but the applications is changed before the annotations are cleaned.\<close>

lemma Unbind_cases:
  assumes "UnbindRequested c" "Unbind e c = (d, None)" "cx_err d = None"
  obtains (stopped) as where "d = StopProcessing (c\<lparr>cx_applications := as\<rparr>)"
  | (cleaned) as where "marked (cx_sb c)" "\<not> secretless (cx_sb c)" "d = RetryProcessing None (c\<lparr>cx_applications := as, cx_sb := unmarked (cx_sb c)\<rparr>)"
proof -
  obtain c1 r where c1: "Applications e c = (c1, r)" by fastforce
  have "c1\<lparr>cx_applications := []\<rparr> = c\<lparr>cx_applications := []\<rparr>"
    using Applications_frame [of "\<lambda>c. c\<lparr>cx_applications := []\<rparr>" e c] c1 by (simp add: AddApplication_def)
  then have "c1 = c\<lparr>cx_applications := cx_applications c1\<rparr>" by (cases c, cases c1) simp
  then obtain as1 where c1': "c1 = c\<lparr>cx_applications := as1\<rparr>" ..
  then have s: "BindingSecretName c1 = (c1, statusSecretName c1)"
    using assms(1) by (simp add: BindingSecretName_def bindingSecretName_def UnbindRequested_def IsRemoved_def)
  show thesis
  proof (cases "r = None \<and> cx_applications c1 \<noteq> [] \<and> statusSecretName c1 \<noteq> ''''")
    case False
    then have "d = StopProcessing c1" using assms(1,2) c1 s by (auto simp: Unbind_def split: if_splits option.splits)
    with c1' stopped show thesis by simp
  next
    case True
    obtain c3 f where c3: "forEach (unbindApplication e (BindingName c1) (statusSecretName c1) (EnvBindings c1))
        [0..<length (cx_applications c1)] c1 = (c3, f)" by fastforce
    have u: "Unbind e c = (case f of Continue \<Rightarrow> (case CleanAnnotations c3 of
        (c4, True) \<Rightarrow> (RetryProcessing None c4, None) | (c4, False) \<Rightarrow> (StopProcessing c4, None)) | _ \<Rightarrow> finish (c3, f))"
      using assms(1) c1 s c3 True by (simp add: Unbind_def split: flow.splits)
    have "f = Continue" using forEach_unbind [OF c3] u assms(2,3) by (cases f) (auto simp: finish_def)
    with forEach_unbind [OF c3] obtain as where "c3 = c1\<lparr>cx_applications := as\<rparr>" by auto
    then have as: "c3 = c\<lparr>cx_applications := as\<rparr>" using c1' by simp
    show thesis
    proof (cases "marked (cx_sb c)")
      case m: True
      then have "d = RetryProcessing None (c\<lparr>cx_applications := as, cx_sb := unmarked (cx_sb c)\<rparr>)"
        using u assms(2) \<open>f = Continue\<close> as by (simp add: CleanAnnotations_def marked_def unmarked_def)
      moreover have "\<not> secretless (cx_sb c)"
        using True c1' by (auto simp: secretless_def statusSecretName_def split: option.splits)
      ultimately show thesis using m cleaned by blast
    next
      case m: False
      then have "d = StopProcessing (c\<lparr>cx_applications := as\<rparr>)"
        using u assms(2) \<open>f = Continue\<close> as by (simp add: CleanAnnotations_def marked_def)
      with stopped show thesis by blast
    qed
  qed
qed

section \<open>One write of the binding\<close>

lemma marked_versioned [simp]: "marked (versioned v sb) = marked sb"
  by (simp add: versioned_def marked_def)

lemma persistBinding_writes:
  assumes "api_server e g ns n stored" "om_UID (cx_Meta c) \<noteq> ''''" "isKey g ns n (cx_sb c)"
  shows "\<exists>u. env_BindingFrom e u = Inr (statusWith (cx_conditions c) (cx_sb c))
    \<and> isKey g ns n (statusWith (cx_conditions c) (cx_sb c))
    \<and> persistBinding e c = (let c1 = c\<lparr>cx_sb := statusWith (cx_conditions c) (cx_sb c)\<rparr> in
        case env_UpdateStatus e g ns u (world c) of
          (Some err, w) \<Rightarrow> (c1\<lparr>world := w\<rparr>, Some err)
        | (None, w) \<Rightarrow> (case env_Update e g ns u w of (r, w') \<Rightarrow> (c1\<lparr>world := w'\<rparr>, r)))"
proof -
  let ?new = "statusWith (cx_conditions c) (cx_sb c)"
  obtain u where u: "env_BindingTo e ?new = Inr u" "env_BindingFrom e u = Inr ?new"
    using assms(1) unfolding api_server_def reads_stored_def by blast
  have k: "isKey g ns n ?new" using assms(3) by (simp add: isKey_def statusWith_def bindingGVR_def)
  then have "bindingGVR ?new = g" "om_Namespace (sb_Meta ?new) = ns" by (simp_all add: isKey_def)
  with assms(2) u show ?thesis using k by (intro exI [of _ u]) (simp add: persistBinding_def Let_def split: prod.splits option.splits)
qed

text \<open>The status is as it is stored: both writes go through.\<close>

lemma persistBinding_settled:
  assumes "api_server e g ns n stored" "stored (world c) = Some sb" "om_UID (cx_Meta c) \<noteq> ''''" "isKey g ns n (cx_sb c)"
    and "version (cx_sb c) = version sb" "sb_Spec (cx_sb c) = sb_Spec sb" "om_Deleted (cx_Meta c) = om_Deleted (sb_Meta sb)"
    and "om_Finalizers (cx_Meta c) \<noteq> []" and "statusWith (cx_conditions c) (cx_sb c) = new" "withStatus new sb = sb"
  obtains w' v where "persistBinding e c = (c\<lparr>cx_sb := new, world := w'\<rparr>, None)" "stored w' = Some (versioned v new)"
    "v = version sb \<longleftrightarrow> new = sb"
proof -
  have n: "version new = version sb" "sb_Spec new = sb_Spec sb" "om_Deleted (sb_Meta new) = om_Deleted (sb_Meta sb)"
    "om_Finalizers (sb_Meta new) \<noteq> []" using assms(5-9) by (auto simp: statusWith_def version_def)
  have same: "withStatus sb new = new" using assms(10) by (cases sb, cases new) (auto simp: withStatus_def)
  obtain u where u: "env_BindingFrom e u = Inr new" "isKey g ns n new"
    "persistBinding e c = (let c1 = c\<lparr>cx_sb := new\<rparr> in
        case env_UpdateStatus e g ns u (world c) of
          (Some err, w) \<Rightarrow> (c1\<lparr>world := w\<rparr>, Some err)
        | (None, w) \<Rightarrow> (case env_Update e g ns u w of (r, w') \<Rightarrow> (c1\<lparr>world := w'\<rparr>, r)))"
    using persistBinding_writes [OF assms(1,3,4)] assms(9) by auto
  obtain r w1 where s: "env_UpdateStatus e g ns u (world c) = (r, w1)" by fastforce
  have w1: "r = None \<and> stored w1 = Some sb"
    using assms(1,2,10) u(1,2) s n(1) unfolding api_server_def takes_status_def by (metis versioned_same)
  obtain r' w2 where w2: "env_Update e g ns u w1 = (r', w2)" by fastforce
  with w1 have "r' = None \<and> (\<exists>v. stored w2 = Some (versioned v new) \<and> (v = version sb \<longleftrightarrow> new = sb))"
    using assms(1) u(1,2) n same unfolding api_server_def takes_object_def by metis
  with that show thesis using u(3) s w2 w1 by auto
qed

text \<open>The status is new: the second write is refused, as the first has changed the version.\<close>

lemma persistBinding_conflict:
  assumes "api_server e g ns n stored" "stored (world c) = Some sb" "om_UID (cx_Meta c) \<noteq> ''''" "isKey g ns n (cx_sb c)"
    and "version (cx_sb c) = version sb" "sb_Spec (cx_sb c) = sb_Spec sb" "om_Deleted (cx_Meta c) = om_Deleted (sb_Meta sb)"
    and "statusWith (cx_conditions c) (cx_sb c) = new" "withStatus new sb \<noteq> sb"
  obtains w' v err where "persistBinding e c = (c\<lparr>cx_sb := new, world := w'\<rparr>, Some err)" "isConflict err"
    "stored w' = Some (versioned v (withStatus new sb))"
proof -
  have n: "version new = version sb" "sb_Spec new = sb_Spec sb" "om_Deleted (sb_Meta new) = om_Deleted (sb_Meta sb)"
    using assms(5-8) by (auto simp: statusWith_def version_def)
  obtain u where u: "env_BindingFrom e u = Inr new" "isKey g ns n new"
    "persistBinding e c = (let c1 = c\<lparr>cx_sb := new\<rparr> in
        case env_UpdateStatus e g ns u (world c) of
          (Some err, w) \<Rightarrow> (c1\<lparr>world := w\<rparr>, Some err)
        | (None, w) \<Rightarrow> (case env_Update e g ns u w of (r, w') \<Rightarrow> (c1\<lparr>world := w'\<rparr>, r)))"
    using persistBinding_writes [OF assms(1,3,4)] assms(8) by auto
  obtain r w1 where s: "env_UpdateStatus e g ns u (world c) = (r, w1)" by fastforce
  have "r = None \<and> (\<exists>v. stored w1 = Some (versioned v (withStatus new sb)) \<and> v \<noteq> version sb)"
    using assms(1,2,9) u(1,2) s n(1) unfolding api_server_def takes_status_def by metis
  then obtain v where v: "r = None" "stored w1 = Some (versioned v (withStatus new sb))" "v \<noteq> version sb" by blast
  obtain r' w2 where w2: "env_Update e g ns u w1 = (r', w2)" by fastforce
  have "(\<exists>err. r' = Some err \<and> isConflict err) \<and> stored w2 = Some (versioned v (withStatus new sb))"
    using assms(1) v u(1,2) n w2 unfolding api_server_def takes_object_def by (metis versioned_simps(1,3,5) withStatus_simps(3,4))
  with that show thesis using u(3) s w2 v(1) by auto
qed

section \<open>One run that unbinds\<close>

lemma SetStatusCondition_idem [simp]: "SetStatusCondition (SetStatusCondition cs c) c = SetStatusCondition cs c"
  by (induction cs) auto

lemma observed_simps [simp]:
  "sb_Meta (observed sb) = sb_Meta sb" "sb_Spec (observed sb) = sb_Spec sb" "sb_Conditions (observed sb) = sb_Conditions sb"
  "sb_SecretName (observed sb) = sb_SecretName sb" "observed (observed sb) = observed sb"
  "sb_APIVersion (observed sb) = sb_APIVersion sb" "sb_Kind (observed sb) = sb_Kind sb"
  by (simp_all add: observed_def split: binding_spec.splits)

lemma observed_views [simp]:
  "version (observed sb) = version sb" "isKey g ns n (observed sb) = isKey g ns n sb" "marked (observed sb) = marked sb"
  "secretless (observed sb) = secretless sb"
  by (simp_all add: version_def isKey_def bindingGVR_def marked_def secretless_def)

lemma ready_simps [simp]:
  "ready (ready sb) = ready sb" "ready (versioned v sb) = versioned v (ready sb)"
  "sb_Spec (ready sb) = sb_Spec sb" "sb_Meta (ready sb) = sb_Meta sb" "isKey g ns n (ready sb) = isKey g ns n sb"
  "withStatus (ready (unmarked sb)) sb = ready sb" "withStatus (ready sb) sb = ready sb" "version (ready sb) = version sb"
  "marked (ready sb) = marked sb"
  by (simp_all add: ready_def observed_def versioned_def isKey_def bindingGVR_def withStatus_def unmarked_def version_def
      marked_def split: binding_spec.splits)

lemma unmarked_observed: "unmarked (observed sb) = observed (unmarked sb)"
  by (simp add: unmarked_def observed_def split: binding_spec.splits)

lemma fold_AddBindingItem: "fold AddBindingItem is c = c\<lparr>cx_bindingItems := cx_bindingItems c @ is\<rparr>"
  by (induction "is" arbitrary: c) (simp_all add: AddBindingItem_def)

lemma contextFor_simps [simp]:
  "cx_sb (contextFor w sb) = observed sb" "world (contextFor w sb) = w" "cx_err (contextFor w sb) = None"
  "cx_retry (contextFor w sb) = False" "cx_delay (contextFor w sb) = 0" "cx_conditions (contextFor w sb) = []"
  "cx_applications (contextFor w sb) = []"
  by (simp_all add: contextFor_def Provider_def SpecProvider_def observed_def newContext_def Let_def fold_AddBindingItem
      split: binding_spec.splits)

lemma pipelineFor_runs:
  "\<exists>provider hs. pipelineFor e (sb_Spec sb) = Process e provider (Unbind e # hs) \<and> provider w sb = Inr (contextFor w sb)"
proof (cases "sb_Spec sb")
  case (CoreSpec s)
  then have "Provider w sb = Inr (contextFor w sb)" by (simp add: contextFor_def Provider_def)
  moreover have "pipelineFor e (sb_Spec sb) = Process e Provider (Unbind e # tl (defaultFlow e))"
    using CoreSpec by (simp add: pipelineFor_def DefaultBuilder_def defaultFlow_def)
  ultimately show ?thesis by blast
next
  case (SpecSpec s)
  then have "SpecProvider w sb = Inr (contextFor w sb)" by (simp add: contextFor_def SpecProvider_def Let_def)
  moreover have "pipelineFor e (sb_Spec sb) = Process e SpecProvider (Unbind e # tl (specFlow e))"
    using SpecSpec by (simp add: pipelineFor_def SpecBuilder_def specFlow_def)
  ultimately show ?thesis by blast
qed

lemma unmarked_simps [simp]:
  "sb_Spec (unmarked sb) = sb_Spec sb" "version (unmarked sb) = version sb" "isKey g ns n (unmarked sb) = isKey g ns n sb"
  "om_UID (sb_Meta (unmarked sb)) = om_UID (sb_Meta sb)" "om_Finalizers (sb_Meta (unmarked sb)) = om_Finalizers (sb_Meta sb)"
  "om_Deleted (sb_Meta (unmarked sb)) = om_Deleted (sb_Meta sb)" "\<not> marked (unmarked sb)"
  by (simp_all add: unmarked_def version_def isKey_def bindingGVR_def marked_def delete_conv')

lemma updateApplications_result:
  assumes "api_server e g ns n stored" "list_all (\<lambda>a. app_gvr a \<noteq> g) as" "updateApplications e as c = (d, r)"
  shows "stored (world d) = stored (world c) \<and> d = c\<lparr>world := world d\<rparr>"
  using assms(2,3)
proof (induction as arbitrary: c)
  case (Cons a as)
  have frame: "stored (snd (env_Update e (app_gvr a) ns' u w)) = stored w" for ns' u w
    using assms(1) Cons.prems(1) by (simp add: api_server_def leaves_stored_def)
  show ?case
  proof (cases "IsUpdated a")
    case True
    obtain r1 w1 where 1: "env_Update e (app_gvr a) (om_Namespace (cx_Meta c))
        (fields_of (normalize (JObj (resourceOf a)))) (world c) = (r1, w1)" by fastforce
    have "stored w1 = stored (world c)" using frame 1 by (metis snd_conv)
    moreover have "stored (world d) = stored w1 \<and> d = c\<lparr>world := world d\<rparr>"
      using Cons.IH [of "c\<lparr>world := w1\<rparr>"] Cons.prems True 1 by (cases r1) auto
    ultimately show ?thesis by simp
  qed (use Cons in auto)
qed auto

lemma unbind_context:
  assumes "unbinds e g w sb" "marked sb \<or> om_Deleted (sb_Meta sb)"
  obtains d where "\<forall>hs. runHandlers (Unbind e # hs) noStatus (contextFor w sb) = (d, FlowStatus d)"
    "cx_sb d = observed (unbound e w sb)" "cx_err d = None" "cx_retry d = cleans e w sb" "cx_delay d = 0" "cx_conditions d = []" "world d = w"
    "list_all (\<lambda>a. app_gvr a \<noteq> g) (cx_applications d)" "snd (updateApplications e (cx_applications d) d) = None"
    "cleans e w sb \<longrightarrow> marked sb \<and> \<not> secretless sb"
proof -
  let ?c = "contextFor w sb"
  have req: "UnbindRequested ?c"
    using assms(2) by (simp add: UnbindRequested_def IsRemoved_def marked_def)
  obtain d where d: "Unbind e ?c = (d, None)" "cx_err d = None"
    "list_all (\<lambda>a. app_gvr a \<noteq> g) (cx_applications d)" "snd (updateApplications e (cx_applications d) d) = None"
    using assms(1) by (auto simp: unbinds_def split: prod.splits option.splits)
  have r: "cleans e w sb = cx_retry d" using d(1) by (simp add: cleans_def)
  have "cx_stop d \<and> cx_sb d = observed (unbound e w sb) \<and> cx_retry d = cleans e w sb \<and> cx_delay d = 0 \<and> cx_conditions d = [] \<and> world d = w
    \<and> (cleans e w sb \<longrightarrow> marked sb \<and> \<not> secretless sb)"
    using req d(1,2)
  proof (cases rule: Unbind_cases)
    case stopped
    then show ?thesis using r by (auto simp: StopProcessing_def unbound_def)
  next
    case cleaned
    then show ?thesis using r by (auto simp: RetryProcessing_def unbound_def unmarked_observed)
  qed
  moreover have "invokeHandler (Unbind e) ?c = d" using d(1) by (simp add: invokeHandler_def)
  then have "\<forall>hs. runHandlers (Unbind e # hs) noStatus ?c = (d, FlowStatus d)"
    using calculation by (intro allI, subst runHandlers_stops) (simp_all add: FlowStatus_def)
  ultimately show thesis using that d by blast
qed

lemma unbind_run:
  assumes server: "api_server e g ns n stored" "stored w = Some sb" and key: "isKey g ns n sb" "om_UID (sb_Meta sb) \<noteq> ''''"
    and sb: "om_Finalizers (sb_Meta sb) \<noteq> []" "marked sb \<or> om_Deleted (sb_Meta sb)"
    and un: "unbinds e g w sb" and p: "pipelineFor e (sb_Spec sb) w sb = p"
  shows "ready sb = sb \<Longrightarrow> pr_Err p = None \<and> pr_Retry p = cleans e w sb \<and> pr_Delay p = 0 \<and> pr_sb p = unbound e w sb
      \<and> (\<exists>v. stored (pr_world p) = Some (versioned v (unbound e w sb)) \<and> (v = version sb \<longleftrightarrow> unbound e w sb = sb))"
    and "ready sb \<noteq> sb \<Longrightarrow> pr_Retry p \<and> (\<exists>err v. pr_Err p = Some err \<and> isConflict err
      \<and> stored (pr_world p) = Some (versioned v (ready sb)))"
proof -
  obtain d where d: "\<forall>hs. runHandlers (Unbind e # hs) noStatus (contextFor w sb) = (d, FlowStatus d)"
    "cx_sb d = observed (unbound e w sb)" "cx_err d = None" "cx_retry d = cleans e w sb" "cx_delay d = 0" "cx_conditions d = []" "world d = w"
    "list_all (\<lambda>a. app_gvr a \<noteq> g) (cx_applications d)" "snd (updateApplications e (cx_applications d) d) = None"
    "cleans e w sb \<longrightarrow> marked sb \<and> \<not> secretless sb"
    by (rule unbind_context [OF un sb(2)])
  obtain d1 where d1: "updateApplications e (cx_applications d) d = (d1, None)" using d(9) by (metis prod.collapse)
  then obtain w1 where w1: "stored w1 = Some sb" "d1 = d\<lparr>world := w1\<rparr>"
    using updateApplications_result [OF server(1) d(8) d1] server(2) d(7) by metis
  define c where "c = SetCondition readyCond d1"
  have close: "Close e d = persistBinding e c" using d(3) d1 by (simp add: Close_def c_def readyCond_def)
  have c: "cx_sb c = observed (unbound e w sb)" "stored (world c) = Some sb" "statusWith (cx_conditions c) (cx_sb c) = ready (unbound e w sb)"
    using w1(1) d(2,6) by (simp_all add: c_def w1(2) SetCondition_def statusWith_def ready_def)
  have u: "om_UID (cx_Meta c) \<noteq> ''''" "isKey g ns n (cx_sb c)" "version (cx_sb c) = version sb" "sb_Spec (cx_sb c) = sb_Spec sb"
    "om_Deleted (cx_Meta c) = om_Deleted (sb_Meta sb)" "om_Finalizers (cx_Meta c) \<noteq> []"
    using key sb(1) by (simp_all add: c(1) unbound_def)
  have st: "withStatus (ready (unbound e w sb)) sb = ready sb" by (simp add: unbound_def)
  have proc: "p = (case persistBinding e c of
      (c2, Some err) \<Rightarrow> \<lparr>pr_Retry = True, pr_Delay = 0, pr_Err = Some err, pr_world = world c2, pr_sb = cx_sb c2\<rparr>
    | (c2, None) \<Rightarrow> \<lparr>pr_Retry = cleans e w sb, pr_Delay = 0, pr_Err = None, pr_world = world c2, pr_sb = cx_sb c2\<rparr>)"
    proof -
    obtain provider hs where "pipelineFor e (sb_Spec sb) = Process e provider (Unbind e # hs)" "provider w sb = Inr (contextFor w sb)"
      using pipelineFor_runs [of e sb w] by blast
    then show ?thesis using spec [OF d(1), of hs]
      by (simp add: p [symmetric] Process_def d(3-5) close FlowStatus_def del: runHandlers.simps)
  qed
  {
    assume r: "ready sb = sb"
    then have un: "ready (unbound e w sb) = unbound e w sb" by (cases sb) (simp add: unbound_def unmarked_def ready_def observed_def split: binding_spec.splits if_splits)
    obtain w' v where "persistBinding e c = (c\<lparr>cx_sb := ready (unbound e w sb), world := w'\<rparr>, None)"
      "stored w' = Some (versioned v (ready (unbound e w sb)))" "v = version sb \<longleftrightarrow> ready (unbound e w sb) = sb"
      by (rule persistBinding_settled [OF server(1) c(2) u c(3)]) (use st r in simp_all)
    then show "pr_Err p = None \<and> pr_Retry p = cleans e w sb \<and> pr_Delay p = 0 \<and> pr_sb p = unbound e w sb
      \<and> (\<exists>v. stored (pr_world p) = Some (versioned v (unbound e w sb)) \<and> (v = version sb \<longleftrightarrow> unbound e w sb = sb))"
      using proc un by auto
  }
  {
    assume r: "ready sb \<noteq> sb"
    obtain w' v err where "persistBinding e c = (c\<lparr>cx_sb := ready (unbound e w sb), world := w'\<rparr>, Some err)" "isConflict err"
      "stored w' = Some (versioned v (withStatus (ready (unbound e w sb)) sb))"
      by (rule persistBinding_conflict [OF server(1) c(2) u(1-5) c(3)]) (use st r in simp_all)
    then show "pr_Retry p \<and> (\<exists>err v. pr_Err p = Some err \<and> isConflict err \<and> stored (pr_world p) = Some (versioned v (ready sb)))"
      using proc st by auto
  }
qed

section \<open>Runs until the binding is unbound\<close>

lemma ready_unmarked: "ready (unmarked sb) = unmarked (ready sb)" "unmarked (versioned v sb) = versioned v (unmarked sb)"
  by (simp_all add: ready_def unmarked_def versioned_def observed_def split: binding_spec.splits)

lemma remove_first_distinct: "distinct xs \<Longrightarrow> x \<notin> set (remove_first (\<lambda>y. y = x) xs)"
  by (induction xs) auto

lemma held_finalizer: "finalizerName \<in> set (om_Finalizers (sb_Meta sb)) \<Longrightarrow> ensureFinalizer e sb w = (sb, None, w)"
  by (simp add: ensureFinalizer_def MaybeAddFinalizer_def)

lemma release_stored:
  assumes "api_server e g ns n stored" "stored w = Some sb" "isKey g ns n sb" "om_Deleted (sb_Meta sb)"
    and "distinct (om_Finalizers (sb_Meta sb))" "finalizerName \<in> set (om_Finalizers (sb_Meta sb))"
  obtains w' where "releaseFinalizer e sb w = (None, w')" "released (stored w')"
proof -
  define new where "new = sb\<lparr>sb_Meta := (sb_Meta sb)\<lparr>om_Finalizers := remove_first (\<lambda>f. f = finalizerName) (om_Finalizers (sb_Meta sb))\<rparr>\<rparr>"
  have new: "version new = version sb" "sb_Spec new = sb_Spec sb" "om_Deleted (sb_Meta new) = om_Deleted (sb_Meta sb)" "isKey g ns n new"
    "finalizerName \<notin> set (om_Finalizers (sb_Meta new))"
    using assms(3,5) by (simp_all add: new_def version_def isKey_def bindingGVR_def remove_first_distinct)
  obtain u where u: "env_BindingTo e new = Inr u" "env_BindingFrom e u = Inr new"
    using assms(1) unfolding api_server_def reads_stored_def by blast
  obtain r w' where w': "env_Update e g ns u w = (r, w')" by fastforce
  have rel: "releaseFinalizer e sb w = updateBinding e new w"
    using assms(4,6) by (simp add: releaseFinalizer_def HasDeletionTimestamp_def MaybeRemoveFinalizer_def new_def)
  have "bindingGVR new = g" "om_Namespace (sb_Meta new) = ns" using new(4) by (simp_all add: isKey_def)
  with u(1) w' rel have upd: "releaseFinalizer e sb w = (r, w')" by (simp add: updateBinding_def)
  have "r = None \<and> (stored w' = None \<or> (\<exists>v. stored w' = Some (versioned v (withStatus sb new))))"
    using assms(1,2,4) u(2) new(1-4) w' unfolding api_server_def takes_object_def by metis
  then show thesis using that upd new(5) by (auto simp: released_def)
qed

lemma unbind_reconcile:
  assumes server: "api_server e g ns n stored" "stored w = Some sb" and key: "isKey g ns n sb" "om_UID (sb_Meta sb) \<noteq> ''''"
    and sb: "marked sb \<or> om_Deleted (sb_Meta sb)" and un: "unbinds e g w sb"
    and fin: "finalizerName \<in> set (om_Finalizers (sb_Meta sb))" "distinct (om_Finalizers (sb_Meta sb))"
    and run: "Reconcile e g (pipelineFor e (sb_Spec sb)) ns n w = (res, err, w')"
  shows "ready sb \<noteq> sb \<Longrightarrow> reconcileHandler res err = AddRateLimited \<and> (\<exists>er. err = Some er \<and> isConflict er)
      \<and> (\<exists>v. stored w' = Some (versioned v (ready sb)))"
    and "ready sb = sb \<Longrightarrow> cleans e w sb \<Longrightarrow> reconcileHandler res err = AddRateLimited \<and> err = None
      \<and> (\<exists>v. stored w' = Some (versioned v (unmarked sb)))"
    and "ready sb = sb \<Longrightarrow> \<not> cleans e w sb \<Longrightarrow> reconcileHandler res err = Forget
      \<and> (if om_Deleted (sb_Meta sb) then released (stored w') else stored w' = Some sb)"
proof -
  define p where "p = pipelineFor e (sb_Spec sb) w sb"
  have "om_Finalizers (sb_Meta sb) \<noteq> []" using fin(1) by auto
  note r = unbind_run [OF server key this sb un p_def [symmetric]]
  have get: "getBinding e g ns n w = Inr sb" using server by (simp add: api_server_def reads_stored_def)
  have rec: "(res, err, w') = (case (if \<not> pr_Retry p \<and> pr_Err p = None then releaseFinalizer e (pr_sb p) (pr_world p)
      else (None, pr_world p)) of (Some err, w2) \<Rightarrow> (emptyResult, Some err, w2)
    | (None, w2) \<Rightarrow> (\<lparr>rr_Requeue = pr_Retry p, rr_RequeueAfter = pr_Delay p\<rparr>, if pr_Retry p then pr_Err p else None, w2))"
    unfolding run [symmetric] Reconcile_def get by (simp add: held_finalizer [OF fin(1)] p_def Let_def split: prod.splits option.splits)
  show "reconcileHandler res err = AddRateLimited \<and> (\<exists>er. err = Some er \<and> isConflict er) \<and> (\<exists>v. stored w' = Some (versioned v (ready sb)))"
    if "ready sb \<noteq> sb" using r(2) [OF that] rec by (auto simp: reconcileHandler_def)
  show "reconcileHandler res err = AddRateLimited \<and> err = None \<and> (\<exists>v. stored w' = Some (versioned v (unmarked sb)))"
    if "ready sb = sb" "cleans e w sb" using r(1) [OF that(1)] rec that(2) by (auto simp: reconcileHandler_def unbound_def)
  assume a: "ready sb = sb" "\<not> cleans e w sb"
  then have same: "stored (pr_world p) = Some sb" "pr_sb p = sb" "\<not> pr_Retry p" "pr_Err p = None" "pr_Delay p = 0"
    using r(1) by (auto simp: unbound_def versioned_same)
  show "reconcileHandler res err = Forget \<and> (if om_Deleted (sb_Meta sb) then released (stored w') else stored w' = Some sb)"
  proof (cases "om_Deleted (sb_Meta sb)")
    case True
    obtain w2 where w2: "releaseFinalizer e sb (pr_world p) = (None, w2)" "released (stored w2)"
      by (rule release_stored [OF server(1) same(1) key(1) True fin(2,1)])
    with rec same True show ?thesis by (simp add: reconcileHandler_def)
  next
    case False
    with rec same show ?thesis by (simp add: reconcileHandler_def releaseFinalizer_def HasDeletionTimestamp_def)
  qed
qed

lemma secret_simps [simp]:
  "sb_SecretName (versioned v sb) = sb_SecretName sb" "sb_SecretName (ready sb) = sb_SecretName sb"
  "sb_SecretName (unmarked sb) = sb_SecretName sb"
  by (simp_all add: versioned_def ready_def observed_def unmarked_def split: binding_spec.splits)

lemma in_care_simps [simp]:
  "in_care e g ns n stored (versioned v sb) = in_care e g ns n stored sb"
  "in_care e g ns n stored (ready sb) = in_care e g ns n stored sb"
  "in_care e g ns n stored (unmarked sb) = in_care e g ns n stored sb"
  by (simp_all add: in_care_def)

text \<open>A run on a binding in care that is to be unbound, and what is left to do.\<close>

lemma care_run [consumes 4, case_names status mark finished]:
  assumes "api_server e g ns n stored" "stored w = Some sb" "in_care e g ns n stored sb" "marked sb \<or> om_Deleted (sb_Meta sb)"
  obtains (status) res err v w' where "Reconcile e g (pipelineFor e (sb_Spec sb)) ns n w = (res, err, w')" "reconcileHandler res err \<noteq> Forget"
    "ready sb \<noteq> sb" "stored w' = Some (versioned v (ready sb))"
  | (mark) res err v w' where "Reconcile e g (pipelineFor e (sb_Spec sb)) ns n w = (res, err, w')" "reconcileHandler res err \<noteq> Forget"
    "ready sb = sb" "cleans e w sb" "marked sb" "stored w' = Some (versioned v (unmarked sb))" "\<not> secretless sb"
  | (finished) res err w' where "Reconcile e g (pipelineFor e (sb_Spec sb)) ns n w = (res, err, w')" "reconcileHandler res err = Forget"
    "ready sb = sb" "\<not> cleans e w sb" "if om_Deleted (sb_Meta sb) then released (stored w') else stored w' = Some sb"
proof -
  obtain res err w' where r: "Reconcile e g (pipelineFor e (sb_Spec sb)) ns n w = (res, err, w')" by (metis prod_cases3)
  have c: "isKey g ns n sb" "om_UID (sb_Meta sb) \<noteq> ''''" "unbinds e g w sb"
    "finalizerName \<in> set (om_Finalizers (sb_Meta sb))" "distinct (om_Finalizers (sb_Meta sb))"
    using assms(2,3) unfolding in_care_def by blast+
  note run = unbind_reconcile [OF assms(1,2) c(1,2) assms(4) c(3-5) r]
  have "cleans e w sb \<longrightarrow> marked sb \<and> \<not> secretless sb" using unbind_context [OF c(3) assms(4)] by blast
  with run r that show thesis by (metis requeue.distinct(3))
qed

lemma unmarking_run:
  assumes "api_server e g ns n stored" "stored w = Some sb" "in_care e g ns n stored sb" "marked sb" "ready sb = sb" "cleans e w sb"
  shows "\<exists>w' sb'. requeued (Reconcile e g (pipelineFor e (sb_Spec sb)) ns n) (Suc 0) w = Some w' \<and> stored w' = Some sb'
    \<and> \<not> marked sb' \<and> sb_Spec sb' = sb_Spec sb"
  using assms(1-3) disjI1 [OF assms(4)] by (cases rule: care_run) (use assms in auto)

lemma idle_run:
  assumes "api_server e g ns n stored" "stored w = Some sb" "in_care e g ns n stored sb" "ready sb = sb" "marked sb"
    and "secretless sb" "\<not> om_Deleted (sb_Meta sb)"
  shows "\<exists>w'. processWorkItems (Reconcile e g (pipelineFor e (sb_Spec sb)) ns n) w = Some w' \<and> stored w' = Some sb"
  using assms(1-3) disjI1 [OF assms(5)]
proof (cases rule: care_run)
  case (finished res err w')
  then show ?thesis
    using processWorkItems_forget [where rec = "Reconcile e g (pipelineFor e (sb_Spec sb)) ns n", OF finished(1,2)] assms(7) by simp
qed (use assms in auto)

text \<open>
  C6: A deleted binding goes away. Whatever its status and whether it is marked, if unbinding
  goes through and nothing but the operator touches the binding, the worker comes to the
  point where it forgets the request, and there the binding is gone or has lost the finalizer
  of the operator.
\<close>

theorem deletion_completes:
  assumes "api_server e g ns n stored" and "stored w = Some sb" and "in_care e g ns n stored sb" and "om_Deleted (sb_Meta sb)"
  shows "\<exists>w'. processWorkItems (Reconcile e g (pipelineFor e (sb_Spec sb)) ns n) w = Some w' \<and> released (stored w')"
  using assms(2-4)
proof (induction "(if ready sb = sb then 0 else 2) + (if marked sb then 1 else (0 :: nat))" arbitrary: w sb rule: less_induct)
  case less
  from assms(1) less.prems(1,2) disjI2 [OF less.prems(3)] show ?case
  proof (cases rule: care_run)
    case (status res err v w')
    from less.hyps [OF _ status(4)] less.prems(2,3) status(3) show ?thesis
      unfolding processWorkItems_again [where rec = "Reconcile e g (pipelineFor e (sb_Spec sb)) ns n", OF status(1,2)] by simp
  next
    case (mark res err v w')
    from mark(3) have "ready (versioned v (unmarked sb)) = versioned v (unmarked sb)" by (simp add: ready_unmarked)
    with less.hyps [OF _ mark(6)] less.prems(2,3) mark(3,5) show ?thesis
      unfolding processWorkItems_again [where rec = "Reconcile e g (pipelineFor e (sb_Spec sb)) ns n", OF mark(1,2)] by simp
  next
    case (finished res err w')
    then show ?thesis using processWorkItems_forget [where rec = "Reconcile e g (pipelineFor e (sb_Spec sb)) ns n", OF finished(1,2)] less.prems(3) by simp
  qed
qed


text \<open>
  C37: A run that changes the status of a binding cannot finish: the status is written first,
  which changes the version of the stored binding, and the binding itself is then written
  with the version it was read with. The API server refuses this as a conflict. The new status
  is stored; what else the run has changed in the binding, the annotations among it, is not.
\<close>

theorem status_change_conflicts:
  assumes "api_server e g ns n stored" and "stored (world c) = Some sb" and "isKey g ns n (cx_sb c)"
    and "om_UID (cx_Meta c) \<noteq> ''''" and "version (cx_sb c) = version sb" and "sb_Spec (cx_sb c) = sb_Spec sb"
    and "om_Deleted (cx_Meta c) = om_Deleted (sb_Meta sb)"
    and "withStatus (statusWith (cx_conditions c) (cx_sb c)) sb \<noteq> sb"
  shows "\<exists>d err v. persistBinding e c = (d, Some err) \<and> isConflict err
    \<and> stored (world d) = Some (versioned v (withStatus (statusWith (cx_conditions c) (cx_sb c)) sb))"
proof -
  obtain w' v err where "persistBinding e c = (c\<lparr>cx_sb := statusWith (cx_conditions c) (cx_sb c), world := w'\<rparr>, Some err)"
    "isConflict err" "stored w' = Some (versioned v (withStatus (statusWith (cx_conditions c) (cx_sb c)) sb))"
    by (rule persistBinding_conflict [OF assms(1,2,4,3,5-7) HOL.refl assms(8)])
  then show ?thesis by auto
qed

lemma ready_true: "IsStatusConditionTrue (sb_Conditions (ready sb)) BindingReady"
proof -
  have "IsStatusConditionTrue (SetStatusCondition cs readyCond) BindingReady" for cs
    by (induction cs)
      (auto simp: IsStatusConditionTrue_def readyCond_def withReason_def withBindingReady_def Conditions_def)
  then show ?thesis by (simp add: ready_def)
qed

text \<open>
  C36: A binding that is marked before it was ever bound stays marked and is not bound. Its
  status names no secret, so unbinding stops without taking the mark off, and reports
  success: the binding is said to be ready and its request is forgotten. Another request ends
  in the same way with the binding as it was.
\<close>

theorem marked_binding_stuck:
  assumes "api_server e g ns n stored" and "stored w = Some sb" and "in_care e g ns n stored sb"
    and "marked sb" and "secretless sb" and "\<not> om_Deleted (sb_Meta sb)"
  shows "\<exists>w' sb'. processWorkItems (Reconcile e g (pipelineFor e (sb_Spec sb)) ns n) w = Some w' \<and> stored w' = Some sb'
    \<and> marked sb' \<and> secretless sb' \<and> IsStatusConditionTrue (sb_Conditions sb') BindingReady
    \<and> (\<exists>w''. processWorkItems (Reconcile e g (pipelineFor e (sb_Spec sb)) ns n) w' = Some w'' \<and> stored w'' = Some sb')"
proof -
  let ?rec = "Reconcile e g (pipelineFor e (sb_Spec sb)) ns n"
  have still: "\<exists>w' sb'. processWorkItems ?rec w = Some w' \<and> stored w' = Some sb'
    \<and> marked sb' \<and> secretless sb' \<and> IsStatusConditionTrue (sb_Conditions sb') BindingReady
    \<and> (\<exists>w''. processWorkItems ?rec w' = Some w'' \<and> stored w'' = Some sb')"
    if s: "stored w = Some sb'" "in_care e g ns n stored sb'" "ready sb' = sb'" "marked sb'" "secretless sb'"
      "\<not> om_Deleted (sb_Meta sb')" "sb_Spec sb' = sb_Spec sb" for w sb'
    using idle_run [OF assms(1) s(1-6)] idle_run [OF assms(1) _ s(2-6)] s(4,5,7) ready_true [of sb'] s(3) by metis
  from assms(1-3) disjI1 [OF assms(4)] show ?thesis
  proof (cases rule: care_run)
    case (status res err v w1)
    have "secretless (versioned v (ready sb))" using assms(5) by (simp add: secretless_def)
    with still [OF status(4)] assms(3,4,6) show ?thesis
      unfolding processWorkItems_again [where rec = ?rec, OF status(1,2)] by simp
  next
    case (finished res err w')
    with still [OF assms(2,3) _ assms(4-6)] show ?thesis by simp
  qed (use assms(5) in simp)
qed

section \<open>On the server\<close>

lemma unbindApplication_gvr:
  "i < length (cx_applications c) \<Longrightarrow>
     map app_gvr (cx_applications (fst (unbindApplication e n s evs i c))) = map app_gvr (cx_applications c)"
proof -
  assume i: "i < length (cx_applications c)"
  obtain a r where a: "BindablePods (env_jp e) (cx_applications c ! i) = (a, r)" by fastforce
  then have g: "app_gvr a = app_gvr (cx_applications c ! i)" by (auto simp: BindablePods_def Resource_def)
  have set: "map app_gvr ((cx_applications c)[i := a']) = map app_gvr (cx_applications c)" if "app_gvr a' = app_gvr a" for a'
    using i that g by (simp add: map_update list_update_same_conv)
  show ?thesis using a set unbindPods_gvr [of "env_conv e" n s evs _ a]
    by (auto simp: unbindApplication_def settle_def setApplication_def stop_def SetCondition_def Error_def StopProcessing_def
        split: prod.splits go.splits) (metis fst_conv set)+
qed

text \<open>Unbinding goes through where the only application can be edited.\<close>

lemma Unbind_one:
  assumes "Applications e c = (c\<lparr>cx_applications := [a]\<rparr>, None)" "bindable (env_jp e) (env_conv e) a"
    and "UnbindRequested c" "cx_err c = None"
  obtains d a' where "Unbind e c = (d, None)" "cx_err d = None" "cx_applications d = [a']" "app_gvr a' = app_gvr a"
    "marked (cx_sb c) \<and> \<not> secretless (cx_sb c) \<longrightarrow> cx_retry d"
proof -
  define c1 where "c1 = c\<lparr>cx_applications := [a]\<rparr>"
  have s: "BindingSecretName c1 = (c1, statusSecretName c1)" "secretless (cx_sb c) \<longleftrightarrow> statusSecretName c1 = ''''"
    using assms(3) by (simp_all add: c1_def BindingSecretName_def bindingSecretName_def UnbindRequested_def IsRemoved_def
        secretless_def statusSecretName_def split: option.splits)
  obtain a' where a': "unbindApplication e (BindingName c1) (statusSecretName c1) (EnvBindings c1) 0 c1 = (c1\<lparr>cx_applications := [a']\<rparr>, Continue)"
    using unbind_step [OF assms(2), of "BindingName c1" "statusSecretName c1" "EnvBindings c1" 0] by (auto simp: c1_def setApplication_def)
  have g: "app_gvr a' = app_gvr a"
    using unbindApplication_gvr [of 0 c1 e "BindingName c1" "statusSecretName c1" "EnvBindings c1"] a' by (simp add: c1_def)
  show thesis
  proof (cases "secretless (cx_sb c)")
    case True
    then have "Unbind e c = (StopProcessing c1, None)" using assms(1,3) s by (simp add: Unbind_def c1_def)
    with that [OF this] True assms(4) show thesis by (simp add: c1_def StopProcessing_def)
  next
    case False
    let ?c3 = "c1\<lparr>cx_applications := [a']\<rparr>"
    have "Unbind e c = (case CleanAnnotations ?c3 of (c4, True) \<Rightarrow> (RetryProcessing None c4, None) | (c4, False) \<Rightarrow> (StopProcessing c4, None))"
      using assms(1,3) s False a' by (simp add: Unbind_def c1_def)
    with that g assms(4) show thesis
      by (cases "marked (cx_sb c)") (auto simp: c1_def CleanAnnotations_def marked_def StopProcessing_def RetryProcessing_def)
  qed
qed

lemma shop_found:
  assumes "env_jp e = shopPaths" "\<forall>g n ns v. canPerform e c g n ns v" "\<forall>g. readMapping e c g = Inr []"
    and "\<forall>w ns n. env_Get e w (app_gvr webApp) ns n = Inr (app_persistedResource webApp)"
    and "sb_Spec (cx_sb c) = CoreSpec s" "CoreSpec (s'\<lparr>co_Application := co_Application s\<rparr>) = sb_Spec shopBinding" "cx_applications c = []"
  shows "Applications e c = (c\<lparr>cx_applications := [shopApp]\<rparr>, None)"
proof -
  have "FromWorkloadResourceMappingTemplate shopPaths DefaultTemplate = Inr (app_resourceMapping shopApp)"
    "mpt_Containers DefaultTemplate \<noteq> []" "addContainersPath '''' DefaultTemplate = DefaultTemplate" by code_simp+
  with assms(1-3) have "WorkloadResourceTemplate e c g '''' = Inr (app_resourceMapping shopApp)" for g
    by (simp add: WorkloadResourceTemplate_def Let_def)
  moreover have "namedApplication e (app_gvr webApp) ''web'' mk c
      = (c\<lparr>cx_applications := [mk (app_persistedResource webApp)]\<rparr>, None)" for mk
    using assms(2,4,7) by (simp add: namedApplication_def AddApplication_def Let_def)
  moreover have "ca_LabelSelector (co_Application s) = None" "ca_BindingPath (co_Application s) = None"
    "ref_Name (ca_Ref (co_Application s)) = ''web''" "ref_GroupVersionResource (ca_Ref (co_Application s)) = Inr (app_gvr webApp)"
    using assms(6) by (cases s', simp add: shopBinding_def ref_GroupVersionResource_def webApp_def)+
  ultimately have "Applications e c = (c\<lparr>cx_applications := [\<lparr>app_gvr = app_gvr webApp, app_persistedResource = app_persistedResource webApp,
      app_resource = None, app_bindingPath = None, app_bindableContainerNames = [], app_resourceMapping = app_resourceMapping shopApp\<rparr>]\<rparr>, None)"
    using assms(5,7) by (simp add: Applications_def coreApplications_def ResourceForReferable_def findApplications_def labelledApplications_def)
  then show ?thesis by (simp add: shopApp_def webApp_def)
qed

lemma shop_applications:
  assumes "sb_Spec (cx_sb c) = sb_Spec shopBinding" "cx_applications c = []"
  shows "Applications shopServer c = (c\<lparr>cx_applications := [shopApp]\<rparr>, None)"
proof -
  obtain s where s: "sb_Spec (cx_sb c) = CoreSpec s" "CoreSpec (s\<lparr>co_Application := co_Application s\<rparr>) = sb_Spec shopBinding"
    using assms(1) by (simp add: shopBinding_def)
  have "mappingGVR \<noteq> coreBindingGVR" "mappingGVR \<noteq> app_gvr webApp" "app_gvr webApp \<noteq> coreBindingGVR" by code_simp+
  with assms(2) show ?thesis
    by (intro shop_found [OF _ _ _ _ s]) (auto simp: readMapping_def canPerform_def Requester_def shopServer_def serving_def
        shopCluster_def emptyCluster_def IsNotFound_def split: option.splits)
qed

lemma shop_Unbind:
  assumes "sb_Spec sb = sb_Spec shopBinding"
  shows "unbinds shopServer coreBindingGVR w sb" and "marked sb \<Longrightarrow> \<not> secretless sb \<Longrightarrow> cleans shopServer w sb"
proof -
  let ?c = "contextFor w sb"
  have app: "bindable (env_jp shopCluster) (env_conv shopCluster) shopApp" "app_gvr shopApp \<noteq> coreBindingGVR" by code_simp+
  have upd: "env_Update shopServer (app_gvr shopApp) ns u w = (None, w)" for ns u w
    using app(2) by (auto simp: shopServer_def serving_def split: option.splits sum.splits)
  have "unbinds shopServer coreBindingGVR w sb \<and> (marked sb \<longrightarrow> \<not> secretless sb \<longrightarrow> cleans shopServer w sb)"
  proof (cases "UnbindRequested ?c")
    case False
    then have "\<not> marked sb" "Unbind shopServer ?c = (?c, None)" by (simp_all add: UnbindRequested_def marked_def Unbind_def)
    then show ?thesis by (simp add: unbinds_def)
  next
    case True
    have "Applications shopServer ?c = (?c\<lparr>cx_applications := [shopApp]\<rparr>, None)"
      using assms by (intro shop_applications) simp_all
    moreover have "bindable (env_jp shopServer) (env_conv shopServer) shopApp" using app(1) by (simp add: shopServer_def serving_def)
    ultimately obtain d a' where d: "Unbind shopServer ?c = (d, None)" "cx_err d = None" "cx_applications d = [a']"
      "app_gvr a' = app_gvr shopApp" "marked (cx_sb ?c) \<and> \<not> secretless (cx_sb ?c) \<longrightarrow> cx_retry d"
      using Unbind_one [where e = shopServer and c = ?c, OF _ _ True] by auto
    then show ?thesis using app(2) upd by (auto simp: unbinds_def cleans_def split: prod.splits option.splits)
  qed
  then show "unbinds shopServer coreBindingGVR w sb" "marked sb \<Longrightarrow> \<not> secretless sb \<Longrightarrow> cleans shopServer w sb" by auto
qed

lemma shop_pipeline: "pipelineFor e (sb_Spec (heldBinding anns secret del)) = DefaultBuilder e"
  by (simp add: pipelineFor_def heldBinding_def shopBinding_def)

lemma shop_server:
  "api_server shopServer coreBindingGVR ''shop'' ''shop-db'' (\<lambda>w. w)"
  "in_care shopServer coreBindingGVR ''shop'' ''shop-db'' (\<lambda>w. w) (heldBinding anns secret del)"
proof -
  show "api_server shopServer coreBindingGVR ''shop'' ''shop-db'' (\<lambda>w. w)"
    by (simp add: shopServer_def serving_api_server)
  have spec: "sb_Spec (heldBinding anns secret del) = sb_Spec shopBinding" by (simp add: heldBinding_def)
  have "isKey coreBindingGVR ''shop'' ''shop-db'' (heldBinding anns secret del)" by (simp add: isKey_def heldBinding_def shopBinding_def bindingGVR_def coreBindingGVR_def)
  moreover have "om_UID (sb_Meta (heldBinding anns secret del)) \<noteq> ''''"
    by (simp add: heldBinding_def shopBinding_def)
  ultimately show "in_care shopServer coreBindingGVR ''shop'' ''shop-db'' (\<lambda>w. w) (heldBinding anns secret del)"
    using shop_Unbind(1) by (auto simp: in_care_def spec) (simp_all add: heldBinding_def)
qed

theorem deletion_completes_witness:
  "\<exists>w'. processWorkItems (Reconcile shopServer coreBindingGVR (DefaultBuilder shopServer) ''shop'' ''shop-db'')
      (Some (heldBinding [(MappingAnnotationKey, ''m'')] (Some ''shop-db-1'') True)) = Some w' \<and> released w'"
  using deletion_completes [OF shop_server(1) HOL.refl shop_server(2), of "[(MappingAnnotationKey, ''m'')]" "Some ''shop-db-1''" True]
  unfolding shop_pipeline by (simp add: heldBinding_def)


theorem marked_binding_stuck_witness:
  "\<exists>w' sb'. processWorkItems (Reconcile shopServer coreBindingGVR (DefaultBuilder shopServer) ''shop'' ''shop-db'')
      (Some (heldBinding [(MappingAnnotationKey, ''m'')] None False)) = Some w' \<and> w' = Some sb'
    \<and> marked sb' \<and> secretless sb' \<and> IsStatusConditionTrue (sb_Conditions sb') BindingReady"
  using marked_binding_stuck [OF shop_server(1) HOL.refl shop_server(2) [of "[(MappingAnnotationKey, ''m'')]" None False]]
  unfolding shop_pipeline by (fastforce simp: heldBinding_def marked_def secretless_def)

theorem status_change_conflicts_witness:
  "\<exists>d err. persistBinding shopServer (SetCondition readyCond (newContext (Some shopBinding) shopBinding False)) = (d, Some err)
    \<and> isConflict err"
proof -
  let ?c = "SetCondition readyCond (newContext (Some shopBinding) shopBinding False)"
  have c: "cx_sb ?c = shopBinding" "world ?c = Some shopBinding" by (simp_all add: SetCondition_def newContext_def)
  have "isKey coreBindingGVR ''shop'' ''shop-db'' shopBinding" "om_UID (sb_Meta shopBinding) \<noteq> ''''"
    by (simp_all add: isKey_def shopBinding_def bindingGVR_def coreBindingGVR_def)
  moreover have "withStatus (statusWith (cx_conditions ?c) shopBinding) shopBinding \<noteq> shopBinding" by code_simp
  ultimately show ?thesis using status_change_conflicts [OF shop_server(1), of ?c shopBinding] c by auto
qed

end
