(* ===== verification/History.thy ===== *)
theory History
  imports Lifecycle
begin

text \<open>
  The histories of a stored binding: users create, edit and remove it, the webhook judges
  what they send, and meanwhile the operator works on the copy it has read and reports the
  status of that copy.

  The events are interleaved in any order. In particular, any number of edits may come
  between the read of the operator and its report. The API server keeps the status when a
  binding is edited, gives every change a version of its own and refuses the report for a
  version that is not stored any more.
\<close>

section \<open>Events\<close>

record history =
  hs_stored :: "sbinding option"
  hs_held :: "sbinding option"
  hs_versions :: "string list"

definition emptyHistory :: history where
  "emptyHistory = \<lparr>hs_stored = None, hs_held = None, hs_versions = []\<rparr>"

definition store :: "sbinding \<Rightarrow> history \<Rightarrow> history" where
  "store sb h = h\<lparr>hs_stored := Some sb, hs_versions := version sb # hs_versions h\<rparr>"

text \<open>The run that ends with the report writes a status if the binding is a stored one.\<close>

inductive event :: "'w env \<Rightarrow> history \<Rightarrow> history \<Rightarrow> bool" for e :: "'w env" where
  create: "hs_stored h = None \<Longrightarrow> binding_ValidateCreate sb = None \<Longrightarrow> sb_Conditions sb = [] \<Longrightarrow>
    version sb \<notin> set (hs_versions h) \<Longrightarrow> event e h (store sb h)"
| edit: "hs_stored h = Some old \<Longrightarrow> binding_ValidateUpdate (withStatus old new) old = None \<Longrightarrow>
    version new \<notin> set (hs_versions h) \<Longrightarrow> event e h (store (withStatus old new) h)"
| remove: "event e h (h\<lparr>hs_stored := None\<rparr>)"
| read: "hs_stored h = Some sb \<Longrightarrow> event e h (h\<lparr>hs_held := Some sb\<rparr>)"
| report: "hs_stored h = Some sb \<Longrightarrow> hs_held h = Some held \<Longrightarrow> version held = version sb \<Longrightarrow>
    om_UID (sb_Meta held) \<noteq> '''' \<Longrightarrow> v \<notin> set (hs_versions h) \<Longrightarrow>
    event e h (store (versioned v (withStatus (pr_sb (pipelineFor e (sb_Spec held) w held)) sb)) h)"

abbreviation happens :: "'w env \<Rightarrow> history \<Rightarrow> bool" where
  "happens e h \<equiv> (event e)\<^sup>*\<^sup>* emptyHistory h"

section \<open>Ready bindings\<close>

abbreviation isReady :: "sbinding \<Rightarrow> bool" where
  "isReady sb \<equiv> IsStatusConditionTrue (sb_Conditions sb) BindingReady"

text \<open>A run on a binding that goes well: no handler has an error and the workloads are written.\<close>

definition flowFor :: "'w env \<Rightarrow> binding_spec \<Rightarrow> 'w handler list" where
  "flowFor e spec = (case spec of CoreSpec _ \<Rightarrow> defaultFlow e | SpecSpec _ \<Rightarrow> specFlow e)"

definition goes_well :: "'w env \<Rightarrow> 'w \<Rightarrow> sbinding \<Rightarrow> bool" where
  "goes_well e w sb =
     (case runHandlers (flowFor e (sb_Spec sb)) noStatus (contextFor w sb) of
        (d, st) \<Rightarrow> fs_Err st = None \<and> snd (updateApplications e (cx_applications d) d) = None)"

definition consistent :: "'w env \<Rightarrow> history \<Rightarrow> bool" where
  "consistent e h \<longleftrightarrow>
     (\<forall>sb. hs_stored h = Some sb \<longrightarrow> version sb \<in> set (hs_versions h)
        \<and> (isReady sb \<longrightarrow> (\<exists>w held. sb_Spec held = sb_Spec sb \<and> goes_well e w held)))
     \<and> (\<forall>held. hs_held h = Some held \<longrightarrow> version held \<in> set (hs_versions h)
        \<and> (\<forall>sb. hs_stored h = Some sb \<longrightarrow> version sb = version held \<longrightarrow> sb_Spec sb = sb_Spec held))"

definition markedBinding :: sbinding where
  "markedBinding = shopBinding\<lparr>sb_Meta := (sb_Meta shopBinding)\<lparr>om_Annotations := [(MappingAnnotationKey, ''m'')]\<rparr>\<rparr>"

lemma report_ready:
  assumes "om_UID (sb_Meta held) \<noteq> ''''"
  shows "isReady (pr_sb (pipelineFor e (sb_Spec held) w held)) \<longleftrightarrow> goes_well e w held"
proof -
  obtain d st where d: "runHandlers (flowFor e (sb_Spec held)) noStatus (contextFor w held) = (d, st)" by fastforce
  show ?thesis
  proof (cases "sb_Spec held")
    case (CoreSpec s)
    then have "Provider w held = Inr (contextFor w held)" by (simp add: contextFor_def Provider_def)
    from run_ready [where provider = Provider and flow = "defaultFlow e" and e = e, OF _ this assms, of d st] CoreSpec d
    show ?thesis by (simp add: pipelineFor_def flowFor_def DefaultBuilder_def goes_well_def)
  next
    case (SpecSpec s)
    then have "SpecProvider w held = Inr (contextFor w held)" by (simp add: contextFor_def SpecProvider_def Let_def)
    from run_ready [where provider = SpecProvider and flow = "specFlow e" and e = e, OF _ this assms, of d st] SpecSpec d
    show ?thesis by (simp add: pipelineFor_def flowFor_def SpecBuilder_def goes_well_def)
  qed
qed

lemma accepted_update:
  "binding_ValidateUpdate (withStatus old new) old = None \<Longrightarrow> isReady old \<Longrightarrow> sb_Spec new = sb_Spec old"
  by (auto simp: binding_ValidateUpdate_def CanUpdateBinding_def withStatus_def split: if_splits)

lemma isReady_status [simp]: "isReady (withStatus s sb) = isReady s" "version (withStatus s sb) = version sb"
  by (simp_all add: withStatus_def version_def)

lemma consistent_store:
  assumes "consistent e h" "version sb \<notin> set (hs_versions h)"
    and "isReady sb \<Longrightarrow> \<exists>w held. sb_Spec held = sb_Spec sb \<and> goes_well e w held"
  shows "consistent e (store sb h)"
proof -
  have held: "\<forall>held. hs_held h = Some held \<longrightarrow> version held \<in> set (hs_versions h)" using assms(1) by (simp add: consistent_def)
  with assms(2) have "\<forall>held. hs_held h = Some held \<longrightarrow> version sb \<noteq> version held" by metis
  with held assms(3) show ?thesis unfolding consistent_def store_def by simp
qed

lemma consistent_event: "event e h h' \<Longrightarrow> consistent e h \<Longrightarrow> consistent e h'"
proof (induction rule: event.induct)
  case (create h sb)
  then show ?case by (intro consistent_store) (simp_all add: IsStatusConditionTrue_def)
next
  case (edit h old new)
  then have "isReady old \<Longrightarrow> \<exists>w held. sb_Spec held = sb_Spec old \<and> goes_well e w held" by (simp add: consistent_def)
  then have "isReady (withStatus old new) \<Longrightarrow> \<exists>w held. sb_Spec held = sb_Spec (withStatus old new) \<and> goes_well e w held"
    using accepted_update [OF edit(2)] by simp
  with edit show ?case by (intro consistent_store) simp_all
next
  case (report h sb held v w)
  define new where "new = versioned v (withStatus (pr_sb (pipelineFor e (sb_Spec held) w held)) sb)"
  from report have "sb_Spec held = sb_Spec sb" by (simp add: consistent_def)
  moreover have new: "isReady new \<longleftrightarrow> goes_well e w held" "sb_Spec new = sb_Spec sb" "version new = v"
    using report_ready [OF report(4), of e] by (simp_all add: new_def)
  ultimately have "isReady new \<Longrightarrow> \<exists>w held. sb_Spec held = sb_Spec new \<and> goes_well e w held" by auto
  moreover have "version new \<notin> set (hs_versions h)" using report(5) new(3) by simp
  ultimately have "consistent e (store new h)" by (intro consistent_store [OF report(6)])
  then show ?case unfolding new_def .
next
  case (remove h)
  then have "\<forall>held. hs_held h = Some held \<longrightarrow> version held \<in> set (hs_versions h)" unfolding consistent_def by blast
  then show ?case unfolding consistent_def by simp
next
  case (read h sb)
  then have "version sb \<in> set (hs_versions h) \<and> (isReady sb \<longrightarrow> (\<exists>w held. sb_Spec held = sb_Spec sb \<and> goes_well e w held))"
    unfolding consistent_def by blast
  with read(1) show ?case unfolding consistent_def by simp
qed



end
