(* ===== verification/Bound.thy ===== *)
theory Bound
  imports Secrets History "HOL-Library.Sublist"
begin

text \<open>
  A reconciliation from end to end: the collecting handlers, the check that persists the
  binding data and finds the workloads, the projecting handlers and the end of the context
  put together (\<open>builder/default.go\<close>, \<open>builder/spec.go\<close>, \<open>handler/project/impl.go\<close>,
  \<open>context/impl.go\<close>). The theorems tell which writes reach the API server, from what the
  first half of the flow has collected.
\<close>

section \<open>Notions for the theorems\<close>

text \<open>The handlers before the check and the bindings that it requires.\<close>

definition collectFlow :: "'w env \<Rightarrow> binding_spec \<Rightarrow> 'w handler list" where
  "collectFlow e spec = (case spec of CoreSpec _ \<Rightarrow> take 9 (defaultFlow e) | SpecSpec _ \<Rightarrow> take 6 (specFlow e))"

definition requiredKeys :: "binding_spec \<Rightarrow> string list" where
  "requiredKeys spec = (case spec of CoreSpec _ \<Rightarrow> [] | SpecSpec _ \<Rightarrow> [''type''])"

definition isCore :: "binding_spec \<Rightarrow> bool" where
  "isCore spec = (case spec of CoreSpec _ \<Rightarrow> True | SpecSpec _ \<Rightarrow> False)"

text \<open>The handlers before the check ran to their end and left this context.\<close>

definition gathered :: "'w env \<Rightarrow> 'w \<Rightarrow> sbinding \<Rightarrow> 'w ctx \<Rightarrow> bool" where
  "gathered e w sb c \<longleftrightarrow>
     (case runHandlers (collectFlow e (sb_Spec sb)) noStatus (contextFor w sb) of
        (c', st) \<Rightarrow> c' = c \<and> \<not> fs_Stop st \<and> fs_Err st = None)"

text \<open>
  There are workloads, their containers are found and can be edited, and they do not take
  the name of the secret in a field of their own.
\<close>

definition fit :: "'w env \<Rightarrow> 'w ctx \<Rightarrow> bool" where
  "fit e d \<longleftrightarrow> cx_applications d \<noteq> []
     \<and> list_all (\<lambda>a. bindable (env_jp e) (env_conv e) a \<and> SecretPath a = '''') (cx_applications d)
     \<and> (BindAsFiles d \<longrightarrow> EnvBindings d = [])"

text \<open>What binding the secret \<open>s\<close> makes of an application, as files or as variables.\<close>

definition bound_done ::
  "converter \<Rightarrow> 'w ctx \<Rightarrow> string \<Rightarrow> meta_pod_spec \<Rightarrow> application \<Rightarrow> application \<Rightarrow> bool" where
  "bound_done conv c s pods a a' =
     (if BindAsFiles c then files_done conv (BindingName c) s pods a a'
      else env_done conv False s (envVarsFor s (EnvBindings c)) pods a a')"

text \<open>The update that is sent for a changed workload.\<close>

definition workloadUpdate :: "string \<Rightarrow> application \<Rightarrow> call" where
  "workloadUpdate ns a = UpdateCall (app_gvr a) ns (fields_of (normalize (JObj (resourceOf a))))"

text \<open>
  The writes of the check: none if the bindings are in a secret of a service, else the one
  that creates or updates the binding secret.
\<close>

definition secretWrites :: "'w ctx \<Rightarrow> call list \<Rightarrow> bool" where
  "secretWrites c ks =
     (if snd (snd (bindingSecretName c)) then ks = []
      else \<exists>k. ks = [k] \<and> secret_call (secretObject (cx_sb c) (snd (BindingSecretName c)) (snd (bindingItemMap c)))
        (om_Namespace (cx_Meta c)) k)"

text \<open>
  A binding of the deployment to a secret in its own namespace, and a cluster that has both
  and a template for names that gives the name itself.
\<close>

definition loginSecret :: fields where
  "loginSecret =
     [(''apiVersion'', JStr ''v1''), (''kind'', JStr ''Secret''),
      (''metadata'', JObj [(''namespace'', JStr ''shop''), (''name'', JStr ''login'')]),
      (''data'', JObj [(''user'', JStr (EncodeToString ''joe''))])]"

definition loginBinding :: sbinding where
  "loginBinding = shopBinding\<lparr>sb_Spec :=
     (case sb_Spec shopBinding of
        CoreSpec s \<Rightarrow> CoreSpec (s\<lparr>co_Services := [\<lparr>cs_Ref = \<lparr>ref_Group = '''', ref_Version = ''v1'', ref_Kind = ''Secret'',
          ref_Resource = ''secrets'', ref_Name = ''login''\<rparr>, cs_Namespace = None, cs_Id = None\<rparr>]\<rparr>)
      | SpecSpec s \<Rightarrow> SpecSpec s)\<rparr>"

definition loginCluster :: "unit env" where
  "loginCluster = shopCluster\<lparr>
     env_Get := (\<lambda>w g ns n. if g = coreGVR ''secrets'' then Inr loginSecret else env_Get shopCluster w g ns n),
     env_RESTMapping := (\<lambda>_. Inr (coreGVR ''secrets'')),
     env_HtmlTemplate := (\<lambda>_. Inr (\<lambda>v. case v of JObj [_, (_, JStr n)] \<Rightarrow> Inr n | _ \<Rightarrow> Inl (errNew ''no name'')))\<rparr>"

text \<open>
  A binding with a value of its own instead of a service, and the cluster when the API
  server fails to read secrets.
\<close>

definition noteBinding :: sbinding where
  "noteBinding = shopBinding\<lparr>sb_Spec :=
     (case sb_Spec shopBinding of
        CoreSpec s \<Rightarrow> CoreSpec (s\<lparr>co_Services := [], co_Mappings := [(''note'', ''hello'')]\<rparr>)
      | SpecSpec s \<Rightarrow> SpecSpec s)\<rparr>"

definition noteCluster :: "unit env" where
  "noteCluster = shopCluster\<lparr>
     env_Get := (\<lambda>w g ns n. if g = coreGVR ''secrets'' then Inl (StatusErr ''InternalError'' '''') else env_Get shopCluster w g ns n),
     env_TextTemplate := (\<lambda>t. Inr (\<lambda>_. Inr t))\<rparr>"

section \<open>Collecting\<close>

lemma flow_parts:
  "flowFor e spec = (collectFlow e spec @ [PreFlightCheck e (requiredKeys spec)] @ (if isCore spec then [InjectSecretRef e] else []))
     @ [BindingsAsEnv e, BindingsAsFiles e, PostFlightCheck]"
  by (simp add: flowFor_def collectFlow_def requiredKeys_def isCore_def defaultFlow_def specFlow_def
      split: binding_spec.splits)

interpretation gathering: collect_inv e "\<lambda>c. world c = w \<and> cx_sb c = sb \<and> cx_applications c = []"
  for e w sb
  by unfold_locales (simp_all add: Invariants.update_defs)

lemma unrequested: "\<not> marked sb \<Longrightarrow> \<not> om_Deleted (sb_Meta sb) \<Longrightarrow> cx_sb c = observed sb \<Longrightarrow> \<not> UnbindRequested c"
  by (simp add: UnbindRequested_def IsRemoved_def marked_def)

lemma gathered_context:
  assumes "gathered e w sb c" "\<not> marked sb" "\<not> om_Deleted (sb_Meta sb)"
  shows "world c = w" "cx_sb c = observed sb" "cx_applications c = []" "cx_err c = None" "\<not> cx_stop c" "\<not> UnbindRequested c"
proof -
  let ?Inv = "\<lambda>c. world c = w \<and> cx_sb c = observed sb \<and> cx_applications c = []"
  obtain st where run: "runHandlers (collectFlow e (sb_Spec sb)) noStatus (contextFor w sb) = (c, st)"
    "\<not> fs_Stop st" "fs_Err st = None"
    using assms(1) by (auto simp: gathered_def)
  have "?Inv (fst (Unbind e c))" if "?Inv c" for c
    using that unrequested [OF assms(2,3), of c] by (simp add: Unbind_def)
  then have "?Inv (fst (h c))" if "?Inv c" "h \<in> set (collectFlow e (sb_Spec sb))" for h c
    using that gathering.inv_collectors [of c w "observed sb" e]
    by (auto simp: collectFlow_def defaultFlow_def specFlow_def split: binding_spec.splits)
  then have "?Inv c"
    using gathering.inv_runHandlers [of "collectFlow e (sb_Spec sb)" w "observed sb" "contextFor w sb" noStatus] run(1) by simp
  then show "world c = w" "cx_sb c = observed sb" "cx_applications c = []" "\<not> UnbindRequested c"
    using unrequested [OF assms(2,3), of c] by simp_all
  have "collectFlow e (sb_Spec sb) \<noteq> []" by (simp add: collectFlow_def defaultFlow_def specFlow_def split: binding_spec.splits)
  from runHandlers_status [OF this, of noStatus "contextFor w sb"] run
  show "cx_err c = None" "\<not> cx_stop c" by (simp_all add: FlowStatus_def)
qed

section \<open>The check\<close>

lemma PreFlightCheck_passed:
  assumes "PersistSecret e c = (c1, None)" "PreFlightCheck e ks c = (d, r)" "\<not> cx_stop d"
  obtains c2 where "Applications e (SetCondition (withDataCollected (withCollectionReady Conditions)) c1) = (c2, None)"
    "cx_applications c2 \<noteq> []" "snd (BindingItems c2) \<noteq> []" "d = loadBindings c2" "r = None"
  using assms
  by (auto simp: PreFlightCheck_def BindingItems_def RetryProcessing_def StopProcessing_def SetCondition_def Error_def Let_def
      split: prod.splits option.splits if_splits)

lemma PreFlightCheck_passes:
  assumes "PersistSecret e c = (c1, None)" "Applications e (SetCondition (withDataCollected (withCollectionReady Conditions)) c1) = (c2, None)"
    and "cx_applications c2 \<noteq> []" "snd (BindingItems c2) \<noteq> []" "missingKey ks (AsMap (snd (BindingItems c2))) = None"
  shows "PreFlightCheck e ks c = (loadBindings c2, None)"
proof -
  obtain "is" where "BindingItems c2 = (loadBindings c2, is)" by (simp add: BindingItems_def)
  with assms show ?thesis by (simp add: PreFlightCheck_def)
qed

lemma decodeItems_names:
  "decodeItems src data acc = (Some is, None) \<Longrightarrow> i \<in> set is \<Longrightarrow>
     it_Name i \<in> fst ` set data \<or> i \<in> set (case acc of None \<Rightarrow> [] | Some is \<Rightarrow> is)"
  by (induction src data acc rule: decodeItems.induct) (auto split: sum.splits option.splits)

lemma Source_kept: "snd (Items b) = Inr is \<Longrightarrow> is \<noteq> [] \<Longrightarrow> Source (fst (Items b)) = Source b"
proof (cases "sbk_items b")
  case None
  assume "snd (Items b) = Inr is" "is \<noteq> []"
  with None obtain data where data: "NestedStringMap (sbk_Secret b) [''data''] = Inr (Some data)"
    "decodeItems (sbk_Service b) data None = (Some is, None)"
    by (auto simp: Items_def split: sum.splits option.splits prod.splits)
  have "list_all (\<lambda>i. map_of data (it_Name i) \<noteq> None) is"
    using decodeItems_names [OF data(2)] by (auto simp: list_all_iff map_of_eq_None_iff)
  with None data show ?thesis by (simp add: Items_def Source_def)
qed (simp add: Items_def)

lemma BindingItems_loaded: "readable c \<Longrightarrow> snd (BindingItems (loadBindings c)) = snd (BindingItems c)"
  by (simp add: BindingItems_def itemsOf_def readable_def list_all_iff Items_again cong: map_cong)

lemma BindingSecretName_loaded:
  assumes "readable c" "\<not> UnbindRequested c" "snd (BindingItems c) \<noteq> []"
  shows "snd (BindingSecretName (loadBindings c)) = snd (BindingSecretName c)"
proof (cases "\<exists>b. cx_bindingItems c = [] \<and> cx_bindings c = [b]")
  case True
  then obtain b where b: "cx_bindingItems c = []" "cx_bindings c = [b]" by blast
  with assms(1,3) obtain "is" where "snd (Items b) = Inr is" "is \<noteq> []"
    by (auto simp: BindingItems_def itemsOf_def readable_def split: sum.splits)
  with b assms(1,2) Source_kept show ?thesis
    by (auto simp: BindingSecretName_def bindingSecretName_def Let_def split_def bindingItemMap_loaded split: option.splits)
next
  case False
  with assms(1,2) show ?thesis
    by (auto simp: BindingSecretName_def bindingSecretName_def Let_def split_def bindingItemMap_loaded split: list.splits)
qed

lemma readable_loaded: "readable c \<Longrightarrow> readable (loadBindings c)"
  by (simp add: readable_def list_all_iff Items_again)

lemma bindingItemMap_nonempty: "snd (BindingItems c) \<noteq> [] \<Longrightarrow> snd (bindingItemMap c) \<noteq> []"
proof
  assume "snd (BindingItems c) \<noteq> []" and empty: "snd (bindingItemMap c) = []"
  then obtain i "is" where "snd (BindingItems c) = is @ [i]" by (metis rev_exhaust)
  then have "lastValue (snd (BindingItems c)) (it_Name i) \<noteq> None" by (simp add: lastValue_def)
  with empty bindingItemMap_lookup(1) [of c] show False by (metis map_of.simps(1))
qed

text \<open>A context in which the binding data is the same, read from the secrets or not.\<close>

lemma PersistSecret_frame:
  assumes "PersistSecret e c = (c1, None)" "readable c"
  shows "cx_bindings c1 = cx_bindings c \<or> cx_bindings c1 = cx_bindings (loadBindings c)"
    and "cx_bindingItems c1 = cx_bindingItems c" "cx_applications c1 = cx_applications c" "FlowStatus c1 = FlowStatus c"
    and "cx_sb c1 = (cx_sb c)\<lparr>sb_SecretName := sb_SecretName (cx_sb c1)\<rparr>"
proof -
  obtain c0 s where c0: "c1 = c0 \<or> c1 = setStatusSecretName s c0" "fst (persistSecret e c) = c0"
    using assms(1) by (auto simp: PersistSecret_def split: prod.splits option.splits if_splits)
  have "fst (bindingSecretName c) = c \<or> fst (bindingSecretName c) = loadBindings c"
    by (auto simp: bindingSecretName_def Let_def split_def split: list.splits option.splits)
  with c0(2) loadBindings_twice [OF assms(2)]
  have "c0 = c\<lparr>world := world c0\<rparr> \<or> c0 = (loadBindings c)\<lparr>world := world c0\<rparr>"
    by (auto simp: persistSecret_def Let_def split_def split: bool.splits sum.splits if_splits dest!: sym [of _ c0])
  then obtain w where "c0 = c\<lparr>world := w\<rparr> \<or> c0 = (loadBindings c)\<lparr>world := w\<rparr>" by blast
  with c0(1) show "cx_bindings c1 = cx_bindings c \<or> cx_bindings c1 = cx_bindings (loadBindings c)"
    "cx_bindingItems c1 = cx_bindingItems c" "cx_applications c1 = cx_applications c" "FlowStatus c1 = FlowStatus c"
    "cx_sb c1 = (cx_sb c)\<lparr>sb_SecretName := sb_SecretName (cx_sb c1)\<rparr>"
    by (auto simp: setStatusSecretName_def loadBindings_def FlowStatus_def)
qed

lemma same_data:
  assumes "readable c" "\<not> UnbindRequested c" "snd (BindingItems c) \<noteq> []" "cx_Meta d = cx_Meta c"
    and "cx_bindings d = cx_bindings c \<or> cx_bindings d = cx_bindings (loadBindings c)" "cx_bindingItems d = cx_bindingItems c"
  shows "snd (BindingItems d) = snd (BindingItems c)" "readable d" "snd (BindingSecretName d) = snd (BindingSecretName c)"
proof -
  have "snd (BindingItems d) = snd (BindingItems c) \<or> snd (BindingItems d) = snd (BindingItems (loadBindings c))"
    using assms(5,6) by (auto simp: BindingItems_def)
  with BindingItems_loaded [OF assms(1)] show "snd (BindingItems d) = snd (BindingItems c)" by auto
  show "readable d" using assms(5) readable_loaded [OF assms(1)] assms(1) by (auto simp: readable_def)
  show "snd (BindingSecretName d) = snd (BindingSecretName c)"
    using BindingSecretName_cong [of d c] BindingSecretName_cong [of d "loadBindings c"]
      BindingSecretName_loaded [OF assms(1-3)] assms(2,4-6) by auto
qed

lemma found_frame:
  assumes "Applications e (SetCondition cond c) = (d, r)"
  shows "cx_bindings d = cx_bindings c" "cx_bindingItems d = cx_bindingItems c" "cx_sb d = cx_sb c"
    "world d = world c" "FlowStatus d = FlowStatus c"
  using Applications_frame [of cx_bindings e "SetCondition cond c"] Applications_frame [of cx_bindingItems e "SetCondition cond c"]
    Applications_frame [of cx_sb e "SetCondition cond c"] Applications_frame [of world e "SetCondition cond c"]
    Applications_frame [of FlowStatus e "SetCondition cond c"] assms
  by (simp_all add: AddApplication_def SetCondition_def FlowStatus_def)

lemma check_result:
  assumes "snd (PersistSecret (logged e) c) = None" "\<not> UnbindRequested c" "readable c" "snd (BindingSecretName c) \<noteq> ''''"
    and "PreFlightCheck (logged e) ks c = (d, r)" "\<not> cx_stop d"
  obtains k where "r = None" "FlowStatus d = FlowStatus c" "cx_sb d = (cx_sb c)\<lparr>sb_SecretName := Some (snd (BindingSecretName c))\<rparr>"
    "snd (world d) = snd (world c) @ k" "secretWrites c k" "snd (BindingSecretName d) = snd (BindingSecretName c)"
    "snd (BindingItems d) \<noteq> []" "readable d"
proof -
  obtain c1 where c1: "PersistSecret (logged e) c = (c1, None)" using assms(1) by (metis prod.collapse)
  obtain c2 where c2: "Applications (logged e) (SetCondition (withDataCollected (withCollectionReady Conditions)) c1) = (c2, None)"
    "cx_applications c2 \<noteq> []" "snd (BindingItems c2) \<noteq> []" "d = loadBindings c2" "r = None"
    using c1 assms(5,6) by (rule PreFlightCheck_passed)
  note f = found_frame [OF c2(1)] and p = PersistSecret_frame [OF c1 assms(3)]
  have meta: "cx_Meta c1 = cx_Meta c" by (subst p(5)) simp
  have "snd (BindingItems c2) = snd (BindingItems c1)" using f(1,2) by (simp add: BindingItems_def)
  moreover have "snd (BindingItems c1) = snd (BindingItems c)"
    using p(1,2) BindingItems_loaded [OF assms(3)] by (auto simp: BindingItems_def)
  ultimately have "is": "snd (BindingItems c) \<noteq> []" using c2(3) by simp
  note data = same_data [OF assms(3,2) "is", of c1, OF meta p(1,2)]
  from PersistSecret_result [OF c1 assms(2-4)] bindingItemMap_nonempty [OF "is"] data(3)
  obtain k where k: "sb_SecretName (cx_sb c1) = Some (snd (BindingSecretName c))" "snd (world c1) = snd (world c) @ k" "secretWrites c k"
    by (auto simp: secretWrites_def split: if_splits)
  have d: "cx_bindings d = cx_bindings (loadBindings c)"
    using p(1) f(1) c2(4) assms(3) by (auto simp: readable_def list_all_iff Items_again)
  have d': "cx_bindingItems d = cx_bindingItems c" "cx_Meta d = cx_Meta c" using c2(4) f(2,3) p(2) meta by simp_all
  note same = same_data [OF assms(3,2) "is" d'(2) disjI2 [OF d] d'(1)]
  show thesis
    by (rule that [of k]) (use k p(4) p(5) c2(4,5) f same "is" in \<open>simp_all add: loadBindings_def FlowStatus_def\<close>)
qed

section \<open>Projecting\<close>

lemma InjectSecretRef_idle:
  assumes "Applications e c = (d, None)" "list_all (\<lambda>a. SecretPath a = '''') (cx_applications d)"
  shows "InjectSecretRef e c = (d, None)"
proof -
  have "forEach injectSecretRef is d = (d, Continue)" if "\<forall>i \<in> set is. i < length (cx_applications d)" for "is"
    using that assms(2) by (induction "is") (auto simp: injectSecretRef_def list_all_length)
  then show ?thesis using assms(1) by (simp add: InjectSecretRef_def applications_def finish_def)
qed

lemma projecting_handlers:
  assumes "reads_back (env_conv e)" "fit e c" "\<not> cx_stop c"
  obtains bs as where "runHandlers [BindingsAsEnv e, BindingsAsFiles e] st c =
      (c\<lparr>cx_bindings := bs, cx_applications := as\<rparr>, FlowStatus c)"
    "projected (env_jp e) (bound_done (env_conv e) c (snd (BindingSecretName c))) c (c\<lparr>cx_bindings := bs, cx_applications := as\<rparr>)"
proof (cases "BindAsFiles c")
  case True
  have f: "cx_applications c \<noteq> []" "list_all (bindable (env_jp e) (env_conv e)) (cx_applications c)" "EnvBindings c = []"
    using assms(2) True by (auto simp: fit_def list_all_iff)
  obtain bs as where r: "BindingsAsFiles e c = (c\<lparr>cx_bindings := bs, cx_applications := as\<rparr>, None)"
    "projected (env_jp e) (files_done (env_conv e) (BindingName c) (snd (BindingSecretName c))) c
      (c\<lparr>cx_bindings := bs, cx_applications := as\<rparr>)"
    using assms(1) True f(1,2) by (rule BindingsAsFiles_result)
  have "BindingsAsEnv e c = (c, None)" using True f(3) by (simp add: BindingsAsEnv_def)
  with r(1) assms(3) True r(2) show thesis
    by (intro that [of as bs]) (simp_all add: invokeHandler_def FlowStatus_def Let_def bound_done_def [abs_def])
next
  case False
  have f: "cx_applications c \<noteq> []" "list_all (bindable (env_jp e) (env_conv e)) (cx_applications c)"
    using assms(2) by (auto simp: fit_def list_all_iff)
  obtain bs as where r: "BindingsAsEnv e c = (c\<lparr>cx_bindings := bs, cx_applications := as\<rparr>, None)"
    "projected (env_jp e) (env_done (env_conv e) (BindAsFiles c) (snd (BindingSecretName c))
        (envVarsFor (snd (BindingSecretName c)) (EnvBindings c))) c (c\<lparr>cx_bindings := bs, cx_applications := as\<rparr>)"
    by (rule BindingsAsEnv_result [OF assms(1) _ f]) (use False in simp_all)
  have "BindingsAsFiles e (c\<lparr>cx_bindings := bs, cx_applications := as\<rparr>) = (c\<lparr>cx_bindings := bs, cx_applications := as\<rparr>, None)"
    using False by (simp add: BindingsAsFiles_def BindAsFiles_def)
  with r(1) assms(3) False r(2) show thesis
    by (intro that [of as bs]) (simp_all add: invokeHandler_def FlowStatus_def Let_def bound_done_def [abs_def])
qed

text \<open>The last handler reports the injection, and does not stop the flow or change its error.\<close>

lemma PostFlightCheck_result:
  assumes "cx_err c = None" "\<not> cx_stop c"
  obtains d where "PostFlightCheck c = (d, None)" "cx_err d = None" "\<not> cx_stop d" "cx_sb d = cx_sb c" "world d = world c"
    "cx_applications d = cx_applications c" "map_of (cx_conditions d) InjectionReady = Some (withReason ''ApplicationUpdated'' (withInjectionReady Conditions))"
  using assms
  by (auto simp: PostFlightCheck_def SetCondition_def DelayReprocessing_def RetryProcessingWithDelay_def condition_defs update_conv' Let_def)

lemma project_run:
  assumes "reads_back (env_conv e)" "fit e c" "\<not> cx_stop c" "cx_err c = None"
  obtains d where "\<forall>st. \<not> fs_Stop st \<longrightarrow> runHandlers [BindingsAsEnv e, BindingsAsFiles e, PostFlightCheck] st c = (d, FlowStatus d)"
    "cx_err d = None" "cx_sb d = cx_sb c" "world d = world c"
    "projected (env_jp e) (bound_done (env_conv e) c (snd (BindingSecretName c))) c d"
    "map_of (cx_conditions d) InjectionReady = Some (withReason ''ApplicationUpdated'' (withInjectionReady Conditions))"
proof -
  obtain bs as where p: "\<forall>st. runHandlers [BindingsAsEnv e, BindingsAsFiles e] st c = (c\<lparr>cx_bindings := bs, cx_applications := as\<rparr>, FlowStatus c)"
    "projected (env_jp e) (bound_done (env_conv e) c (snd (BindingSecretName c))) c (c\<lparr>cx_bindings := bs, cx_applications := as\<rparr>)"
    by (rule projecting_handlers [OF assms(1-3)]) (simp add: Let_def)
  let ?c = "c\<lparr>cx_bindings := bs, cx_applications := as\<rparr>"
  obtain d where d: "PostFlightCheck ?c = (d, None)" "cx_err d = None" "\<not> cx_stop d" "cx_sb d = cx_sb ?c" "world d = world ?c"
    "cx_applications d = cx_applications ?c"
    "map_of (cx_conditions d) InjectionReady = Some (withReason ''ApplicationUpdated'' (withInjectionReady Conditions))"
    by (rule PostFlightCheck_result [of ?c]) (use assms(3,4) in simp_all)
  have "runHandlers ([BindingsAsEnv e, BindingsAsFiles e] @ [PostFlightCheck]) st c = (d, FlowStatus d)" if "\<not> fs_Stop st" for st
    using that assms(3) p(1) d(1,3) by (subst runHandlers_append) (simp_all add: invokeHandler_def FlowStatus_def Let_def)
  with d p(2) show thesis by (intro that) (simp_all add: projected_def)
qed

lemma injection_idle:
  assumes "fit e c" "\<not> cx_stop c"
  shows "runHandlers (if core then [InjectSecretRef e] else []) (FlowStatus c) c = (c, FlowStatus c)"
proof -
  have "Applications e c = (c, None)" using assms(1) by (simp add: fit_def Applications_def)
  with InjectSecretRef_idle [of e c c] assms show ?thesis
    by (simp add: invokeHandler_def fit_def list_all_iff FlowStatus_def Let_def)
qed

section \<open>Closing\<close>

lemma updateApplications_log:
  "updateApplications (logged e) as c = (d, r) \<Longrightarrow> \<exists>sent. d = c\<lparr>world := world d\<rparr> \<and> snd (world d) = snd (world c) @ sent
    \<and> prefix sent (map (workloadUpdate (om_Namespace (cx_Meta c))) (filter IsUpdated as))
    \<and> (r = None \<longrightarrow> sent = map (workloadUpdate (om_Namespace (cx_Meta c))) (filter IsUpdated as))"
proof (induction as arbitrary: c)
  case (Cons a as)
  let ?u = "workloadUpdate (om_Namespace (cx_Meta c))"
  show ?case
  proof (cases "IsUpdated a")
    case True
    obtain r1 w1 where 1: "env_Update (logged e) (app_gvr a) (om_Namespace (cx_Meta c))
        (fields_of (normalize (JObj (resourceOf a)))) (world c) = (r1, w1)" by (rule prod.exhaust)
    then have w1: "snd w1 = snd (world c) @ [?u a]" using logged_writes(2) [OF 1] by (simp add: workloadUpdate_def)
    show ?thesis
    proof (cases r1)
      case None
      with 1 True Cons.prems have "updateApplications (logged e) as (c\<lparr>world := w1\<rparr>) = (d, r)" by simp
      from Cons.IH [OF this] w1 True show ?thesis by (auto intro: exI [of _ "?u a # _"])
    next
      case (Some err)
      with 1 True w1 Cons.prems show ?thesis by (auto intro!: exI [of _ "[?u a]"])
    qed
  qed (use Cons in auto)
qed simp

lemma updateApplications_accepted:
  "\<forall>g ns u w. fst (env_Update e g ns u w) = None \<Longrightarrow> snd (updateApplications (logged e) as c) = None"
  by (induction as arbitrary: c) (auto simp: logged_def map_prod_def split: prod.splits option.splits, metis fst_conv option.distinct(1))

lemma persistBinding_calls:
  "\<exists>rest. snd (world (fst (persistBinding (logged e) c))) = snd (world c) @ rest
    \<and> (\<forall>k \<in> set rest. call_gvr k = bindingGVR (cx_sb c) \<and> call_ns k = om_Namespace (cx_Meta c))"
  by (auto simp: persistBinding_def statusWith_def bindingGVR_def Let_def dest!: logged_writes
      split: sum.splits prod.splits option.splits)

lemma persistBinding_secret: "sb_SecretName (cx_sb (fst (persistBinding e c))) = sb_SecretName (cx_sb c)"
  by (auto simp: persistBinding_def statusWith_def Let_def split: sum.splits prod.splits option.splits)

lemma Close_calls:
  assumes "cx_err c = None" "conditions_wf c" "om_UID (cx_Meta c) \<noteq> ''''"
  obtains sent rest where "snd (world (fst (Close (logged e) c))) = snd (world c) @ sent @ rest"
    "\<forall>k \<in> set rest. call_gvr k = bindingGVR (cx_sb c) \<and> call_ns k = om_Namespace (cx_Meta c)"
    "prefix sent (map (workloadUpdate (om_Namespace (cx_Meta c))) (filter IsUpdated (cx_applications c)))"
    "IsStatusConditionTrue (sb_Conditions (cx_sb (fst (Close (logged e) c)))) BindingReady \<longrightarrow>
      sent = map (workloadUpdate (om_Namespace (cx_Meta c))) (filter IsUpdated (cx_applications c))"
    "(\<forall>g ns u w. fst (env_Update e g ns u w) = None) \<longrightarrow> IsStatusConditionTrue (sb_Conditions (cx_sb (fst (Close (logged e) c)))) BindingReady"
    "sb_SecretName (cx_sb (fst (Close (logged e) c))) = sb_SecretName (cx_sb c)"
    "\<forall>t cond. map_of (cx_conditions c) t = Some cond \<longrightarrow> t \<noteq> BindingReady \<longrightarrow>
      IsStatusConditionTrue (sb_Conditions (cx_sb (fst (Close (logged e) c)))) t = (cn_Status cond = ConditionTrue)"
proof -
  obtain c1 r where u: "updateApplications (logged e) (cx_applications c) c = (c1, r)" by (rule prod.exhaust)
  obtain sent where sent: "c1 = c\<lparr>world := world c1\<rparr>" "snd (world c1) = snd (world c) @ sent"
    "prefix sent (map (workloadUpdate (om_Namespace (cx_Meta c))) (filter IsUpdated (cx_applications c)))"
    "r = None \<longrightarrow> sent = map (workloadUpdate (om_Namespace (cx_Meta c))) (filter IsUpdated (cx_applications c))"
    using updateApplications_log [OF u] by blast
  obtain cond' where close: "fst (Close (logged e) c) = fst (persistBinding (logged e) (SetCondition cond' c1))" "cn_Type cond' = BindingReady"
    using assms(1) u by (cases r) (auto simp: Close_def condition_defs intro: that)
  obtain w where c1: "c1 = c\<lparr>world := w\<rparr>" using sent(1) by blast
  let ?c = "SetCondition cond' c1"
  have c: "conditions_wf ?c" "om_UID (cx_Meta ?c) \<noteq> ''''" "cx_sb ?c = cx_sb c" "world ?c = w"
    using assms(2,3) c1 conditions_wf_set [of c1 cond'] by (simp_all add: SetCondition_def conditions_wf_def)
  have "map_of (cx_conditions ?c) t = map_of (cx_conditions c) t" if "t \<noteq> BindingReady" for t
    using that close(2) c1 by (simp add: SetCondition_def update_conv')
  then have "\<forall>t cond. map_of (cx_conditions c) t = Some cond \<longrightarrow> t \<noteq> BindingReady \<longrightarrow>
      IsStatusConditionTrue (sb_Conditions (cx_sb (fst (Close (logged e) c)))) t = (cn_Status cond = ConditionTrue)"
    using persistBinding_condition [OF c(1,2)] by (simp add: close(1))
  moreover from persistBinding_calls [of e ?c] obtain rest where
    "snd (world (fst (Close (logged e) c))) = snd (world c1) @ rest"
    "\<forall>k \<in> set rest. call_gvr k = bindingGVR (cx_sb c) \<and> call_ns k = om_Namespace (cx_Meta c)"
    using c(3,4) close(1) c1 by auto
  moreover have "sb_SecretName (cx_sb (fst (Close (logged e) c))) = sb_SecretName (cx_sb c)"
    using c(3) by (simp add: close(1) persistBinding_secret)
  ultimately show thesis using that sent(2-4) Close_ready [OF assms(2,3), of "logged e"] assms(1) u
      updateApplications_accepted [of e "cx_applications c" c] by simp
qed

section \<open>The whole run\<close>

lemma pipelineFor_flow:
  "runHandlers (flowFor e (sb_Spec sb)) noStatus (contextFor w sb) = (c, st) \<Longrightarrow>
     pr_sb (pipelineFor e (sb_Spec sb) w sb) = cx_sb (fst (Close e c))
     \<and> pr_world (pipelineFor e (sb_Spec sb) w sb) = world (fst (Close e c))"
  by (auto simp: pipelineFor_def flowFor_def contextFor_def DefaultBuilder_def SpecBuilder_def Process_def Provider_def
      SpecProvider_def Let_def split: binding_spec.splits prod.splits option.splits)

lemma full_run:
  assumes "reads_back (env_conv e)" "runHandlers hs noStatus (contextFor (w, []) sb) = (c, FlowStatus c)"
    and "flowFor (logged e) (sb_Spec sb) = hs @ [BindingsAsEnv (logged e), BindingsAsFiles (logged e), PostFlightCheck]"
    and "\<not> cx_stop c" "cx_err c = None" "om_UID (cx_Meta c) \<noteq> ''''" "fit (logged e) c"
    and "pipelineFor (logged e) (sb_Spec sb) (w, []) sb = p"
  obtains as sent rest where
    "list_all2 (\<lambda>a a'. \<exists>pods. snd (BindablePods (env_jp e) a) = Ok pods
       \<and> bound_done (env_conv e) c (snd (BindingSecretName c)) pods a a') (cx_applications c) as"
    "snd (pr_world p) = snd (world c) @ sent @ rest"
    "\<forall>k \<in> set rest. call_gvr k = bindingGVR (cx_sb c) \<and> call_ns k = om_Namespace (cx_Meta c)"
    "prefix sent (map (workloadUpdate (om_Namespace (cx_Meta c))) (filter IsUpdated as))"
    "IsStatusConditionTrue (sb_Conditions (pr_sb p)) BindingReady \<longrightarrow>
      sent = map (workloadUpdate (om_Namespace (cx_Meta c))) (filter IsUpdated as)"
    "(\<forall>g ns u w. fst (env_Update e g ns u w) = None) \<longrightarrow> IsStatusConditionTrue (sb_Conditions (pr_sb p)) BindingReady"
    "IsStatusConditionTrue (sb_Conditions (pr_sb p)) InjectionReady" "sb_SecretName (pr_sb p) = sb_SecretName (cx_sb c)"
proof -
  have jp: "env_jp (logged e) = env_jp e" "env_conv (logged e) = env_conv e" by (simp_all add: logged_def)
  obtain d where d: "\<forall>st. \<not> fs_Stop st \<longrightarrow>
      runHandlers [BindingsAsEnv (logged e), BindingsAsFiles (logged e), PostFlightCheck] st c = (d, FlowStatus d)"
    "cx_err d = None" "cx_sb d = cx_sb c" "world d = world c"
    "projected (env_jp e) (bound_done (env_conv e) c (snd (BindingSecretName c))) c d"
    "map_of (cx_conditions d) InjectionReady = Some (withReason ''ApplicationUpdated'' (withInjectionReady Conditions))"
    by (rule project_run [of "logged e" c, unfolded jp, OF assms(1,7,4,5)])
  have st: "\<not> fs_Stop (FlowStatus c)" using assms(4) by (simp add: FlowStatus_def)
  then have run: "runHandlers (flowFor (logged e) (sb_Spec sb)) noStatus (contextFor (w, []) sb) = (d, FlowStatus d)"
    using assms(2) d(1) by (simp add: assms(3) runHandlers_append del: runHandlers.simps)
  have "conditions_wf (contextFor (w, [] :: call list) sb)" by (simp add: conditions_wf_def)
  then have "conditions_wf d"
    using conds.inv_flows [of "contextFor (w, []) sb" "logged e" noStatus] run by (auto simp: flowFor_def split: binding_spec.splits)
  then obtain sent rest where "snd (world (fst (Close (logged e) d))) = snd (world d) @ sent @ rest"
    "\<forall>k \<in> set rest. call_gvr k = bindingGVR (cx_sb d) \<and> call_ns k = om_Namespace (cx_Meta d)"
    "prefix sent (map (workloadUpdate (om_Namespace (cx_Meta d))) (filter IsUpdated (cx_applications d)))"
    "IsStatusConditionTrue (sb_Conditions (cx_sb (fst (Close (logged e) d)))) BindingReady \<longrightarrow>
      sent = map (workloadUpdate (om_Namespace (cx_Meta d))) (filter IsUpdated (cx_applications d))"
    "(\<forall>g ns u w. fst (env_Update e g ns u w) = None) \<longrightarrow> IsStatusConditionTrue (sb_Conditions (cx_sb (fst (Close (logged e) d)))) BindingReady"
    "sb_SecretName (cx_sb (fst (Close (logged e) d))) = sb_SecretName (cx_sb d)"
    "\<forall>t cond. map_of (cx_conditions d) t = Some cond \<longrightarrow> t \<noteq> BindingReady \<longrightarrow>
      IsStatusConditionTrue (sb_Conditions (cx_sb (fst (Close (logged e) d)))) t = (cn_Status cond = ConditionTrue)"
    by (rule Close_calls [OF d(2), of e]) (use assms(6) d(3) in simp_all)
  moreover from this(7) have "IsStatusConditionTrue (sb_Conditions (cx_sb (fst (Close (logged e) d)))) InjectionReady"
    using d(6) by (simp add: condition_defs BindingReady_def InjectionReady_def)
  ultimately show thesis
    using that [of "cx_applications d" sent rest] d(3-5) pipelineFor_flow [OF run] assms(8) by (simp add: projected_def)
qed

lemma gathered_run:
  assumes "gathered e w sb c" "\<not> marked sb" "\<not> om_Deleted (sb_Meta sb)"
    and "PreFlightCheck e (requiredKeys (sb_Spec sb)) c = (d, None)" "\<not> cx_stop d"
  shows "runHandlers (collectFlow e (sb_Spec sb) @ [PreFlightCheck e (requiredKeys (sb_Spec sb))] @ hs) noStatus (contextFor w sb)
    = runHandlers hs (FlowStatus d) d"
  using assms(1,4,5)
  by (auto simp: gathered_def runHandlers_append invokeHandler_def Let_def FlowStatus_def split: prod.splits if_splits)


lemma bindingSecretName_source:
  assumes "\<not> UnbindRequested c" "cx_bindingItems c = []" "cx_bindings c = [b]" "Source b = Some (om_Namespace (cx_Meta c), n)"
  shows "bindingSecretName c = (c, n, True)" "n \<noteq> '''' \<Longrightarrow> PersistSecret e c = (setStatusSecretName n c, None)"
  using assms by (simp_all add: bindingSecretName_def PersistSecret_def persistSecret_def)

lemma login_applications:
  assumes "e = logged b" "b = loginCluster \<or> b = noteCluster" "sb_Spec (cx_sb c) = sb_Spec loginBinding \<or> sb_Spec (cx_sb c) = sb_Spec noteBinding"
    and "cx_applications c = []"
  shows "Applications e c = (c\<lparr>cx_applications := [shopApp]\<rparr>, None)"
proof -
  obtain s' where s': "sb_Spec shopBinding = CoreSpec s'" by (simp add: shopBinding_def)
  obtain s where s: "sb_Spec (cx_sb c) = CoreSpec s" "co_Application s = co_Application s'"
    using assms(3) s' by (auto simp: loginBinding_def noteBinding_def)
  then have t: "CoreSpec (s'\<lparr>co_Application := co_Application s\<rparr>) = sb_Spec shopBinding" using s' by simp
  have "mappingGVR \<noteq> app_gvr webApp" "mappingGVR \<noteq> coreGVR ''secrets''" "app_gvr webApp \<noteq> coreGVR ''secrets''" by code_simp+
  with assms(1,2,4) show ?thesis
    by (intro shop_found [OF _ _ _ _ s(1) t]) (auto simp: readMapping_def canPerform_def Requester_def logged_def loginCluster_def noteCluster_def
        shopCluster_def emptyCluster_def IsNotFound_def split: option.splits)
qed

lemma fit_login:
  assumes "env_jp e = shopPaths" "env_conv e = nameConv" "cx_applications c = [shopApp]" "EnvBindings c = []"
  shows "fit e c"
proof -
  have "bindable shopPaths nameConv shopApp" "SecretPath shopApp = ''''" by code_simp+
  with assms show ?thesis by (simp add: fit_def)
qed


section \<open>A secret that was not written\<close>

lemma PersistSecret_failed:
  assumes "PersistSecret e c = (c1, Some err)"
  shows "FlowStatus c1 = FlowStatus c" "cx_applications c1 = cx_applications c" "cx_Meta c1 = cx_Meta c"
    "sb_Spec (cx_sb c1) = sb_Spec (cx_sb c)" "sb_SecretName (cx_sb c1) = sb_SecretName (cx_sb c)"
proof -
  have "fst (bindingSecretName c) = c \<or> fst (bindingSecretName c) = loadBindings c"
    by (auto simp: bindingSecretName_def Let_def split_def split: list.splits option.splits)
  then have p: "FlowStatus (fst (persistSecret e c)) = FlowStatus c" "cx_applications (fst (persistSecret e c)) = cx_applications c"
      "cx_sb (fst (persistSecret e c)) = cx_sb c"
    by (auto simp: persistSecret_def FlowStatus_def loadBindings_def Let_def split_def split: bool.splits sum.splits if_splits)
  have b: "FlowStatus (fst (persistBinding e x)) = FlowStatus x" "sb_Meta (cx_sb (fst (persistBinding e x))) = cx_Meta x"
      "sb_Spec (cx_sb (fst (persistBinding e x))) = sb_Spec (cx_sb x)" for x
    by (auto simp: persistBinding_def statusWith_def FlowStatus_def Let_def split: sum.splits prod.splits option.splits)
  obtain cond where "c1 = fst (persistBinding e (SetCondition cond (fst (persistSecret e c))))"
    using assms by (auto simp: PersistSecret_def split: prod.splits option.splits)
  then show "FlowStatus c1 = FlowStatus c" "cx_applications c1 = cx_applications c" "cx_Meta c1 = cx_Meta c"
    "sb_Spec (cx_sb c1) = sb_Spec (cx_sb c)" "sb_SecretName (cx_sb c1) = sb_SecretName (cx_sb c)"
    using p by (simp_all add: b persistBinding_fields persistBinding_secret) (simp_all add: SetCondition_def FlowStatus_def)
qed



section \<open>The run that unbinds\<close>

lemma pipelineFor_retry:
  "runHandlers (flowFor e (sb_Spec sb)) noStatus (contextFor w sb) = (c, st) \<Longrightarrow> fs_Retry st \<Longrightarrow>
     pr_Retry (pipelineFor e (sb_Spec sb) w sb)"
  by (auto simp: pipelineFor_def flowFor_def contextFor_def DefaultBuilder_def SpecBuilder_def Process_def Provider_def
      SpecProvider_def Let_def split: binding_spec.splits prod.splits option.splits)

lemma Close_marked: "\<not> marked (cx_sb c) \<Longrightarrow> \<not> marked (cx_sb (fst (Close e c)))"
proof -
  have b: "sb_Meta (cx_sb (fst (persistBinding e x))) = cx_Meta x" for x
    by (auto simp: persistBinding_def statusWith_def Let_def split: sum.splits prod.splits option.splits)
  have u: "cx_Meta (fst (updateApplications e as x)) = cx_Meta x" for as x
    by (induction as arbitrary: x) (auto simp: Let_def split: prod.splits option.splits)
  assume "\<not> marked (cx_sb c)"
  moreover have "cx_Meta (fst (Close e c)) = cx_Meta c"
    using u [of "cx_applications c" c] by (auto simp: Close_def b SetCondition_def Let_def split: option.splits prod.splits)
  ultimately show ?thesis by (simp add: marked_def)
qed

lemma unbind_flow:
  assumes "marked sb \<or> om_Deleted (sb_Meta sb)" "\<not> secretless sb"
    and "Applications e (contextFor w sb) = (c, None)" "cx_applications c \<noteq> []"
    and "list_all (bindable (env_jp e) (env_conv e)) (cx_applications c)"
  obtains d where "runHandlers (flowFor e (sb_Spec sb)) noStatus (contextFor w sb) = (d, FlowStatus d)"
    "projected (env_jp e) (unbind_done (env_conv e) (BindingName c) (statusSecretName c) (EnvBindings c)) c d"
    "cx_err d = None" "world d = w" "cx_conditions d = []" "sb_SecretName (cx_sb d) = sb_SecretName sb"
    "bindingGVR (cx_sb d) = bindingGVR sb" "om_UID (cx_Meta d) = om_UID (sb_Meta sb)"
    "om_Namespace (cx_Meta d) = om_Namespace (sb_Meta sb)" "cx_retry d = marked sb" "\<not> marked (cx_sb d)"
proof -
  let ?c = "contextFor w sb"
  have c: "cx_sb c = cx_sb ?c" "world c = world ?c" "FlowStatus c = FlowStatus ?c" "cx_conditions c = cx_conditions ?c"
    using Applications_frame [of cx_sb e ?c] Applications_frame [of world e ?c] Applications_frame [of FlowStatus e ?c]
      Applications_frame [of cx_conditions e ?c] assms(3) by (simp_all add: AddApplication_def FlowStatus_def)
  have views: "BindingName ?c = BindingName c" "EnvBindings ?c = EnvBindings c" "statusSecretName ?c = statusSecretName c"
    using c(1) by (simp_all add: BindingName_def bindingImpl_BindingName_def specImpl_BindingName_def EnvBindings_def
        statusSecretName_def split: binding_spec.splits)
  have u: "UnbindRequested ?c" "statusSecretName ?c \<noteq> ''''"
    using assms(1,2) by (auto simp: UnbindRequested_def IsRemoved_def marked_def statusSecretName_def secretless_def observed_def
        split: binding_spec.splits option.splits)
  obtain as d b where d: "Unbind e ?c = (if b then RetryProcessing None d else StopProcessing d, None)"
    "CleanAnnotations (c\<lparr>cx_applications := as\<rparr>) = (d, b)"
    "projected (env_jp e) (unbind_done (env_conv e) (BindingName c) (statusSecretName c) (EnvBindings c)) c (c\<lparr>cx_applications := as\<rparr>)"
    by (rule Unbind_result [OF u assms(3-5) c(1), unfolded views])
  let ?d = "if b then RetryProcessing None d else StopProcessing d"
  have "invokeHandler (Unbind e) ?c = ?d" using d(1) by (simp add: invokeHandler_def)
  then have run: "runHandlers (Unbind e # hs) noStatus ?c = (?d, FlowStatus ?d)" for hs
    by (subst runHandlers_stops) (simp_all add: FlowStatus_def Invariants.update_defs)
  obtain hs where "flowFor e (sb_Spec sb) = Unbind e # hs"
    by (cases "sb_Spec sb") (auto simp: flowFor_def defaultFlow_def specFlow_def)
  then have "runHandlers (flowFor e (sb_Spec sb)) noStatus ?c = (?d, FlowStatus ?d)" using run [of hs] by simp
  moreover have "\<not> cx_retry c" "cx_err c = None" using c(3) by (simp_all add: FlowStatus_def)
  moreover note o = this
  have "sb_Spec (observed sb) = sb_Spec sb" "sb_SecretName (observed sb) = sb_SecretName sb" "sb_Meta (observed sb) = sb_Meta sb"
    by (simp_all add: observed_def split: binding_spec.splits)
  with d(2) c o have "world d = w" "cx_conditions d = []" "sb_SecretName (cx_sb d) = sb_SecretName sb" "cx_err d = None"
    "bindingGVR (cx_sb d) = bindingGVR sb" "om_UID (cx_Meta d) = om_UID (sb_Meta sb)" "\<not> cx_retry d" "cx_applications d = as"
    "om_Namespace (cx_Meta d) = om_Namespace (sb_Meta sb)" "b = marked sb" "\<not> marked (cx_sb d)"
    by (auto simp: CleanAnnotations_def marked_def bindingGVR_def delete_conv' split: if_splits)
  ultimately show thesis
    using d(3) by (intro that [of ?d]) (simp_all add: Invariants.update_defs projected_def)
qed

text \<open>
  C0: The run for a binding that is deleted, or whose mapping has changed, takes back what
  was bound and does nothing else. If the status names a secret and the workloads are found
  and can be edited, the writes are these: the workloads, each without the volume, the
  mounts, the variables and the reference of the binding and as it was elsewhere, or a
  beginning of this list if the API server refuses one; then the binding itself. No secret
  is written. The mark of the changed mapping is taken off, the run asks for another one
  if it was there, and ready is reported exactly as in a run that binds.
\<close>

theorem reconciliation_unbinds:
  assumes "marked sb \<or> om_Deleted (sb_Meta sb)" and "\<not> secretless sb" and "om_UID (sb_Meta sb) \<noteq> ''''"
    and "Applications (logged e) (contextFor (w, []) sb) = (c, None)" and "cx_applications c \<noteq> []"
    and "list_all (bindable (env_jp e) (env_conv e)) (cx_applications c)"
    and "pipelineFor (logged e) (sb_Spec sb) (w, []) sb = p"
  shows "\<exists>as sent own. snd (pr_world p) = sent @ own
    \<and> list_all2 (\<lambda>a a'. \<exists>pods. snd (BindablePods (env_jp e) a) = Ok pods
        \<and> unbind_done (env_conv e) (BindingName c) (statusSecretName c) (EnvBindings c) pods a a') (cx_applications c) as
    \<and> prefix sent (map (workloadUpdate (om_Namespace (sb_Meta sb))) (filter IsUpdated as))
    \<and> (\<forall>k \<in> set own. call_gvr k = bindingGVR sb \<and> call_ns k = om_Namespace (sb_Meta sb))
    \<and> sb_SecretName (pr_sb p) = sb_SecretName sb \<and> \<not> marked (pr_sb p) \<and> (marked sb \<longrightarrow> pr_Retry p)
    \<and> (IsStatusConditionTrue (sb_Conditions (pr_sb p)) BindingReady \<longrightarrow>
        sent = map (workloadUpdate (om_Namespace (sb_Meta sb))) (filter IsUpdated as))
    \<and> ((\<forall>g ns u w. fst (env_Update e g ns u w) = None) \<longrightarrow> IsStatusConditionTrue (sb_Conditions (pr_sb p)) BindingReady)"
proof -
  have jp: "env_jp (logged e) = env_jp e" "env_conv (logged e) = env_conv e" by (simp_all add: logged_def)
  obtain d where d: "runHandlers (flowFor (logged e) (sb_Spec sb)) noStatus (contextFor (w, []) sb) = (d, FlowStatus d)"
    "projected (env_jp e) (unbind_done (env_conv e) (BindingName c) (statusSecretName c) (EnvBindings c)) c d"
    "cx_err d = None" "world d = (w, [])" "cx_conditions d = []" "sb_SecretName (cx_sb d) = sb_SecretName sb"
    "bindingGVR (cx_sb d) = bindingGVR sb" "om_UID (cx_Meta d) = om_UID (sb_Meta sb)"
    "om_Namespace (cx_Meta d) = om_Namespace (sb_Meta sb)" "cx_retry d = marked sb" "\<not> marked (cx_sb d)"
    by (rule unbind_flow [OF assms(1,2,4,5), unfolded jp, OF assms(6)])
  have "conditions_wf d" "om_UID (cx_Meta d) \<noteq> ''''" using d(5,8) assms(3) by (simp_all add: conditions_wf_def)
  then obtain sent rest where "snd (world (fst (Close (logged e) d))) = snd (world d) @ sent @ rest"
    "\<forall>k \<in> set rest. call_gvr k = bindingGVR (cx_sb d) \<and> call_ns k = om_Namespace (cx_Meta d)"
    "prefix sent (map (workloadUpdate (om_Namespace (cx_Meta d))) (filter IsUpdated (cx_applications d)))"
    "IsStatusConditionTrue (sb_Conditions (cx_sb (fst (Close (logged e) d)))) BindingReady \<longrightarrow>
      sent = map (workloadUpdate (om_Namespace (cx_Meta d))) (filter IsUpdated (cx_applications d))"
    "(\<forall>g ns u w. fst (env_Update e g ns u w) = None) \<longrightarrow> IsStatusConditionTrue (sb_Conditions (cx_sb (fst (Close (logged e) d)))) BindingReady"
    "sb_SecretName (cx_sb (fst (Close (logged e) d))) = sb_SecretName (cx_sb d)"
    by (rule Close_calls [OF d(3), of e])
  then show ?thesis
    using d(2,4-11) pipelineFor_flow [OF d(1)] pipelineFor_retry [OF d(1)] Close_marked [of d "logged e"] assms(7)
    by (intro exI [of _ "cx_applications d"] exI [of _ sent] exI [of _ rest]) (simp add: projected_def FlowStatus_def)
qed

theorem reconciliation_unbinds_witness:
  "let sb = loginBinding\<lparr>sb_Meta := (sb_Meta loginBinding)\<lparr>om_Deleted := True\<rparr>, sb_SecretName := Some ''login''\<rparr> in
    \<exists>as own. snd (pr_world (DefaultBuilder (logged loginCluster) ((), []) sb))
      = map (workloadUpdate ''shop'') (filter IsUpdated as) @ own
    \<and> list_all2 (\<lambda>a a'. \<exists>pods. snd (BindablePods shopPaths a) = Ok pods \<and> unbind_done nameConv ''shop-db'' ''login'' [] pods a a') [shopApp] as
    \<and> (\<forall>k \<in> set own. call_gvr k = bindingGVR sb)"
proof -
  let ?e = "logged loginCluster"
  let ?sb = "loginBinding\<lparr>sb_Meta := (sb_Meta loginBinding)\<lparr>om_Deleted := True\<rparr>, sb_SecretName := Some ''login''\<rparr>"
  define c where "c = (contextFor ((), [] :: call list) ?sb)\<lparr>cx_applications := [shopApp]\<rparr>"
  have s: "om_UID (sb_Meta ?sb) \<noteq> ''''" "om_Namespace (sb_Meta ?sb) = ''shop''" "observed ?sb = ?sb" "\<not> secretless ?sb"
    "marked ?sb \<or> om_Deleted (sb_Meta ?sb)" by code_simp+
  have a: "Applications ?e (contextFor ((), []) ?sb) = (c, None)"
    using s(3) unfolding c_def by (intro login_applications) auto
  have c: "cx_applications c = [shopApp]" "BindingName c = ''shop-db''" "statusSecretName c = ''login''" "EnvBindings c = []"
    using s(3) by (simp_all add: c_def BindingName_def bindingImpl_BindingName_def statusSecretName_def EnvBindings_def
        bindingImpl_EnvBindings_def loginBinding_def shopBinding_def)
  have e: "env_conv loginCluster = nameConv" "env_jp loginCluster = shopPaths"
    "\<forall>g ns u w. fst (env_Update loginCluster g ns u w) = None"
    by (simp_all add: loginCluster_def shopCluster_def emptyCluster_def)
  have p: "pipelineFor ?e (sb_Spec ?sb) ((), []) ?sb = DefaultBuilder ?e ((), []) ?sb"
    by (simp add: pipelineFor_def loginBinding_def shopBinding_def)
  have "list_all (bindable (env_jp loginCluster) (env_conv loginCluster)) (cx_applications c)"
    unfolding c(1) e(1,2) by code_simp
  from reconciliation_unbinds [OF s(5,4,1) a _ this p] show ?thesis
    unfolding s(2) c e(1,2) Let_def using e(3) by simp blast
qed

end
